(* ===== verification/Fpa_Prelude.thy ===== *)
theory Fpa_Prelude
  imports Main "HOL-Library.Word" "HOL-Library.Multiset"
begin

text \<open>
  Shared vocabulary of the development: the machine words the C code computes with, MAC
  addresses, the errno values it returns, the ways the process can abort, and the two
  container abstractions of Open vSwitch that every component uses (hash maps and bitmaps).
  The generic lemmas of the other theories are collected here too.
\<close>

unbundle bit_operations_syntax

named_theorems hmap_simps \<open>membership and size of a hash map after an operation\<close>
named_theorems bitmap_simps \<open>bits of a bitmap after an operation\<close>

section \<open>Machine words and addresses\<close>

type_synonym u8 = "8 word"
type_synonym u16 = "16 word"
type_synonym u32 = "32 word"
type_synonym u64 = "64 word"

text \<open>An Ethernet address is six bytes, in the order of the \<open>ea\<close> and \<open>addr\<close> arrays.\<close>

datatype eth_addr = Eth u8 u8 u8 u8 u8 u8

primrec eth_bytes :: "eth_addr \<Rightarrow> u8 list" where
  "eth_bytes (Eth a b c d e f) = [a, b, c, d, e, f]"

lemma eth_bytes_inject [simp]: "eth_bytes x = eth_bytes y \<longleftrightarrow> x = y"
  by (cases x; cases y) simp

lemma length_eth_bytes [simp]: "length (eth_bytes x) = 6"
  by (cases x) simp

text \<open>\<open>memset(mac, 0xFF, ETH_ALEN)\<close>.\<close>

definition eth_ones :: eth_addr where
  "eth_ones = Eth 0xFF 0xFF 0xFF 0xFF 0xFF 0xFF"

section \<open>Return codes and aborts\<close>

abbreviation (input) EPERM :: int where "EPERM \<equiv> 1"
abbreviation (input) ENOENT :: int where "ENOENT \<equiv> 2"
abbreviation (input) EAGAIN :: int where "EAGAIN \<equiv> 11"
abbreviation (input) EFAULT :: int where "EFAULT \<equiv> 14"
abbreviation (input) ENODEV :: int where "ENODEV \<equiv> 19"
abbreviation (input) EINVAL :: int where "EINVAL \<equiv> 22"
abbreviation (input) ENOSYS :: int where "ENOSYS \<equiv> 38"
abbreviation (input) EOPNOTSUPP :: int where "EOPNOTSUPP \<equiv> 95"

text \<open>
  The ways a call can fail to return: \<open>ovs_assert\<close>, \<open>OVS_NOT_REACHED\<close>, a dereferenced null
  pointer, a mutex that the calling thread already holds, a shift by a count outside the width of its
  operand, for which C defines no result, and an access past the end of a buffer. A call that can end so has the result
  type \<open>crash + 'a\<close>.
\<close>

datatype crash = Assert_Failed | Not_Reached | Null_Deref | Self_Deadlock | Undefined_Shift | Buffer_Overflow

section \<open>Hash maps\<close>

text \<open>
  An Open vSwitch \<open>hmap\<close> is the collection of its nodes, each with the hash it was inserted
  under. The order in which the iteration macros visit the nodes depends on the bucket layout,
  which is not code of this repository: definitions that iterate take the visiting order as an
  argument \<open>ord\<close>, and lemmas assume of it only that every node is visited exactly once.
\<close>

type_synonym 'v hmap = "(u32 \<times> 'v) list"
type_synonym 'v hmap_order = "'v hmap \<Rightarrow> 'v hmap"

definition visits_all :: "'v hmap_order \<Rightarrow> bool" where
  "visits_all ord \<longleftrightarrow> (\<forall>m. mset (ord m) = mset m)"

definition hmap_insert :: "'v hmap \<Rightarrow> u32 \<Rightarrow> 'v \<Rightarrow> 'v hmap" where
  "hmap_insert m h v = (h, v) # m"

definition hmap_remove :: "'v hmap \<Rightarrow> u32 \<times> 'v \<Rightarrow> 'v hmap" where
  "hmap_remove m n = remove1 n m"

abbreviation hmap_count :: "'v hmap \<Rightarrow> nat" where
  "hmap_count m \<equiv> length m"

text \<open>
  \<open>HMAP_FOR_EACH\<close> with an early return: the first visited node that satisfies \<open>P\<close>;
  \<open>HMAP_FOR_EACH_WITH_HASH\<close> looks at the nodes inserted under one hash only.
\<close>

definition hmap_search :: "'v hmap_order \<Rightarrow> ('v \<Rightarrow> bool) \<Rightarrow> 'v hmap \<Rightarrow> (u32 \<times> 'v) option" where
  "hmap_search ord P m = find (\<lambda>n. P (snd n)) (ord m)"

definition hmap_search_hash ::
  "'v hmap_order \<Rightarrow> u32 \<Rightarrow> ('v \<Rightarrow> bool) \<Rightarrow> 'v hmap \<Rightarrow> (u32 \<times> 'v) option" where
  "hmap_search_hash ord h P m = find (\<lambda>n. fst n = h \<and> P (snd n)) (ord m)"

lemma visits_all_id [simp]: "visits_all (\<lambda>m. m)"
  by (simp add: visits_all_def)

lemma visits_all_rev [simp]: "visits_all rev"
  by (simp add: visits_all_def)

lemma visits_all_set: "visits_all ord \<Longrightarrow> set (ord m) = set m"
  by (metis set_mset_mset visits_all_def)

lemma visits_all_length: "visits_all ord \<Longrightarrow> length (ord m) = length m"
  by (metis size_mset visits_all_def)

lemma hmap_count_insert [hmap_simps]: "hmap_count (hmap_insert m h v) = Suc (hmap_count m)"
  by (simp add: hmap_insert_def)

lemma set_hmap_insert [hmap_simps]: "set (hmap_insert m h v) = insert (h, v) (set m)"
  by (simp add: hmap_insert_def)

lemma mset_hmap_insert [hmap_simps]: "mset (hmap_insert m h v) = add_mset (h, v) (mset m)"
  by (simp add: hmap_insert_def)

lemma mset_hmap_remove [hmap_simps]: "mset (hmap_remove m n) = mset m - {#n#}"
  by (simp add: hmap_remove_def)

lemma hmap_count_remove_le [hmap_simps]: "hmap_count (hmap_remove m n) \<le> hmap_count m"
  by (simp add: hmap_remove_def length_remove1)

lemma hmap_count_remove [hmap_simps]:
  "n \<in> set m \<Longrightarrow> hmap_count (hmap_remove m n) = hmap_count m - 1"
  by (simp add: hmap_remove_def length_remove1)

lemma set_hmap_remove_subset: "set (hmap_remove m n) \<subseteq> set m"
  by (simp add: hmap_remove_def set_remove1_subset)

lemma hmap_remove_insert [simp]: "hmap_remove (hmap_insert m h v) (h, v) = m"
  by (simp add: hmap_remove_def hmap_insert_def)

text \<open>A search over any visiting order finds a node exactly when there is one.\<close>

lemma find_order_None:
  "visits_all ord \<Longrightarrow> find P (ord m) = None \<longleftrightarrow> (\<forall>n \<in> set m. \<not> P n)"
  by (auto simp: find_None_iff visits_all_set)

lemma find_order_SomeD:
  assumes "visits_all ord" and "find P (ord m) = Some n"
  shows "n \<in> set m" and "P n"
proof -
  from assms(2) have "n \<in> set (ord m) \<and> P n"
    by (auto simp: find_Some_iff)
  with assms(1) show "n \<in> set m" and "P n"
    by (simp_all add: visits_all_set)
qed

lemma hmap_search_None:
  "visits_all ord \<Longrightarrow> hmap_search ord P m = None \<longleftrightarrow> (\<forall>(h, v) \<in> set m. \<not> P v)"
  by (auto simp: hmap_search_def find_order_None)

lemma hmap_search_SomeD:
  "visits_all ord \<Longrightarrow> hmap_search ord P m = Some (h, v) \<Longrightarrow> (h, v) \<in> set m \<and> P v"
  by (auto simp: hmap_search_def dest: find_order_SomeD)

lemma hmap_search_hash_None:
  "visits_all ord \<Longrightarrow> hmap_search_hash ord h P m = None \<longleftrightarrow> (\<forall>v. (h, v) \<in> set m \<longrightarrow> \<not> P v)"
  by (auto simp: hmap_search_hash_def find_order_None)

lemma hmap_search_hash_SomeD:
  "visits_all ord \<Longrightarrow> hmap_search_hash ord h P m = Some (g, v) \<Longrightarrow> g = h \<and> (h, v) \<in> set m \<and> P v"
  using find_order_SomeD [of ord "\<lambda>n. fst n = h \<and> P (snd n)" m "(g, v)"]
  by (simp add: hmap_search_hash_def)

section \<open>Bitmaps\<close>

text \<open>
  A bitmap is the set of its bits as a predicate on positions. \<open>BITMAP_FOR_EACH_1\<close> scans the
  positions below the given size in ascending order.
\<close>

type_synonym bitmap = "nat \<Rightarrow> bool"

abbreviation bitmap_zero :: bitmap where
  "bitmap_zero \<equiv> (\<lambda>_. False)"

definition bitmap_set1 :: "bitmap \<Rightarrow> nat \<Rightarrow> bitmap" where
  "bitmap_set1 b i = b(i := True)"

definition bitmap_set0 :: "bitmap \<Rightarrow> nat \<Rightarrow> bitmap" where
  "bitmap_set0 b i = b(i := False)"

abbreviation (input) bitmap_is_set :: "bitmap \<Rightarrow> nat \<Rightarrow> bool" where
  "bitmap_is_set b i \<equiv> b i"

definition bitmap_xor :: "bitmap \<Rightarrow> bitmap \<Rightarrow> bitmap" where
  "bitmap_xor a b = (\<lambda>i. a i \<noteq> b i)"

definition bitmap_ones :: "nat \<Rightarrow> bitmap \<Rightarrow> nat list" where
  "bitmap_ones n b = filter b [0..<n]"

lemma bitmap_set1_iff [bitmap_simps]: "bitmap_set1 b i j \<longleftrightarrow> j = i \<or> b j"
  by (simp add: bitmap_set1_def)

lemma bitmap_set0_iff [bitmap_simps]: "bitmap_set0 b i j \<longleftrightarrow> j \<noteq> i \<and> b j"
  by (simp add: bitmap_set0_def)

lemma bitmap_xor_iff [bitmap_simps]: "bitmap_xor a b i \<longleftrightarrow> a i \<noteq> b i"
  by (simp add: bitmap_xor_def)

lemma set_bitmap_ones [bitmap_simps]: "set (bitmap_ones n b) = {i. i < n \<and> b i}"
  by (auto simp: bitmap_ones_def)

lemma distinct_bitmap_ones [simp]: "distinct (bitmap_ones n b)"
  by (simp add: bitmap_ones_def)

lemma fold_bitmap_set1 [bitmap_simps]:
  "fold (\<lambda>i b. bitmap_set1 b (f i)) xs b j \<longleftrightarrow> b j \<or> j \<in> f ` set xs"
  by (induction xs arbitrary: b) (auto simp: bitmap_simps)

section \<open>Generic lemmas\<close>

lemma map_sum_eq_InlE:
  assumes "map_sum f g x = Inl y" obtains z where "x = Inl z" and "y = f z"
  using assms by (cases x) auto

lemma map_sum_eq_InrE:
  assumes "map_sum f g x = Inr y" obtains z where "x = Inr z" and "y = g z"
  using assms by (cases x) auto

lemma takeWhile_append_stop:
  "\<forall>x \<in> set xs. P x \<Longrightarrow> (ys = [] \<or> \<not> P (hd ys)) \<Longrightarrow> takeWhile P (xs @ ys) = xs"
  by (induction xs) (auto simp: takeWhile_eq_Nil_iff)

lemma dropWhile_append_stop:
  "\<forall>x \<in> set xs. P x \<Longrightarrow> (ys = [] \<or> \<not> P (hd ys)) \<Longrightarrow> dropWhile P (xs @ ys) = ys"
  by (induction xs) (auto simp: dropWhile_eq_self_iff)

text \<open>A word is below a power of two exactly when its bits are.\<close>

lemma word_less_exp_iff:
  fixes x :: "'a::len word"
  assumes "n < LENGTH('a)"
  shows "x < 2 ^ n \<longleftrightarrow> (\<forall>k. bit x k \<longrightarrow> k < n)"
proof -
  have "x < 2 ^ n \<longleftrightarrow> unat x < 2 ^ n"
  proof -
    have "unat (2 ^ n :: 'a word) = 2 ^ n"
      using assms unat_of_nat [of "2 ^ n", where 'a = 'a] by simp
    then show ?thesis by (simp add: word_less_nat_alt)
  qed
  also have "\<dots> \<longleftrightarrow> take_bit n (unat x) = unat x"
    by (simp add: take_bit_nat_eq_self_iff)
  also have "\<dots> \<longleftrightarrow> take_bit n x = x"
    by (metis unsigned_take_bit_eq word_unat_eq_iff)
  also have "\<dots> \<longleftrightarrow> (\<forall>k. bit x k \<longrightarrow> k < n)"
    by (metis bit_take_bit_iff bit_word_eqI)
  finally show ?thesis .
qed

end
