(* ===== verification/Fpa_Core.thy ===== *)
theory Fpa_Core
  imports Fpa_Prelude
begin

text \<open>
  The common helpers of \<open>src/ops-fpa.c\<close>: status texts, checked string-to-integer conversion,
  IPv4 address and prefix parsing, address printing and the two netmask conversions. The C
  library functions they call (\<open>strtol\<close>, \<open>inet_addr\<close>, \<open>sprintf\<close>, \<open>ffs\<close>, \<open>htonl\<close>) are written out
  for a little-endian host with 32-bit \<open>int\<close> and 64-bit \<open>long\<close>. A C string is the list of its
  characters before the terminating NUL; a pointer that may be NULL is an option.
\<close>

section \<open>Status codes and their texts\<close>

datatype fpa_status =
    FPA_ERROR | FPA_OK | FPA_FAIL | FPA_BAD_VALUE | FPA_OUT_OF_RANGE | FPA_BAD_PARAM
  | FPA_BAD_PTR | FPA_BAD_SIZE | FPA_BAD_STATE | FPA_SET_ERROR | FPA_GET_ERROR
  | FPA_CREATE_ERROR | FPA_NOT_FOUND | FPA_NO_MORE | FPA_NO_SUCH | FPA_TIMEOUT | FPA_NO_CHANGE
  | FPA_NOT_SUPPORTED | FPA_NOT_IMPLEMENTED | FPA_NOT_INITIALIZED | FPA_NO_RESOURCE | FPA_FULL
  | FPA_EMPTY | FPA_INIT_ERROR | FPA_NOT_READY | FPA_ALREADY_EXIST | FPA_OUT_OF_CPU_MEM
  | FPA_ABORTED | FPA_NOT_APPLICABLE_DEVICE | FPA_UNFIXABLE_ECC_ERROR
  | FPA_UNFIXABLE_BIST_ERROR | FPA_CHECKSUM_ERROR | FPA_DSA_PARSING_ERROR
  | FPA_STATUS_OTHER int

fun ops_fpa_strerr :: "fpa_status \<Rightarrow> string" where
  "ops_fpa_strerr FPA_ERROR = ''Generic error''"
| "ops_fpa_strerr FPA_OK = ''Operation succeeded''"
| "ops_fpa_strerr FPA_FAIL = ''Operation failed''"
| "ops_fpa_strerr FPA_BAD_VALUE = ''Illegal value''"
| "ops_fpa_strerr FPA_OUT_OF_RANGE = ''Value is out of range''"
| "ops_fpa_strerr FPA_BAD_PARAM = ''Illegal parameter in function called''"
| "ops_fpa_strerr FPA_BAD_PTR = ''Illegal pointer value''"
| "ops_fpa_strerr FPA_BAD_SIZE = ''Illegal size''"
| "ops_fpa_strerr FPA_BAD_STATE = ''Illegal state of state machine''"
| "ops_fpa_strerr FPA_SET_ERROR = ''Set operation failed''"
| "ops_fpa_strerr FPA_GET_ERROR = ''Get operation failed''"
| "ops_fpa_strerr FPA_CREATE_ERROR = ''Fail while creating an item''"
| "ops_fpa_strerr FPA_NOT_FOUND = ''Item not found''"
| "ops_fpa_strerr FPA_NO_MORE = ''No more items found''"
| "ops_fpa_strerr FPA_NO_SUCH = ''No such item''"
| "ops_fpa_strerr FPA_TIMEOUT = ''Time out''"
| "ops_fpa_strerr FPA_NO_CHANGE = ''The parameter is already in this value''"
| "ops_fpa_strerr FPA_NOT_SUPPORTED = ''This request is not supported''"
| "ops_fpa_strerr FPA_NOT_IMPLEMENTED = ''This request is not implemented''"
| "ops_fpa_strerr FPA_NOT_INITIALIZED = ''The item is not initialized''"
| "ops_fpa_strerr FPA_NO_RESOURCE = ''Resource not available''"
| "ops_fpa_strerr FPA_FULL = ''Item is full''"
| "ops_fpa_strerr FPA_EMPTY = ''Item is empty''"
| "ops_fpa_strerr FPA_INIT_ERROR = ''Error occured while INIT process''"
| "ops_fpa_strerr FPA_NOT_READY = ''The other side is not ready yet''"
| "ops_fpa_strerr FPA_ALREADY_EXIST = ''Tried to create existing item''"
| "ops_fpa_strerr FPA_OUT_OF_CPU_MEM = ''Cpu memory allocation failed''"
| "ops_fpa_strerr FPA_ABORTED = ''Operation has been aborted''"
| "ops_fpa_strerr FPA_NOT_APPLICABLE_DEVICE =
     ''API not applicable to device, can be returned only on devNum parameter''"
| "ops_fpa_strerr FPA_UNFIXABLE_ECC_ERROR =
     ''CPSS detected memory ECC error that can't be fixed''"
| "ops_fpa_strerr FPA_UNFIXABLE_BIST_ERROR =
     ''Built-in self-test detected unfixable error''"
| "ops_fpa_strerr FPA_CHECKSUM_ERROR = ''Checksum doesn't fits received data''"
| "ops_fpa_strerr FPA_DSA_PARSING_ERROR = ''DSA tag parsing error''"
| "ops_fpa_strerr (FPA_STATUS_OTHER _) = ''Unknown error''"

datatype port_vlan_mode =
    PORT_VLAN_ACCESS | PORT_VLAN_TRUNK | PORT_VLAN_NATIVE_TAGGED | PORT_VLAN_NATIVE_UNTAGGED
  | PORT_VLAN_OTHER int

fun ops_fpa_str_vlan_mode :: "port_vlan_mode \<Rightarrow> string" where
  "ops_fpa_str_vlan_mode PORT_VLAN_ACCESS = ''access''"
| "ops_fpa_str_vlan_mode PORT_VLAN_TRUNK = ''trunk''"
| "ops_fpa_str_vlan_mode PORT_VLAN_NATIVE_TAGGED = ''native_tagged''"
| "ops_fpa_str_vlan_mode PORT_VLAN_NATIVE_UNTAGGED = ''native_untagged''"
| "ops_fpa_str_vlan_mode (PORT_VLAN_OTHER _) = ''invalid''"

datatype route_action =
  OFPROTO_ROUTE_ADD | OFPROTO_ROUTE_DELETE | OFPROTO_ROUTE_DELETE_NH | OFPROTO_ROUTE_OTHER int

fun ops_fpa_str_raction :: "route_action \<Rightarrow> string" where
  "ops_fpa_str_raction OFPROTO_ROUTE_ADD = ''add''"
| "ops_fpa_str_raction OFPROTO_ROUTE_DELETE = ''delete''"
| "ops_fpa_str_raction OFPROTO_ROUTE_DELETE_NH = ''delete_nh''"
| "ops_fpa_str_raction (OFPROTO_ROUTE_OTHER _) = ''invalid''"

section \<open>Characters and decimal numerals\<close>

definition is_digit :: "char \<Rightarrow> bool" where
  "is_digit c \<longleftrightarrow> 48 \<le> (of_char c :: nat) \<and> (of_char c :: nat) \<le> 57"

definition is_octal :: "char \<Rightarrow> bool" where
  "is_octal c \<longleftrightarrow> 48 \<le> (of_char c :: nat) \<and> (of_char c :: nat) \<le> 55"

definition is_xdigit :: "char \<Rightarrow> bool" where
  "is_xdigit c \<longleftrightarrow> is_digit c \<or> 65 \<le> (of_char c :: nat) \<and> (of_char c :: nat) \<le> 70
     \<or> 97 \<le> (of_char c :: nat) \<and> (of_char c :: nat) \<le> 102"

text \<open>\<open>isspace\<close> in the C locale: tab, newline, vertical tab, form feed, return, space.\<close>

definition is_space :: "char \<Rightarrow> bool" where
  "is_space c \<longleftrightarrow> 9 \<le> (of_char c :: nat) \<and> (of_char c :: nat) \<le> 13 \<or> (of_char c :: nat) = 32"

definition digit_val :: "char \<Rightarrow> nat" where
  "digit_val c =
     (if is_digit c then of_char c - 48
      else if (of_char c :: nat) \<le> 70 then of_char c - 55 else of_char c - 87)"

definition num_val :: "nat \<Rightarrow> string \<Rightarrow> nat" where
  "num_val b ds = foldl (\<lambda>n c. b * n + digit_val c) 0 ds"

text \<open>\<open>printf("%u")\<close>.\<close>

fun nat_str :: "nat \<Rightarrow> string" where
  "nat_str n = (if n < 10 then [char_of (48 + n)]
                else nat_str (n div 10) @ [char_of (48 + n mod 10)])"

declare nat_str.simps [simp del]

text \<open>\<open>printf("%d")\<close>.\<close>

definition int_str :: "int \<Rightarrow> string" where
  "int_str i = (if i < 0 then CHR ''-'' # nat_str (nat (- i)) else nat_str (nat i))"

section \<open>Checked conversion of a string to an int\<close>

abbreviation (input) INT_MIN :: int where "INT_MIN \<equiv> - (2 ^ 31)"
abbreviation (input) INT_MAX :: int where "INT_MAX \<equiv> 2 ^ 31 - 1"
abbreviation (input) LONG_MIN :: int where "LONG_MIN \<equiv> - (2 ^ 63)"
abbreviation (input) LONG_MAX :: int where "LONG_MAX \<equiv> 2 ^ 63 - 1"

text \<open>
  \<open>strtol(s, &e, 10)\<close>: leading white space, an optional sign, decimal digits. \<open>None\<close> when there
  are no digits (then \<open>e == s\<close>), otherwise the value clamped to \<open>long\<close>, whether \<open>errno\<close> is
  \<open>ERANGE\<close>, and the text \<open>e\<close> points to.
\<close>

definition strtol_sign :: "string \<Rightarrow> bool \<times> string" where
  "strtol_sign t =
     (if t \<noteq> [] \<and> hd t = CHR ''-'' then (True, tl t)
      else if t \<noteq> [] \<and> hd t = CHR ''+'' then (False, tl t) else (False, t))"

definition strtol_clamp :: "int \<Rightarrow> int \<times> bool" where
  "strtol_clamp v =
     (if v < LONG_MIN then (LONG_MIN, True) else if v > LONG_MAX then (LONG_MAX, True)
      else (v, False))"

definition strtol10 :: "string \<Rightarrow> (int \<times> bool \<times> string) option" where
  "strtol10 s =
     (let (neg, u) = strtol_sign (dropWhile is_space s);
          ds = takeWhile is_digit u;
          (v, erange) = strtol_clamp ((if neg then - 1 else 1) * int (num_val 10 ds))
      in if ds = [] then None else Some (v, erange, dropWhile is_digit u))"

text \<open>\<open>None\<close>: the function returns 1 and leaves \<open>*i\<close> alone; \<open>Some i\<close>: it returns 0.\<close>

definition ops_fpa_str2int :: "string option \<Rightarrow> int option" where
  "ops_fpa_str2int s =
     (case s of None \<Rightarrow> None
      | Some s \<Rightarrow> (case strtol10 s of None \<Rightarrow> None
         | Some (l, erange, e) \<Rightarrow>
             if erange \<or> e \<noteq> [] \<or> l < INT_MIN \<or> l > INT_MAX then None else Some l))"

section \<open>Addresses and prefixes\<close>

text \<open>Byte \<open>k\<close> of an address in memory, and \<open>htonl\<close>, on a little-endian host.\<close>

definition ip_byte :: "nat \<Rightarrow> u32 \<Rightarrow> nat" where
  "ip_byte k a = unat (drop_bit (8 * k) a AND 0xFF)"

definition htonl :: "u32 \<Rightarrow> u32" where
  "htonl a = push_bit 24 (a AND 0xFF) OR push_bit 8 (a AND 0xFF00)
             OR (drop_bit 8 a AND 0xFF00) OR (drop_bit 24 a AND 0xFF)"

definition ops_fpa_ip2str :: "u32 \<Rightarrow> string" where
  "ops_fpa_ip2str ipAddr =
     nat_str (ip_byte 0 ipAddr) @ ''.'' @ nat_str (ip_byte 1 ipAddr) @ ''.''
     @ nat_str (ip_byte 2 ipAddr) @ ''.'' @ nat_str (ip_byte 3 ipAddr)"

text \<open>\<open>strtoul(s, &e, 0)\<close> on a text that starts with a digit.\<close>

definition strtoul0 :: "string \<Rightarrow> nat \<times> string" where
  "strtoul0 s =
     (if take 1 s = ''0'' \<and> (take 1 (drop 1 s) = ''x'' \<or> take 1 (drop 1 s) = ''X'')
         \<and> drop 2 s \<noteq> [] \<and> is_xdigit (hd (drop 2 s))
      then (num_val 16 (takeWhile is_xdigit (drop 2 s)), dropWhile is_xdigit (drop 2 s))
      else if take 1 s = ''0'' then (num_val 8 (takeWhile is_octal s), dropWhile is_octal s)
      else (num_val 10 (takeWhile is_digit s), dropWhile is_digit s))"

text \<open>
  \<open>inet_aton\<close>: up to three dotted leading bytes \<open>pp\<close> (each at most 255, stored at the lowest
  addresses), then a last number of at most \<open>max[number of bytes]\<close>, then nothing or white space.
\<close>

definition store_bytes :: "nat list \<Rightarrow> u32" where
  "store_bytes bs = fold (\<lambda>k w. w OR push_bit (8 * k) (of_nat (bs ! k))) [0..<length bs] 0"

function inet_aton :: "nat list \<Rightarrow> string \<Rightarrow> u32 option" where
  "inet_aton pp s =
     (if s = [] \<or> \<not> is_digit (hd s) then None
      else let (val, e) = strtoul0 s in
        if val > 0xFFFFFFFF then None
        else if e \<noteq> [] \<and> hd e = CHR ''.'' then
          (if length pp > 2 \<or> val > 0xFF then None else inet_aton (pp @ [val]) (tl e))
        else if e \<noteq> [] \<and> \<not> is_space (hd e) then None
        else if val > [0xFFFFFFFF, 0xFFFFFF, 0xFFFF, 0xFF] ! length pp then None
        else Some (store_bytes pp OR htonl (of_nat val)))"
  by pat_completeness auto
termination
  by (relation "measure (\<lambda>(pp, s). 4 - length pp)") auto

declare inet_aton.simps [simp del]

text \<open>\<open>inet_addr\<close> reports an error by \<open>INADDR_NONE\<close>, all ones.\<close>

definition inet_addr :: "string \<Rightarrow> u32" where
  "inet_addr s = (case inet_aton [] s of None \<Rightarrow> 0xFFFFFFFF | Some a \<Rightarrow> a)"

abbreviation (input) OPS_FPA_MAX_IP_PREFIX :: int where "OPS_FPA_MAX_IP_PREFIX \<equiv> 32"

text \<open>\<open>None\<close>: the function returns 1; \<open>Some (addr, prefixlen)\<close>: it returns 0.\<close>

definition ops_fpa_str2ip :: "string \<Rightarrow> (u32 \<times> int) option" where
  "ops_fpa_str2ip ip_address =
     (let tmp = takeWhile (\<lambda>c. c \<noteq> CHR ''/'') ip_address;
          slash = dropWhile (\<lambda>c. c \<noteq> CHR ''/'') ip_address;
          prefixlen = (if slash = [] then Some OPS_FPA_MAX_IP_PREFIX
                       else case ops_fpa_str2int (Some (tl slash)) of
                              None \<Rightarrow> None
                            | Some n \<Rightarrow> if n > OPS_FPA_MAX_IP_PREFIX then None else Some n)
      in case prefixlen of None \<Rightarrow> None
         | Some n \<Rightarrow> let addr = inet_addr tmp in
             if addr = 0xFFFFFFFF then None else Some (addr, n))"

section \<open>Netmasks\<close>

text \<open>\<open>ffs\<close>: one plus the position of the least significant set bit, 0 for 0.\<close>

definition ffs :: "u32 \<Rightarrow> nat" where
  "ffs x = (case find (\<lambda>i. bit x i) [0..<32] of None \<Rightarrow> 0 | Some i \<Rightarrow> Suc i)"

definition ops_fpa_ip4mask_to_prefix_len :: "u32 \<Rightarrow> nat" where
  "ops_fpa_ip4mask_to_prefix_len ipMask =
     (let prefixLen = ffs (htonl ipMask)
      in if prefixLen \<noteq> 0 then 33 - prefixLen else prefixLen)"

text \<open>
  The loop \<open>for (i = 0; i < prefix; i++) ip |= 1 << (31 - i)\<close>. For \<open>prefix > 32\<close> the shift count
  is out of range, which C leaves undefined: the model returns \<open>None\<close>.
\<close>

primrec prefix_mask_loop :: "nat \<Rightarrow> u32 \<Rightarrow> u32" where
  "prefix_mask_loop 0 ip = ip"
| "prefix_mask_loop (Suc i) ip = prefix_mask_loop i ip OR push_bit (31 - i) 1"

definition ops_fpa_prefix_len_to_ip4mask :: "nat \<Rightarrow> u32 option" where
  "ops_fpa_prefix_len_to_ip4mask prefix =
     (if prefix > 32 then None else Some (prefix_mask_loop prefix 0))"

section \<open>What the checked conversion accepts\<close>

text \<open>The decimal literals \<open>str2int\<close> accepts and their values.\<close>

definition signs :: "(bool \<times> string) set" where
  "signs = {(False, ''''), (False, ''+''), (True, ''-'')}"

definition decimal_literal :: "string \<Rightarrow> int \<Rightarrow> bool" where
  "decimal_literal s i \<longleftrightarrow> (\<exists>ws neg sg ds. s = ws @ sg @ ds \<and> (\<forall>c \<in> set ws. is_space c)
     \<and> (neg, sg) \<in> signs \<and> ds \<noteq> [] \<and> (\<forall>c \<in> set ds. is_digit c)
     \<and> i = (if neg then - 1 else 1) * int (num_val 10 ds))"

section \<open>Lemmas\<close>


lemma is_digit_char_of [simp]: "(n::nat) < 10 \<Longrightarrow> is_digit (char_of (48 + n))"
  by (simp add: is_digit_def)

lemma digit_val_char_of [simp]: "(n::nat) < 10 \<Longrightarrow> digit_val (char_of (48 + n)) = n"
  by (simp add: digit_val_def is_digit_def)

lemma digit_not_space: "is_digit c \<Longrightarrow> \<not> is_space c"
  by (auto simp: is_digit_def is_space_def)

lemma digit_not_sign [simp]: "\<not> is_digit CHR ''-''" "\<not> is_digit CHR ''+''"
  "\<not> is_digit CHR ''.''" "\<not> is_digit CHR ''/''"
  by (simp_all add: is_digit_def)

lemma sign_not_space [simp]: "\<not> is_space CHR ''-''" "\<not> is_space CHR ''+''"
  by (simp_all add: is_space_def)

lemma num_val_snoc: "num_val b (ds @ [c]) = b * num_val b ds + digit_val c"
  by (simp add: num_val_def)

lemma nat_str_nonempty [simp]: "nat_str n \<noteq> []"
  by (subst nat_str.simps) simp

lemma nat_str_digits: "\<forall>c \<in> set (nat_str n). is_digit c"
proof (induction n rule: nat_str.induct)
  case (1 n)
  then show ?case by (subst nat_str.simps) auto
qed

lemma num_val_nat_str [simp]: "num_val 10 (nat_str n) = n"
proof (induction n rule: nat_str.induct)
  case (1 n)
  show ?case
  proof (cases "n < 10")
    case True
    then show ?thesis by (subst nat_str.simps) (simp add: num_val_def)
  next
    case False
    with 1 show ?thesis by (subst nat_str.simps) (simp add: num_val_snoc)
  qed
qed

lemma strtol_sign_app:
  assumes "(neg, sg) \<in> signs" and "ds \<noteq> []" and "\<forall>c \<in> set ds. is_digit c"
  shows "strtol_sign (sg @ ds) = (neg, ds)" and "\<not> is_space (hd (sg @ ds))"
proof -
  from assms(2,3) have "is_digit (hd ds)" by simp
  then have "hd ds \<noteq> CHR ''-''" "hd ds \<noteq> CHR ''+''" "\<not> is_space (hd ds)"
    by (auto dest: digit_not_space)
  with assms(1,2) show "strtol_sign (sg @ ds) = (neg, ds)" and "\<not> is_space (hd (sg @ ds))"
    by (auto simp: signs_def strtol_sign_def)
qed

lemma strtol_signD:
  "strtol_sign t = (neg, u) \<Longrightarrow> \<exists>sg. (neg, sg) \<in> signs \<and> t = sg @ u"
  by (cases t) (auto simp: signs_def strtol_sign_def split: if_splits)

lemma strtol10_literal:
  assumes "\<forall>c \<in> set ws. is_space c" and "(neg, sg) \<in> signs"
    and "ds \<noteq> []" and "\<forall>c \<in> set ds. is_digit c"
  shows "strtol10 (ws @ sg @ ds) =
    (let (v, er) = strtol_clamp ((if neg then - 1 else 1) * int (num_val 10 ds)) in Some (v, er, []))"
proof -
  have "dropWhile is_space (ws @ sg @ ds) = sg @ ds"
    using assms(1) strtol_sign_app(2) [OF assms(2-4)] by (intro dropWhile_append_stop) auto
  moreover have "takeWhile is_digit ds = ds" and "dropWhile is_digit ds = []"
    using assms(4) by auto
  ultimately show ?thesis
    using assms(3) strtol_sign_app(1) [OF assms(2-4)] unfolding strtol10_def
    by (simp only: Let_def prod.case if_False split: prod.splits)
qed

lemma strtol10_SomeD:
  assumes "strtol10 s = Some (v, er, [])"
  shows "\<exists>w. decimal_literal s w \<and> strtol_clamp w = (v, er)"
proof -
  obtain neg u where u: "strtol_sign (dropWhile is_space s) = (neg, u)" by fastforce
  with assms have ds: "takeWhile is_digit u \<noteq> []" "dropWhile is_digit u = []"
    and v: "strtol_clamp ((if neg then - 1 else 1) * int (num_val 10 (takeWhile is_digit u))) = (v, er)"
    by (auto simp: strtol10_def Let_def split: prod.splits if_splits)
  from ds have tw: "takeWhile is_digit u = u" and digits: "\<forall>c \<in> set u. is_digit c" and "u \<noteq> []"
    by (auto simp: dropWhile_eq_Nil_conv takeWhile_eq_all_conv)
  obtain sg where sg: "(neg, sg) \<in> signs" "dropWhile is_space s = sg @ u"
    using strtol_signD [OF u] by blast
  have "s = takeWhile is_space s @ sg @ u"
    using sg(2) by (metis takeWhile_dropWhile_id)
  with sg(1) digits \<open>u \<noteq> []\<close> have "decimal_literal s ((if neg then - 1 else 1) * int (num_val 10 u))"
    unfolding decimal_literal_def by (blast dest: set_takeWhileD)
  with v tw show ?thesis by auto
qed

lemma strtol_clamp_in_range:
  "strtol_clamp w = (v, False) \<longleftrightarrow> v = w \<and> LONG_MIN \<le> w \<and> w \<le> LONG_MAX"
  by (auto simp: strtol_clamp_def)

lemma str2int_iff:
  "ops_fpa_str2int (Some s) = Some i \<longleftrightarrow> decimal_literal s i \<and> INT_MIN \<le> i \<and> i \<le> INT_MAX"
proof
  assume "ops_fpa_str2int (Some s) = Some i"
  then have "strtol10 s = Some (i, False, [])" and r: "INT_MIN \<le> i" "i \<le> INT_MAX"
    by (auto simp: ops_fpa_str2int_def split: option.splits prod.splits if_splits)
  then show "decimal_literal s i \<and> INT_MIN \<le> i \<and> i \<le> INT_MAX"
    using strtol10_SomeD [of s i False] by (auto simp: strtol_clamp_in_range)
next
  assume *: "decimal_literal s i \<and> INT_MIN \<le> i \<and> i \<le> INT_MAX"
  then have "strtol_clamp i = (i, False)"
    by (simp add: strtol_clamp_in_range)
  with * have "strtol10 s = Some (i, False, [])"
    unfolding decimal_literal_def using strtol10_literal by fastforce
  with * show "ops_fpa_str2int (Some s) = Some i"
    by (simp add: ops_fpa_str2int_def)
qed

text \<open>\<open>ops_fpa_str2int\<close> succeeds exactly on the texts made of white space, an optional
  sign and decimal digits whose value fits an \<open>int\<close>, and returns that value. Everything else
  (no digits, trailing characters, values outside \<open>int\<close> or \<open>long\<close>) is rejected.\<close>

lemma str2int_literal:
  "ops_fpa_str2int (Some s) = Some i \<longleftrightarrow> decimal_literal s i \<and> INT_MIN \<le> i \<and> i \<le> INT_MAX"
  by (rule str2int_iff)

lemma decimal_literal_int_str: "decimal_literal (int_str i) i"
  unfolding decimal_literal_def
  by (rule exI[of _ "[]"], rule exI[of _ "i < 0"], rule exI[of _ "if i < 0 then ''-'' else ''''"],
      rule exI[of _ "nat_str (nat \<bar>i\<bar>)"])
    (auto simp: signs_def int_str_def nat_str_digits)

lemma str2int_roundtrip:
  "INT_MIN \<le> i \<Longrightarrow> i \<le> INT_MAX \<Longrightarrow> ops_fpa_str2int (Some (int_str i)) = Some i"
  using decimal_literal_int_str str2int_iff by blast

lemma ip_byte_bound: "ip_byte k a < 256"
proof -
  have "ip_byte k a \<le> unat (0xFF :: u32)"
    unfolding ip_byte_def by (rule word_le_nat_alt [THEN iffD1], rule word_and_le1)
  then show ?thesis by simp
qed

lemma nat_str_byte_length: "n < 256 \<Longrightarrow> length (nat_str n) \<le> 3"
  by (subst nat_str.simps, (subst nat_str.simps)?, (subst nat_str.simps)?) auto

text \<open>The text \<open>ops_fpa_ip2str\<close> prints, with its terminating NUL, always fits the static
  buffer of \<open>INET_ADDRSTRLEN\<close> = 16 bytes.\<close>

lemma ip2str_length: "length (ops_fpa_ip2str a) < 16"
  using nat_str_byte_length [OF ip_byte_bound [of 0 a]] nat_str_byte_length [OF ip_byte_bound [of 1 a]]
    nat_str_byte_length [OF ip_byte_bound [of 2 a]] nat_str_byte_length [OF ip_byte_bound [of 3 a]]
  by (simp add: ops_fpa_ip2str_def)

text \<open>A printed number has no leading zero, unless it is zero.\<close>

lemma hd_nat_str: "n \<noteq> 0 \<Longrightarrow> digit_val (hd (nat_str n)) \<noteq> 0"
proof (induction n rule: nat_str.induct)
  case (1 n)
  show ?case
  proof (cases "n < 10")
    case True
    then show ?thesis using 1 by (subst nat_str.simps) simp
  next
    case False
    with 1 show ?thesis by (subst nat_str.simps) simp
  qed
qed

lemma digit_val_zero [simp]: "digit_val CHR ''0'' = 0"
  by (simp add: digit_val_def is_digit_def)

lemma nat_str_0 [simp]: "nat_str 0 = ''0''"
  by (subst nat_str.simps) (simp add: char_of_def bit_0)

lemma strtoul0_nat_str:
  assumes "e = [] \<or> hd e = CHR ''.''"
  shows "strtoul0 (nat_str n @ e) = (n, e)"
proof (cases "n = 0")
  case True
  with assms show ?thesis
    by (cases e) (auto simp: strtoul0_def num_val_def digit_val_def is_octal_def is_digit_def)
next
  case False
  have "take 1 (nat_str n @ e) = [hd (nat_str n)]"
    by (cases "nat_str n") auto
  moreover have "takeWhile is_digit (nat_str n @ e) = nat_str n"
    and "dropWhile is_digit (nat_str n @ e) = e"
    using assms nat_str_digits [of n]
    by (cases e; simp)+
  moreover have "hd (nat_str n) \<noteq> CHR ''0''"
    using hd_nat_str [OF False] by auto
  ultimately show ?thesis
    by (simp add: strtoul0_def)
qed

lemma inet_aton_dot:
  assumes "length pp \<le> 2" and "n < 256"
  shows "inet_aton pp (nat_str n @ ''.'' @ s) = inet_aton (pp @ [n]) s"
  using assms nat_str_digits [of n]
  by (subst inet_aton.simps) (simp add: strtoul0_nat_str)

lemma inet_aton_last:
  assumes "length pp = 3" and "n < 256"
  shows "inet_aton pp (nat_str n) = Some (store_bytes pp OR htonl (of_nat n))"
  using assms nat_str_digits [of n] strtoul0_nat_str [of "[]" n]
  by (subst inet_aton.simps) simp

lemma word_byte_mask: "(0xFF :: u32) = mask 8" "(0xFF00 :: u32) = push_bit 8 (mask 8)"
  by (simp_all add: mask_eq_exp_minus_1 push_bit_eq_mult)

lemma of_nat_ip_byte: "of_nat (ip_byte k a) = (drop_bit (8 * k) a AND mask 8 :: u32)"
  by (simp add: ip_byte_def word_byte_mask)

lemma bit_htonl_byte:
  assumes "q < 4" and "r < 8"
  shows "bit (htonl a) (8 * q + r) = bit a (8 * (3 - q) + r)"
proof -
  have "q = 0 \<or> q = 1 \<or> q = 2 \<or> q = 3" using assms(1) by auto
  then show ?thesis
    using assms(2)
    by (elim disjE) (simp_all add: htonl_def word_byte_mask bit_or_iff bit_and_iff bit_push_bit_iff
        bit_drop_bit_eq bit_mask_iff possible_bit_word)
qed

lemma word32_byte_eqI:
  fixes x y :: u32
  assumes "\<And>q r. q < 4 \<Longrightarrow> r < 8 \<Longrightarrow> bit x (8 * q + r) = bit y (8 * q + r)"
  shows "x = y"
proof (rule bit_word_eqI)
  fix k :: nat
  assume "k < LENGTH(32)"
  then have "k div 8 < 4" and "k mod 8 < 8" by auto
  from assms [OF this] show "bit x k = bit y k" by simp
qed

lemma store_bytes_ip:
  "store_bytes [ip_byte 0 a, ip_byte 1 a, ip_byte 2 a] OR htonl (of_nat (ip_byte 3 a)) = a"
proof (rule word32_byte_eqI)
  fix q r :: nat
  assume "q < 4" and r: "r < 8"
  then have "q = 0 \<or> q = 1 \<or> q = 2 \<or> q = 3" by auto
  then show "bit (store_bytes [ip_byte 0 a, ip_byte 1 a, ip_byte 2 a]
      OR htonl (of_nat (ip_byte 3 a))) (8 * q + r) = bit a (8 * q + r)"
    using r bit_htonl_byte [of 0 r] bit_htonl_byte [of 1 r] bit_htonl_byte [of 2 r] bit_htonl_byte [of 3 r]
    by (elim disjE) (simp_all add: bit_or_iff store_bytes_def of_nat_ip_byte upt_conv_Cons
        bit_and_iff bit_push_bit_iff bit_drop_bit_eq bit_mask_iff possible_bit_word)
qed

lemma inet_addr_ip2str: "inet_addr (ops_fpa_ip2str a) = a"
  by (simp add: inet_addr_def ops_fpa_ip2str_def inet_aton_dot [simplified] inet_aton_last
      ip_byte_bound store_bytes_ip [simplified])

lemma nat_str_no_slash [simp]: "CHR ''/'' \<notin> set (nat_str n)"
  using nat_str_digits [of n] by auto

lemma ip2str_no_slash: "\<forall>c \<in> set (ops_fpa_ip2str a). c \<noteq> CHR ''/''"
  by (auto simp: ops_fpa_ip2str_def)

lemma str2ip_of_ip2str:
  "ops_fpa_str2ip (ops_fpa_ip2str a) = (if a = 0xFFFFFFFF then None else Some (a, 32))"
proof -
  have "takeWhile (\<lambda>c. c \<noteq> CHR ''/'') (ops_fpa_ip2str a) = ops_fpa_ip2str a"
    and "dropWhile (\<lambda>c. c \<noteq> CHR ''/'') (ops_fpa_ip2str a) = []"
    using ip2str_no_slash by (simp_all add: takeWhile_eq_all_conv)
  then show ?thesis by (simp only: ops_fpa_str2ip_def inet_addr_ip2str Let_def) simp
qed

text \<open>Printing an address and parsing the text gives the address back with the default
  prefix length 32; the only address that cannot be parsed is 255.255.255.255, whose value is
  the error code of \<open>inet_addr\<close>.\<close>

lemma str2ip_ip2str:
  "ops_fpa_str2ip (ops_fpa_ip2str a) = (if a = 0xFFFFFFFF then None else Some (a, 32))"
  by (rule str2ip_of_ip2str)

text \<open>An address with a prefix length is accepted with that length when the length is
  at most 32, negative lengths included, and rejected when the length is larger.\<close>

lemma str2ip_prefix:
  assumes "INT_MIN \<le> n" and "n \<le> INT_MAX"
  shows "ops_fpa_str2ip (ops_fpa_ip2str a @ ''/'' @ int_str n) =
     (if a = 0xFFFFFFFF \<or> n > 32 then None else Some (a, n))"
proof -
  have "takeWhile (\<lambda>c. c \<noteq> CHR ''/'') (ops_fpa_ip2str a @ ''/'' @ int_str n) = ops_fpa_ip2str a"
    using ip2str_no_slash by (intro takeWhile_append_stop) auto
  moreover have "dropWhile (\<lambda>c. c \<noteq> CHR ''/'') (ops_fpa_ip2str a @ ''/'' @ int_str n) = ''/'' @ int_str n"
    using ip2str_no_slash by (intro dropWhile_append_stop) auto
  ultimately show ?thesis
    using str2int_roundtrip [OF assms] by (simp add: ops_fpa_str2ip_def inet_addr_ip2str)
qed

lemma htonl_involutive: "htonl (htonl a) = a"
  by (rule word32_byte_eqI) (simp add: bit_htonl_byte)

lemma prefix_mask_bit: "p \<le> 32 \<Longrightarrow> bit (prefix_mask_loop p 0) k \<longleftrightarrow> 32 - p \<le> k \<and> k < 32"
  by (induction p) (auto simp: bit_simps)

lemma find_SomeD: "find P xs = Some x \<Longrightarrow> P x"
  by (auto simp: find_Some_iff)

lemma ffs_least:
  assumes "bit x n" and "\<And>i. i < n \<Longrightarrow> \<not> bit x i" and "n < 32"
  shows "ffs x = Suc n"
proof -
  have "find (\<lambda>i. bit x i) [0..<32] = Some n"
    using assms by (auto simp: find_Some_iff intro!: exI[of _ n])
  then show ?thesis by (simp add: ffs_def)
qed

lemma ffs_prefix_mask: "p \<le> 32 \<Longrightarrow> ffs (prefix_mask_loop p 0) = (if p = 0 then 0 else 33 - p)"
proof (cases "p = 0")
  case True
  then show ?thesis by (auto simp: ffs_def find_None_iff split: option.split dest: find_SomeD)
next
  case False
  assume "p \<le> 32"
  with False have "ffs (prefix_mask_loop p 0) = Suc (32 - p)"
    by (intro ffs_least) (auto simp: prefix_mask_bit)
  with False \<open>p \<le> 32\<close> show ?thesis by auto
qed

text \<open>For every prefix length up to 32, the mask \<open>ops_fpa_prefix_len_to_ip4mask\<close>
  computes (in host order), put into network order, is converted back to the same length by
  \<open>ops_fpa_ip4mask_to_prefix_len\<close>.\<close>

lemma netmask_roundtrip:
  assumes "p \<le> 32"
  shows "\<exists>m. ops_fpa_prefix_len_to_ip4mask p = Some m \<and> ops_fpa_ip4mask_to_prefix_len (htonl m) = p"
  using assms ffs_prefix_mask [OF assms]
  by (auto simp: ops_fpa_prefix_len_to_ip4mask_def ops_fpa_ip4mask_to_prefix_len_def htonl_involutive)

end
