(* ===== verification/Fpa_Lib.thy ===== *)
theory Fpa_Lib
  imports Fpa_Core
begin

text \<open>
  The flow and group tables of the Marvell FPA library, as the plugin uses them, and the wrapper
  layer \<open>src/ops-fpa-wrap.c\<close>. The library is not code of this repository. It is a parameter of
  every definition that calls it: a record \<open>lib\<close> of its functions over an abstract hardware state
  \<open>'hw\<close>, of the constants of its headers, and of two views of the hardware state (the flows of a
  table, the groups of a switch) that serve to say what a call did. What the plugin relies on is
  the predicate \<open>fpa_lib_ok\<close>: a call that does not return \<open>FPA_OK\<close> leaves the tables as they were,
  and a call that does has the effect its name says. Whether a call succeeds is left open, except
  that an entry that exists and that nothing refers to can be deleted.

  The widths of the fields of the library's structures are not visible in the sources; the model
  keeps them at 32 bits, except the 64-bit cookie and metadata.
\<close>

section \<open>Entries of the tables\<close>

datatype fpa_table =
    FPA_FLOW_TABLE_TYPE_CONTROL_PKT_E | FPA_FLOW_TABLE_TYPE_VLAN_E
  | FPA_FLOW_TABLE_TYPE_TERMINATION_E | FPA_FLOW_TABLE_TYPE_PCL0_E | FPA_FLOW_TABLE_TYPE_PCL1_E
  | FPA_FLOW_TABLE_TYPE_PCL2_E | FPA_FLOW_TABLE_TYPE_L2_BRIDGING_E
  | FPA_FLOW_TABLE_TYPE_L3_UNICAST_E | FPA_FLOW_TABLE_TYPE_EPCL_E

datatype control_pkt_type =
    FPA_CONTROL_PKTS_TYPE_ARP_REQUEST_MESSAGES_E | FPA_CONTROL_PKTS_TYPE_UDP_BROADCAST_CTRL_E
  | FPA_CONTROL_PKTS_TYPE_OTHER u32

record control_pkt_data =
  cp_entry_type :: control_pkt_type
  cp_inPort :: u32
  cp_inPortMask :: u32
  cp_vlanId :: u32
  cp_vlanIdMask :: u32
  cp_dstMac :: eth_addr
  cp_dstMacMask :: eth_addr
  cp_etherType :: u32
  cp_etherTypeMask :: u32
  cp_ipProtocol :: u32
  cp_ipProtocolMask :: u32
  cp_icmpV6Type :: u32
  cp_icmpV6TypeMask :: u32
  cp_dstL4Port :: u32
  cp_dstL4PortMask :: u32
  cp_outputPort :: u32
  cp_clearActions :: u32
  cp_gotoTableNo :: u32

record vlan_data =
  vl_inPort :: u32
  vl_vlanId :: u32
  vl_vlanIdMask :: u32
  vl_newTagVid :: u32
  vl_newTagPcp :: u32
  vl_gotoTableNo :: u32

record termination_data =
  tm_inPort :: u32
  tm_inPortMask :: u32
  tm_vlanId :: u32
  tm_vlanIdMask :: u32
  tm_etherType :: u32
  tm_etherTypeMask :: u32
  tm_destMac :: eth_addr
  tm_destMacMask :: eth_addr
  tm_metadataValue :: u64
  tm_metadataMask :: u64
  tm_gotoTableNo :: u32

record l2_bridging_data =
  br_vlanId :: u32
  br_vlanIdMask :: u32
  br_destMac :: eth_addr
  br_destMacMask :: eth_addr
  br_groupId :: u32
  br_outputPort :: u32
  br_clearActions :: u32
  br_gotoTableNo :: u32

record l3_unicast_data =
  l3_vrfId :: u32
  l3_etherType :: u32
  l3_dstIp4 :: u32
  l3_dstIp4Mask :: u32
  l3_groupId :: u32
  l3_outputPort :: u32
  l3_clearActions :: u32
  l3_gotoTableNo :: u32

text \<open>
  \<open>FPA_FLOW_TABLE_ENTRY_STC\<close>: the members of the union \<open>data\<close> side by side; a function that works
  on one table reads and writes the member of that table only.
\<close>

record fpa_flow =
  fl_entryType :: fpa_table
  fl_cookie :: u64
  fl_priority :: u32
  fl_timeoutIdleTime :: u32
  fl_timeoutHardTime :: u32
  fl_flowModFlags :: u32
  fl_control_pkt :: control_pkt_data
  fl_vlan :: vlan_data
  fl_termination :: termination_data
  fl_l2_bridging :: l2_bridging_data
  fl_l3_unicast :: l3_unicast_data

datatype group_type = FPA_GROUP_L2_INTERFACE_E | FPA_GROUP_L3_UNICAST_E

record group_ident =
  gi_groupType :: group_type
  gi_portNum :: u32
  gi_vlanId :: u32
  gi_index :: u32

datatype group_semantics = FPA_GROUP_INDIRECT | FPA_GROUP_SEMANTICS_OTHER u32

record group_entry =
  ge_groupIdentifier :: u32
  ge_groupTypeSemantics :: group_semantics

datatype bucket_data =
    L2_Interface (b_outputPort: u32) (b_popVlanTagAction: bool)
  | L3_Unicast_Bucket (b_dstMac: eth_addr) (b_srcMac: eth_addr) (b_vlanId: u32) (b_mtu: u32)
      (b_refGroupId: u32)

record bucket =
  bk_groupIdentifier :: u32
  bk_index :: u32
  bk_data :: bucket_data

text \<open>A group of the hardware: its semantics and its buckets by index.\<close>

record group_view =
  gv_semantics :: group_semantics
  gv_buckets :: "u32 \<rightharpoonup> bucket"

section \<open>The library as a parameter\<close>

type_synonym 'hw fpa_call = "'hw \<Rightarrow> fpa_status \<times> 'hw"

record 'hw fpa_lib =
  status_code :: "fpa_status \<Rightarrow> int"
  FPA_OUTPUT_CONTROLLER :: u32
  FPA_FLOW_VLAN_MASK_TAG :: u32
  FPA_FLOW_VLAN_MASK_UNTAG :: u32
  FPA_FLOW_VLAN_IGNORE_VAL :: u32
  FPA_FLOW_TABLE_METADATA_MAC2ME_BIT :: u64
  fpaLibFlowEntryInit :: "u32 \<Rightarrow> fpa_table \<Rightarrow> fpa_status \<times> fpa_flow"
  fpaLibFlowEntryAdd :: "u32 \<Rightarrow> fpa_table \<Rightarrow> fpa_flow \<Rightarrow> 'hw fpa_call"
  fpaLibFlowEntryDelete :: "u32 \<Rightarrow> fpa_table \<Rightarrow> fpa_flow \<Rightarrow> u32 \<Rightarrow> 'hw fpa_call"
  fpaLibFlowTableCookieDelete :: "u32 \<Rightarrow> fpa_table \<Rightarrow> u64 \<Rightarrow> 'hw fpa_call"
  fpaLibFlowTableDump :: "u32 \<Rightarrow> fpa_table \<Rightarrow> 'hw \<Rightarrow> 'hw"
  fpaLibFlowTableGetNext :: "u32 \<Rightarrow> fpa_table \<Rightarrow> u32 \<Rightarrow> 'hw \<Rightarrow> fpa_status \<times> fpa_flow"
  fpaLibGroupIdentifierBuild :: "group_ident \<Rightarrow> fpa_status \<times> u32"
  fpaLibGroupTableEntryAdd :: "u32 \<Rightarrow> group_entry \<Rightarrow> 'hw fpa_call"
  fpaLibGroupTableEntryDelete :: "u32 \<Rightarrow> u32 \<Rightarrow> 'hw fpa_call"
  fpaLibGroupTableGetEntry :: "u32 \<Rightarrow> u32 \<Rightarrow> 'hw \<Rightarrow> fpa_status \<times> group_entry"
  fpaLibGroupTableGetNext :: "u32 \<Rightarrow> u32 \<Rightarrow> 'hw \<Rightarrow> fpa_status \<times> group_entry"
  fpaLibGroupEntryBucketAdd :: "u32 \<Rightarrow> bucket \<Rightarrow> 'hw fpa_call"
  fpaLibGroupEntryBucketDelete :: "u32 \<Rightarrow> u32 \<Rightarrow> u32 \<Rightarrow> 'hw fpa_call"
  fpaLibGroupEntryBucketGet :: "u32 \<Rightarrow> u32 \<Rightarrow> u32 \<Rightarrow> 'hw \<Rightarrow> fpa_status \<times> bucket"
  fpaLibGroupEntryReferenceCount :: "u32 \<Rightarrow> u32 \<Rightarrow> 'hw \<Rightarrow> fpa_status \<times> nat"
  flows_of :: "'hw \<Rightarrow> u32 \<Rightarrow> fpa_table \<Rightarrow> fpa_flow set"
  groups_of :: "'hw \<Rightarrow> u32 \<Rightarrow> u32 \<rightharpoonup> group_view"

section \<open>The wrapper layer\<close>

definition wrap_fpaLibFlowEntryAdd ::
  "'hw fpa_lib \<Rightarrow> u32 \<Rightarrow> fpa_table \<Rightarrow> fpa_flow \<Rightarrow> 'hw fpa_call" where
  "wrap_fpaLibFlowEntryAdd lib switchId flowTableNo flowEntry hw =
     (let (err, hw) = fpaLibFlowEntryAdd lib switchId flowTableNo flowEntry hw
      in (err, fpaLibFlowTableDump lib switchId flowTableNo hw))"

definition wrap_fpaLibFlowEntryDelete ::
  "'hw fpa_lib \<Rightarrow> u32 \<Rightarrow> fpa_table \<Rightarrow> fpa_flow \<Rightarrow> u32 \<Rightarrow> 'hw fpa_call" where
  "wrap_fpaLibFlowEntryDelete lib switchId flowTableNo flowEntry matchingMode hw =
     (let (err, hw) = fpaLibFlowEntryDelete lib switchId flowTableNo flowEntry matchingMode hw
      in (err, fpaLibFlowTableDump lib switchId flowTableNo hw))"

definition wrap_fpaLibFlowTableCookieDelete ::
  "'hw fpa_lib \<Rightarrow> u32 \<Rightarrow> fpa_table \<Rightarrow> u64 \<Rightarrow> 'hw fpa_call" where
  "wrap_fpaLibFlowTableCookieDelete lib switchId flowTableNo cookie hw =
     (let (err, hw) = fpaLibFlowTableCookieDelete lib switchId flowTableNo cookie hw
      in (err, fpaLibFlowTableDump lib switchId flowTableNo hw))"

definition wrap_fpaLibGroupTableEntryAdd ::
  "'hw fpa_lib \<Rightarrow> u32 \<Rightarrow> group_entry \<Rightarrow> 'hw fpa_call" where
  "wrap_fpaLibGroupTableEntryAdd lib switchId groupEntry hw =
     fpaLibGroupTableEntryAdd lib switchId groupEntry hw"

definition wrap_fpaLibGroupTableEntryDelete ::
  "'hw fpa_lib \<Rightarrow> u32 \<Rightarrow> u32 \<Rightarrow> 'hw fpa_call" where
  "wrap_fpaLibGroupTableEntryDelete lib switchId groupIdentifier hw =
     fpaLibGroupTableEntryDelete lib switchId groupIdentifier hw"

definition wrap_fpaLibGroupEntryBucketAdd ::
  "'hw fpa_lib \<Rightarrow> u32 \<Rightarrow> bucket \<Rightarrow> 'hw fpa_call" where
  "wrap_fpaLibGroupEntryBucketAdd lib switchId bucket hw =
     fpaLibGroupEntryBucketAdd lib switchId bucket hw"

definition wrap_fpaLibGroupEntryBucketDelete ::
  "'hw fpa_lib \<Rightarrow> u32 \<Rightarrow> u32 \<Rightarrow> u32 \<Rightarrow> 'hw fpa_call" where
  "wrap_fpaLibGroupEntryBucketDelete lib switchId groupIdentifier bucketIndex hw =
     fpaLibGroupEntryBucketDelete lib switchId groupIdentifier bucketIndex hw"

section \<open>What the plugin relies on\<close>

type_synonym flow_state = "u32 \<Rightarrow> fpa_table \<Rightarrow> fpa_flow set"
type_synonym group_state = "u32 \<Rightarrow> u32 \<rightharpoonup> group_view"

definition insert_flow :: "u32 \<Rightarrow> fpa_table \<Rightarrow> fpa_flow \<Rightarrow> flow_state \<Rightarrow> flow_state" where
  "insert_flow sid t f F = F(sid := (F sid)(t := insert f (F sid t)))"

definition delete_cookie :: "u32 \<Rightarrow> fpa_table \<Rightarrow> u64 \<Rightarrow> flow_state \<Rightarrow> flow_state" where
  "delete_cookie sid t c F = F(sid := (F sid)(t := {f \<in> F sid t. fl_cookie f \<noteq> c}))"

definition set_group :: "u32 \<Rightarrow> u32 \<Rightarrow> group_view option \<Rightarrow> group_state \<Rightarrow> group_state" where
  "set_group sid gid g G = G(sid := (G sid)(gid := g))"

definition insert_bucket :: "u32 \<Rightarrow> bucket \<Rightarrow> group_state \<Rightarrow> group_state" where
  "insert_bucket sid b G =
     set_group sid (bk_groupIdentifier b)
       (map_option (\<lambda>g. g\<lparr>gv_buckets := (gv_buckets g)(bk_index b \<mapsto> b)\<rparr>) (G sid (bk_groupIdentifier b))) G"

definition empty_group :: "group_semantics \<Rightarrow> group_view" where
  "empty_group sem = \<lparr>gv_semantics = sem, gv_buckets = Map.empty\<rparr>"

definition bucket_refers :: "bucket \<Rightarrow> u32 \<Rightarrow> bool" where
  "bucket_refers b gid \<longleftrightarrow>
     (case bk_data b of L2_Interface _ _ \<Rightarrow> False | L3_Unicast_Bucket _ _ _ _ r \<Rightarrow> r = gid)"

text \<open>A group is in use while a bucket of another group or a route points to it.\<close>

definition group_in_use :: "flow_state \<Rightarrow> group_state \<Rightarrow> u32 \<Rightarrow> u32 \<Rightarrow> bool" where
  "group_in_use F G sid gid \<longleftrightarrow>
     (\<exists>g v k b. G sid g = Some v \<and> gv_buckets v k = Some b \<and> bucket_refers b gid)
     \<or> (\<exists>f \<in> F sid FPA_FLOW_TABLE_TYPE_L3_UNICAST_E. l3_groupId (fl_l3_unicast f) = gid)"

definition flow_laws :: "'hw fpa_lib \<Rightarrow> bool" where
  "flow_laws lib \<longleftrightarrow>
     (\<forall>sid t f hw err hw'. fpaLibFlowEntryAdd lib sid t f hw = (err, hw') \<longrightarrow>
        flows_of lib hw' = (if err = FPA_OK then insert_flow sid t f (flows_of lib hw) else flows_of lib hw)
        \<and> groups_of lib hw' = groups_of lib hw)
   \<and> (\<forall>sid t c hw err hw'. fpaLibFlowTableCookieDelete lib sid t c hw = (err, hw') \<longrightarrow>
        flows_of lib hw' = (if err = FPA_OK then delete_cookie sid t c (flows_of lib hw) else flows_of lib hw)
        \<and> groups_of lib hw' = groups_of lib hw)
   \<and> (\<forall>sid t f hw. f \<in> flows_of lib hw sid t \<longrightarrow>
        fst (fpaLibFlowTableCookieDelete lib sid t (fl_cookie f) hw) = FPA_OK)
   \<and> (\<forall>sid t hw. flows_of lib (fpaLibFlowTableDump lib sid t hw) = flows_of lib hw
        \<and> groups_of lib (fpaLibFlowTableDump lib sid t hw) = groups_of lib hw)"

definition group_laws :: "'hw fpa_lib \<Rightarrow> bool" where
  "group_laws lib \<longleftrightarrow>
     (\<forall>sid e hw err hw'. fpaLibGroupTableEntryAdd lib sid e hw = (err, hw') \<longrightarrow>
        flows_of lib hw' = flows_of lib hw
        \<and> (err \<noteq> FPA_OK \<longrightarrow> groups_of lib hw' = groups_of lib hw)
        \<and> (err = FPA_OK \<longrightarrow> (\<exists>g. groups_of lib hw' =
             set_group sid (ge_groupIdentifier e) (Some g) (groups_of lib hw)
             \<and> (groups_of lib hw sid (ge_groupIdentifier e) = None \<longrightarrow>
                 g = empty_group (ge_groupTypeSemantics e)))))
   \<and> (\<forall>sid gid hw err hw'. fpaLibGroupTableEntryDelete lib sid gid hw = (err, hw') \<longrightarrow>
        flows_of lib hw' = flows_of lib hw
        \<and> groups_of lib hw' =
           (if err = FPA_OK then set_group sid gid None (groups_of lib hw) else groups_of lib hw))
   \<and> (\<forall>sid gid hw. groups_of lib hw sid gid \<noteq> None
        \<and> \<not> group_in_use (flows_of lib hw) (groups_of lib hw) sid gid \<longrightarrow>
        fst (fpaLibGroupTableEntryDelete lib sid gid hw) = FPA_OK)
   \<and> (\<forall>sid b hw err hw'. fpaLibGroupEntryBucketAdd lib sid b hw = (err, hw') \<longrightarrow>
        flows_of lib hw' = flows_of lib hw
        \<and> groups_of lib hw' =
           (if err = FPA_OK then insert_bucket sid b (groups_of lib hw) else groups_of lib hw))
   \<and> (\<forall>sid gid hw. fst (fpaLibGroupTableGetEntry lib sid gid hw) = FPA_OK \<longleftrightarrow>
        groups_of lib hw sid gid \<noteq> None)
   \<and> (\<forall>sid gid i hw b. fpaLibGroupEntryBucketGet lib sid gid i hw = (FPA_OK, b) \<longleftrightarrow>
        (\<exists>g. groups_of lib hw sid gid = Some g \<and> gv_buckets g i = Some b))"

text \<open>\<open>FPA_OK\<close> is the only status that C treats as false.\<close>

definition status_laws :: "'hw fpa_lib \<Rightarrow> bool" where
  "status_laws lib \<longleftrightarrow> (\<forall>st. status_code lib st = 0 \<longleftrightarrow> st = FPA_OK)"

definition fpa_lib_ok :: "'hw fpa_lib \<Rightarrow> bool" where
  "fpa_lib_ok lib \<longleftrightarrow> status_laws lib \<and> flow_laws lib \<and> group_laws lib"

section \<open>The interface of the tables\<close>

text \<open>
  What a client of the flow tables may use, whichever entry point it calls. The routing code goes
  through the wrappers, the VLAN code calls the library directly; both entry points give the same
  interface. The lemmas of the interface are the undo steps of the error paths.
\<close>

locale flow_tables =
  fixes ok :: "'l \<Rightarrow> bool"
    and flows :: "'l \<Rightarrow> 'hw \<Rightarrow> flow_state"
    and groups :: "'l \<Rightarrow> 'hw \<Rightarrow> group_state"
    and add :: "'l \<Rightarrow> u32 \<Rightarrow> fpa_table \<Rightarrow> fpa_flow \<Rightarrow> 'hw fpa_call"
    and del :: "'l \<Rightarrow> u32 \<Rightarrow> fpa_table \<Rightarrow> u64 \<Rightarrow> 'hw fpa_call"
  assumes add_flows: "ok l \<Longrightarrow> add l sid t f hw = (err, hw') \<Longrightarrow>
      flows l hw' = (if err = FPA_OK then insert_flow sid t f (flows l hw) else flows l hw)"
    and add_groups: "ok l \<Longrightarrow> add l sid t f hw = (err, hw') \<Longrightarrow> groups l hw' = groups l hw"
    and del_flows: "ok l \<Longrightarrow> del l sid t c hw = (err, hw') \<Longrightarrow>
      flows l hw' = (if err = FPA_OK then delete_cookie sid t c (flows l hw) else flows l hw)"
    and del_groups: "ok l \<Longrightarrow> del l sid t c hw = (err, hw') \<Longrightarrow> groups l hw' = groups l hw"
    and del_present: "ok l \<Longrightarrow> f \<in> flows l hw sid t \<Longrightarrow> fl_cookie f = c \<Longrightarrow>
      fst (del l sid t c hw) = FPA_OK"
begin

lemma del_status:
  assumes "ok l" and "f \<in> flows l hw sid t" and "fl_cookie f = c" and "del l sid t c hw = (err, hw')"
  shows "err = FPA_OK"
  using del_present [OF assms(1-3)] assms(4) by simp

text \<open>Deleting a cookie that is in the table removes exactly the entries with that cookie.\<close>

lemma del_effect:
  assumes "ok l" and "f \<in> flows l hw sid t" and "fl_cookie f = c"
    and "del l sid t c hw = (err, hw')"
  shows "err = FPA_OK" and "flows l hw' = delete_cookie sid t c (flows l hw)"
  using del_status [OF assms] del_flows [OF assms(1,4)] by simp_all

end

lemma delete_insert_flow:
  assumes "fl_cookie f = c" and "\<forall>g \<in> F sid t. fl_cookie g \<noteq> c"
  shows "delete_cookie sid t c (insert_flow sid t f F) = F"
  using assms by (auto simp: delete_cookie_def insert_flow_def fun_eq_iff)

interpretation raw: flow_tables fpa_lib_ok flows_of groups_of fpaLibFlowEntryAdd fpaLibFlowTableCookieDelete
  by unfold_locales (auto simp: fpa_lib_ok_def flow_laws_def)

lemma dump_view:
  "fpa_lib_ok lib \<Longrightarrow> flows_of lib (fpaLibFlowTableDump lib sid t hw) = flows_of lib hw"
  "fpa_lib_ok lib \<Longrightarrow> groups_of lib (fpaLibFlowTableDump lib sid t hw) = groups_of lib hw"
  by (simp_all add: fpa_lib_ok_def flow_laws_def)

interpretation wrapped: flow_tables fpa_lib_ok flows_of groups_of
  wrap_fpaLibFlowEntryAdd wrap_fpaLibFlowTableCookieDelete
  by unfold_locales
    (auto simp: wrap_fpaLibFlowEntryAdd_def wrap_fpaLibFlowTableCookieDelete_def dump_view
      raw.add_flows raw.del_flows split: prod.splits dest: raw.add_groups raw.del_groups raw.del_status)

locale group_tables =
  fixes ok :: "'l \<Rightarrow> bool"
    and flows :: "'l \<Rightarrow> 'hw \<Rightarrow> flow_state"
    and groups :: "'l \<Rightarrow> 'hw \<Rightarrow> group_state"
    and gadd :: "'l \<Rightarrow> u32 \<Rightarrow> group_entry \<Rightarrow> 'hw fpa_call"
    and gdel :: "'l \<Rightarrow> u32 \<Rightarrow> u32 \<Rightarrow> 'hw fpa_call"
    and badd :: "'l \<Rightarrow> u32 \<Rightarrow> bucket \<Rightarrow> 'hw fpa_call"
  assumes gadd_flows: "ok l \<Longrightarrow> gadd l sid e hw = (err, hw') \<Longrightarrow> flows l hw' = flows l hw"
    and gadd_fail: "ok l \<Longrightarrow> gadd l sid e hw = (err, hw') \<Longrightarrow> err \<noteq> FPA_OK \<Longrightarrow>
      groups l hw' = groups l hw"
    and gadd_new: "ok l \<Longrightarrow> gadd l sid e hw = (FPA_OK, hw') \<Longrightarrow>
      groups l hw sid (ge_groupIdentifier e) = None \<Longrightarrow>
      groups l hw' = set_group sid (ge_groupIdentifier e)
        (Some (empty_group (ge_groupTypeSemantics e))) (groups l hw)"
    and gdel_flows: "ok l \<Longrightarrow> gdel l sid gid hw = (err, hw') \<Longrightarrow> flows l hw' = flows l hw"
    and gdel_groups: "ok l \<Longrightarrow> gdel l sid gid hw = (err, hw') \<Longrightarrow>
      groups l hw' = (if err = FPA_OK then set_group sid gid None (groups l hw) else groups l hw)"
    and gdel_present: "ok l \<Longrightarrow> groups l hw sid gid \<noteq> None \<Longrightarrow>
      \<not> group_in_use (flows l hw) (groups l hw) sid gid \<Longrightarrow> fst (gdel l sid gid hw) = FPA_OK"
    and badd_flows: "ok l \<Longrightarrow> badd l sid b hw = (err, hw') \<Longrightarrow> flows l hw' = flows l hw"
    and badd_groups: "ok l \<Longrightarrow> badd l sid b hw = (err, hw') \<Longrightarrow>
      groups l hw' = (if err = FPA_OK then insert_bucket sid b (groups l hw) else groups l hw)"
begin

lemma gdel_effect:
  assumes "ok l" and "groups l hw sid gid \<noteq> None"
    and "\<not> group_in_use (flows l hw) (groups l hw) sid gid" and "gdel l sid gid hw = (err, hw')"
  shows "err = FPA_OK" and "groups l hw' = set_group sid gid None (groups l hw)"
proof -
  show err: "err = FPA_OK" using gdel_present [OF assms(1-3)] assms(4) by simp
  show "groups l hw' = set_group sid gid None (groups l hw)"
    using gdel_groups [OF assms(1,4)] err by simp
qed

end

lemma set_group_same [simp]: "set_group sid gid g G sid gid = g"
  by (simp add: set_group_def)

lemma set_group_other: "sid' \<noteq> sid \<or> gid' \<noteq> gid \<Longrightarrow> set_group sid gid g G sid' gid' = G sid' gid'"
  by (auto simp: set_group_def)

lemma set_group_twice [simp]: "set_group sid gid g (set_group sid gid g' G) = set_group sid gid g G"
  by (auto simp: set_group_def fun_eq_iff)

lemma set_group_id: "G sid gid = g \<Longrightarrow> set_group sid gid g G = G"
  by (auto simp: set_group_def fun_eq_iff)

lemma insert_bucket_fresh:
  assumes "bk_groupIdentifier b = gid"
  shows "insert_bucket sid b (set_group sid gid (Some (empty_group sem)) G) =
    set_group sid gid (Some \<lparr>gv_semantics = sem, gv_buckets = [bk_index b \<mapsto> b]\<rparr>) G"
  using assms by (simp add: insert_bucket_def empty_group_def)

text \<open>An empty group refers to nothing, so it does not put a group in use.\<close>

lemma group_in_use_empty:
  "group_in_use F (set_group sid gid' (Some (empty_group sem)) G) sid gid \<Longrightarrow>
    group_in_use F G sid gid"
  by (auto simp: group_in_use_def set_group_def empty_group_def split: if_splits)

interpretation graw: group_tables fpa_lib_ok flows_of groups_of
  fpaLibGroupTableEntryAdd fpaLibGroupTableEntryDelete fpaLibGroupEntryBucketAdd
  by unfold_locales (fastforce simp: fpa_lib_ok_def group_laws_def)+

interpretation gwrapped: group_tables fpa_lib_ok flows_of groups_of
  wrap_fpaLibGroupTableEntryAdd wrap_fpaLibGroupTableEntryDelete wrap_fpaLibGroupEntryBucketAdd
  by unfold_locales
    (auto simp: wrap_fpaLibGroupTableEntryAdd_def wrap_fpaLibGroupTableEntryDelete_def
      wrap_fpaLibGroupEntryBucketAdd_def graw.gadd_new graw.gdel_groups graw.badd_groups
      dest: graw.gadd_flows graw.gadd_fail graw.gdel_flows graw.gdel_present graw.badd_flows)

lemma bucket_get_iff:
  "fpa_lib_ok lib \<Longrightarrow> fpaLibGroupEntryBucketGet lib sid gid i hw = (FPA_OK, b) \<longleftrightarrow>
     (\<exists>g. groups_of lib hw sid gid = Some g \<and> gv_buckets g i = Some b)"
  by (simp add: fpa_lib_ok_def group_laws_def)

lemma group_get_iff:
  "fpa_lib_ok lib \<Longrightarrow> fst (fpaLibGroupTableGetEntry lib sid gid hw) = FPA_OK \<longleftrightarrow>
     groups_of lib hw sid gid \<noteq> None"
  by (simp add: fpa_lib_ok_def group_laws_def)

lemma status_code_0 [simp]: "fpa_lib_ok lib \<Longrightarrow> status_code lib st = 0 \<longleftrightarrow> st = FPA_OK"
  by (simp add: fpa_lib_ok_def status_laws_def)

end
