(* ===== verification/Fpa_Sim.thy ===== *)
theory Fpa_Sim
  imports Fpa_Lib
begin

text \<open>
  A reference switch: one concrete instance of the library parameter of \<open>Fpa_Lib\<close>, in which flow
  tables and group tables are lists kept in memory. It shows that what the other theories assume of
  the library can hold, and the witnesses of their properties run on it. The tables in \<open>full\<close>
  reject every new entry, so that the error paths of the plugin can be run too.
\<close>

record sim =
  sim_flows :: "u32 \<Rightarrow> fpa_table \<Rightarrow> fpa_flow list"
  sim_groups :: "u32 \<Rightarrow> (u32 \<times> group_view) list"

definition sim_empty :: sim where
  "sim_empty = \<lparr>sim_flows = (\<lambda>_ _. []), sim_groups = (\<lambda>_. [])\<rparr>"

definition zero_mac :: eth_addr where
  "zero_mac = Eth 0 0 0 0 0 0"

definition zero_flow :: "fpa_table \<Rightarrow> fpa_flow" where
  "zero_flow t = \<lparr>fl_entryType = t, fl_cookie = 0, fl_priority = 0, fl_timeoutIdleTime = 0,
     fl_timeoutHardTime = 0, fl_flowModFlags = 0,
     fl_control_pkt = \<lparr>cp_entry_type = FPA_CONTROL_PKTS_TYPE_OTHER 0, cp_inPort = 0,
       cp_inPortMask = 0, cp_vlanId = 0, cp_vlanIdMask = 0, cp_dstMac = zero_mac,
       cp_dstMacMask = zero_mac, cp_etherType = 0, cp_etherTypeMask = 0, cp_ipProtocol = 0,
       cp_ipProtocolMask = 0, cp_icmpV6Type = 0, cp_icmpV6TypeMask = 0, cp_dstL4Port = 0,
       cp_dstL4PortMask = 0, cp_outputPort = 0, cp_clearActions = 0, cp_gotoTableNo = 0\<rparr>,
     fl_vlan = \<lparr>vl_inPort = 0, vl_vlanId = 0, vl_vlanIdMask = 0, vl_newTagVid = 0,
       vl_newTagPcp = 0, vl_gotoTableNo = 0\<rparr>,
     fl_termination = \<lparr>tm_inPort = 0, tm_inPortMask = 0, tm_vlanId = 0, tm_vlanIdMask = 0,
       tm_etherType = 0, tm_etherTypeMask = 0, tm_destMac = zero_mac, tm_destMacMask = zero_mac,
       tm_metadataValue = 0, tm_metadataMask = 0, tm_gotoTableNo = 0\<rparr>,
     fl_l2_bridging = \<lparr>br_vlanId = 0, br_vlanIdMask = 0, br_destMac = zero_mac,
       br_destMacMask = zero_mac, br_groupId = 0, br_outputPort = 0, br_clearActions = 0,
       br_gotoTableNo = 0\<rparr>,
     fl_l3_unicast = \<lparr>l3_vrfId = 0, l3_etherType = 0, l3_dstIp4 = 0, l3_dstIp4Mask = 0,
       l3_groupId = 0, l3_outputPort = 0, l3_clearActions = 0, l3_gotoTableNo = 0\<rparr>\<rparr>"

definition sim_flow_add :: "fpa_table set \<Rightarrow> u32 \<Rightarrow> fpa_table \<Rightarrow> fpa_flow \<Rightarrow> sim fpa_call" where
  "sim_flow_add full sid t f s =
     (if t \<in> full then (FPA_FULL, s)
      else (FPA_OK, s\<lparr>sim_flows := (sim_flows s)(sid := (sim_flows s sid)(t := f # sim_flows s sid t))\<rparr>))"

definition sim_flow_del :: "u32 \<Rightarrow> fpa_table \<Rightarrow> u64 \<Rightarrow> sim fpa_call" where
  "sim_flow_del sid t c s =
     (if \<exists>f \<in> set (sim_flows s sid t). fl_cookie f = c
      then (FPA_OK, s\<lparr>sim_flows := (sim_flows s)(sid := (sim_flows s sid)(t :=
              filter (\<lambda>f. fl_cookie f \<noteq> c) (sim_flows s sid t)))\<rparr>)
      else (FPA_NOT_FOUND, s))"

definition sim_flow_next :: "u32 \<Rightarrow> fpa_table \<Rightarrow> u32 \<Rightarrow> sim \<Rightarrow> fpa_status \<times> fpa_flow" where
  "sim_flow_next sid t i s =
     (if i \<noteq> 0 \<and> unat i \<le> length (sim_flows s sid t)
      then (FPA_OK, sim_flows s sid t ! (unat i - 1)) else (FPA_NO_MORE, zero_flow t))"

text \<open>Group identifiers: the type in the top four bits, then VLAN and port, or the index.\<close>

definition sim_group_id :: "group_ident \<Rightarrow> fpa_status \<times> u32" where
  "sim_group_id i =
     (case gi_groupType i of
        FPA_GROUP_L2_INTERFACE_E \<Rightarrow>
          if gi_portNum i \<le> 0xFFFF \<and> gi_vlanId i \<le> 0xFFF
          then (FPA_OK, push_bit 16 (gi_vlanId i) OR gi_portNum i) else (FPA_BAD_PARAM, 0)
      | FPA_GROUP_L3_UNICAST_E \<Rightarrow>
          if gi_index i \<le> 0xFFFFFFF then (FPA_OK, 0x20000000 OR gi_index i) else (FPA_BAD_PARAM, 0))"

definition sim_group_add :: "bool \<Rightarrow> u32 \<Rightarrow> group_entry \<Rightarrow> sim fpa_call" where
  "sim_group_add full sid e s =
     (if full then (FPA_FULL, s)
      else if map_of (sim_groups s sid) (ge_groupIdentifier e) \<noteq> None then (FPA_ALREADY_EXIST, s)
      else (FPA_OK, s\<lparr>sim_groups := (sim_groups s)(sid :=
             (ge_groupIdentifier e, empty_group (ge_groupTypeSemantics e)) # sim_groups s sid)\<rparr>))"

definition sim_group_del :: "u32 \<Rightarrow> u32 \<Rightarrow> sim fpa_call" where
  "sim_group_del sid gid s =
     (if map_of (sim_groups s sid) gid \<noteq> None
      then (FPA_OK, s\<lparr>sim_groups := (sim_groups s)(sid := filter (\<lambda>g. fst g \<noteq> gid) (sim_groups s sid))\<rparr>)
      else (FPA_NOT_FOUND, s))"

definition sim_group_next :: "u32 \<Rightarrow> u32 \<Rightarrow> sim \<Rightarrow> fpa_status \<times> group_entry" where
  "sim_group_next sid gid s =
     (case sort (filter (\<lambda>g. gid < g) (map fst (sim_groups s sid))) of
        [] \<Rightarrow> (FPA_NO_MORE, \<lparr>ge_groupIdentifier = 0, ge_groupTypeSemantics = FPA_GROUP_INDIRECT\<rparr>)
      | g # _ \<Rightarrow> (FPA_OK, \<lparr>ge_groupIdentifier = g, ge_groupTypeSemantics = FPA_GROUP_INDIRECT\<rparr>))"

definition sim_group_get :: "u32 \<Rightarrow> u32 \<Rightarrow> sim \<Rightarrow> fpa_status \<times> group_entry" where
  "sim_group_get sid gid s =
     (case map_of (sim_groups s sid) gid of
        None \<Rightarrow> (FPA_NOT_FOUND, \<lparr>ge_groupIdentifier = 0, ge_groupTypeSemantics = FPA_GROUP_INDIRECT\<rparr>)
      | Some v \<Rightarrow> (FPA_OK, \<lparr>ge_groupIdentifier = gid, ge_groupTypeSemantics = gv_semantics v\<rparr>))"

definition sim_bucket_add :: "u32 \<Rightarrow> bucket \<Rightarrow> sim fpa_call" where
  "sim_bucket_add sid b s =
     (case map_of (sim_groups s sid) (bk_groupIdentifier b) of
        None \<Rightarrow> (FPA_NOT_FOUND, s)
      | Some v \<Rightarrow> (FPA_OK, s\<lparr>sim_groups := (sim_groups s)(sid :=
           (bk_groupIdentifier b, v\<lparr>gv_buckets := (gv_buckets v)(bk_index b \<mapsto> b)\<rparr>)
           # filter (\<lambda>g. fst g \<noteq> bk_groupIdentifier b) (sim_groups s sid))\<rparr>))"

definition sim_bucket_del :: "u32 \<Rightarrow> u32 \<Rightarrow> u32 \<Rightarrow> sim fpa_call" where
  "sim_bucket_del sid gid i s = (FPA_NOT_IMPLEMENTED, s)"

definition zero_bucket :: bucket where
  "zero_bucket = \<lparr>bk_groupIdentifier = 0, bk_index = 0, bk_data = L2_Interface 0 False\<rparr>"

definition sim_bucket_get :: "u32 \<Rightarrow> u32 \<Rightarrow> u32 \<Rightarrow> sim \<Rightarrow> fpa_status \<times> bucket" where
  "sim_bucket_get sid gid i s =
     (case map_of (sim_groups s sid) gid of
        None \<Rightarrow> (FPA_NOT_FOUND, zero_bucket)
      | Some v \<Rightarrow> (case gv_buckets v i of None \<Rightarrow> (FPA_NOT_FOUND, zero_bucket)
                   | Some b \<Rightarrow> (FPA_OK, b)))"

definition sim_lib :: "fpa_table set \<Rightarrow> bool \<Rightarrow> sim fpa_lib" where
  "sim_lib full gfull = \<lparr>status_code = (\<lambda>st. if st = FPA_OK then 0 else 1),
     FPA_OUTPUT_CONTROLLER = 0xFFFFFFFD, FPA_FLOW_VLAN_MASK_TAG = 0x1FFF,
     FPA_FLOW_VLAN_MASK_UNTAG = 0x0FFF, FPA_FLOW_VLAN_IGNORE_VAL = 0xFFFF,
     FPA_FLOW_TABLE_METADATA_MAC2ME_BIT = 1,
     fpaLibFlowEntryInit = (\<lambda>sid t. (FPA_OK, zero_flow t)),
     fpaLibFlowEntryAdd = sim_flow_add full,
     fpaLibFlowEntryDelete = (\<lambda>sid t f m. sim_flow_del sid t (fl_cookie f)),
     fpaLibFlowTableCookieDelete = sim_flow_del,
     fpaLibFlowTableDump = (\<lambda>sid t s. s),
     fpaLibFlowTableGetNext = sim_flow_next,
     fpaLibGroupIdentifierBuild = sim_group_id,
     fpaLibGroupTableEntryAdd = sim_group_add gfull,
     fpaLibGroupTableEntryDelete = sim_group_del,
     fpaLibGroupTableGetEntry = sim_group_get,
     fpaLibGroupTableGetNext = sim_group_next,
     fpaLibGroupEntryBucketAdd = sim_bucket_add,
     fpaLibGroupEntryBucketDelete = sim_bucket_del,
     fpaLibGroupEntryBucketGet = sim_bucket_get,
     fpaLibGroupEntryReferenceCount = (\<lambda>sid gid s. (FPA_OK, 1)),
     flows_of = (\<lambda>s sid t. set (sim_flows s sid t)),
     groups_of = (\<lambda>s sid. map_of (sim_groups s sid))\<rparr>"

lemma sim_lib_simps [simp]:
  "status_code (sim_lib full gfull) = (\<lambda>st. if st = FPA_OK then 0 else 1)"
  "FPA_OUTPUT_CONTROLLER (sim_lib full gfull) = 0xFFFFFFFD"
  "FPA_FLOW_VLAN_MASK_TAG (sim_lib full gfull) = 0x1FFF"
  "FPA_FLOW_VLAN_MASK_UNTAG (sim_lib full gfull) = 0x0FFF"
  "FPA_FLOW_VLAN_IGNORE_VAL (sim_lib full gfull) = 0xFFFF"
  "FPA_FLOW_TABLE_METADATA_MAC2ME_BIT (sim_lib full gfull) = 1"
  "fpaLibFlowEntryInit (sim_lib full gfull) = (\<lambda>sid t. (FPA_OK, zero_flow t))"
  "fpaLibFlowEntryAdd (sim_lib full gfull) = sim_flow_add full"
  "fpaLibFlowEntryDelete (sim_lib full gfull) = (\<lambda>sid t f m. sim_flow_del sid t (fl_cookie f))"
  "fpaLibFlowTableCookieDelete (sim_lib full gfull) = sim_flow_del"
  "fpaLibFlowTableDump (sim_lib full gfull) = (\<lambda>sid t s. s)"
  "fpaLibFlowTableGetNext (sim_lib full gfull) = sim_flow_next"
  "fpaLibGroupIdentifierBuild (sim_lib full gfull) = sim_group_id"
  "fpaLibGroupTableEntryAdd (sim_lib full gfull) = sim_group_add gfull"
  "fpaLibGroupTableEntryDelete (sim_lib full gfull) = sim_group_del"
  "fpaLibGroupTableGetEntry (sim_lib full gfull) = sim_group_get"
  "fpaLibGroupTableGetNext (sim_lib full gfull) = sim_group_next"
  "fpaLibGroupEntryBucketAdd (sim_lib full gfull) = sim_bucket_add"
  "fpaLibGroupEntryBucketDelete (sim_lib full gfull) = sim_bucket_del"
  "fpaLibGroupEntryBucketGet (sim_lib full gfull) = sim_bucket_get"
  "fpaLibGroupEntryReferenceCount (sim_lib full gfull) = (\<lambda>sid gid s. (FPA_OK, 1))"
  "flows_of (sim_lib full gfull) = (\<lambda>s sid t. set (sim_flows s sid t))"
  "groups_of (sim_lib full gfull) = (\<lambda>s sid. map_of (sim_groups s sid))"
  by (simp_all add: sim_lib_def)

lemmas sim_defs = sim_flow_add_def sim_flow_del_def sim_flow_next_def sim_group_id_def
  sim_group_add_def sim_group_del_def sim_group_next_def sim_group_get_def sim_bucket_add_def
  sim_bucket_del_def sim_bucket_get_def

lemma map_of_filter_key: "map_of (filter (\<lambda>g. fst g \<noteq> k) xs) = (map_of xs)(k := None)"
  by (induction xs) (auto simp: fun_eq_iff)

lemma sim_flow_laws: "flow_laws (sim_lib full gfull)"
  by (auto simp: flow_laws_def sim_lib_def sim_flow_add_def sim_flow_del_def insert_flow_def
      delete_cookie_def fun_eq_iff split: if_splits)

lemma sim_group_laws: "group_laws (sim_lib full gfull)"
  by (auto simp: group_laws_def sim_lib_def sim_group_add_def sim_group_del_def sim_group_get_def
      sim_bucket_add_def sim_bucket_get_def insert_bucket_def set_group_def map_of_filter_key
      split: if_splits option.splits)

lemma sim_lib_ok [simp]: "fpa_lib_ok (sim_lib full gfull)"
  using sim_flow_laws sim_group_laws by (simp add: fpa_lib_ok_def status_laws_def sim_lib_def)

end
