(* ===== verification/Fpa_Route.thy ===== *)
theory Fpa_Route
  imports Fpa_Sim
begin

text \<open>
  \<open>src/ops-fpa-route.c\<close>: L2 interface groups, L3 unicast groups and IPv4 routes. The functions
  take the hardware state and return it; the result code is first, then the group identifier the
  function stores through its pointer argument. A route is keyed by a cookie of address and mask
  length. The netmask of a route is computed by a shift that C does not define when the mask
  length is outside 1 to 32; the functions that do it can therefore end in \<open>Undefined_Shift\<close>.
\<close>

section \<open>Definitions\<close>

definition OPS_FPA_ROUTE_IPV4_COOKIE :: "u32 \<Rightarrow> int \<Rightarrow> u64" where
  "OPS_FPA_ROUTE_IPV4_COOKIE ipv4 mask_len = push_bit 8 (ucast ipv4) OR (0xFF AND word_of_int mask_len)"

definition l2_ident :: "u32 \<Rightarrow> u32 \<Rightarrow> group_ident" where
  "l2_ident pid vid =
     \<lparr>gi_groupType = FPA_GROUP_L2_INTERFACE_E, gi_portNum = pid, gi_vlanId = vid, gi_index = 0\<rparr>"

definition l3_ident :: "u32 \<Rightarrow> group_ident" where
  "l3_ident arp_index =
     \<lparr>gi_groupType = FPA_GROUP_L3_UNICAST_E, gi_portNum = 0, gi_vlanId = 0, gi_index = arp_index\<rparr>"

definition l2_bucket :: "u32 \<Rightarrow> u32 \<Rightarrow> bool \<Rightarrow> bucket" where
  "l2_bucket grp pid pop_tag =
     \<lparr>bk_groupIdentifier = grp, bk_index = 0, bk_data = L2_Interface pid pop_tag\<rparr>"

definition l3_bucket :: "u32 \<Rightarrow> eth_addr \<Rightarrow> eth_addr \<Rightarrow> u32 \<Rightarrow> u32 \<Rightarrow> u32 \<Rightarrow> bucket" where
  "l3_bucket l3_group dst_mac src_mac vid mtu l2_group =
     \<lparr>bk_groupIdentifier = l3_group, bk_index = 0,
      bk_data = L3_Unicast_Bucket dst_mac src_mac vid mtu l2_group\<rparr>"

definition ops_fpa_route_add_l2_group ::
  "'hw fpa_lib \<Rightarrow> u32 \<Rightarrow> u32 \<Rightarrow> u32 \<Rightarrow> bool \<Rightarrow> 'hw \<Rightarrow> int \<times> u32 \<times> 'hw" where
  "ops_fpa_route_add_l2_group lib sid pid vid pop_tag hw =
     (let (err, grp) = fpaLibGroupIdentifierBuild lib (l2_ident pid vid) in
      if err \<noteq> FPA_OK then (1, grp, hw) else
      let (err, hw) = fpaLibGroupTableEntryAdd lib sid
            \<lparr>ge_groupIdentifier = grp, ge_groupTypeSemantics = FPA_GROUP_INDIRECT\<rparr> hw in
      if err \<noteq> FPA_OK then (1, grp, hw) else
      let (err, hw) = fpaLibGroupEntryBucketAdd lib sid (l2_bucket grp pid pop_tag) hw in
      if err \<noteq> FPA_OK then
        (let (err, hw) = fpaLibGroupTableEntryDelete lib sid grp hw in (1, grp, hw))
      else (0, grp, hw))"

definition ops_fpa_route_add_l3_group ::
  "'hw fpa_lib \<Rightarrow> u32 \<Rightarrow> u32 \<Rightarrow> u32 \<Rightarrow> u32 \<Rightarrow> u32 \<Rightarrow> eth_addr \<Rightarrow> eth_addr \<Rightarrow> 'hw \<Rightarrow> int \<times> u32 \<times> 'hw" where
  "ops_fpa_route_add_l3_group lib sid l2_group arp_index vid mtu src_mac dst_mac hw =
     (let (err, l3_group) = fpaLibGroupIdentifierBuild lib (l3_ident arp_index) in
      if err \<noteq> FPA_OK then (1, l3_group, hw) else
      if fst (fpaLibGroupTableGetEntry lib sid l3_group hw) = FPA_OK then (1, l3_group, hw) else
      let (err, hw) = wrap_fpaLibGroupTableEntryAdd lib sid
            \<lparr>ge_groupIdentifier = l3_group, ge_groupTypeSemantics = FPA_GROUP_INDIRECT\<rparr> hw in
      if err \<noteq> FPA_OK then (1, l3_group, hw) else
      let (err, hw) = wrap_fpaLibGroupEntryBucketAdd lib sid
            (l3_bucket l3_group dst_mac src_mac vid mtu l2_group) hw in
      if err \<noteq> FPA_OK then
        (let (err, hw) = wrap_fpaLibGroupTableEntryDelete lib sid l3_group hw in (1, 0, hw))
      else (0, l3_group, hw))"

text \<open>\<open>0xffffffff >> (32 - mask_len)\<close>.\<close>

definition route_netmask :: "int \<Rightarrow> crash + u32" where
  "route_netmask mask_len =
     (if 0 \<le> 32 - mask_len \<and> 32 - mask_len < 32 then Inr (drop_bit (nat (32 - mask_len)) 0xFFFFFFFF)
      else Inl Undefined_Shift)"

definition route_flow :: "fpa_flow \<Rightarrow> u32 \<Rightarrow> u32 \<Rightarrow> u32 \<Rightarrow> int \<Rightarrow> u32 \<Rightarrow> fpa_flow" where
  "route_flow entry grp port ipv4 mask_len netmask =
     entry\<lparr>fl_cookie := OPS_FPA_ROUTE_IPV4_COOKIE ipv4 mask_len,
       fl_l3_unicast := (fl_l3_unicast entry)\<lparr>l3_groupId := grp, l3_etherType := 0x800,
         l3_outputPort := port, l3_dstIp4 := ipv4, l3_dstIp4Mask := netmask\<rparr>\<rparr>"

definition ops_fpa_route_add_route ::
  "'hw fpa_lib \<Rightarrow> u32 \<Rightarrow> u32 \<Rightarrow> u32 \<Rightarrow> int \<Rightarrow> 'hw \<Rightarrow> crash + int \<times> 'hw" where
  "ops_fpa_route_add_route lib sid l3_group ipv4 mask_len hw =
     (let (err, entry) = fpaLibFlowEntryInit lib sid FPA_FLOW_TABLE_TYPE_L3_UNICAST_E in
      if err \<noteq> FPA_OK then Inr (1, hw) else
      case route_netmask mask_len of Inl c \<Rightarrow> Inl c
      | Inr netmask \<Rightarrow>
        let (err, hw) = wrap_fpaLibFlowEntryAdd lib sid FPA_FLOW_TABLE_TYPE_L3_UNICAST_E
              (route_flow entry l3_group 0 ipv4 mask_len netmask) hw
        in Inr (status_code lib err, hw))"

definition ops_fpa_route_add_route_trap ::
  "'hw fpa_lib \<Rightarrow> u32 \<Rightarrow> u32 \<Rightarrow> int \<Rightarrow> 'hw \<Rightarrow> crash + int \<times> 'hw" where
  "ops_fpa_route_add_route_trap lib sid ipv4 mask_len hw =
     (let (err, entry) = fpaLibFlowEntryInit lib sid FPA_FLOW_TABLE_TYPE_L3_UNICAST_E in
      if err \<noteq> FPA_OK then Inr (1, hw) else
      case route_netmask mask_len of Inl c \<Rightarrow> Inl c
      | Inr netmask \<Rightarrow>
        let (err, hw) = wrap_fpaLibFlowEntryAdd lib sid FPA_FLOW_TABLE_TYPE_L3_UNICAST_E
              (route_flow entry 0xFFFFFFFF (FPA_OUTPUT_CONTROLLER lib) ipv4 mask_len netmask) hw
        in Inr (status_code lib err, hw))"

definition ops_fpa_route_del_route ::
  "'hw fpa_lib \<Rightarrow> u32 \<Rightarrow> u32 \<Rightarrow> int \<Rightarrow> 'hw \<Rightarrow> int \<times> 'hw" where
  "ops_fpa_route_del_route lib sid ipv4 mask_len hw =
     (let (err, hw) = wrap_fpaLibFlowTableCookieDelete lib sid FPA_FLOW_TABLE_TYPE_L3_UNICAST_E
            (OPS_FPA_ROUTE_IPV4_COOKIE ipv4 mask_len) hw
      in (if err \<noteq> FPA_OK then 1 else 0, hw))"

definition ops_fpa_route_del_group :: "'hw fpa_lib \<Rightarrow> u32 \<Rightarrow> u32 \<Rightarrow> 'hw \<Rightarrow> int \<times> 'hw" where
  "ops_fpa_route_del_group lib sid grp hw =
     (let (err, hw) = wrap_fpaLibGroupTableEntryDelete lib sid grp hw
      in (if err \<noteq> FPA_OK then 1 else 0, hw))"

section \<open>Cookies and netmasks\<close>

lemma byte_mask_64: "(0xFF :: u64) = mask 8"
  by (simp add: mask_eq_exp_minus_1)

lemma cookie_len:
  "take_bit 8 (OPS_FPA_ROUTE_IPV4_COOKIE ip m) = take_bit 8 (word_of_int m :: u64)"
  by (rule bit_word_eqI) (auto simp: OPS_FPA_ROUTE_IPV4_COOKIE_def byte_mask_64 bit_simps)

lemma cookie_ip: "ucast (drop_bit 8 (OPS_FPA_ROUTE_IPV4_COOKIE ip m)) = ip"
  by (rule bit_word_eqI)
    (auto simp: OPS_FPA_ROUTE_IPV4_COOKIE_def byte_mask_64 bit_simps)

lemma uint_len_byte:
  assumes "0 \<le> m" and "m < 256"
  shows "uint (take_bit 8 (word_of_int m :: u64)) = m"
proof -
  have "uint (take_bit 8 (word_of_int m :: u64)) = take_bit 8 (take_bit 64 m)"
    by (simp only: unsigned_take_bit_eq uint_word_of_int_eq) simp
  also have "\<dots> = m"
    using assms by (simp add: take_bit_eq_mod)
  finally show ?thesis .
qed

lemma route_cookie_eq_iff:
  assumes "0 \<le> m" and "m \<le> 32" and "0 \<le> m'" and "m' \<le> 32"
  shows "OPS_FPA_ROUTE_IPV4_COOKIE ip m = OPS_FPA_ROUTE_IPV4_COOKIE ip' m' \<longleftrightarrow> ip = ip' \<and> m = m'"
proof
  assume eq: "OPS_FPA_ROUTE_IPV4_COOKIE ip m = OPS_FPA_ROUTE_IPV4_COOKIE ip' m'"
  have "ip = ip'"
    using cookie_ip [of ip m] cookie_ip [of ip' m'] eq by simp
  moreover have "uint (take_bit 8 (word_of_int m :: u64)) = uint (take_bit 8 (word_of_int m' :: u64))"
    using cookie_len [of ip m] cookie_len [of ip' m'] eq by simp
  then have "m = m'"
    using assms by (simp only: uint_len_byte)
  ultimately show "ip = ip' \<and> m = m'" ..
qed simp

text \<open>Within the mask lengths IPv4 has, two routes have the same cookie only if they have
  the same address and the same mask length: deleting a route by its cookie never removes
  another route.\<close>

lemma route_cookie_inject:
  assumes "0 \<le> m" and "m \<le> 32" and "0 \<le> m'" and "m' \<le> 32"
  shows "OPS_FPA_ROUTE_IPV4_COOKIE ip m = OPS_FPA_ROUTE_IPV4_COOKIE ip' m' \<longleftrightarrow> ip = ip' \<and> m = m'"
  by (rule route_cookie_eq_iff [OF assms])

lemma bit_route_netmask:
  "route_netmask (int p) = Inr w \<Longrightarrow> bit w k \<longleftrightarrow> k < p"
proof -
  assume "route_netmask (int p) = Inr w"
  then have p: "1 \<le> p" "p \<le> 32" and w: "w = drop_bit (32 - p) 0xFFFFFFFF"
    by (auto simp: route_netmask_def nat_diff_distrib split: if_splits)
  have ones: "bit (mask 32 :: u32) i \<longleftrightarrow> i < 32" for i
    by (simp only: bit_mask_iff) simp
  have m: "w = drop_bit (32 - p) (mask 32)" using w by (simp add: mask_eq_exp_minus_1)
  show ?thesis unfolding m by (simp only: bit_drop_bit_eq ones comp_apply) (use p in auto)
qed

lemma bit_prefix_mask_network:
  "p \<le> 32 \<Longrightarrow> q < 4 \<Longrightarrow> r < 8 \<Longrightarrow>
    bit (htonl (prefix_mask_loop p 0)) (8 * q + r) \<longleftrightarrow> 8 * q + 8 \<le> p + r"
  by (auto simp: bit_htonl_byte prefix_mask_bit)

text \<open>(C40) The netmask a route gets is the netmask of its prefix length, in network order, exactly
  when the length is a multiple of eight. For every other length (10.1.16.0/20, say) the bits of
  the last byte of the mask are at the wrong end.\<close>

theorem route_netmask_correct_iff:
  assumes "1 \<le> p" and "p \<le> 32"
  shows "\<exists>w v. route_netmask (int p) = Inr w \<and> ops_fpa_prefix_len_to_ip4mask p = Some v
           \<and> (w = htonl v \<longleftrightarrow> 8 dvd p)"
proof -
  obtain w where w: "route_netmask (int p) = Inr w"
    using assms by (auto simp: route_netmask_def)
  let ?v = "prefix_mask_loop p 0"
  have "w = htonl ?v \<longleftrightarrow> 8 dvd p"
  proof
    assume "w = htonl ?v"
    then have *: "8 * q + r < p \<longleftrightarrow> 8 * q + 8 \<le> p + r" if "q < 4" "r < 8" for q r
      using bit_route_netmask [OF w] bit_prefix_mask_network [OF assms(2) that] by simp
    show "8 dvd p"
    proof (rule ccontr)
      assume "\<not> 8 dvd p"
      then have "p div 8 < 4" and "8 * (p div 8) < p" using assms(2) by presburger+
      with * [of "p div 8" 0] show False by simp
    qed
  next
    assume "8 dvd p"
    then obtain a where a: "p = 8 * a" by blast
    show "w = htonl ?v"
    proof (rule word32_byte_eqI)
      fix q r :: nat assume "q < 4" "r < 8"
      moreover have "8 * q + r < 8 * a \<longleftrightarrow> 8 * q + 8 \<le> 8 * a + r"
        using \<open>r < 8\<close> by presburger
      ultimately show "bit w (8 * q + r) \<longleftrightarrow> bit (htonl ?v) (8 * q + r)"
        using assms(2) a by (simp add: bit_route_netmask [OF w] bit_prefix_mask_network)
    qed
  qed
  with w assms(2) show ?thesis by (auto simp: ops_fpa_prefix_len_to_ip4mask_def)
qed

theorem route_netmask_correct_iff_witness:
  "(1::nat) \<le> 20 \<and> (20::nat) \<le> 32 \<and>
   (\<exists>w v. route_netmask 20 = Inr w \<and> ops_fpa_prefix_len_to_ip4mask 20 = Some v \<and> w \<noteq> htonl v)"
  using route_netmask_correct_iff [of 20] by auto

section \<open>Groups\<close>

lemma l2_bucket_simps [simp]:
  "bk_groupIdentifier (l2_bucket gid pid pop_tag) = gid" "bk_index (l2_bucket gid pid pop_tag) = 0"
  by (simp_all add: l2_bucket_def)

lemma l3_bucket_simps [simp]:
  "bk_groupIdentifier (l3_bucket gid d s vid mtu l2) = gid" "bk_index (l3_bucket gid d s vid mtu l2) = 0"
  by (simp_all add: l3_bucket_def)

text \<open>
  Creating a group and its only bucket, with the deletion of the group when the bucket is refused:
  the sequence that both kinds of group share, once for the group interface. A group that did not
  exist is either there afterwards with that bucket, or not there at all.
\<close>

context group_tables
begin

lemma create_atomic:
  assumes ok: "ok l" and new: "groups l hw sid gid = None"
    and free: "\<not> group_in_use (flows l hw) (groups l hw) sid gid"
    and b: "bk_groupIdentifier b = gid"
    and a: "gadd l sid \<lparr>ge_groupIdentifier = gid, ge_groupTypeSemantics = sem\<rparr> hw = (e1, hw1)"
    and ba: "badd l sid b hw1 = (e2, hw2)" and d: "gdel l sid gid hw2 = (e3, hw3)"
  shows "e1 \<noteq> FPA_OK \<Longrightarrow> groups l hw1 = groups l hw"
    and "e1 = FPA_OK \<Longrightarrow> e2 = FPA_OK \<Longrightarrow> groups l hw2 =
      set_group sid gid (Some \<lparr>gv_semantics = sem, gv_buckets = [bk_index b \<mapsto> b]\<rparr>) (groups l hw)"
    and "e1 = FPA_OK \<Longrightarrow> e2 \<noteq> FPA_OK \<Longrightarrow> groups l hw3 = groups l hw"
    and "flows l hw1 = flows l hw" and "flows l hw2 = flows l hw" and "flows l hw3 = flows l hw"
proof -
  show f1: "flows l hw1 = flows l hw" using gadd_flows [OF ok a] .
  show f2: "flows l hw2 = flows l hw" using badd_flows [OF ok ba] f1 by simp
  show "flows l hw3 = flows l hw" using gdel_flows [OF ok d] f2 by simp
  show "groups l hw1 = groups l hw" if "e1 \<noteq> FPA_OK" using gadd_fail [OF ok a that] .
  have g1: "groups l hw1 = set_group sid gid (Some (empty_group sem)) (groups l hw)" if "e1 = FPA_OK"
    using gadd_new [OF ok a [unfolded that]] new by simp
  show "groups l hw2 =
      set_group sid gid (Some \<lparr>gv_semantics = sem, gv_buckets = [bk_index b \<mapsto> b]\<rparr>) (groups l hw)"
    if "e1 = FPA_OK" "e2 = FPA_OK"
    using badd_groups [OF ok ba] g1 insert_bucket_fresh [OF b] that by simp
  assume e: "e1 = FPA_OK" "e2 \<noteq> FPA_OK"
  then have g2: "groups l hw2 = set_group sid gid (Some (empty_group sem)) (groups l hw)"
    using badd_groups [OF ok ba] g1 by simp
  have "\<not> group_in_use (flows l hw2) (groups l hw2) sid gid"
    using free group_in_use_empty [of "flows l hw" sid gid sem "groups l hw" gid] g2 f2 by auto
  then show "groups l hw3 = groups l hw"
    using gdel_effect(2) [OF ok _ _ d] g2 new by (simp add: set_group_id)
qed

end

lemma add_l2_group_effect:
  assumes "fpa_lib_ok lib" and "fpaLibGroupIdentifierBuild lib (l2_ident pid vid) = (FPA_OK, gid)"
    and "groups_of lib hw sid gid = None"
    and "\<not> group_in_use (flows_of lib hw) (groups_of lib hw) sid gid"
    and "ops_fpa_route_add_l2_group lib sid pid vid pop_tag hw = (ret, g, hw')"
  shows "g = gid \<and> flows_of lib hw' = flows_of lib hw \<and>
    (ret = 0 \<and> groups_of lib hw' = set_group sid gid (Some \<lparr>gv_semantics = FPA_GROUP_INDIRECT,
        gv_buckets = [0 \<mapsto> l2_bucket gid pid pop_tag]\<rparr>) (groups_of lib hw)
     \<or> ret = 1 \<and> groups_of lib hw' = groups_of lib hw)"
proof -
  obtain e1 hw1 e2 hw2 e3 hw3 where
    a: "fpaLibGroupTableEntryAdd lib sid
      \<lparr>ge_groupIdentifier = gid, ge_groupTypeSemantics = FPA_GROUP_INDIRECT\<rparr> hw = (e1, hw1)"
    and b: "fpaLibGroupEntryBucketAdd lib sid (l2_bucket gid pid pop_tag) hw1 = (e2, hw2)"
    and d: "fpaLibGroupTableEntryDelete lib sid gid hw2 = (e3, hw3)"
    by (meson surj_pair)
  note at = graw.create_atomic [OF assms(1) assms(3) assms(4) _ a b d]
  show ?thesis
    using assms(5) at
    by (simp add: ops_fpa_route_add_l2_group_def assms(2) a b d split: if_splits)
qed

lemma add_l3_group_effect:
  assumes "fpa_lib_ok lib" and "fpaLibGroupIdentifierBuild lib (l3_ident arp_index) = (FPA_OK, gid)"
    and "\<not> group_in_use (flows_of lib hw) (groups_of lib hw) sid gid"
    and "ops_fpa_route_add_l3_group lib sid l2_group arp_index vid mtu src_mac dst_mac hw = (ret, g, hw')"
  shows "flows_of lib hw' = flows_of lib hw \<and>
    (ret = 0 \<and> g = gid \<and> groups_of lib hw sid gid = None \<and>
       groups_of lib hw' = set_group sid gid (Some \<lparr>gv_semantics = FPA_GROUP_INDIRECT,
        gv_buckets = [0 \<mapsto> l3_bucket gid dst_mac src_mac vid mtu l2_group]\<rparr>) (groups_of lib hw)
     \<or> ret = 1 \<and> groups_of lib hw' = groups_of lib hw)"
proof (cases "groups_of lib hw sid gid")
  case None
  then have "fst (fpaLibGroupTableGetEntry lib sid gid hw) \<noteq> FPA_OK"
    using group_get_iff [OF assms(1)] by simp
  moreover obtain e1 hw1 e2 hw2 e3 hw3 where
    a: "wrap_fpaLibGroupTableEntryAdd lib sid
      \<lparr>ge_groupIdentifier = gid, ge_groupTypeSemantics = FPA_GROUP_INDIRECT\<rparr> hw = (e1, hw1)"
    and b: "wrap_fpaLibGroupEntryBucketAdd lib sid (l3_bucket gid dst_mac src_mac vid mtu l2_group) hw1 = (e2, hw2)"
    and d: "wrap_fpaLibGroupTableEntryDelete lib sid gid hw2 = (e3, hw3)"
    by (meson surj_pair)
  note at = gwrapped.create_atomic [OF assms(1) None assms(3) _ a b d]
  ultimately show ?thesis
    using assms(4) at
    by (simp add: ops_fpa_route_add_l3_group_def assms(2) None a b d split: if_splits)
next
  case (Some v)
  then have "fst (fpaLibGroupTableGetEntry lib sid gid hw) = FPA_OK"
    using group_get_iff [OF assms(1)] by simp
  then show ?thesis
    using assms(4) by (simp add: ops_fpa_route_add_l3_group_def assms(2))
qed

text \<open>Creating the L3 unicast group of an ARP index is all or nothing in the same way; an index
  whose group already exists is refused without touching it.\<close>

lemma add_l3_group_atomic:
  assumes "fpa_lib_ok lib" and "fpaLibGroupIdentifierBuild lib (l3_ident arp_index) = (FPA_OK, gid)"
    and "\<not> group_in_use (flows_of lib hw) (groups_of lib hw) sid gid"
    and "ops_fpa_route_add_l3_group lib sid l2_group arp_index vid mtu src_mac dst_mac hw = (ret, g, hw')"
  shows "flows_of lib hw' = flows_of lib hw \<and>
    (ret = 0 \<and> g = gid \<and> groups_of lib hw sid gid = None \<and>
       groups_of lib hw' = set_group sid gid (Some \<lparr>gv_semantics = FPA_GROUP_INDIRECT,
        gv_buckets = [0 \<mapsto> l3_bucket gid dst_mac src_mac vid mtu l2_group]\<rparr>) (groups_of lib hw)
     \<or> ret = 1 \<and> groups_of lib hw' = groups_of lib hw)"
  by (rule add_l3_group_effect [OF assms])

section \<open>Routes\<close>

lemma cookie_route_flow [simp]:
  "fl_cookie (route_flow entry grp port ip m nm) = OPS_FPA_ROUTE_IPV4_COOKIE ip m"
  by (simp add: route_flow_def)

lemma add_routeD:
  assumes "fpa_lib_ok lib" and "ops_fpa_route_add_route lib sid l3_group ip m hw = Inr (0, hw')"
  obtains entry nm where "fpaLibFlowEntryInit lib sid FPA_FLOW_TABLE_TYPE_L3_UNICAST_E = (FPA_OK, entry)"
    and "route_netmask m = Inr nm"
    and "flows_of lib hw' = insert_flow sid FPA_FLOW_TABLE_TYPE_L3_UNICAST_E
      (route_flow entry l3_group 0 ip m nm) (flows_of lib hw)"
    and "groups_of lib hw' = groups_of lib hw"
  using assms(2) wrapped.add_flows [OF assms(1)] wrapped.add_groups [OF assms(1)] assms(1)
  by (force simp: ops_fpa_route_add_route_def split: prod.splits if_splits sum.splits)

lemma route_add_del:
  assumes ok: "fpa_lib_ok lib"
    and add: "ops_fpa_route_add_route lib sid l3_group ip m hw = Inr (0, hw1)"
    and new: "\<forall>f \<in> flows_of lib hw sid FPA_FLOW_TABLE_TYPE_L3_UNICAST_E.
      fl_cookie f \<noteq> OPS_FPA_ROUTE_IPV4_COOKIE ip m"
    and del: "ops_fpa_route_del_route lib sid ip m hw1 = (ret, hw2)"
  shows "ret = 0 \<and> flows_of lib hw2 = flows_of lib hw \<and> groups_of lib hw2 = groups_of lib hw"
proof -
  obtain entry nm where f: "flows_of lib hw1 = insert_flow sid FPA_FLOW_TABLE_TYPE_L3_UNICAST_E
      (route_flow entry l3_group 0 ip m nm) (flows_of lib hw)"
    and g: "groups_of lib hw1 = groups_of lib hw"
    using add_routeD [OF ok add] by metis
  obtain err where d: "wrap_fpaLibFlowTableCookieDelete lib sid FPA_FLOW_TABLE_TYPE_L3_UNICAST_E
      (OPS_FPA_ROUTE_IPV4_COOKIE ip m) hw1 = (err, hw2)" and ret: "ret = (if err \<noteq> FPA_OK then 1 else 0)"
    using del by (auto simp: ops_fpa_route_del_route_def split: prod.splits)
  have mem: "route_flow entry l3_group 0 ip m nm \<in> flows_of lib hw1 sid FPA_FLOW_TABLE_TYPE_L3_UNICAST_E"
    by (simp add: f insert_flow_def)
  note eff = wrapped.del_effect [OF ok mem cookie_route_flow d]
  show ?thesis
    using eff ret wrapped.del_groups [OF ok d] g f new by (simp add: delete_insert_flow)
qed

text \<open>Deleting a route that was added successfully succeeds and restores the switch: no route
  flow is left behind and no other flow or group is touched, as long as the route was not there
  before.\<close>

lemma route_add_del_roundtrip:
  assumes ok: "fpa_lib_ok lib"
    and add: "ops_fpa_route_add_route lib sid l3_group ip m hw = Inr (0, hw1)"
    and new: "\<forall>f \<in> flows_of lib hw sid FPA_FLOW_TABLE_TYPE_L3_UNICAST_E.
      fl_cookie f \<noteq> OPS_FPA_ROUTE_IPV4_COOKIE ip m"
    and del: "ops_fpa_route_del_route lib sid ip m hw1 = (ret, hw2)"
  shows "ret = 0 \<and> flows_of lib hw2 = flows_of lib hw \<and> groups_of lib hw2 = groups_of lib hw"
  using assms by (rule route_add_del)

text \<open>Adding a route computes a shift that C leaves undefined exactly when the mask length is
  not between 1 and 32: the default route, of length 0, is such a case.\<close>

lemma add_route_undefined_iff:
  "ops_fpa_route_add_route lib sid l3_group ip m hw = Inl c \<longleftrightarrow>
     fst (fpaLibFlowEntryInit lib sid FPA_FLOW_TABLE_TYPE_L3_UNICAST_E) = FPA_OK
     \<and> (m < 1 \<or> 32 < m) \<and> c = Undefined_Shift"
  by (auto simp: ops_fpa_route_add_route_def route_netmask_def split: prod.splits if_splits)

end
