(* ===== verification/Fpa_Vlan.thy ===== *)
theory Fpa_Vlan
  imports Fpa_Route
begin

text \<open>
  \<open>src/ops-fpa-vlan.c\<close> and the VIDX codec of \<open>include/ops-fpa-vlan.h\<close>: the VLAN membership of a
  port, as a bitmap over 14-bit extended VLAN numbers (VIDX), read from and written to the VLAN
  flow table (ingress) and the L2 interface groups (egress); and the bitmap of the VLAN numbers
  that the plugin uses internally for routed ports.

  The two loops of \<open>ops_fpa_vlan_fetch\<close> end when the library says so. They are partial functions
  whose result is \<open>None\<close> when they run forever; that they do return is part of what is proved of
  them. The bitmap has 2^14 bits in the code and no bound in the model.
\<close>

section \<open>Definitions\<close>

abbreviation (input) OPS_FPA_VMAP_BITS :: nat where
  "OPS_FPA_VMAP_BITS \<equiv> 2 ^ 14"

definition OPS_FPA_VIDX_INGRESS :: "u32 \<Rightarrow> bool \<Rightarrow> u32" where
  "OPS_FPA_VIDX_INGRESS vid tagged = push_bit 13 0 OR push_bit 12 (of_bool tagged) OR vid"

definition OPS_FPA_VIDX_EGRESS :: "u32 \<Rightarrow> bool \<Rightarrow> u32" where
  "OPS_FPA_VIDX_EGRESS vid poptag = push_bit 13 1 OR push_bit 12 (of_bool poptag) OR vid"

definition OPS_FPA_VIDX_VID :: "u32 \<Rightarrow> u32" where
  "OPS_FPA_VIDX_VID vidx = vidx AND (push_bit 12 1 - 1)"

definition OPS_FPA_VIDX_IS_EGRESS :: "u32 \<Rightarrow> bool" where
  "OPS_FPA_VIDX_IS_EGRESS vidx \<longleftrightarrow> vidx AND push_bit 13 1 \<noteq> 0"

definition OPS_FPA_VIDX_ARG :: "u32 \<Rightarrow> bool" where
  "OPS_FPA_VIDX_ARG vidx \<longleftrightarrow> vidx AND push_bit 12 1 \<noteq> 0"

text \<open>\<open>pid\<close> is an \<open>int\<close>: it is sign-extended when it meets the 64-bit operand.\<close>

definition OPS_FPA_VLAN_COOKIE :: "u32 \<Rightarrow> u32 \<Rightarrow> bool \<Rightarrow> u64" where
  "OPS_FPA_VLAN_COOKIE pid vid tagged =
     (if tagged then push_bit 32 (scast vid) OR scast pid else scast pid)"

definition OPS_FPA_GID_VLAN :: "u32 \<Rightarrow> u32" where
  "OPS_FPA_GID_VLAN gid = drop_bit 16 (gid AND 0x0FFF0000)"

definition OPS_FPA_GID_PORT :: "u32 \<Rightarrow> u32" where
  "OPS_FPA_GID_PORT gid = drop_bit 0 (gid AND 0x0000FFFF)"

partial_function (option) fetch_ingress ::
  "'hw fpa_lib \<Rightarrow> u32 \<Rightarrow> u32 \<Rightarrow> 'hw \<Rightarrow> u32 \<Rightarrow> bitmap \<Rightarrow> bitmap option" where
  "fetch_ingress lib sid pid hw i vmap =
     (let (err, flow) = fpaLibFlowTableGetNext lib sid FPA_FLOW_TABLE_TYPE_VLAN_E i hw in
      if err \<noteq> FPA_OK then Some vmap
      else if pid = vl_inPort (fl_vlan flow) then
        (let vid = vl_vlanId (fl_vlan flow);
             tagged = (vl_vlanIdMask (fl_vlan flow) = FPA_FLOW_VLAN_MASK_TAG lib)
         in fetch_ingress lib sid pid hw (i + 1) (bitmap_set1 vmap (unat (OPS_FPA_VIDX_INGRESS vid tagged))))
      else fetch_ingress lib sid pid hw (i + 1) vmap)"

text \<open>
  The bucket is read through the union member of an L2 interface, whatever its type is; for
  another kind of bucket the model takes the flag to be false.
\<close>

definition bucket_pop :: "bucket \<Rightarrow> bool" where
  "bucket_pop b = (case bk_data b of L2_Interface _ pop_tag \<Rightarrow> pop_tag | _ \<Rightarrow> False)"

partial_function (option) fetch_egress ::
  "'hw fpa_lib \<Rightarrow> u32 \<Rightarrow> u32 \<Rightarrow> 'hw \<Rightarrow> u32 \<Rightarrow> bitmap \<Rightarrow> bitmap option" where
  "fetch_egress lib sid pid hw gid vmap =
     (let (err, entry) = fpaLibGroupTableGetNext lib sid gid hw in
      if err \<noteq> FPA_OK then Some vmap
      else if pid = OPS_FPA_GID_PORT (ge_groupIdentifier entry) then
        (let (err, bucket) = fpaLibGroupEntryBucketGet lib sid (ge_groupIdentifier entry) 0 hw in
         if err \<noteq> FPA_OK then fetch_egress lib sid pid hw (ge_groupIdentifier entry) vmap
         else
           let vid = OPS_FPA_GID_VLAN (ge_groupIdentifier entry)
           in fetch_egress lib sid pid hw (ge_groupIdentifier entry)
                (bitmap_set1 vmap (unat (OPS_FPA_VIDX_EGRESS vid (bucket_pop bucket)))))
      else fetch_egress lib sid pid hw (ge_groupIdentifier entry) vmap)"

definition ops_fpa_vlan_fetch :: "'hw fpa_lib \<Rightarrow> u32 \<Rightarrow> u32 \<Rightarrow> 'hw \<Rightarrow> bitmap option" where
  "ops_fpa_vlan_fetch lib sid pid hw =
     (case fetch_ingress lib sid pid hw 1 bitmap_zero of
        None \<Rightarrow> None
      | Some vmap \<Rightarrow> fetch_egress lib sid pid hw 0 vmap)"

definition vlan_flow :: "'hw fpa_lib \<Rightarrow> fpa_flow \<Rightarrow> u32 \<Rightarrow> u32 \<Rightarrow> bool \<Rightarrow> fpa_flow" where
  "vlan_flow lib flow pid vid match_tagged =
     flow\<lparr>fl_cookie := OPS_FPA_VLAN_COOKIE pid vid match_tagged,
       fl_vlan := (fl_vlan flow)\<lparr>vl_inPort := pid, vl_vlanId := vid,
         vl_vlanIdMask := (if match_tagged then FPA_FLOW_VLAN_MASK_TAG lib else FPA_FLOW_VLAN_MASK_UNTAG lib),
         vl_newTagVid := (if match_tagged then FPA_FLOW_VLAN_IGNORE_VAL lib else vid),
         vl_newTagPcp := FPA_FLOW_VLAN_IGNORE_VAL lib\<rparr>\<rparr>"

definition ops_fpa_vlan_add :: "'hw fpa_lib \<Rightarrow> u32 \<Rightarrow> u32 \<Rightarrow> u32 \<Rightarrow> 'hw \<Rightarrow> int \<times> 'hw" where
  "ops_fpa_vlan_add lib sid pid vidx hw =
     (let vid = OPS_FPA_VIDX_VID vidx in
      if OPS_FPA_VIDX_IS_EGRESS vidx then
        (let (ret, dummy, hw) = ops_fpa_route_add_l2_group lib sid pid vid (OPS_FPA_VIDX_ARG vidx) hw
         in (ret, hw))
      else
        let match_tagged = OPS_FPA_VIDX_ARG vidx;
            (ignored, flow) = fpaLibFlowEntryInit lib sid FPA_FLOW_TABLE_TYPE_VLAN_E;
            (err, hw) = fpaLibFlowEntryAdd lib sid FPA_FLOW_TABLE_TYPE_VLAN_E
              (vlan_flow lib flow pid vid match_tagged) hw
        in (status_code lib err, hw))"

definition ops_fpa_vlan_del :: "'hw fpa_lib \<Rightarrow> u32 \<Rightarrow> u32 \<Rightarrow> u32 \<Rightarrow> 'hw \<Rightarrow> int \<times> 'hw" where
  "ops_fpa_vlan_del lib sid pid vidx hw =
     (let vid = OPS_FPA_VIDX_VID vidx in
      if OPS_FPA_VIDX_IS_EGRESS vidx then
        (let (ignored, gid) = fpaLibGroupIdentifierBuild lib (l2_ident pid vid);
             (err, hw) = fpaLibGroupTableEntryDelete lib sid gid hw
         in (status_code lib err, hw))
      else
        let match_tagged = OPS_FPA_VIDX_ARG vidx;
            (err, hw) = fpaLibFlowTableCookieDelete lib sid FPA_FLOW_TABLE_TYPE_VLAN_E
              (OPS_FPA_VLAN_COOKIE pid vid match_tagged) hw
        in (status_code lib err, hw))"

text \<open>The internal VLAN bitmap is a global of the file: it is passed and returned.\<close>

definition ops_fpa_vlan_internal :: "bitmap \<Rightarrow> u32 \<Rightarrow> bool" where
  "ops_fpa_vlan_internal internal_vlans vid = bitmap_is_set internal_vlans (unat vid)"

definition ops_fpa_vlan_add_internal ::
  "'hw fpa_lib \<Rightarrow> u32 \<Rightarrow> u32 \<Rightarrow> u32 \<Rightarrow> bitmap \<Rightarrow> 'hw \<Rightarrow> int \<times> bitmap \<times> 'hw" where
  "ops_fpa_vlan_add_internal lib sid pid vid internal_vlans hw =
     (let (ret, hw) = ops_fpa_vlan_add lib sid pid (OPS_FPA_VIDX_INGRESS vid False) hw in
      if ret \<noteq> 0 then (1, internal_vlans, hw) else
      let (ret, hw) = ops_fpa_vlan_add lib sid pid (OPS_FPA_VIDX_EGRESS vid False) hw in
      if ret \<noteq> 0 then
        (let (ret, hw) = ops_fpa_vlan_del lib sid pid (OPS_FPA_VIDX_INGRESS vid False) hw
         in (1, internal_vlans, hw))
      else if ops_fpa_vlan_internal internal_vlans vid then (1, internal_vlans, hw)
      else (0, bitmap_set1 internal_vlans (unat vid), hw))"

definition ops_fpa_vlan_del_internal ::
  "'hw fpa_lib \<Rightarrow> u32 \<Rightarrow> u32 \<Rightarrow> u32 \<Rightarrow> bitmap \<Rightarrow> 'hw \<Rightarrow> int \<times> bitmap \<times> 'hw" where
  "ops_fpa_vlan_del_internal lib sid pid vid internal_vlans hw =
     (let (r1, hw) = ops_fpa_vlan_del lib sid pid (OPS_FPA_VIDX_INGRESS vid False) hw;
          (r2, hw) = ops_fpa_vlan_del lib sid pid (OPS_FPA_VIDX_EGRESS vid False) hw;
          err = (if r1 \<noteq> 0 \<or> r2 \<noteq> 0 \<or> \<not> ops_fpa_vlan_internal internal_vlans vid then 1 else 0)
      in (err, bitmap_set0 internal_vlans (unat vid), hw))"

section \<open>The VLAN state of a port\<close>

text \<open>
  What the tables of the switch say about a port: the VIDX of each of its VLAN flows and of each of
  its L2 interface groups. This is what \<open>ops_fpa_vlan_fetch\<close> is to compute.
\<close>

definition flow_vidx :: "'hw fpa_lib \<Rightarrow> fpa_flow \<Rightarrow> u32" where
  "flow_vidx lib f =
     OPS_FPA_VIDX_INGRESS (vl_vlanId (fl_vlan f)) (vl_vlanIdMask (fl_vlan f) = FPA_FLOW_VLAN_MASK_TAG lib)"

definition group_vidx :: "u32 \<Rightarrow> bucket \<Rightarrow> u32" where
  "group_vidx gid b = OPS_FPA_VIDX_EGRESS (OPS_FPA_GID_VLAN gid) (bucket_pop b)"

definition port_flows :: "'hw fpa_lib \<Rightarrow> 'hw \<Rightarrow> u32 \<Rightarrow> u32 \<Rightarrow> fpa_flow set" where
  "port_flows lib hw sid pid =
     {f \<in> flows_of lib hw sid FPA_FLOW_TABLE_TYPE_VLAN_E. vl_inPort (fl_vlan f) = pid}"

definition port_groups :: "'hw fpa_lib \<Rightarrow> 'hw \<Rightarrow> u32 \<Rightarrow> u32 \<Rightarrow> (u32 \<times> bucket) set" where
  "port_groups lib hw sid pid =
     {(gid, b). gid \<noteq> 0 \<and> OPS_FPA_GID_PORT gid = pid
        \<and> (\<exists>v. groups_of lib hw sid gid = Some v \<and> gv_buckets v 0 = Some b)}"

definition port_vmap :: "'hw fpa_lib \<Rightarrow> 'hw \<Rightarrow> u32 \<Rightarrow> u32 \<Rightarrow> u32 set" where
  "port_vmap lib hw sid pid =
     flow_vidx lib ` port_flows lib hw sid pid \<union> (\<lambda>(gid, b). group_vidx gid b) ` port_groups lib hw sid pid"

text \<open>
  What the loops rely on: the flows of a table have positions 1, 2, \<dots>, fewer than the counter can
  count, and the groups are visited in the order of their identifiers.
\<close>

definition iteration_laws :: "'hw fpa_lib \<Rightarrow> 'hw \<Rightarrow> bool" where
  "iteration_laws lib hw \<longleftrightarrow>
     (\<forall>sid t. \<exists>fs. set fs = flows_of lib hw sid t \<and> length fs < 2 ^ 31 - 1 \<and>
        (\<forall>i. i \<noteq> 0 \<longrightarrow> (if unat i \<le> length fs
           then fpaLibFlowTableGetNext lib sid t i hw = (FPA_OK, fs ! (unat i - 1))
           else fst (fpaLibFlowTableGetNext lib sid t i hw) \<noteq> FPA_OK)))
   \<and> (\<forall>sid gid err e. fpaLibGroupTableGetNext lib sid gid hw = (err, e) \<longrightarrow>
        (if err = FPA_OK
         then gid < ge_groupIdentifier e \<and> groups_of lib hw sid (ge_groupIdentifier e) \<noteq> None
           \<and> (\<forall>k. gid < k \<and> groups_of lib hw sid k \<noteq> None \<longrightarrow> ge_groupIdentifier e \<le> k)
         else \<forall>k. gid < k \<longrightarrow> groups_of lib hw sid k = None))"

text \<open>
  What writing relies on: an L2 interface group identifier holds the port in its low 16 bits and the
  VLAN in the 12 bits above, and the two VLAN match masks differ.
\<close>

definition l2_id_laws :: "'hw fpa_lib \<Rightarrow> bool" where
  "l2_id_laws lib \<longleftrightarrow>
     (\<forall>pid vid. pid \<le> 0xFFFF \<and> vid < 4096 \<longrightarrow>
        (\<exists>gid. fpaLibGroupIdentifierBuild lib (l2_ident pid vid) = (FPA_OK, gid)
          \<and> OPS_FPA_GID_PORT gid = pid \<and> OPS_FPA_GID_VLAN gid = vid))
   \<and> FPA_FLOW_VLAN_MASK_TAG lib \<noteq> FPA_FLOW_VLAN_MASK_UNTAG lib"

text \<open>
  The tables as the plugin keeps them, seen from one port: every VLAN flow carries the cookie of its
  port, VLAN and tag match; every group with the port's number in its identifier is the L2 interface
  group of its VLAN and has its bucket; and no route or L3 group uses a group of the port.
\<close>

definition vlan_wf :: "'hw fpa_lib \<Rightarrow> 'hw \<Rightarrow> u32 \<Rightarrow> u32 \<Rightarrow> bool" where
  "vlan_wf lib hw sid pid \<longleftrightarrow>
     (\<forall>f \<in> flows_of lib hw sid FPA_FLOW_TABLE_TYPE_VLAN_E. vl_vlanId (fl_vlan f) < 4096
        \<and> fl_cookie f = OPS_FPA_VLAN_COOKIE (vl_inPort (fl_vlan f)) (vl_vlanId (fl_vlan f))
            (vl_vlanIdMask (fl_vlan f) = FPA_FLOW_VLAN_MASK_TAG lib))
   \<and> (\<forall>gid v. OPS_FPA_GID_PORT gid = pid \<and> groups_of lib hw sid gid = Some v \<longrightarrow>
        fpaLibGroupIdentifierBuild lib (l2_ident pid (OPS_FPA_GID_VLAN gid)) = (FPA_OK, gid)
        \<and> gv_buckets v 0 \<noteq> None)
   \<and> (\<forall>gid. OPS_FPA_GID_PORT gid = pid \<longrightarrow>
        \<not> group_in_use (flows_of lib hw) (groups_of lib hw) sid gid)"

text \<open>
  The table entry that holds a VIDX of a port. All egress VIDX of a VLAN share one group, and all
  untagged ingress VIDX of a port share one cookie.
\<close>

definition vidx_entry :: "u32 \<Rightarrow> bool \<times> u32" where
  "vidx_entry x = (OPS_FPA_VIDX_IS_EGRESS x,
     if OPS_FPA_VIDX_IS_EGRESS x \<or> OPS_FPA_VIDX_ARG x then OPS_FPA_VIDX_VID x else 0)"

text \<open>
  The two VIDX of an internal VLAN, and that their table entries are free for the port: it has no
  untagged ingress VIDX, no tagged one of VLAN 0, and no egress VIDX of the VLAN.
\<close>

definition internal_vidx :: "u32 \<Rightarrow> u32 set" where
  "internal_vidx vid = {OPS_FPA_VIDX_INGRESS vid False, OPS_FPA_VIDX_EGRESS vid False}"

definition internal_free :: "u32 set \<Rightarrow> u32 \<Rightarrow> bool" where
  "internal_free V vid \<longleftrightarrow> (\<forall>y \<in> V. vidx_entry y \<noteq> (False, 0) \<and> vidx_entry y \<noteq> (True, vid))"

section \<open>The VIDX codec\<close>

lemma vid_bits: "(vid :: u32) < 4096 \<Longrightarrow> bit vid k \<Longrightarrow> k < 12"
  using word_less_exp_iff [of 12 vid] by simp

lemma VIDX_VID_take_bit: "OPS_FPA_VIDX_VID vidx = take_bit 12 vidx"
  by (simp add: OPS_FPA_VIDX_VID_def take_bit_eq_mask mask_eq_exp_minus_1)

lemma VIDX_IS_EGRESS_bit: "OPS_FPA_VIDX_IS_EGRESS vidx \<longleftrightarrow> bit vidx 13"
  using and_exp_eq_0_iff_not_bit [of vidx 13] by (simp add: OPS_FPA_VIDX_IS_EGRESS_def)

lemma VIDX_ARG_bit: "OPS_FPA_VIDX_ARG vidx \<longleftrightarrow> bit vidx 12"
  using and_exp_eq_0_iff_not_bit [of vidx 12] by (simp add: OPS_FPA_VIDX_ARG_def)

lemma bit_VIDX_INGRESS:
  "bit (OPS_FPA_VIDX_INGRESS vid t) k \<longleftrightarrow> k = 12 \<and> t \<or> bit vid k"
  by (auto simp: OPS_FPA_VIDX_INGRESS_def bit_simps)

lemma bit_VIDX_EGRESS:
  "bit (OPS_FPA_VIDX_EGRESS vid t) k \<longleftrightarrow> k = 13 \<or> k = 12 \<and> t \<or> bit vid k"
  unfolding OPS_FPA_VIDX_EGRESS_def by (auto simp only: bit_or_iff bit_push_bit_iff bit_1_iff bit_of_bool_iff) auto

lemmas vidx_bits = VIDX_VID_take_bit VIDX_IS_EGRESS_bit VIDX_ARG_bit bit_VIDX_INGRESS bit_VIDX_EGRESS

lemma vid_no_flag_bits: "(vid :: u32) < 4096 \<Longrightarrow> \<not> bit vid 12" "(vid :: u32) < 4096 \<Longrightarrow> \<not> bit vid 13"
  using vid_bits by fastforce+

lemma vidx_ingress [simp]:
  assumes "vid < 4096"
  shows "OPS_FPA_VIDX_VID (OPS_FPA_VIDX_INGRESS vid t) = vid"
    and "OPS_FPA_VIDX_ARG (OPS_FPA_VIDX_INGRESS vid t) = t"
    and "\<not> OPS_FPA_VIDX_IS_EGRESS (OPS_FPA_VIDX_INGRESS vid t)"
  using vid_bits [OF assms] vid_no_flag_bits [OF assms]
  by (auto simp: vidx_bits bit_simps intro!: bit_word_eqI)

lemma vidx_egress [simp]:
  assumes "vid < 4096"
  shows "OPS_FPA_VIDX_VID (OPS_FPA_VIDX_EGRESS vid t) = vid"
    and "OPS_FPA_VIDX_ARG (OPS_FPA_VIDX_EGRESS vid t) = t"
    and "OPS_FPA_VIDX_IS_EGRESS (OPS_FPA_VIDX_EGRESS vid t)"
  using vid_bits [OF assms] vid_no_flag_bits [OF assms]
  by (auto simp: vidx_bits bit_simps intro!: bit_word_eqI)

lemma vidx_lt: "(x :: u32) < 2 ^ 14 \<longleftrightarrow> (\<forall>k. bit x k \<longrightarrow> k < 14)"
  using word_less_exp_iff [of 14 x] by simp

lemma vidx_range:
  "vid < 4096 \<Longrightarrow> OPS_FPA_VIDX_INGRESS vid t < 2 ^ 14" "vid < 4096 \<Longrightarrow> OPS_FPA_VIDX_EGRESS vid t < 2 ^ 14"
  unfolding vidx_lt by (auto simp: vidx_bits dest: vid_bits)

lemma VIDX_VID_lt [simp]: "OPS_FPA_VIDX_VID x < 4096"
  using word_less_exp_iff [of 12 "OPS_FPA_VIDX_VID x"] by (simp add: VIDX_VID_take_bit bit_take_bit_iff)

lemma vidx_decode:
  assumes "x < 2 ^ 14"
  shows "x = (if OPS_FPA_VIDX_IS_EGRESS x then OPS_FPA_VIDX_EGRESS (OPS_FPA_VIDX_VID x) (OPS_FPA_VIDX_ARG x)
              else OPS_FPA_VIDX_INGRESS (OPS_FPA_VIDX_VID x) (OPS_FPA_VIDX_ARG x))"
proof -
  have lt: "k < 14" if "bit x k" for k using assms that vidx_lt by blast
  have "k < 12 \<or> k = 12 \<or> k = 13" if "k < 14" for k :: nat using that by arith
  with lt have dec: "k < 12 \<or> k = 12 \<or> k = 13" if "bit x k" for k using that by blast
  then have "bit (if bit x 13 then OPS_FPA_VIDX_EGRESS (take_bit 12 x) (bit x 12)
      else OPS_FPA_VIDX_INGRESS (take_bit 12 x) (bit x 12)) k \<longleftrightarrow> bit x k" for k
    by (cases "bit x 13") (fastforce simp: vidx_bits bit_take_bit_iff)+
  then show ?thesis
    unfolding VIDX_VID_take_bit VIDX_IS_EGRESS_bit VIDX_ARG_bit by (intro bit_word_eqI) simp
qed

text \<open>The VIDX of a direction, a VLAN number and a flag is a 14-bit number from which all three
  are read back, and every 14-bit number is the VIDX of what is read from it: the codec of the header
  is a bijection, so a bitmap over VIDX describes a port's VLAN state exactly.\<close>

lemma vidx_codec:
  "(vid < 4096 \<longrightarrow>
      OPS_FPA_VIDX_INGRESS vid t < 2 ^ 14 \<and> \<not> OPS_FPA_VIDX_IS_EGRESS (OPS_FPA_VIDX_INGRESS vid t)
      \<and> OPS_FPA_VIDX_VID (OPS_FPA_VIDX_INGRESS vid t) = vid \<and> OPS_FPA_VIDX_ARG (OPS_FPA_VIDX_INGRESS vid t) = t
      \<and> OPS_FPA_VIDX_EGRESS vid t < 2 ^ 14 \<and> OPS_FPA_VIDX_IS_EGRESS (OPS_FPA_VIDX_EGRESS vid t)
      \<and> OPS_FPA_VIDX_VID (OPS_FPA_VIDX_EGRESS vid t) = vid \<and> OPS_FPA_VIDX_ARG (OPS_FPA_VIDX_EGRESS vid t) = t)
   \<and> (x < 2 ^ 14 \<longrightarrow> x = (if OPS_FPA_VIDX_IS_EGRESS x
        then OPS_FPA_VIDX_EGRESS (OPS_FPA_VIDX_VID x) (OPS_FPA_VIDX_ARG x)
        else OPS_FPA_VIDX_INGRESS (OPS_FPA_VIDX_VID x) (OPS_FPA_VIDX_ARG x)))"
  using vidx_range vidx_decode [of x] by simp

section \<open>Reading the VLAN state\<close>

lemma unat_Suc_word: "unat (i :: u32) < 2 ^ 31 \<Longrightarrow> unat (i + 1) = Suc (unat i)"
  using unat_word_ariths(1) [of i 1] by simp

lemma fetch_ingress_eq:
  assumes len: "length fs < 2 ^ 31 - 1"
    and nxt: "\<And>i. i \<noteq> 0 \<Longrightarrow> if unat i \<le> length fs
           then fpaLibFlowTableGetNext lib sid FPA_FLOW_TABLE_TYPE_VLAN_E i hw = (FPA_OK, fs ! (unat i - 1))
           else fst (fpaLibFlowTableGetNext lib sid FPA_FLOW_TABLE_TYPE_VLAN_E i hw) \<noteq> FPA_OK"
    and i: "unat i = Suc k" "k \<le> length fs"
  shows "\<exists>vmap'. fetch_ingress lib sid pid hw i vmap = Some vmap' \<and>
     (\<forall>j. vmap' j \<longleftrightarrow> vmap j \<or> (\<exists>f \<in> set (drop k fs). vl_inPort (fl_vlan f) = pid \<and> j = unat (flow_vidx lib f)))"
  using i
proof (induction "length fs - k" arbitrary: i k vmap)
  case 0
  then have "i \<noteq> 0" and k: "k = length fs" by auto
  then obtain err flow where "fpaLibFlowTableGetNext lib sid FPA_FLOW_TABLE_TYPE_VLAN_E i hw = (err, flow)"
    and "err \<noteq> FPA_OK"
    using nxt [OF \<open>i \<noteq> 0\<close>] 0 by (metis Suc_n_not_le_n prod.collapse)
  then show ?case by (subst fetch_ingress.simps) (simp add: k)
next
  case (Suc n)
  then have k: "k < length fs" and i0: "i \<noteq> 0" by auto
  have n: "fpaLibFlowTableGetNext lib sid FPA_FLOW_TABLE_TYPE_VLAN_E i hw = (FPA_OK, fs ! k)"
    using nxt [OF i0] k Suc.prems by simp
  have "unat (i + 1) = Suc (Suc k)"
    using k len Suc.prems by (simp add: unat_Suc_word)
  moreover have m: "n = length fs - Suc k" "Suc k \<le> length fs" using Suc.hyps(2) k by auto
  ultimately have IH: "\<exists>vmap'. fetch_ingress lib sid pid hw (i + 1) vm = Some vmap' \<and> (\<forall>j. vmap' j \<longleftrightarrow>
      vm j \<or> (\<exists>f \<in> set (drop (Suc k) fs). vl_inPort (fl_vlan f) = pid \<and> j = unat (flow_vidx lib f)))" for vm
    by (intro Suc.hyps(1))
  have d: "drop k fs = fs ! k # drop (Suc k) fs" using k by (simp add: Cons_nth_drop_Suc)
  let ?vm = "if pid = vl_inPort (fl_vlan (fs ! k)) then bitmap_set1 vmap (unat (flow_vidx lib (fs ! k))) else vmap"
  have step: "fetch_ingress lib sid pid hw i vmap = fetch_ingress lib sid pid hw (i + 1) ?vm"
    by (subst fetch_ingress.simps) (simp add: n flow_vidx_def Let_def)
  have vm: "?vm j \<longleftrightarrow> vmap j \<or> vl_inPort (fl_vlan (fs ! k)) = pid \<and> j = unat (flow_vidx lib (fs ! k))" for j
    by (auto simp: bitmap_simps)
  show ?case
    unfolding step d using IH [of ?vm] by (simp only: vm list.set bex_simps insert_iff disj_assoc)
qed

lemma fetch_egress_eq:
  assumes ok: "fpa_lib_ok lib" and it: "iteration_laws lib hw"
  shows "\<exists>vmap'. fetch_egress lib sid pid hw gid vmap = Some vmap' \<and>
     (\<forall>j. vmap' j \<longleftrightarrow> vmap j \<or> (\<exists>k b. gid < k \<and> (k, b) \<in> port_groups lib hw sid pid \<and> j = unat (group_vidx k b)))"
proof (induction "2 ^ 32 - unat gid" arbitrary: gid vmap rule: less_induct)
  case less
  obtain err e where n: "fpaLibGroupTableGetNext lib sid gid hw = (err, e)" by fastforce
  let ?g = "ge_groupIdentifier e"
  have law: "if err = FPA_OK
         then gid < ?g \<and> groups_of lib hw sid ?g \<noteq> None
           \<and> (\<forall>k. gid < k \<and> groups_of lib hw sid k \<noteq> None \<longrightarrow> ?g \<le> k)
         else \<forall>k. gid < k \<longrightarrow> groups_of lib hw sid k = None"
    using it n unfolding iteration_laws_def by blast
  show ?case
  proof (cases "err = FPA_OK")
    case False
    then show ?thesis
      using law n by (subst fetch_egress.simps) (auto simp: port_groups_def)
  next
    case True
    then have lt: "gid < ?g" and ex: "groups_of lib hw sid ?g \<noteq> None"
      and least: "\<And>k. gid < k \<Longrightarrow> groups_of lib hw sid k \<noteq> None \<Longrightarrow> ?g \<le> k"
      using law by auto
    obtain err2 b where b: "fpaLibGroupEntryBucketGet lib sid ?g 0 hw = (err2, b)" by fastforce
    have here: "(?g, b') \<in> port_groups lib hw sid pid \<longleftrightarrow>
        pid = OPS_FPA_GID_PORT ?g \<and> err2 = FPA_OK \<and> b' = b" for b'
      using bucket_get_iff [OF ok, of sid ?g 0 hw b'] b ex lt by (auto simp: port_groups_def)
    let ?vm = "if pid = OPS_FPA_GID_PORT ?g \<and> err2 = FPA_OK
       then bitmap_set1 vmap (unat (group_vidx ?g b)) else vmap"
    have step: "fetch_egress lib sid pid hw gid vmap = fetch_egress lib sid pid hw ?g ?vm"
      by (subst fetch_egress.simps) (simp add: n True b group_vidx_def Let_def)
    have "2 ^ 32 - unat ?g < 2 ^ 32 - unat gid"
      using lt unsigned_less [of ?g, where 'a = nat] by (simp add: word_less_nat_alt)
    from less [OF this, of ?vm] obtain vmap' where
      v: "fetch_egress lib sid pid hw ?g ?vm = Some vmap'"
        "\<And>j. vmap' j \<longleftrightarrow> ?vm j \<or> (\<exists>k b. ?g < k \<and> (k, b) \<in> port_groups lib hw sid pid \<and> j = unat (group_vidx k b))"
      by blast
    have split: "gid < k \<and> (k, b') \<in> port_groups lib hw sid pid \<longleftrightarrow>
        (k, b') \<in> port_groups lib hw sid pid \<and> (k = ?g \<or> ?g < k)" for k b'
      using least [of k] lt by (auto simp: port_groups_def)
    have "vmap' j \<longleftrightarrow> vmap j \<or> (\<exists>k b. gid < k \<and> (k, b) \<in> port_groups lib hw sid pid \<and> j = unat (group_vidx k b))" for j
      unfolding v(2) by (auto simp: bitmap_simps here split) (use here split in \<open>metis+\<close>)
    with v(1) step show ?thesis by auto
  qed
qed

lemma vlan_fetch_eq:
  assumes "fpa_lib_ok lib" and it: "iteration_laws lib hw"
  shows "\<exists>vmap. ops_fpa_vlan_fetch lib sid pid hw = Some vmap
    \<and> (\<forall>j. vmap j \<longleftrightarrow> j \<in> unat ` port_vmap lib hw sid pid)"
proof -
  obtain fs where fs: "set fs = flows_of lib hw sid FPA_FLOW_TABLE_TYPE_VLAN_E" "length fs < 2 ^ 31 - 1"
    "\<And>i. i \<noteq> 0 \<Longrightarrow> if unat i \<le> length fs
           then fpaLibFlowTableGetNext lib sid FPA_FLOW_TABLE_TYPE_VLAN_E i hw = (FPA_OK, fs ! (unat i - 1))
           else fst (fpaLibFlowTableGetNext lib sid FPA_FLOW_TABLE_TYPE_VLAN_E i hw) \<noteq> FPA_OK"
    using it unfolding iteration_laws_def by meson
  obtain v1 where v1: "fetch_ingress lib sid pid hw 1 bitmap_zero = Some v1"
    "\<And>j. v1 j \<longleftrightarrow> (\<exists>f \<in> set fs. vl_inPort (fl_vlan f) = pid \<and> j = unat (flow_vidx lib f))"
    using fetch_ingress_eq [OF fs(2,3), of 1 0 pid bitmap_zero] by auto
  obtain v2 where v2: "fetch_egress lib sid pid hw 0 v1 = Some v2"
    "\<And>j. v2 j \<longleftrightarrow> v1 j \<or> (\<exists>k b. 0 < k \<and> (k, b) \<in> port_groups lib hw sid pid \<and> j = unat (group_vidx k b))"
    using fetch_egress_eq [OF assms, of sid pid 0 v1] by blast
  have pos: "(k, b) \<in> port_groups lib hw sid pid \<Longrightarrow> 0 < k" for k b
    by (simp add: port_groups_def word_neq_0_conv)
  have "v2 j \<longleftrightarrow> j \<in> unat ` port_vmap lib hw sid pid" for j
    unfolding v2(2) v1(2) port_vmap_def image_Un image_image
    by (auto simp: image_iff Bex_def port_flows_def fs(1) dest: pos)
  with v1 v2 show ?thesis by (simp add: ops_fpa_vlan_fetch_def)
qed



lemma sim_iteration_laws:
  assumes "\<And>sid t. length (sim_flows hw sid t) < 2 ^ 31 - 1"
  shows "iteration_laws (sim_lib full gfull) hw"
proof -
  have "\<exists>fs. set fs = flows_of (sim_lib full gfull) hw sid t \<and> length fs < 2 ^ 31 - 1 \<and>
     (\<forall>i. i \<noteq> 0 \<longrightarrow> (if unat i \<le> length fs
        then fpaLibFlowTableGetNext (sim_lib full gfull) sid t i hw = (FPA_OK, fs ! (unat i - 1))
        else fst (fpaLibFlowTableGetNext (sim_lib full gfull) sid t i hw) \<noteq> FPA_OK))" for sid t
    using assms by (intro exI [of _ "sim_flows hw sid t"]) (simp add: sim_flow_next_def)
  moreover have "if err = FPA_OK
         then gid < ge_groupIdentifier e \<and> map_of (sim_groups hw sid) (ge_groupIdentifier e) \<noteq> None
           \<and> (\<forall>k. gid < k \<and> map_of (sim_groups hw sid) k \<noteq> None \<longrightarrow> ge_groupIdentifier e \<le> k)
         else \<forall>k. gid < k \<longrightarrow> map_of (sim_groups hw sid) k = None"
    if "sim_group_next sid gid hw = (err, e)" for sid gid err e
  proof -
    define ks where "ks = sort (filter (\<lambda>g. gid < g) (map fst (sim_groups hw sid)))"
    have ks: "set ks = {k. gid < k \<and> map_of (sim_groups hw sid) k \<noteq> None}" and "sorted ks"
      by (auto simp: ks_def map_of_eq_None_iff)
    have mem: "k \<in> set ks \<longleftrightarrow> gid < k \<and> map_of (sim_groups hw sid) k \<noteq> None" for k
      using ks by blast
    show ?thesis
    proof (cases ks)
      case Nil
      then show ?thesis using that mem by (auto simp: sim_group_next_def ks_def [symmetric])
    next
      case (Cons a as)
      then have e: "err = FPA_OK" "ge_groupIdentifier e = a"
        using that by (auto simp: sim_group_next_def ks_def [symmetric])
      have "a \<le> k" if "k \<in> set ks" for k using that \<open>sorted ks\<close> Cons by auto
      then show ?thesis using e mem Cons by auto
    qed
  qed
  ultimately show ?thesis by (simp add: iteration_laws_def)
qed


section \<open>Writing the VLAN state\<close>

lemma cookie_low: "ucast (OPS_FPA_VLAN_COOKIE pid vid t) = pid"
  by (rule bit_word_eqI) (auto simp: OPS_FPA_VLAN_COOKIE_def bit_simps)

lemma cookie_high:
  assumes "pid < 2 ^ 16" and "vid < 4096"
  shows "ucast (drop_bit 32 (OPS_FPA_VLAN_COOKIE pid vid t)) = (if t then vid else 0)"
proof (rule bit_word_eqI)
  fix k :: nat assume "k < LENGTH(32)"
  then have "31 \<le> k \<longleftrightarrow> k = 31" by auto
  moreover note \<open>k < LENGTH(32)\<close>
  moreover have "\<not> bit pid 31" using word_less_exp_iff [of 16 pid] assms(1) by auto
  moreover have "\<not> bit vid 31" using vid_bits [OF assms(2), of 31] by auto
  ultimately show "bit (ucast (drop_bit 32 (OPS_FPA_VLAN_COOKIE pid vid t)) :: u32) k
    \<longleftrightarrow> bit (if t then vid else 0) k"
    by (auto simp: OPS_FPA_VLAN_COOKIE_def bit_simps not_less min_def)
qed

lemma cookie_eq_iff:
  assumes "pid < 2 ^ 16" and "vid < 4096" and "vid' < 4096"
  shows "OPS_FPA_VLAN_COOKIE pid' vid' t' = OPS_FPA_VLAN_COOKIE pid vid t \<longleftrightarrow>
    pid' = pid \<and> (if t' then vid' else 0) = (if t then vid else 0)"
proof
  assume eq: "OPS_FPA_VLAN_COOKIE pid' vid' t' = OPS_FPA_VLAN_COOKIE pid vid t"
  have p: "pid' = pid" using cookie_low [of pid' vid' t'] cookie_low [of pid vid t] eq by simp
  with eq show "pid' = pid \<and> (if t' then vid' else 0) = (if t then vid else 0)"
    using cookie_high [OF assms(1,2), of t] cookie_high [OF assms(1,3), of t'] by simp
next
  assume "pid' = pid \<and> (if t' then vid' else 0) = (if t then vid else 0)"
  then show "OPS_FPA_VLAN_COOKIE pid' vid' t' = OPS_FPA_VLAN_COOKIE pid vid t"
    by (auto simp: OPS_FPA_VLAN_COOKIE_def split: if_splits)
qed

lemma vidx_entry_ingress [simp]:
  "vid < 4096 \<Longrightarrow> vidx_entry (OPS_FPA_VIDX_INGRESS vid t) = (False, if t then vid else 0)"
  by (simp add: vidx_entry_def)

lemma vidx_entry_egress [simp]:
  "vid < 4096 \<Longrightarrow> vidx_entry (OPS_FPA_VIDX_EGRESS vid t) = (True, vid)"
  by (simp add: vidx_entry_def)

lemma GID_VLAN_lt [simp]: "OPS_FPA_GID_VLAN gid < 4096"
proof -
  have m: "(0x0FFF0000 :: u32) = push_bit 16 (mask 12)" by (simp add: mask_eq_exp_minus_1)
  show ?thesis
    using word_less_exp_iff [of 12 "OPS_FPA_GID_VLAN gid"]
    unfolding OPS_FPA_GID_VLAN_def m by (simp add: bit_drop_bit_eq bit_and_iff bit_push_bit_iff bit_mask_iff)
qed

text \<open>
  One VLAN flow or one group more or less, in terms of the VLAN state of every port.
\<close>

lemma port_vmap_insert_flow:
  assumes "flows_of lib hw' = insert_flow sid FPA_FLOW_TABLE_TYPE_VLAN_E f (flows_of lib hw)"
    and "groups_of lib hw' = groups_of lib hw"
  shows "port_vmap lib hw' sid pid =
    (if vl_inPort (fl_vlan f) = pid then insert (flow_vidx lib f) (port_vmap lib hw sid pid)
     else port_vmap lib hw sid pid)"
proof -
  have "port_flows lib hw' sid pid = (if vl_inPort (fl_vlan f) = pid
      then insert f (port_flows lib hw sid pid) else port_flows lib hw sid pid)"
    by (auto simp: port_flows_def assms(1) insert_flow_def)
  moreover have "port_groups lib hw' sid pid = port_groups lib hw sid pid"
    by (simp add: port_groups_def assms(2))
  ultimately show ?thesis by (simp add: port_vmap_def)
qed

lemma port_vmap_set_group:
  assumes "flows_of lib hw' = flows_of lib hw"
    and "groups_of lib hw' = set_group sid gid g (groups_of lib hw)"
  shows "port_vmap lib hw' sid pid = flow_vidx lib ` port_flows lib hw sid pid
    \<union> (\<lambda>(k, b). group_vidx k b) ` {(k, b) \<in> port_groups lib hw sid pid. k \<noteq> gid}
    \<union> (if gid \<noteq> 0 \<and> OPS_FPA_GID_PORT gid = pid
       then {group_vidx gid b | b v. g = Some v \<and> gv_buckets v 0 = Some b} else {})"
proof -
  have "port_flows lib hw' sid pid = port_flows lib hw sid pid"
    by (simp add: port_flows_def assms(1))
  moreover have "port_groups lib hw' sid pid = {(k, b) \<in> port_groups lib hw sid pid. k \<noteq> gid} \<union>
      {(k, b). k = gid \<and> gid \<noteq> 0 \<and> OPS_FPA_GID_PORT gid = pid \<and> (\<exists>v. g = Some v \<and> gv_buckets v 0 = Some b)}"
    by (auto simp: port_groups_def assms(2) set_group_def split: if_splits)
  ultimately show ?thesis unfolding port_vmap_def by (auto simp: image_Un image_iff)
qed

lemma port_vmap_entry:
  assumes "vlan_wf lib hw sid pid" and "y \<in> port_vmap lib hw sid pid"
  obtains (flow) f where "f \<in> port_flows lib hw sid pid" "y = flow_vidx lib f" "vl_vlanId (fl_vlan f) < 4096"
    | (grp) gid b where "(gid, b) \<in> port_groups lib hw sid pid" "y = group_vidx gid b"
  using assms unfolding port_vmap_def vlan_wf_def port_flows_def by auto


lemma group_in_use_set:
  assumes "group_in_use F (set_group sid gid g G) sid k"
    and "\<And>v i b. g = Some v \<Longrightarrow> gv_buckets v i = Some b \<Longrightarrow> \<not> bucket_refers b k"
  shows "group_in_use F G sid k"
  using assms by (fastforce simp: group_in_use_def set_group_def split: if_splits)

lemma group_in_use_flows:
  "F sid FPA_FLOW_TABLE_TYPE_L3_UNICAST_E = F' sid FPA_FLOW_TABLE_TYPE_L3_UNICAST_E \<Longrightarrow>
    group_in_use F G sid k = group_in_use F' G sid k"
  by (simp add: group_in_use_def)

lemma flow_vidx_vlan_flow:
  assumes "l2_id_laws lib" and "x < 2 ^ 14" and "\<not> OPS_FPA_VIDX_IS_EGRESS x"
  shows "flow_vidx lib (vlan_flow lib flow pid (OPS_FPA_VIDX_VID x) (OPS_FPA_VIDX_ARG x)) = x"
  using assms vidx_decode [OF assms(2)] by (auto simp: flow_vidx_def vlan_flow_def l2_id_laws_def)

lemma vlan_flow_simps [simp]:
  "fl_cookie (vlan_flow lib flow pid vid t) = OPS_FPA_VLAN_COOKIE pid vid t"
  "vl_inPort (fl_vlan (vlan_flow lib flow pid vid t)) = pid"
  "vl_vlanId (fl_vlan (vlan_flow lib flow pid vid t)) = vid"
  by (simp_all add: vlan_flow_def)

lemma vlan_add_ingress:
  assumes ok: "fpa_lib_ok lib" and ids: "l2_id_laws lib" and wf: "vlan_wf lib hw sid pid"
    and x: "x < 2 ^ 14" and ing: "\<not> OPS_FPA_VIDX_IS_EGRESS x"
    and add: "ops_fpa_vlan_add lib sid pid x hw = (ret, hw')"
  shows "vlan_wf lib hw' sid pid"
    and "port_vmap lib hw' sid p =
      (if ret = 0 \<and> p = pid then insert x (port_vmap lib hw sid p) else port_vmap lib hw sid p)"
    and "vlan_wf lib hw sid q \<Longrightarrow> vlan_wf lib hw' sid q"
proof -
  define f where "f = vlan_flow lib (snd (fpaLibFlowEntryInit lib sid FPA_FLOW_TABLE_TYPE_VLAN_E)) pid
      (OPS_FPA_VIDX_VID x) (OPS_FPA_VIDX_ARG x)"
  obtain err where a: "fpaLibFlowEntryAdd lib sid FPA_FLOW_TABLE_TYPE_VLAN_E f hw = (err, hw')"
    and ret: "ret = 0 \<longleftrightarrow> err = FPA_OK"
    using add ing ok by (auto simp: ops_fpa_vlan_add_def f_def Let_def split: prod.splits)
  note fl = raw.add_flows [OF ok a] and gr = raw.add_groups [OF ok a]
  have fx: "flow_vidx lib f = x" unfolding f_def by (rule flow_vidx_vlan_flow [OF ids x ing])
  have mask: "vl_vlanIdMask (fl_vlan f) = FPA_FLOW_VLAN_MASK_TAG lib \<longleftrightarrow> OPS_FPA_VIDX_ARG x"
    using ids by (auto simp: f_def vlan_flow_def l2_id_laws_def)
  have use: "group_in_use (flows_of lib hw') (groups_of lib hw') sid k
      = group_in_use (flows_of lib hw) (groups_of lib hw) sid k" for k
    unfolding gr by (rule group_in_use_flows) (simp add: fl insert_flow_def)
  show all: "vlan_wf lib hw' sid q" if "vlan_wf lib hw sid q" for q
    unfolding vlan_wf_def use
    using that mask by (auto simp: vlan_wf_def fl gr insert_flow_def) (auto simp: f_def)
  show "vlan_wf lib hw' sid pid" using all wf .
  show "port_vmap lib hw' sid p =
      (if ret = 0 \<and> p = pid then insert x (port_vmap lib hw sid p) else port_vmap lib hw sid p)"
  proof (cases "err = FPA_OK")
    case True
    then show ?thesis
      using port_vmap_insert_flow [of lib hw' sid f hw p] fl gr ret fx by (auto simp: f_def)
  next
    case False
    then show ?thesis using fl gr ret by (simp add: port_vmap_def port_flows_def port_groups_def)
  qed
qed


lemma egress_group_absent:
  assumes ids: "l2_id_laws lib" and wf: "vlan_wf lib hw sid pid" and pid: "pid \<noteq> 0" "pid \<le> 0xFFFF"
    and gid: "OPS_FPA_GID_PORT gid = pid"
    and free: "\<And>y. y \<in> port_vmap lib hw sid pid \<Longrightarrow> vidx_entry y \<noteq> (True, OPS_FPA_GID_VLAN gid)"
  shows "groups_of lib hw sid gid = None"
proof (rule ccontr)
  assume "groups_of lib hw sid gid \<noteq> None"
  then obtain v where v: "groups_of lib hw sid gid = Some v" by auto
  with wf gid obtain b where b: "gv_buckets v 0 = Some b" unfolding vlan_wf_def by blast
  have "gid \<noteq> 0" using pid(1) gid by (auto simp: OPS_FPA_GID_PORT_def)
  with v b gid have "(gid, b) \<in> port_groups lib hw sid pid" by (simp add: port_groups_def)
  then have "group_vidx gid b \<in> port_vmap lib hw sid pid" by (force simp: port_vmap_def)
  with free show False by (force simp: group_vidx_def)
qed

lemma l2_id_lawsD:
  "l2_id_laws lib \<Longrightarrow> pid \<le> 0xFFFF \<Longrightarrow> vid < 4096 \<Longrightarrow>
    \<exists>gid. fpaLibGroupIdentifierBuild lib (l2_ident pid vid) = (FPA_OK, gid)
      \<and> OPS_FPA_GID_PORT gid = pid \<and> OPS_FPA_GID_VLAN gid = vid"
  by (simp add: l2_id_laws_def)

lemma vlan_add_egress:
  assumes ok: "fpa_lib_ok lib" and ids: "l2_id_laws lib" and wf: "vlan_wf lib hw sid pid"
    and pid: "pid \<noteq> 0" "pid \<le> 0xFFFF"
    and x: "x < 2 ^ 14" and eg: "OPS_FPA_VIDX_IS_EGRESS x"
    and free: "\<forall>y \<in> port_vmap lib hw sid pid. vidx_entry y \<noteq> vidx_entry x"
    and add: "ops_fpa_vlan_add lib sid pid x hw = (ret, hw')"
  shows "vlan_wf lib hw' sid pid"
    and "port_vmap lib hw' sid p =
      (if ret = 0 \<and> p = pid then insert x (port_vmap lib hw sid p) else port_vmap lib hw sid p)"
    and "vlan_wf lib hw sid q \<Longrightarrow> vlan_wf lib hw' sid q"
proof -
  let ?vid = "OPS_FPA_VIDX_VID x"
  obtain gid where b: "fpaLibGroupIdentifierBuild lib (l2_ident pid ?vid) = (FPA_OK, gid)"
    and gp: "OPS_FPA_GID_PORT gid = pid" and gv: "OPS_FPA_GID_VLAN gid = ?vid"
    using l2_id_lawsD [OF ids pid(2) VIDX_VID_lt] by blast
  have none: "groups_of lib hw sid gid = None"
    by (rule egress_group_absent [OF ids wf pid gp]) (use free gv eg in \<open>auto simp: vidx_entry_def\<close>)
  have nouse: "\<not> group_in_use (flows_of lib hw) (groups_of lib hw) sid k" if "OPS_FPA_GID_PORT k = pid" for k
    using wf that by (simp add: vlan_wf_def)
  let ?bk = "l2_bucket gid pid (OPS_FPA_VIDX_ARG x)"
  let ?v = "\<lparr>gv_semantics = FPA_GROUP_INDIRECT, gv_buckets = [0 \<mapsto> ?bk]\<rparr>"
  obtain g where "ops_fpa_route_add_l2_group lib sid pid ?vid (OPS_FPA_VIDX_ARG x) hw = (ret, g, hw')"
    using add eg by (auto simp: ops_fpa_vlan_add_def split: prod.splits)
  from add_l2_group_effect [OF ok b none nouse [OF gp] this]
  have fl: "flows_of lib hw' = flows_of lib hw"
    and gr: "groups_of lib hw' = (if ret = 0 then set_group sid gid (Some ?v) (groups_of lib hw) else groups_of lib hw)"
    by auto
  have use: "\<not> group_in_use (flows_of lib hw') (groups_of lib hw') sid k"
    if n: "\<not> group_in_use (flows_of lib hw) (groups_of lib hw) sid k" for k
  proof -
    have "\<not> group_in_use (flows_of lib hw) (set_group sid gid (Some ?v) (groups_of lib hw)) sid k"
      by (rule contrapos_nn [OF n], erule group_in_use_set)
        (auto simp: bucket_refers_def l2_bucket_def split: if_splits)
    then show ?thesis using n by (simp add: fl gr)
  qed
  show all: "vlan_wf lib hw' sid q" if "vlan_wf lib hw sid q" for q
    unfolding vlan_wf_def
    using that use b gv gp by (auto simp: vlan_wf_def fl gr set_group_def)
  show "vlan_wf lib hw' sid pid" using all wf .
  have gx: "group_vidx gid ?bk = x"
    using vidx_decode [OF x] eg gv by (simp add: group_vidx_def bucket_pop_def l2_bucket_def)
  show "port_vmap lib hw' sid p =
      (if ret = 0 \<and> p = pid then insert x (port_vmap lib hw sid p) else port_vmap lib hw sid p)"
  proof (cases "ret = 0")
    case True
    have "gid \<noteq> 0" using pid(1) gp by (auto simp: OPS_FPA_GID_PORT_def)
    moreover have "{(k, b) \<in> port_groups lib hw sid p. k \<noteq> gid} = port_groups lib hw sid p"
      using none by (auto simp: port_groups_def)
    ultimately show ?thesis
      using port_vmap_set_group [OF fl gr [unfolded True, simplified], of p] True gp gx
      by (auto simp: port_vmap_def)
  next
    case False
    then show ?thesis using fl gr by (simp add: port_vmap_def port_flows_def port_groups_def)
  qed
qed

lemma vlan_del_ingress:
  assumes ok: "fpa_lib_ok lib" and wf: "vlan_wf lib hw sid pid" and pid: "pid \<le> 0xFFFF"
    and ing: "\<not> OPS_FPA_VIDX_IS_EGRESS x"
    and del: "ops_fpa_vlan_del lib sid pid x hw = (ret, hw')"
  shows "vlan_wf lib hw' sid pid"
    and "port_vmap lib hw' sid p =
      (if ret = 0 \<and> p = pid then {y \<in> port_vmap lib hw sid p. vidx_entry y \<noteq> vidx_entry x}
       else port_vmap lib hw sid p)"
    and "vlan_wf lib hw sid q \<Longrightarrow> vlan_wf lib hw' sid q"
proof -
  let ?vid = "OPS_FPA_VIDX_VID x" and ?t = "OPS_FPA_VIDX_ARG x"
  obtain err where d: "fpaLibFlowTableCookieDelete lib sid FPA_FLOW_TABLE_TYPE_VLAN_E
      (OPS_FPA_VLAN_COOKIE pid ?vid ?t) hw = (err, hw')"
    and ret: "ret = 0 \<longleftrightarrow> err = FPA_OK"
    using del ing ok by (auto simp: ops_fpa_vlan_del_def Let_def split: prod.splits)
  note fl = raw.del_flows [OF ok d] and gr = raw.del_groups [OF ok d]
  have use: "group_in_use (flows_of lib hw') (groups_of lib hw') sid k
      = group_in_use (flows_of lib hw) (groups_of lib hw) sid k" for k
    unfolding gr by (rule group_in_use_flows) (simp add: fl delete_cookie_def)
  show all: "vlan_wf lib hw' sid q" if "vlan_wf lib hw sid q" for q
    unfolding vlan_wf_def use using that by (auto simp: vlan_wf_def fl gr delete_cookie_def)
  show "vlan_wf lib hw' sid pid" using all wf .
  have pg: "port_groups lib hw' sid p = port_groups lib hw sid p" by (simp add: port_groups_def gr)
  have pid16: "pid < 2 ^ 16" using pid by (simp add: word_less_nat_alt word_le_nat_alt)
  have ck: "fl_cookie f = OPS_FPA_VLAN_COOKIE pid ?vid ?t \<longleftrightarrow>
      vl_inPort (fl_vlan f) = pid \<and> vidx_entry (flow_vidx lib f) = vidx_entry x"
    and small: "vl_vlanId (fl_vlan f) < 4096"
    if "f \<in> flows_of lib hw sid FPA_FLOW_TABLE_TYPE_VLAN_E" for f
    using wf that ing cookie_eq_iff [OF pid16 VIDX_VID_lt, of "vl_vlanId (fl_vlan f)"]
    by (auto simp: vlan_wf_def flow_vidx_def vidx_entry_def)
  have eg: "vidx_entry (group_vidx k b) \<noteq> vidx_entry x" for k b
    using ing by (simp add: group_vidx_def vidx_entry_def)
  have pf: "port_flows lib hw' sid p = (if err = FPA_OK \<and> p = pid
      then {f \<in> port_flows lib hw sid p. vidx_entry (flow_vidx lib f) \<noteq> vidx_entry x}
      else port_flows lib hw sid p)"
  proof (rule set_eqI)
    fix f
    show "f \<in> port_flows lib hw' sid p \<longleftrightarrow> f \<in> (if err = FPA_OK \<and> p = pid
      then {f \<in> port_flows lib hw sid p. vidx_entry (flow_vidx lib f) \<noteq> vidx_entry x}
      else port_flows lib hw sid p)"
      using ck [of f] by (auto simp: port_flows_def fl delete_cookie_def)
  qed
  show "port_vmap lib hw' sid p =
      (if ret = 0 \<and> p = pid then {y \<in> port_vmap lib hw sid p. vidx_entry y \<noteq> vidx_entry x}
       else port_vmap lib hw sid p)"
    unfolding port_vmap_def pg pf ret using eg by auto
qed


lemma vlan_del_egress:
  assumes ok: "fpa_lib_ok lib" and ids: "l2_id_laws lib" and wf: "vlan_wf lib hw sid pid"
    and pid: "pid \<le> 0xFFFF" and eg: "OPS_FPA_VIDX_IS_EGRESS x"
    and del: "ops_fpa_vlan_del lib sid pid x hw = (ret, hw')"
  shows "vlan_wf lib hw' sid pid"
    and "port_vmap lib hw' sid p =
      (if ret = 0 \<and> p = pid then {y \<in> port_vmap lib hw sid p. vidx_entry y \<noteq> vidx_entry x}
       else port_vmap lib hw sid p)"
    and "vlan_wf lib hw sid q \<Longrightarrow> vlan_wf lib hw' sid q"
proof -
  let ?vid = "OPS_FPA_VIDX_VID x"
  obtain gid where b: "fpaLibGroupIdentifierBuild lib (l2_ident pid ?vid) = (FPA_OK, gid)"
    and gp: "OPS_FPA_GID_PORT gid = pid" and gv: "OPS_FPA_GID_VLAN gid = ?vid"
    using l2_id_lawsD [OF ids pid VIDX_VID_lt] by blast
  obtain err where d: "fpaLibGroupTableEntryDelete lib sid gid hw = (err, hw')"
    and ret: "ret = 0 \<longleftrightarrow> err = FPA_OK"
    using del eg ok b by (auto simp: ops_fpa_vlan_del_def Let_def split: prod.splits)
  note fl = graw.gdel_flows [OF ok d] and gr = graw.gdel_groups [OF ok d]
  have use: "\<not> group_in_use (flows_of lib hw') (groups_of lib hw') sid k"
    if "\<not> group_in_use (flows_of lib hw) (groups_of lib hw) sid k" for k
    using that group_in_use_set [of "flows_of lib hw" sid gid None "groups_of lib hw" k]
    by (auto simp: fl gr split: if_splits)
  show all: "vlan_wf lib hw' sid q" if "vlan_wf lib hw sid q" for q
    unfolding vlan_wf_def using that use by (auto simp: vlan_wf_def fl gr set_group_def)
  show "vlan_wf lib hw' sid pid" using all wf .
  have ing: "vidx_entry (flow_vidx lib f) \<noteq> vidx_entry x" if "f \<in> port_flows lib hw sid p" for f
    using wf that eg by (auto simp: vlan_wf_def port_flows_def flow_vidx_def vidx_entry_def)
  have same: "k = gid \<longleftrightarrow> OPS_FPA_GID_VLAN k = ?vid" if "(k, bk) \<in> port_groups lib hw sid pid" for k bk
  proof
    assume v: "OPS_FPA_GID_VLAN k = ?vid"
    have "fpaLibGroupIdentifierBuild lib (l2_ident pid (OPS_FPA_GID_VLAN k)) = (FPA_OK, k)"
      using wf that by (auto simp: vlan_wf_def port_groups_def)
    with b v show "k = gid" by simp
  qed (simp add: gv)
  have entry: "vidx_entry (group_vidx k bk) = vidx_entry x \<longleftrightarrow> OPS_FPA_GID_VLAN k = ?vid" for k bk
    using eg by (simp add: group_vidx_def vidx_entry_def [of x])
  show "port_vmap lib hw' sid p =
      (if ret = 0 \<and> p = pid then {y \<in> port_vmap lib hw sid p. vidx_entry y \<noteq> vidx_entry x}
       else port_vmap lib hw sid p)"
  proof (cases "ret = 0")
    case True
    have g: "{(k, bk) \<in> port_groups lib hw sid p. k \<noteq> gid} = (if p = pid
        then {(k, bk) \<in> port_groups lib hw sid p. vidx_entry (group_vidx k bk) \<noteq> vidx_entry x}
        else port_groups lib hw sid p)"
    proof (cases "p = pid")
      case True
      then show ?thesis by (auto simp: entry same gv)
    next
      case False
      then show ?thesis using gp by (auto simp: port_groups_def)
    qed
    have "groups_of lib hw' = set_group sid gid None (groups_of lib hw)" using gr ret True by simp
    from port_vmap_set_group [OF fl this, of p] True show ?thesis
      unfolding g by (auto simp: port_vmap_def ing)
  next
    case False
    then show ?thesis using fl gr ret by (simp add: port_vmap_def port_flows_def port_groups_def)
  qed
qed

lemma vlan_add_effect:
  assumes "fpa_lib_ok lib" and "l2_id_laws lib" and "vlan_wf lib hw sid pid"
    and "pid \<noteq> 0" and "pid \<le> 0xFFFF" and "x < 2 ^ 14"
    and "OPS_FPA_VIDX_IS_EGRESS x \<longrightarrow> (\<forall>y \<in> port_vmap lib hw sid pid. vidx_entry y \<noteq> vidx_entry x)"
    and "ops_fpa_vlan_add lib sid pid x hw = (ret, hw')"
  shows "vlan_wf lib hw' sid pid \<and> port_vmap lib hw' sid p =
      (if ret = 0 \<and> p = pid then insert x (port_vmap lib hw sid p) else port_vmap lib hw sid p)"
proof (cases "OPS_FPA_VIDX_IS_EGRESS x")
  case True
  then show ?thesis using vlan_add_egress [OF assms(1-6) _ _ assms(8)] assms(7) by blast
next
  case False
  then show ?thesis using vlan_add_ingress [OF assms(1-3,6) _ assms(8)] by blast
qed

lemma vlan_del_effect:
  assumes "fpa_lib_ok lib" and "l2_id_laws lib" and "vlan_wf lib hw sid pid" and "pid \<le> 0xFFFF"
    and "ops_fpa_vlan_del lib sid pid x hw = (ret, hw')"
  shows "vlan_wf lib hw' sid pid \<and> port_vmap lib hw' sid p =
      (if ret = 0 \<and> p = pid then {y \<in> port_vmap lib hw sid p. vidx_entry y \<noteq> vidx_entry x}
       else port_vmap lib hw sid p)"
proof (cases "OPS_FPA_VIDX_IS_EGRESS x")
  case True
  then show ?thesis using vlan_del_egress [OF assms(1-4) _ assms(5)] by blast
next
  case False
  then show ?thesis using vlan_del_ingress [OF assms(1,3,4) _ assms(5)] by blast
qed

text \<open>The tables stay well-formed for every port, not only for the one that is changed.\<close>

lemma vlan_add_wf:
  assumes "fpa_lib_ok lib" and "l2_id_laws lib" and "vlan_wf lib hw sid pid"
    and "pid \<noteq> 0" and "pid \<le> 0xFFFF" and "x < 2 ^ 14"
    and "OPS_FPA_VIDX_IS_EGRESS x \<longrightarrow> (\<forall>y \<in> port_vmap lib hw sid pid. vidx_entry y \<noteq> vidx_entry x)"
    and "ops_fpa_vlan_add lib sid pid x hw = (ret, hw')" and "vlan_wf lib hw sid q"
  shows "vlan_wf lib hw' sid q"
  using vlan_add_egress(3) [OF assms(1-6) _ _ assms(8,9)] vlan_add_ingress(3) [OF assms(1-3,6) _ assms(8,9)] assms(7) by blast

lemma vlan_del_wf:
  assumes "fpa_lib_ok lib" and "l2_id_laws lib" and "vlan_wf lib hw sid pid" and "pid \<le> 0xFFFF"
    and "ops_fpa_vlan_del lib sid pid x hw = (ret, hw')" and "vlan_wf lib hw sid q"
  shows "vlan_wf lib hw' sid q"
  using vlan_del_egress(3) [OF assms(1-4) _ assms(5,6)] vlan_del_ingress(3) [OF assms(1,3,4) _ assms(5,6)] by blast

text \<open>Adding a VIDX to a port adds exactly that VIDX to the VLAN state of the port when the call
  succeeds and nothing when it fails, keeps the tables well formed and does not touch the VLAN state
  of another port. For an egress VIDX this needs that the port has no egress VIDX of the same VLAN
  yet.\<close>

lemma vlan_add_vmap:
  assumes "fpa_lib_ok lib" and "l2_id_laws lib" and "vlan_wf lib hw sid pid"
    and "pid \<noteq> 0" and "pid \<le> 0xFFFF" and "x < 2 ^ 14"
    and "OPS_FPA_VIDX_IS_EGRESS x \<longrightarrow> (\<forall>y \<in> port_vmap lib hw sid pid. vidx_entry y \<noteq> vidx_entry x)"
    and "ops_fpa_vlan_add lib sid pid x hw = (ret, hw')"
  shows "vlan_wf lib hw' sid pid \<and> port_vmap lib hw' sid p =
      (if ret = 0 \<and> p = pid then insert x (port_vmap lib hw sid p) else port_vmap lib hw sid p)"
  by (rule vlan_add_effect [OF assms])

lemma sim_l2_id_laws: "l2_id_laws (sim_lib full gfull)"
proof -
  have "OPS_FPA_GID_PORT (push_bit 16 vid OR pid) = pid \<and> OPS_FPA_GID_VLAN (push_bit 16 vid OR pid) = vid"
    if "pid \<le> 0xFFFF" "vid < 4096" for pid vid :: u32
  proof -
    have m: "(0x0FFF0000 :: u32) = push_bit 16 (mask 12)" "(0x0000FFFF :: u32) = mask 16"
      by (simp_all add: mask_eq_exp_minus_1)
    have "pid < 2 ^ 16" using that(1) by (simp add: word_less_nat_alt word_le_nat_alt)
    then have p: "bit pid k \<Longrightarrow> k < 16" for k using word_less_exp_iff [of 16 pid] by simp
    have v: "bit vid k \<Longrightarrow> k < 12" "bit vid k \<Longrightarrow> k < 16" "bit pid k \<Longrightarrow> \<not> 16 \<le> k" "bit pid k \<Longrightarrow> k < 16" for k
      using vid_bits [OF that(2), of k] p [of k] by auto
    have "\<not> bit pid (16 + k)" for k using p [of "16 + k"] by auto
    with v show ?thesis unfolding OPS_FPA_GID_PORT_def OPS_FPA_GID_VLAN_def m
      by (auto simp: bit_drop_bit_eq bit_and_iff bit_or_iff bit_push_bit_iff bit_mask_iff
          intro!: bit_word_eqI)
  qed
  moreover have "vid \<le> 0xFFF" if "vid < 4096" for vid :: u32
    using that by (simp add: word_less_nat_alt word_le_nat_alt)
  ultimately show ?thesis by (simp add: l2_id_laws_def sim_group_id_def l2_ident_def)
qed

lemma sim_empty_wf: "vlan_wf (sim_lib full gfull) sim_empty sid pid"
  by (simp add: vlan_wf_def sim_empty_def group_in_use_def)

lemma sim_empty_vmap: "port_vmap (sim_lib full gfull) sim_empty sid pid = {}"
  by (simp add: port_vmap_def port_flows_def port_groups_def sim_empty_def)

text \<open>Deleting a VIDX from a port removes, when the call succeeds, every VIDX that shares its table
  entry: for a tagged ingress VIDX that is the VIDX itself, for an egress VIDX the VIDX of the VLAN
  with either flag, and for an untagged ingress VIDX all untagged ingress VIDX of the port, because
  their cookie is the port number alone. Other ports keep their VLAN state, and a call that fails
  changes nothing.\<close>

lemma vlan_del_vmap:
  assumes "fpa_lib_ok lib" and "l2_id_laws lib" and "vlan_wf lib hw sid pid" and "pid \<le> 0xFFFF"
    and "ops_fpa_vlan_del lib sid pid x hw = (ret, hw')"
  shows "vlan_wf lib hw' sid pid \<and> port_vmap lib hw' sid p =
      (if ret = 0 \<and> p = pid then {y \<in> port_vmap lib hw sid p. vidx_entry y \<noteq> vidx_entry x}
       else port_vmap lib hw sid p)"
  by (rule vlan_del_effect [OF assms])

section \<open>Internal VLANs\<close>

text \<open>Deleting a VIDX whose table entry is there succeeds.\<close>

lemma vlan_del_present:
  assumes ok: "fpa_lib_ok lib" and ids: "l2_id_laws lib" and wf: "vlan_wf lib hw sid pid"
    and pid: "pid \<le> 0xFFFF" and y: "y \<in> port_vmap lib hw sid pid" "vidx_entry y = vidx_entry x"
    and del: "ops_fpa_vlan_del lib sid pid x hw = (ret, hw')"
  shows "ret = 0"
  using wf y(1)
proof (cases rule: port_vmap_entry)
  case (flow f)
  then have mem: "f \<in> flows_of lib hw sid FPA_FLOW_TABLE_TYPE_VLAN_E" and ing: "\<not> OPS_FPA_VIDX_IS_EGRESS x"
    using y(2) by (auto simp: port_flows_def flow_vidx_def vidx_entry_def [of x])
  have "pid < 2 ^ 16" using pid by (simp add: word_less_nat_alt word_le_nat_alt)
  then have "fl_cookie f = OPS_FPA_VLAN_COOKIE pid (OPS_FPA_VIDX_VID x) (OPS_FPA_VIDX_ARG x)"
    using wf mem flow y(2) ing cookie_eq_iff [of pid "OPS_FPA_VIDX_VID x" "vl_vlanId (fl_vlan f)"]
    by (auto simp: vlan_wf_def port_flows_def flow_vidx_def vidx_entry_def [of x])
  from raw.del_status [OF ok mem this] show ?thesis
    using del ing ok by (auto simp: ops_fpa_vlan_del_def Let_def split: prod.splits)
next
  case (grp gid b)
  then have eg: "OPS_FPA_VIDX_IS_EGRESS x" and v: "OPS_FPA_GID_VLAN gid = OPS_FPA_VIDX_VID x"
    using y(2) by (auto simp: group_vidx_def vidx_entry_def [of x] split: if_splits)
  have g: "groups_of lib hw sid gid \<noteq> None"
    "fpaLibGroupIdentifierBuild lib (l2_ident pid (OPS_FPA_VIDX_VID x)) = (FPA_OK, gid)"
    "\<not> group_in_use (flows_of lib hw) (groups_of lib hw) sid gid"
    using grp wf unfolding v [symmetric] by (auto simp: vlan_wf_def port_groups_def)
  from graw.gdel_effect(1) [OF ok g(1,3)] show ?thesis
    using del eg ok g(2) by (auto simp: ops_fpa_vlan_del_def Let_def split: prod.splits)
qed

lemma add_internal_effect:
  assumes ok: "fpa_lib_ok lib" and ids: "l2_id_laws lib" and wf: "vlan_wf lib hw sid pid"
    and pid: "pid \<noteq> 0" "pid \<le> 0xFFFF" and vid: "vid < 4096"
    and free: "internal_free (port_vmap lib hw sid pid) vid"
    and new: "\<not> ops_fpa_vlan_internal iv vid"
    and add: "ops_fpa_vlan_add_internal lib sid pid vid iv hw = (ret, iv', hw')"
  shows "vlan_wf lib hw' sid pid \<and>
    (ret = 0 \<and> port_vmap lib hw' sid pid = port_vmap lib hw sid pid \<union> internal_vidx vid
       \<and> iv' = bitmap_set1 iv (unat vid)
     \<or> ret = 1 \<and> port_vmap lib hw' sid pid = port_vmap lib hw sid pid \<and> iv' = iv)"
proof -
  let ?i = "OPS_FPA_VIDX_INGRESS vid False" and ?e = "OPS_FPA_VIDX_EGRESS vid False"
  obtain r1 hw1 r2 hw2 r3 hw3 where a1: "ops_fpa_vlan_add lib sid pid ?i hw = (r1, hw1)"
    and a2: "ops_fpa_vlan_add lib sid pid ?e hw1 = (r2, hw2)"
    and d: "ops_fpa_vlan_del lib sid pid ?i hw2 = (r3, hw3)"
    by (meson surj_pair)
  have ei: "vidx_entry ?i = (False, 0)" and ee: "vidx_entry ?e = (True, vid)" using vid by simp_all
  have w1: "vlan_wf lib hw1 sid pid" and v1: "port_vmap lib hw1 sid pid =
      (if r1 = 0 then insert ?i (port_vmap lib hw sid pid) else port_vmap lib hw sid pid)"
    using vlan_add_effect [OF ok ids wf pid vidx_range(1) [OF vid] _ a1, of pid] vid by auto
  have "\<forall>y \<in> port_vmap lib hw1 sid pid. vidx_entry y \<noteq> vidx_entry ?e"
    using free ei unfolding v1 ee internal_free_def by auto
  then have w2: "vlan_wf lib hw2 sid pid" and v2: "port_vmap lib hw2 sid pid =
      (if r2 = 0 then insert ?e (port_vmap lib hw1 sid pid) else port_vmap lib hw1 sid pid)"
    using vlan_add_effect [OF ok ids w1 pid vidx_range(2) [OF vid] _ a2, of pid] by auto
  have w3: "vlan_wf lib hw3 sid pid" and v3: "port_vmap lib hw3 sid pid =
      (if r3 = 0 then {y \<in> port_vmap lib hw2 sid pid. vidx_entry y \<noteq> (False, 0)} else port_vmap lib hw2 sid pid)"
    using vlan_del_effect [OF ok ids w2 pid(2) d, of pid] ei by auto
  have "port_vmap lib hw3 sid pid = port_vmap lib hw sid pid" if r: "r1 = 0" "r2 \<noteq> 0"
  proof -
    have v: "port_vmap lib hw2 sid pid = insert ?i (port_vmap lib hw sid pid)" using v1 v2 r by simp
    then have "r3 = 0" using vlan_del_present [OF ok ids w2 pid(2) _ refl d] by simp
    then show ?thesis using v3 v free ei by (auto simp: internal_free_def)
  qed
  then show ?thesis
    using add w1 w2 w3 v1 v2 new
    by (auto simp: ops_fpa_vlan_add_internal_def a1 a2 d internal_vidx_def split: if_splits)
qed

text \<open>Giving a routed port its internal VLAN is all or nothing: either both table entries of the
  VLAN are in the switch and the VLAN is marked internal, or the call returns 1 and the VLAN state of
  the port and the set of internal VLANs are as before. In particular the ingress entry is taken out
  again when the egress entry cannot be added.\<close>

lemma add_internal_atomic:
  assumes "fpa_lib_ok lib" and "l2_id_laws lib" and "vlan_wf lib hw sid pid"
    and "pid \<noteq> 0" and "pid \<le> 0xFFFF" and "vid < 4096"
    and "internal_free (port_vmap lib hw sid pid) vid"
    and "\<not> ops_fpa_vlan_internal iv vid"
    and "ops_fpa_vlan_add_internal lib sid pid vid iv hw = (ret, iv', hw')"
  shows "ret = 0 \<and> port_vmap lib hw' sid pid = port_vmap lib hw sid pid \<union> internal_vidx vid
       \<and> iv' = bitmap_set1 iv (unat vid)
     \<or> ret = 1 \<and> port_vmap lib hw' sid pid = port_vmap lib hw sid pid \<and> iv' = iv"
  using add_internal_effect [OF assms] by blast

lemma del_internal_undo:
  assumes ok: "fpa_lib_ok lib" and ids: "l2_id_laws lib" and wf: "vlan_wf lib hw sid pid"
    and pid: "pid \<le> 0xFFFF" and vid: "vid < 4096"
    and v: "port_vmap lib hw sid pid = V \<union> internal_vidx vid" and free: "internal_free V vid"
    and iv: "iv = bitmap_set1 iv0 (unat vid)" and new: "\<not> ops_fpa_vlan_internal iv0 vid"
    and del: "ops_fpa_vlan_del_internal lib sid pid vid iv hw = (ret, iv', hw')"
  shows "ret = 0 \<and> port_vmap lib hw' sid pid = V \<and> iv' = iv0"
proof -
  let ?i = "OPS_FPA_VIDX_INGRESS vid False" and ?e = "OPS_FPA_VIDX_EGRESS vid False"
  have ei: "vidx_entry ?i = (False, 0)" and ee: "vidx_entry ?e = (True, vid)" using vid by simp_all
  obtain r1 hwm r2 where d1: "ops_fpa_vlan_del lib sid pid ?i hw = (r1, hwm)"
    and d2: "ops_fpa_vlan_del lib sid pid ?e hwm = (r2, hw')"
    and ret: "ret = (if r1 \<noteq> 0 \<or> r2 \<noteq> 0 \<or> \<not> ops_fpa_vlan_internal iv vid then 1 else 0)"
    and iv': "iv' = bitmap_set0 iv (unat vid)"
    using del by (auto simp: ops_fpa_vlan_del_internal_def Let_def split: prod.splits)
  have r1: "r1 = 0" using vlan_del_present [OF ok ids wf pid _ refl d1] v by (simp add: internal_vidx_def)
  have wm: "vlan_wf lib hwm sid pid" and vm: "port_vmap lib hwm sid pid = insert ?e V"
    using vlan_del_effect [OF ok ids wf pid d1, of pid] r1 v free ei ee
    by (auto simp: internal_free_def internal_vidx_def)
  have r2: "r2 = 0" using vlan_del_present [OF ok ids wm pid _ refl d2] vm by simp
  have "port_vmap lib hw' sid pid = V"
    using vlan_del_effect [OF ok ids wm pid d2, of pid] r2 vm free ee by (auto simp: internal_free_def)
  moreover have "iv' = iv0"
    using iv' iv new by (auto simp: fun_eq_iff bitmap_simps ops_fpa_vlan_internal_def)
  ultimately show ?thesis
    using ret r1 r2 iv by (simp add: ops_fpa_vlan_internal_def bitmap_simps)
qed

text \<open>Taking the internal VLAN of a routed port away again undoes giving it: both entries are
  deleted, the call returns 0, and the VLAN state and the set of internal VLANs are what they were
  before.\<close>

lemma internal_roundtrip:
  assumes ok: "fpa_lib_ok lib" and ids: "l2_id_laws lib" and wf: "vlan_wf lib hw sid pid"
    and pid: "pid \<noteq> 0" "pid \<le> 0xFFFF" and vid: "vid < 4096"
    and free: "internal_free (port_vmap lib hw sid pid) vid"
    and new: "\<not> ops_fpa_vlan_internal iv vid"
    and add: "ops_fpa_vlan_add_internal lib sid pid vid iv hw = (0, iv1, hw1)"
    and del: "ops_fpa_vlan_del_internal lib sid pid vid iv1 hw1 = (ret, iv2, hw2)"
  shows "ret = 0 \<and> port_vmap lib hw2 sid pid = port_vmap lib hw sid pid \<and> iv2 = iv"
proof -
  have w1: "vlan_wf lib hw1 sid pid" and v1: "port_vmap lib hw1 sid pid = port_vmap lib hw sid pid \<union> internal_vidx vid"
    and i1: "iv1 = bitmap_set1 iv (unat vid)"
    using add_internal_effect [OF ok ids wf pid vid free new add] by auto
  show ?thesis by (rule del_internal_undo [OF ok ids w1 pid(2) vid v1 free i1 new del])
qed

end
