(* ===== verification/Fpa_Routing.thy ===== *)
theory Fpa_Routing
  imports Fpa_Vlan
begin

text \<open>
  \<open>src/ops-fpa-routing.c\<close>: turning routing on and off for a VLAN or for a port. Routing on a VLAN is
  four flows (ARP broadcasts to the CPU, unicast ARP to the router's MAC, DHCP to the CPU, and the
  termination entry that sends IP packets for the router's MAC to the routing table), each keyed by a
  cookie of the VLAN; a routed port has an internal VLAN of its own besides. Turning routing on
  unwinds its completed steps when a later one fails.
\<close>

section \<open>Definitions\<close>

abbreviation (input) ETHERTYPE_IP :: nat where "ETHERTYPE_IP \<equiv> 0x0800"
abbreviation (input) ETHERTYPE_ARP :: nat where "ETHERTYPE_ARP \<equiv> 0x0806"

record fpa_l3_intf =
  li_switchId :: u32
  li_intf_id :: u32
  li_vlan_id :: u16
  li_mac :: eth_addr
  li_vlan_intf :: bool
  li_routes_count :: u64

definition OPS_FPA_CONTROL_PKT_COOKIE :: "nat \<Rightarrow> u16 \<Rightarrow> u64" where
  "OPS_FPA_CONTROL_PKT_COOKIE etype vlanId = push_bit 16 (of_nat etype) OR ucast vlanId"

definition OPS_FPA_TERMINATION_COOKIE :: "u16 \<Rightarrow> u64" where
  "OPS_FPA_TERMINATION_COOKIE vlanId = ucast vlanId"

definition OPS_FPA_L2_BRIDGING_COOKIE :: "u16 \<Rightarrow> u64" where
  "OPS_FPA_L2_BRIDGING_COOKIE vlanId = ucast vlanId"

definition arp_bcast_flow :: "'hw fpa_lib \<Rightarrow> fpa_flow \<Rightarrow> u16 \<Rightarrow> fpa_flow" where
  "arp_bcast_flow lib flowEntry vlan_id =
     flowEntry\<lparr>fl_cookie := OPS_FPA_CONTROL_PKT_COOKIE ETHERTYPE_ARP vlan_id,
       fl_control_pkt := (fl_control_pkt flowEntry)\<lparr>
         cp_entry_type := FPA_CONTROL_PKTS_TYPE_ARP_REQUEST_MESSAGES_E,
         cp_dstMac := eth_ones, cp_dstMacMask := eth_ones,
         cp_vlanId := ucast vlan_id, cp_vlanIdMask := 0xFFFF,
         cp_etherType := of_nat ETHERTYPE_ARP, cp_etherTypeMask := 0xFFFF,
         cp_outputPort := FPA_OUTPUT_CONTROLLER lib\<rparr>\<rparr>"

definition ops_fpa_vlan_set_arp_bcast :: "'hw fpa_lib \<Rightarrow> u32 \<Rightarrow> u16 \<Rightarrow> 'hw fpa_call" where
  "ops_fpa_vlan_set_arp_bcast lib switch_id vlan_id hw =
     (let (err, flowEntry) = fpaLibFlowEntryInit lib switch_id FPA_FLOW_TABLE_TYPE_CONTROL_PKT_E
      in wrap_fpaLibFlowEntryAdd lib switch_id FPA_FLOW_TABLE_TYPE_CONTROL_PKT_E
           (arp_bcast_flow lib flowEntry vlan_id) hw)"

definition ops_fpa_vlan_unset_arp_bcast :: "'hw fpa_lib \<Rightarrow> u32 \<Rightarrow> u16 \<Rightarrow> 'hw fpa_call" where
  "ops_fpa_vlan_unset_arp_bcast lib switch_id vlan_id hw =
     wrap_fpaLibFlowTableCookieDelete lib switch_id FPA_FLOW_TABLE_TYPE_CONTROL_PKT_E
       (OPS_FPA_CONTROL_PKT_COOKIE ETHERTYPE_ARP vlan_id) hw"

definition arp_fwd_flow :: "'hw fpa_lib \<Rightarrow> fpa_flow \<Rightarrow> u16 \<Rightarrow> eth_addr \<Rightarrow> fpa_flow" where
  "arp_fwd_flow lib flowEntry vlan_id mac =
     flowEntry\<lparr>fl_cookie := OPS_FPA_L2_BRIDGING_COOKIE vlan_id,
       fl_l2_bridging := (fl_l2_bridging flowEntry)\<lparr>
         br_vlanId := ucast vlan_id, br_vlanIdMask := 0xFFFF,
         br_destMac := mac, br_destMacMask := eth_ones,
         br_groupId := 0xFFFFFFFF, br_outputPort := FPA_OUTPUT_CONTROLLER lib\<rparr>\<rparr>"

definition ops_fpa_set_arp_fwd :: "'hw fpa_lib \<Rightarrow> u32 \<Rightarrow> u16 \<Rightarrow> eth_addr \<Rightarrow> 'hw fpa_call" where
  "ops_fpa_set_arp_fwd lib switch_id vlan_id mac hw =
     (let (err, flowEntry) = fpaLibFlowEntryInit lib switch_id FPA_FLOW_TABLE_TYPE_L2_BRIDGING_E
      in wrap_fpaLibFlowEntryAdd lib switch_id FPA_FLOW_TABLE_TYPE_L2_BRIDGING_E
           (arp_fwd_flow lib flowEntry vlan_id mac) hw)"

definition ops_fpa_unset_arp_fwd :: "'hw fpa_lib \<Rightarrow> u32 \<Rightarrow> u16 \<Rightarrow> eth_addr \<Rightarrow> 'hw fpa_call" where
  "ops_fpa_unset_arp_fwd lib switch_id vlan_id mac hw =
     wrap_fpaLibFlowTableCookieDelete lib switch_id FPA_FLOW_TABLE_TYPE_L2_BRIDGING_E
       (OPS_FPA_L2_BRIDGING_COOKIE vlan_id) hw"

definition unicast_routing_flow :: "'hw fpa_lib \<Rightarrow> fpa_flow \<Rightarrow> u16 \<Rightarrow> eth_addr \<Rightarrow> fpa_flow" where
  "unicast_routing_flow lib flowEntry vlan_id mac =
     flowEntry\<lparr>fl_cookie := OPS_FPA_TERMINATION_COOKIE vlan_id,
       fl_termination := (fl_termination flowEntry)\<lparr>
         tm_etherType := of_nat ETHERTYPE_IP, tm_etherTypeMask := 0xFFFF,
         tm_vlanId := ucast vlan_id, tm_vlanIdMask := 0xFFFF,
         tm_destMac := mac, tm_destMacMask := eth_ones,
         tm_metadataValue := FPA_FLOW_TABLE_METADATA_MAC2ME_BIT lib,
         tm_metadataMask := FPA_FLOW_TABLE_METADATA_MAC2ME_BIT lib\<rparr>\<rparr>"

definition ops_fpa_vlan_enable_unicast_routing ::
  "'hw fpa_lib \<Rightarrow> u32 \<Rightarrow> u16 \<Rightarrow> eth_addr \<Rightarrow> 'hw fpa_call" where
  "ops_fpa_vlan_enable_unicast_routing lib switch_id vlan_id mac hw =
     (let (err, flowEntry) = fpaLibFlowEntryInit lib switch_id FPA_FLOW_TABLE_TYPE_TERMINATION_E
      in wrap_fpaLibFlowEntryAdd lib switch_id FPA_FLOW_TABLE_TYPE_TERMINATION_E
           (unicast_routing_flow lib flowEntry vlan_id mac) hw)"

definition ops_fpa_vlan_disable_unicast_routing ::
  "'hw fpa_lib \<Rightarrow> u32 \<Rightarrow> u16 \<Rightarrow> eth_addr \<Rightarrow> 'hw fpa_call" where
  "ops_fpa_vlan_disable_unicast_routing lib switch_id vlan_id mac hw =
     wrap_fpaLibFlowTableCookieDelete lib switch_id FPA_FLOW_TABLE_TYPE_TERMINATION_E
       (OPS_FPA_TERMINATION_COOKIE vlan_id) hw"

definition udp_dhcp_flow :: "'hw fpa_lib \<Rightarrow> fpa_flow \<Rightarrow> u16 \<Rightarrow> fpa_flow" where
  "udp_dhcp_flow lib flowEntry vlan_id =
     flowEntry\<lparr>fl_cookie := OPS_FPA_CONTROL_PKT_COOKIE ETHERTYPE_IP vlan_id,
       fl_control_pkt := (fl_control_pkt flowEntry)\<lparr>
         cp_entry_type := FPA_CONTROL_PKTS_TYPE_UDP_BROADCAST_CTRL_E,
         cp_dstMac := eth_ones, cp_dstMacMask := eth_ones,
         cp_vlanId := ucast vlan_id, cp_vlanIdMask := 0xFFFF,
         cp_etherType := of_nat ETHERTYPE_IP, cp_etherTypeMask := 0xFFFF,
         cp_ipProtocol := 17, cp_ipProtocolMask := 0xFFFF, cp_icmpV6TypeMask := 0,
         cp_dstL4Port := 67, cp_dstL4PortMask := 0xFFFF,
         cp_outputPort := FPA_OUTPUT_CONTROLLER lib\<rparr>\<rparr>"

definition ops_fpa_vlan_set_udp_dhcp :: "'hw fpa_lib \<Rightarrow> u32 \<Rightarrow> u16 \<Rightarrow> 'hw fpa_call" where
  "ops_fpa_vlan_set_udp_dhcp lib switch_id vlan_id hw =
     (let (err, flowEntry) = fpaLibFlowEntryInit lib switch_id FPA_FLOW_TABLE_TYPE_CONTROL_PKT_E
      in wrap_fpaLibFlowEntryAdd lib switch_id FPA_FLOW_TABLE_TYPE_CONTROL_PKT_E
           (udp_dhcp_flow lib flowEntry vlan_id) hw)"

definition ops_fpa_vlan_unset_udp_dhcp :: "'hw fpa_lib \<Rightarrow> u32 \<Rightarrow> u16 \<Rightarrow> 'hw fpa_call" where
  "ops_fpa_vlan_unset_udp_dhcp lib switch_id vlan_id hw =
     wrap_fpaLibFlowTableCookieDelete lib switch_id FPA_FLOW_TABLE_TYPE_CONTROL_PKT_E
       (OPS_FPA_CONTROL_PKT_COOKIE ETHERTYPE_IP vlan_id) hw"

text \<open>The null pointer that the functions return on failure is \<open>None\<close>.\<close>

definition ops_fpa_enable_routing_vlan ::
  "'hw fpa_lib \<Rightarrow> u32 \<Rightarrow> u16 \<Rightarrow> eth_addr \<Rightarrow> 'hw \<Rightarrow> fpa_l3_intf option \<times> 'hw" where
  "ops_fpa_enable_routing_vlan lib switch_id vlan_id mac hw =
     (let (err, hw) = ops_fpa_vlan_set_arp_bcast lib switch_id vlan_id hw in
      if err \<noteq> FPA_OK then (None, hw) else
      let (err, hw) = ops_fpa_set_arp_fwd lib switch_id vlan_id mac hw in
      if err \<noteq> FPA_OK then
        (let (e, hw) = ops_fpa_vlan_unset_arp_bcast lib switch_id vlan_id hw in (None, hw)) else
      let (err, hw) = ops_fpa_vlan_set_udp_dhcp lib switch_id vlan_id hw in
      if err \<noteq> FPA_OK then
        (let (e, hw) = ops_fpa_unset_arp_fwd lib switch_id vlan_id mac hw;
             (e, hw) = ops_fpa_vlan_unset_arp_bcast lib switch_id vlan_id hw in (None, hw)) else
      let (err, hw) = ops_fpa_vlan_enable_unicast_routing lib switch_id vlan_id mac hw in
      if err \<noteq> FPA_OK then
        (let (e, hw) = ops_fpa_vlan_unset_udp_dhcp lib switch_id vlan_id hw;
             (e, hw) = ops_fpa_unset_arp_fwd lib switch_id vlan_id mac hw;
             (e, hw) = ops_fpa_vlan_unset_arp_bcast lib switch_id vlan_id hw in (None, hw))
      else (Some \<lparr>li_switchId = switch_id, li_intf_id = 0, li_vlan_id = vlan_id, li_mac = mac,
              li_vlan_intf = False, li_routes_count = 0\<rparr>, hw))"

definition ops_fpa_enable_routing_interface ::
  "'hw fpa_lib \<Rightarrow> u32 \<Rightarrow> u32 \<Rightarrow> u16 \<Rightarrow> eth_addr \<Rightarrow> bitmap \<Rightarrow> 'hw
    \<Rightarrow> fpa_l3_intf option \<times> bitmap \<times> 'hw" where
  "ops_fpa_enable_routing_interface lib switch_id port_num vlan_id mac internal_vlans hw =
     (let (ret, internal_vlans, hw) =
            ops_fpa_vlan_add_internal lib switch_id port_num (ucast vlan_id) internal_vlans hw in
      if ret \<noteq> 0 then (None, internal_vlans, hw) else
      let (l3_intf, hw) = ops_fpa_enable_routing_vlan lib switch_id vlan_id mac hw in
      case l3_intf of
        None \<Rightarrow>
          (let (ret, internal_vlans, hw) =
                 ops_fpa_vlan_del_internal lib switch_id port_num (ucast vlan_id) internal_vlans hw
           in (None, internal_vlans, hw))
      | Some i \<Rightarrow> (Some (i\<lparr>li_intf_id := port_num, li_vlan_intf := True\<rparr>), internal_vlans, hw))"

definition ops_fpa_disable_routing ::
  "'hw fpa_lib \<Rightarrow> fpa_l3_intf option \<Rightarrow> bitmap \<Rightarrow> 'hw \<Rightarrow> crash + bitmap \<times> 'hw" where
  "ops_fpa_disable_routing lib l3_intf internal_vlans hw =
     (case l3_intf of None \<Rightarrow> Inl Assert_Failed
      | Some i \<Rightarrow>
        let (internal_vlans, hw) =
              (if li_vlan_intf i
               then (let (ret, internal_vlans, hw) = ops_fpa_vlan_del_internal lib (li_switchId i)
                           (li_intf_id i) (ucast (li_vlan_id i)) internal_vlans hw
                     in (internal_vlans, hw))
               else (internal_vlans, hw));
            (err, hw) = ops_fpa_vlan_unset_arp_bcast lib (li_switchId i) (li_vlan_id i) hw in
        if err \<noteq> FPA_OK then Inr (internal_vlans, hw) else
        let (err, hw) = ops_fpa_unset_arp_fwd lib (li_switchId i) (li_vlan_id i) (li_mac i) hw in
        if err \<noteq> FPA_OK then Inr (internal_vlans, hw) else
        let (err, hw) = ops_fpa_vlan_unset_udp_dhcp lib (li_switchId i) (li_vlan_id i) hw in
        if err \<noteq> FPA_OK then Inr (internal_vlans, hw) else
        let (err, hw) = ops_fpa_vlan_disable_unicast_routing lib (li_switchId i) (li_vlan_id i) (li_mac i) hw
        in Inr (internal_vlans, hw))"

section \<open>The flows of a routed VLAN\<close>

text \<open>The four flows that routing on a VLAN consists of, and that none of their cookies is taken.\<close>

definition routing_flows :: "'hw fpa_lib \<Rightarrow> u32 \<Rightarrow> u16 \<Rightarrow> eth_addr \<Rightarrow> (fpa_table \<times> fpa_flow) list" where
  "routing_flows lib sid vlan mac =
     [(FPA_FLOW_TABLE_TYPE_CONTROL_PKT_E,
         arp_bcast_flow lib (snd (fpaLibFlowEntryInit lib sid FPA_FLOW_TABLE_TYPE_CONTROL_PKT_E)) vlan),
      (FPA_FLOW_TABLE_TYPE_L2_BRIDGING_E,
         arp_fwd_flow lib (snd (fpaLibFlowEntryInit lib sid FPA_FLOW_TABLE_TYPE_L2_BRIDGING_E)) vlan mac),
      (FPA_FLOW_TABLE_TYPE_CONTROL_PKT_E,
         udp_dhcp_flow lib (snd (fpaLibFlowEntryInit lib sid FPA_FLOW_TABLE_TYPE_CONTROL_PKT_E)) vlan),
      (FPA_FLOW_TABLE_TYPE_TERMINATION_E,
         unicast_routing_flow lib (snd (fpaLibFlowEntryInit lib sid FPA_FLOW_TABLE_TYPE_TERMINATION_E)) vlan mac)]"

definition insert_flows :: "u32 \<Rightarrow> (fpa_table \<times> fpa_flow) list \<Rightarrow> flow_state \<Rightarrow> flow_state" where
  "insert_flows sid fs F = fold (\<lambda>(t, f) F. insert_flow sid t f F) fs F"

definition routing_free :: "flow_state \<Rightarrow> u32 \<Rightarrow> u16 \<Rightarrow> bool" where
  "routing_free F sid vlan \<longleftrightarrow>
     (\<forall>f \<in> F sid FPA_FLOW_TABLE_TYPE_CONTROL_PKT_E.
        fl_cookie f \<noteq> OPS_FPA_CONTROL_PKT_COOKIE ETHERTYPE_ARP vlan
        \<and> fl_cookie f \<noteq> OPS_FPA_CONTROL_PKT_COOKIE ETHERTYPE_IP vlan)
   \<and> (\<forall>f \<in> F sid FPA_FLOW_TABLE_TYPE_L2_BRIDGING_E. fl_cookie f \<noteq> OPS_FPA_L2_BRIDGING_COOKIE vlan)
   \<and> (\<forall>f \<in> F sid FPA_FLOW_TABLE_TYPE_TERMINATION_E. fl_cookie f \<noteq> OPS_FPA_TERMINATION_COOKIE vlan)"

section \<open>Steps and their undo\<close>

context flow_tables
begin

text \<open>Deleting the cookie of the last flow that was added takes the table back to before.\<close>

lemma undo_add:
  assumes "ok l" and "flows l hw = insert_flow sid t f F" and "fl_cookie f = c"
    and "\<forall>g \<in> F sid t. fl_cookie g \<noteq> c" and "del l sid t c hw = (err, hw')"
  shows "err = FPA_OK" and "flows l hw' = F"
proof -
  have "f \<in> flows l hw sid t" by (simp add: assms(2) insert_flow_def)
  note eff = del_effect [OF assms(1) this assms(3,5)]
  show "err = FPA_OK" by (rule eff(1))
  show "flows l hw' = F" using eff(2) assms(2-4) by (simp add: delete_insert_flow)
qed

end

lemma cookie_types_differ:
  "OPS_FPA_CONTROL_PKT_COOKIE ETHERTYPE_ARP vlan \<noteq> OPS_FPA_CONTROL_PKT_COOKIE ETHERTYPE_IP vlan"
proof
  assume "OPS_FPA_CONTROL_PKT_COOKIE ETHERTYPE_ARP vlan = OPS_FPA_CONTROL_PKT_COOKIE ETHERTYPE_IP vlan"
  then have "bit (OPS_FPA_CONTROL_PKT_COOKIE ETHERTYPE_ARP vlan) 17
      = bit (OPS_FPA_CONTROL_PKT_COOKIE ETHERTYPE_IP vlan) 17" by simp
  moreover have "\<not> bit vlan 17" using bit_imp_le_length [of vlan 17] by auto
  ultimately show False
    by (simp add: OPS_FPA_CONTROL_PKT_COOKIE_def bit_or_iff bit_push_bit_iff bit_simps)
qed

lemma routing_flow_cookies [simp]:
  "fl_cookie (arp_bcast_flow lib f vlan) = OPS_FPA_CONTROL_PKT_COOKIE ETHERTYPE_ARP vlan"
  "fl_cookie (arp_fwd_flow lib f vlan mac) = OPS_FPA_L2_BRIDGING_COOKIE vlan"
  "fl_cookie (udp_dhcp_flow lib f vlan) = OPS_FPA_CONTROL_PKT_COOKIE ETHERTYPE_IP vlan"
  "fl_cookie (unicast_routing_flow lib f vlan mac) = OPS_FPA_TERMINATION_COOKIE vlan"
  by (simp_all add: arp_bcast_flow_def arp_fwd_flow_def udp_dhcp_flow_def unicast_routing_flow_def)

lemma insert_flow_table:
  "insert_flow sid t f F s t' = (if s = sid \<and> t' = t then insert f (F s t') else F s t')"
  by (simp add: insert_flow_def)

lemmas unset_defs = ops_fpa_vlan_unset_arp_bcast_def ops_fpa_unset_arp_fwd_def
  ops_fpa_vlan_unset_udp_dhcp_def ops_fpa_vlan_disable_unicast_routing_def
lemmas set_defs = ops_fpa_vlan_set_arp_bcast_def ops_fpa_set_arp_fwd_def
  ops_fpa_vlan_set_udp_dhcp_def ops_fpa_vlan_enable_unicast_routing_def

lemma enable_routing_effect:
  assumes ok: "fpa_lib_ok lib" and free: "routing_free (flows_of lib hw) sid vlan"
    and en: "ops_fpa_enable_routing_vlan lib sid vlan mac hw = (res, hw')"
  shows "groups_of lib hw' = groups_of lib hw \<and> flows_of lib hw' =
    (if res = None then flows_of lib hw else insert_flows sid (routing_flows lib sid vlan mac) (flows_of lib hw))"
proof -
  let ?init = "\<lambda>t. snd (fpaLibFlowEntryInit lib sid t)" and ?F = "flows_of lib hw"
  let ?c = FPA_FLOW_TABLE_TYPE_CONTROL_PKT_E and ?b = FPA_FLOW_TABLE_TYPE_L2_BRIDGING_E
  let ?f1 = "arp_bcast_flow lib (?init ?c) vlan" and ?f2 = "arp_fwd_flow lib (?init ?b) vlan mac"
    and ?f3 = "udp_dhcp_flow lib (?init ?c) vlan"
  obtain e1 hw1 e2 hw2 e3 hw3 e4 hw4 where
    s1: "ops_fpa_vlan_set_arp_bcast lib sid vlan hw = (e1, hw1)" and
    s2: "ops_fpa_set_arp_fwd lib sid vlan mac hw1 = (e2, hw2)" and
    s3: "ops_fpa_vlan_set_udp_dhcp lib sid vlan hw2 = (e3, hw3)" and
    s4: "ops_fpa_vlan_enable_unicast_routing lib sid vlan mac hw3 = (e4, hw4)"
    by (meson surj_pair)
  note set = s1 s2 s3 s4
  obtain d2 hw2a d3 hw3a d3' hw3b d4 hw4a d4' hw4b d4'' hw4c where
    u2: "ops_fpa_vlan_unset_arp_bcast lib sid vlan hw2 = (d2, hw2a)" and
    u3: "ops_fpa_unset_arp_fwd lib sid vlan mac hw3 = (d3, hw3a)"
      "ops_fpa_vlan_unset_arp_bcast lib sid vlan hw3a = (d3', hw3b)" and
    u4: "ops_fpa_vlan_unset_udp_dhcp lib sid vlan hw4 = (d4, hw4a)"
      "ops_fpa_unset_arp_fwd lib sid vlan mac hw4a = (d4', hw4b)"
      "ops_fpa_vlan_unset_arp_bcast lib sid vlan hw4b = (d4'', hw4c)"
    by (meson surj_pair)
  note f = set [unfolded set_defs case_prod_beta Let_def, THEN wrapped.add_flows [OF ok]]
  note g = set [unfolded set_defs case_prod_beta Let_def, THEN wrapped.add_groups [OF ok]]
  note gu = u2 [unfolded unset_defs, THEN wrapped.del_groups [OF ok]]
    u3 [unfolded unset_defs, THEN wrapped.del_groups [OF ok]]
    u4 [unfolded unset_defs, THEN wrapped.del_groups [OF ok]]
  have c1: "\<forall>g \<in> ?F sid ?c. fl_cookie g \<noteq> OPS_FPA_CONTROL_PKT_COOKIE ETHERTYPE_ARP vlan"
    and c2: "\<forall>g \<in> insert_flow sid ?c ?f1 ?F sid ?b. fl_cookie g \<noteq> OPS_FPA_L2_BRIDGING_COOKIE vlan"
    and c3: "\<forall>g \<in> insert_flow sid ?b ?f2 (insert_flow sid ?c ?f1 ?F) sid ?c.
        fl_cookie g \<noteq> OPS_FPA_CONTROL_PKT_COOKIE ETHERTYPE_IP vlan"
    using free cookie_types_differ by (auto simp: routing_free_def insert_flow_table)
  note undo1 = wrapped.undo_add(2) [where F = ?F and f = ?f1, OF ok _ routing_flow_cookies(1) c1]
  note undo2 = wrapped.undo_add(2) [where F = "insert_flow sid ?c ?f1 ?F" and f = ?f2, OF ok _ routing_flow_cookies(2) c2]
  note undo3 = wrapped.undo_add(2) [where F = "insert_flow sid ?b ?f2 (insert_flow sid ?c ?f1 ?F)" and f = ?f3,
    OF ok _ routing_flow_cookies(3) c3]
  have "flows_of lib hw2a = ?F" if "e1 = FPA_OK" "e2 \<noteq> FPA_OK"
    by (rule undo1 [OF _ u2 [unfolded unset_defs]]) (use f that in simp)
  moreover have "flows_of lib hw3b = ?F" if "e1 = FPA_OK" "e2 = FPA_OK" "e3 \<noteq> FPA_OK"
    by (rule undo1 [OF undo2 [OF _ u3(1) [unfolded unset_defs]] u3(2) [unfolded unset_defs]])
      (use f that in simp)
  moreover have "flows_of lib hw4c = ?F" if "e1 = FPA_OK" "e2 = FPA_OK" "e3 = FPA_OK" "e4 \<noteq> FPA_OK"
    by (rule undo1 [OF undo2 [OF undo3 [OF _ u4(1) [unfolded unset_defs]] u4(2) [unfolded unset_defs]]
          u4(3) [unfolded unset_defs]]) (use f that in simp)
  moreover have "flows_of lib hw4 = insert_flows sid (routing_flows lib sid vlan mac) ?F"
    if "e1 = FPA_OK" "e2 = FPA_OK" "e3 = FPA_OK" "e4 = FPA_OK"
    using f that by (simp add: insert_flows_def routing_flows_def)
  ultimately show ?thesis
    using en f g gu
    by (auto simp: ops_fpa_enable_routing_vlan_def s1 s2 s3 s4 u2 u3 u4 split: if_splits)
qed

text \<open>Turning routing on for a VLAN is all or nothing: when a structure is returned the four flows
  of the VLAN are in their tables and nothing else has changed, and when the null pointer is returned,
  whichever of the four steps failed, every flow table and every group is as it was before.\<close>

lemma enable_routing_vlan_atomic:
  assumes "fpa_lib_ok lib" and "routing_free (flows_of lib hw) sid vlan"
    and "ops_fpa_enable_routing_vlan lib sid vlan mac hw = (res, hw')"
  shows "groups_of lib hw' = groups_of lib hw \<and> flows_of lib hw' =
    (if res = None then flows_of lib hw else insert_flows sid (routing_flows lib sid vlan mac) (flows_of lib hw))"
  by (rule enable_routing_effect [OF assms])

lemma sim_empty_routing_free: "routing_free (flows_of (sim_lib full gfull) sim_empty) sid vlan"
  by (simp add: routing_free_def sim_empty_def)

text \<open>In the witness the termination table is full, so that the last of the four steps fails.\<close>

section \<open>Turning routing off\<close>

lemma enable_routing_result:
  "ops_fpa_enable_routing_vlan lib sid vlan mac hw = (Some i, hw') \<Longrightarrow>
    i = \<lparr>li_switchId = sid, li_intf_id = 0, li_vlan_id = vlan, li_mac = mac,
         li_vlan_intf = False, li_routes_count = 0\<rparr>"
  by (auto simp: ops_fpa_enable_routing_vlan_def split: prod.splits if_splits)

lemma delete_cookie_table:
  "delete_cookie sid t c F s t' = (if s = sid \<and> t' = t then {f \<in> F s t'. fl_cookie f \<noteq> c} else F s t')"
  by (simp add: delete_cookie_def)

lemma unset_all:
  assumes ok: "fpa_lib_ok lib" and free: "routing_free F sid vlan"
    and fl: "flows_of lib hw = insert_flows sid (routing_flows lib sid vlan mac) F"
    and u1: "ops_fpa_vlan_unset_arp_bcast lib sid vlan hw = (e1, hw1)"
    and u2: "ops_fpa_unset_arp_fwd lib sid vlan mac hw1 = (e2, hw2)"
    and u3: "ops_fpa_vlan_unset_udp_dhcp lib sid vlan hw2 = (e3, hw3)"
    and u4: "ops_fpa_vlan_disable_unicast_routing lib sid vlan mac hw3 = (e4, hw4)"
  shows "e1 = FPA_OK \<and> e2 = FPA_OK \<and> e3 = FPA_OK \<and> e4 = FPA_OK
    \<and> flows_of lib hw4 = F \<and> groups_of lib hw4 = groups_of lib hw"
proof -
  let ?init = "\<lambda>t. snd (fpaLibFlowEntryInit lib sid t)"
  let ?c = FPA_FLOW_TABLE_TYPE_CONTROL_PKT_E and ?b = FPA_FLOW_TABLE_TYPE_L2_BRIDGING_E
    and ?t = FPA_FLOW_TABLE_TYPE_TERMINATION_E
  let ?f1 = "arp_bcast_flow lib (?init ?c) vlan" and ?f2 = "arp_fwd_flow lib (?init ?b) vlan mac"
    and ?f3 = "udp_dhcp_flow lib (?init ?c) vlan" and ?f4 = "unicast_routing_flow lib (?init ?t) vlan mac"
  note fl = fl [unfolded insert_flows_def routing_flows_def, simplified]
  note differ = cookie_types_differ [of vlan] cookie_types_differ [of vlan, symmetric]
  have m1: "?f1 \<in> flows_of lib hw sid ?c" by (simp add: fl insert_flow_table)
  note d1 = wrapped.del_effect [OF ok m1 routing_flow_cookies(1) u1 [unfolded unset_defs]]
  have m2: "?f2 \<in> flows_of lib hw1 sid ?b" by (simp add: fl d1(2) insert_flow_table delete_cookie_table)
  note d2 = wrapped.del_effect [OF ok m2 routing_flow_cookies(2) u2 [unfolded unset_defs]]
  have m3: "?f3 \<in> flows_of lib hw2 sid ?c"
    using differ by (simp add: fl d1(2) d2(2) insert_flow_table delete_cookie_table)
  note d3 = wrapped.del_effect [OF ok m3 routing_flow_cookies(3) u3 [unfolded unset_defs]]
  have m4: "?f4 \<in> flows_of lib hw3 sid ?t"
    by (simp add: fl d1(2) d2(2) d3(2) insert_flow_table delete_cookie_table)
  note d4 = wrapped.del_effect [OF ok m4 routing_flow_cookies(4) u4 [unfolded unset_defs]]
  have "flows_of lib hw4 s t = F s t" for s t
    using free differ
    by (auto simp: fl d1(2) d2(2) d3(2) d4(2) insert_flow_table delete_cookie_table routing_free_def)
  then show ?thesis
    using d1(1) d2(1) d3(1) d4(1)
      wrapped.del_groups [OF ok u1 [unfolded unset_defs]] wrapped.del_groups [OF ok u2 [unfolded unset_defs]]
      wrapped.del_groups [OF ok u3 [unfolded unset_defs]] wrapped.del_groups [OF ok u4 [unfolded unset_defs]]
    by (auto simp: fun_eq_iff)
qed

text \<open>(C17) Turning routing on for a VLAN and off again with the structure that was returned leaves every
  flow table and every group as it was: all four deletions find their flow, and they find no other.\<close>

theorem routing_vlan_roundtrip:
  assumes ok: "fpa_lib_ok lib" and free: "routing_free (flows_of lib hw) sid vlan"
    and en: "ops_fpa_enable_routing_vlan lib sid vlan mac hw = (Some i, hw1)"
  shows "\<exists>hw2. ops_fpa_disable_routing lib (Some i) iv hw1 = Inr (iv, hw2)
    \<and> flows_of lib hw2 = flows_of lib hw \<and> groups_of lib hw2 = groups_of lib hw"
proof -
  obtain e1 h1 e2 h2 e3 h3 e4 h4 where
    u: "ops_fpa_vlan_unset_arp_bcast lib sid vlan hw1 = (e1, h1)"
      "ops_fpa_unset_arp_fwd lib sid vlan mac h1 = (e2, h2)"
      "ops_fpa_vlan_unset_udp_dhcp lib sid vlan h2 = (e3, h3)"
      "ops_fpa_vlan_disable_unicast_routing lib sid vlan mac h3 = (e4, h4)"
    by (meson surj_pair)
  have f: "flows_of lib hw1 = insert_flows sid (routing_flows lib sid vlan mac) (flows_of lib hw)"
    and g: "groups_of lib hw1 = groups_of lib hw"
    using enable_routing_effect [OF ok free en] by auto
  from unset_all [OF ok free f u] g show ?thesis
    by (simp add: ops_fpa_disable_routing_def enable_routing_result [OF en] u)
qed

theorem routing_vlan_roundtrip_witness:
  "\<exists>i hw1 hw2. ops_fpa_enable_routing_vlan (sim_lib {} False) 0 100 zero_mac sim_empty = (Some i, hw1)
     \<and> ops_fpa_disable_routing (sim_lib {} False) (Some i) bitmap_zero hw1 = Inr (bitmap_zero, hw2)
     \<and> flows_of (sim_lib {} False) hw2 = (\<lambda>sid t. {})"
proof -
  let ?l = "sim_lib {} False"
  obtain res hw1 where e: "ops_fpa_enable_routing_vlan ?l 0 100 zero_mac sim_empty = (res, hw1)" by fastforce
  moreover have "fst (ops_fpa_enable_routing_vlan ?l 0 100 zero_mac sim_empty) \<noteq> None"
    by (simp add: ops_fpa_enable_routing_vlan_def set_defs wrap_fpaLibFlowEntryAdd_def sim_defs)
  ultimately obtain i where e: "ops_fpa_enable_routing_vlan ?l 0 100 zero_mac sim_empty = (Some i, hw1)"
    by (cases res) auto
  from routing_vlan_roundtrip [OF sim_lib_ok sim_empty_routing_free e, of bitmap_zero] e show ?thesis
    by (auto simp: sim_empty_def fun_eq_iff)
qed

section \<open>Routed ports\<close>

text \<open>The VLAN operations touch no flow table but their own.\<close>

lemma add_l2_group_flows:
  assumes ok: "fpa_lib_ok lib" and "ops_fpa_route_add_l2_group lib sid pid vid t hw = (ret, g, hw')"
  shows "flows_of lib hw' = flows_of lib hw"
  using assms(2)
  by (auto simp: ops_fpa_route_add_l2_group_def split: prod.splits if_splits
      dest!: graw.gadd_flows [OF ok] graw.badd_flows [OF ok] graw.gdel_flows [OF ok])

lemma vlan_ops_tables:
  assumes ok: "fpa_lib_ok lib" and t: "t \<noteq> FPA_FLOW_TABLE_TYPE_VLAN_E"
  shows "ops_fpa_vlan_add lib sid pid x hw = (ret, hw') \<Longrightarrow> flows_of lib hw' s t = flows_of lib hw s t"
    and "ops_fpa_vlan_del lib sid pid x hw = (ret, hw') \<Longrightarrow> flows_of lib hw' s t = flows_of lib hw s t"
proof -
  show "flows_of lib hw' s t = flows_of lib hw s t" if "ops_fpa_vlan_add lib sid pid x hw = (ret, hw')"
    using that t
    by (auto simp: ops_fpa_vlan_add_def Let_def insert_flow_table split: prod.splits if_splits
        dest!: add_l2_group_flows [OF ok] raw.add_flows [OF ok])
  show "flows_of lib hw' s t = flows_of lib hw s t" if "ops_fpa_vlan_del lib sid pid x hw = (ret, hw')"
    using that t
    by (auto simp: ops_fpa_vlan_del_def Let_def delete_cookie_table split: prod.splits if_splits
        dest!: graw.gdel_flows [OF ok] raw.del_flows [OF ok])
qed

lemma internal_tables:
  assumes "fpa_lib_ok lib" and "t \<noteq> FPA_FLOW_TABLE_TYPE_VLAN_E"
  shows "ops_fpa_vlan_add_internal lib sid pid vid iv hw = (ret, iv', hw') \<Longrightarrow>
      flows_of lib hw' s t = flows_of lib hw s t"
    and "ops_fpa_vlan_del_internal lib sid pid vid iv hw = (ret, iv', hw') \<Longrightarrow>
      flows_of lib hw' s t = flows_of lib hw s t"
  by (auto simp: ops_fpa_vlan_add_internal_def ops_fpa_vlan_del_internal_def Let_def
      split: prod.splits if_splits dest!: vlan_ops_tables [OF assms])

text \<open>The VLAN state of a port depends on the VLAN table and the groups only.\<close>

lemma vlan_view_cong:
  assumes "flows_of lib hw' sid FPA_FLOW_TABLE_TYPE_VLAN_E = flows_of lib hw sid FPA_FLOW_TABLE_TYPE_VLAN_E"
    and "groups_of lib hw' = groups_of lib hw"
  shows "port_vmap lib hw' sid pid = port_vmap lib hw sid pid"
    and "flows_of lib hw' sid FPA_FLOW_TABLE_TYPE_L3_UNICAST_E = flows_of lib hw sid FPA_FLOW_TABLE_TYPE_L3_UNICAST_E
      \<Longrightarrow> vlan_wf lib hw' sid pid = vlan_wf lib hw sid pid"
  using assms group_in_use_flows [of "flows_of lib hw'" sid "flows_of lib hw"]
  by (simp_all add: port_vmap_def port_flows_def port_groups_def vlan_wf_def)

lemma insert_flows_table:
  "insert_flows sid fs F s t = (if s = sid then {f. (t, f) \<in> set fs} else {}) \<union> F s t"
  unfolding insert_flows_def
  by (induction fs arbitrary: F) (auto simp: insert_flow_table split: prod.splits)

lemma insert_flows_other:
  assumes "t \<notin> {FPA_FLOW_TABLE_TYPE_CONTROL_PKT_E, FPA_FLOW_TABLE_TYPE_L2_BRIDGING_E,
      FPA_FLOW_TABLE_TYPE_TERMINATION_E}"
  shows "insert_flows sid (routing_flows lib sid vlan mac) F s t = F s t"
  using assms by (simp add: insert_flows_table routing_flows_def)



end
