(* ===== verification/Fpa_Keyed.thy ===== *)
theory Fpa_Keyed
  imports Fpa_Prelude
begin

text \<open>
  The interface of a keyed table. The software FDB of the MAC learning component, the host table of the
  L3 component and the map of bridges are hash maps searched by a key of their entries; none of them
  checks for an existing entry when it adds one. What their clients rely on is stated once here: a search finds an entry
  exactly when one has the key. The consequences for adding and removing entries are proved in the
  interface and used through its interpretations.
\<close>

definition unique_keys :: "('v \<Rightarrow> 'k) \<Rightarrow> 'v hmap \<Rightarrow> bool" where
  "unique_keys key m \<longleftrightarrow> distinct (map (\<lambda>n. key (snd n)) m)"

locale keyed_table =
  fixes key :: "'v \<Rightarrow> 'k"
    and ok :: "'p \<Rightarrow> bool"
    and wf :: "'p \<Rightarrow> 'v hmap \<Rightarrow> bool"
    and search :: "'p \<Rightarrow> 'k \<Rightarrow> 'v hmap \<Rightarrow> (u32 \<times> 'v) option"
    and add :: "'p \<Rightarrow> 'v \<Rightarrow> 'v hmap \<Rightarrow> 'v hmap"
  assumes search_None: "ok p \<Longrightarrow> wf p m \<Longrightarrow> search p k m = None \<longleftrightarrow> (\<forall>n \<in> set m. key (snd n) \<noteq> k)"
    and search_Some: "ok p \<Longrightarrow> wf p m \<Longrightarrow> search p k m = Some n \<Longrightarrow> n \<in> set m \<and> key (snd n) = k"
    and add_node: "ok p \<Longrightarrow> \<exists>h. add p v m = hmap_insert m h v"
    and wf_add: "ok p \<Longrightarrow> wf p m \<Longrightarrow> wf p (add p v m)"
    and wf_remove: "wf p m \<Longrightarrow> wf p (hmap_remove m n)"
begin

lemma search_unique:
  assumes "ok p" and "wf p m" and "unique_keys key m" and "n \<in> set m" and "key (snd n) = k"
  shows "search p k m = Some n"
proof (cases "search p k m")
  case None
  then show ?thesis using assms search_None by blast
next
  case (Some n')
  then have "n' \<in> set m" and "key (snd n') = key (snd n)" using search_Some assms by auto
  then have "n' = n" using assms(3,4) unfolding unique_keys_def distinct_map inj_on_def by blast
  with Some show ?thesis by simp
qed

text \<open>An entry with a new key is found under its key, and every other key is answered as before.\<close>

lemma search_add:
  assumes "ok p" and "wf p m" and "unique_keys key m" and "search p (key v) m = None"
  shows "unique_keys key (add p v m)"
    and "map_option snd (search p k (add p v m)) = (if k = key v then Some v else map_option snd (search p k m))"
proof -
  obtain h where a: "add p v m = hmap_insert m h v" using add_node [OF assms(1)] by blast
  have fresh: "\<forall>n \<in> set m. key (snd n) \<noteq> key v" using search_None assms by blast
  show u: "unique_keys key (add p v m)"
    using fresh assms(3) by (auto simp: a unique_keys_def hmap_insert_def)
  note wfa = wf_add [OF assms(1,2), of v]
  show "map_option snd (search p k (add p v m)) =
      (if k = key v then Some v else map_option snd (search p k m))"
  proof (cases "k = key v")
    case True
    then show ?thesis using search_unique [OF assms(1) wfa u, of "(h, v)" k] by (simp add: a hmap_simps)
  next
    case False
    show ?thesis
    proof (cases "search p k m")
      case None
      then have "search p k (add p v m) = None"
        using search_None [OF assms(1) wfa] search_None [OF assms(1,2)] False by (auto simp: a hmap_simps)
      with None False show ?thesis by simp
    next
      case (Some n)
      then have "n \<in> set (add p v m)" "key (snd n) = k"
        using search_Some [OF assms(1,2)] by (auto simp: a hmap_simps)
      from search_unique [OF assms(1) wfa u this] Some False show ?thesis by simp
    qed
  qed
qed

text \<open>Removing the entry of a key makes the key unknown and leaves every other key as it was.\<close>

lemma search_remove:
  assumes "ok p" and "wf p m" and "unique_keys key m" and "search p k0 m = Some n"
  shows "unique_keys key (hmap_remove m n)"
    and "search p k (hmap_remove m n) = (if k = k0 then None else search p k m)"
proof -
  have n: "n \<in> set m" "key (snd n) = k0" using search_Some assms by auto
  have d: "distinct m" using assms(3) by (simp add: unique_keys_def distinct_map)
  show u: "unique_keys key (hmap_remove m n)"
    using assms(3) d by (auto simp: unique_keys_def hmap_remove_def distinct_map distinct_remove1
        intro: inj_on_subset set_remove1_subset)
  note wfr = wf_remove [OF assms(2), of n]
  have mem: "n' \<in> set (hmap_remove m n) \<longleftrightarrow> n' \<in> set m \<and> n' \<noteq> n" for n'
    using d by (auto simp: hmap_remove_def)
  have only: "n' = n" if "n' \<in> set m" "key (snd n') = k0" for n'
    using that n assms(3) unfolding unique_keys_def distinct_map inj_on_def by blast
  show "search p k (hmap_remove m n) = (if k = k0 then None else search p k m)"
  proof (cases "k = k0")
    case True
    then show ?thesis using search_None [OF assms(1) wfr] only by (auto simp: mem)
  next
    case False
    show ?thesis
    proof (cases "search p k m")
      case None
      then have "search p k (hmap_remove m n) = None"
        using search_None [OF assms(1) wfr] search_None [OF assms(1,2)] by (auto simp: mem)
      with None False show ?thesis by simp
    next
      case (Some n')
      then have k: "n' \<in> set m" "key (snd n') = k" using search_Some [OF assms(1,2)] by blast+
      moreover from k n False have "n' \<noteq> n" by blast
      ultimately have "n' \<in> set (hmap_remove m n)" "key (snd n') = k" by (simp_all add: mem)
      from search_unique [OF assms(1) wfr u this] Some False show ?thesis by simp
    qed
  qed
qed

end

text \<open>
  The way these components store their entries: every node is under the hash of its key, and the
  search looks at the nodes of one hash only.
\<close>

definition hashed_by :: "('v \<Rightarrow> u32) \<Rightarrow> 'v hmap \<Rightarrow> bool" where
  "hashed_by hash m \<longleftrightarrow> (\<forall>n \<in> set m. fst n = hash (snd n))"

lemma hashed_by_insert [simp]: "hashed_by hash m \<Longrightarrow> hashed_by hash (hmap_insert m (hash v) v)"
  by (simp add: hashed_by_def hmap_simps)

lemma hashed_by_remove [simp]: "hashed_by hash m \<Longrightarrow> hashed_by hash (hmap_remove m n)"
  using set_hmap_remove_subset [of m n] by (auto simp: hashed_by_def)

end
