(* ===== verification/Fpa_TapState.thy ===== *)
theory Fpa_TapState
  imports Fpa_Prelude
begin

text \<open>
  The data of \<open>src/ops-fpa-tap.c\<close>: the TAP interfaces of the switch, the commands that tell the two
  listener threads about them, and the structure the device keeps. The operations are in \<open>Fpa_Tap\<close>.
  The file descriptor and the port number of an interface entry are one union in the code and one
  field here: which of the two it holds depends on the map that the entry is in.
\<close>

record tap_if_entry =
  te_name :: string
  te_fd_or_portNum :: u32
  te_mac :: eth_addr

datatype ctrl_cmd =
    OPS_FPA_CMD_THREAD_EXIT
  | OPS_FPA_CMD_ADD_IF (add_tap_if_name: string) (add_fd: int) (add_portNum: u32) (add_mac: eth_addr)
  | OPS_FPA_CMD_DEL_IF (del_fd: int) (del_portNum: u32)
  | OPS_FPA_CMD_CNT

text \<open>
  \<open>ti_ctrl_fds\<close> are the two ends of each thread's control pipe, \<open>ti_pipes\<close> what was written to the pipe
  and not yet read.
\<close>

record tap_info =
  ti_switchId :: u32
  ti_fd_to_tap_if_map :: "tap_if_entry hmap"
  ti_ctrl_fds :: "(int \<times> int) list"
  ti_pipes :: "ctrl_cmd list list"

abbreviation (input) OPS_FPA_THREAD_TAP :: nat where "OPS_FPA_THREAD_TAP \<equiv> 0"
abbreviation (input) OPS_FPA_THREAD_ASIC :: nat where "OPS_FPA_THREAD_ASIC \<equiv> 1"
abbreviation (input) OPS_FPA_THREAD_CNT :: nat where "OPS_FPA_THREAD_CNT \<equiv> 2"

end
