(* ===== verification/Fpa_MacLearning.thy ===== *)
theory Fpa_MacLearning
  imports Fpa_Keyed Fpa_Core Fpa_TapState
begin

text \<open>
  \<open>src/ops-fpa-mac-learning.c\<close>: the software FDB. Address events from the switch add and expire
  entries of a hash map; every change is also recorded in one of two event buffers, from which the
  bridge reads. When the buffer in use is full, or a timer expires, the buffers change roles and the
  bridge is called back.

  Parameters stand for what is not in this repository: the hash function \<open>hash_bytes\<close>, the visiting
  order \<open>ord\<close> of the hash map, the sizes \<open>BUFFER_SIZE\<close> and \<open>PORT_NAME_SIZE\<close> and the defaults of the
  OpenSwitch headers, and \<open>port_name\<close>, the name of the network device of the port that
  \<open>ops_fpa_get_ofport_by_pid\<close> finds for a port number, or \<open>None\<close>. Calls that end in a failed
  assertion give \<open>Inl\<close>. All functions run with the write lock of the table held (the event thread and
  the timer take it), so an operation is one step of the model.
\<close>

section \<open>Definitions\<close>

datatype fdb_event =
  FPA_EVENT_ADDRESS_UPDATE_NEW_E | FPA_EVENT_ADDRESS_UPDATE_AGED_E | FPA_EVENT_OTHER u32

record fdb_msg =
  fm_type :: fdb_event
  fm_portNum :: u32
  fm_vid :: u16
  fm_address :: eth_addr

datatype mac_event = MLEARN_ADD | MLEARN_DEL

record mlearn_hmap_node =
  mn_mac :: eth_addr
  mn_port :: u32
  mn_vlan :: u16
  mn_hw_unit :: u32
  mn_oper :: mac_event
  mn_port_name :: string

text \<open>
  An event buffer: the nodes of its array that are in use (their number is \<open>actual_size\<close>), the
  capacity, and the hash map from hashes to positions in the array.
\<close>

record mlearn_hmap =
  mh_nodes :: "mlearn_hmap_node list"
  mh_size :: nat
  mh_table :: "nat hmap"

text \<open>
  The MAC learning table. \<open>ml_plugin\<close> says whether the plugin interface was found; \<open>ml_callbacks\<close>
  counts the calls of its callback.
\<close>

record fpa_mac_learning =
  ml_table :: "fdb_msg hmap"
  ml_idle_time :: u32
  ml_max_entries :: nat
  ml_ref_cnt :: nat
  ml_switchId :: u32
  ml_event_tables :: "mlearn_hmap list"
  ml_curr :: nat
  ml_plugin :: bool
  ml_callbacks :: nat

record ml_params =
  hash_bytes :: "u8 list \<Rightarrow> u32"
  fdb_order :: "fdb_msg hmap_order"
  node_order :: "nat hmap_order"
  BUFFER_SIZE :: nat
  PORT_NAME_SIZE :: nat
  MAC_DEFAULT_MAX :: nat
  MAC_ENTRY_DEFAULT_IDLE_TIME :: u32

abbreviation (input) OPS_FPA_ML_NUM_BUFFERS :: nat where "OPS_FPA_ML_NUM_BUFFERS \<equiv> 2"

definition normalize_idle_time :: "u32 \<Rightarrow> u32" where
  "normalize_idle_time idle_time =
     (if idle_time < 10 then 10 else if idle_time > 3600 then 3600 else idle_time)"

definition empty_mlearn :: "ml_params \<Rightarrow> mlearn_hmap" where
  "empty_mlearn P = \<lparr>mh_nodes = [], mh_size = BUFFER_SIZE P, mh_table = []\<rparr>"

text \<open>
  \<open>aging_set\<close> and \<open>learning_set\<close> are the two calls that configure the switch, \<open>plugin\<close> is the outcome
  of \<open>find_plugin_extension\<close>. On an error the new table is not returned.
\<close>

definition ops_fpa_mac_learning_create ::
  "ml_params \<Rightarrow> (u32 \<Rightarrow> u32 \<Rightarrow> fpa_status) \<Rightarrow> (u32 \<Rightarrow> fpa_status) \<Rightarrow> bool \<Rightarrow> u32 option
    \<Rightarrow> crash + int \<times> fpa_mac_learning option" where
  "ops_fpa_mac_learning_create P aging_set learning_set plugin dev =
     (case dev of None \<Rightarrow> Inl Assert_Failed
      | Some switchId \<Rightarrow>
        let ml = \<lparr>ml_table = [], ml_idle_time = normalize_idle_time (MAC_ENTRY_DEFAULT_IDLE_TIME P),
                  ml_max_entries = MAC_DEFAULT_MAX P, ml_ref_cnt = 1, ml_switchId = switchId,
                  ml_event_tables = replicate OPS_FPA_ML_NUM_BUFFERS (empty_mlearn P),
                  ml_curr = 0, ml_plugin = plugin, ml_callbacks = 0\<rparr>
        in if aging_set switchId (ml_idle_time ml) \<noteq> FPA_OK then Inr (EPERM, None)
           else if learning_set switchId \<noteq> FPA_OK then Inr (EPERM, None)
           else Inr (0, Some ml))"

text \<open>
  Dropping the last reference waits for the event thread, whose loop has no exit: the call does not
  return, which is \<open>None\<close>.
\<close>

definition ops_fpa_mac_learning_unref :: "fpa_mac_learning option \<Rightarrow> fpa_mac_learning option option" where
  "ops_fpa_mac_learning_unref ml =
     (case ml of None \<Rightarrow> Some None
      | Some ml \<Rightarrow> if ml_ref_cnt ml = 1 then None else Some (Some (ml\<lparr>ml_ref_cnt := ml_ref_cnt ml - 1\<rparr>)))"

definition ops_fpa_mac_learning_get_idle_time ::
  "(u32 \<Rightarrow> fpa_status \<times> u32) \<Rightarrow> fpa_mac_learning \<Rightarrow> int \<times> u32" where
  "ops_fpa_mac_learning_get_idle_time aging_get ml =
     (let (err, idle_time) = aging_get (ml_switchId ml)
      in (if err \<noteq> FPA_OK then EPERM else 0, idle_time))"

definition ops_fpa_mac_learning_set_idle_time ::
  "(u32 \<Rightarrow> u32 \<Rightarrow> fpa_status) \<Rightarrow> fpa_mac_learning \<Rightarrow> u32 \<Rightarrow> int \<times> fpa_mac_learning" where
  "ops_fpa_mac_learning_set_idle_time aging_set ml idle_time =
     (let idle_time = normalize_idle_time idle_time
      in if aging_set (ml_switchId ml) idle_time \<noteq> FPA_OK then (EPERM, ml)
         else (0, ml\<lparr>ml_idle_time := idle_time\<rparr>))"

definition ops_fpa_mac_learning_set_max_entries :: "fpa_mac_learning \<Rightarrow> nat \<Rightarrow> fpa_mac_learning" where
  "ops_fpa_mac_learning_set_max_entries ml max_entries =
     ml\<lparr>ml_max_entries := (if max_entries < 10 then 10
          else if max_entries > 1000 * 1000 then 1000 * 1000 else max_entries)\<rparr>"

definition ops_fpa_mac_learning_may_learn :: "fpa_mac_learning \<Rightarrow> eth_addr \<Rightarrow> u16 \<Rightarrow> bool" where
  "ops_fpa_mac_learning_may_learn ml src_mac vlan = True"

text \<open>The bytes of the VLAN number in memory order, then the address.\<close>

definition fpa_hash_fdb_entry :: "ml_params \<Rightarrow> fdb_msg \<Rightarrow> u32" where
  "fpa_hash_fdb_entry P fdb_entry =
     hash_bytes P ([ucast (fm_vid fdb_entry), ucast (drop_bit 8 (fm_vid fdb_entry))]
       @ eth_bytes (fm_address fdb_entry))"

definition ops_fpa_mac_learning_mlearn_table_is_full :: "mlearn_hmap \<Rightarrow> bool" where
  "ops_fpa_mac_learning_mlearn_table_is_full mhmap \<longleftrightarrow> length (mh_nodes mhmap) = mh_size mhmap"

definition ops_fpa_mac_learning_clear_mlearn_hmap :: "ml_params \<Rightarrow> mlearn_hmap \<Rightarrow> mlearn_hmap" where
  "ops_fpa_mac_learning_clear_mlearn_hmap P mhmap =
     mhmap\<lparr>mh_nodes := [], mh_size := BUFFER_SIZE P, mh_table := []\<rparr>"

definition ops_fpa_mac_learning_mlearn_entry_fill_data ::
  "ml_params \<Rightarrow> (u32 \<Rightarrow> string option) \<Rightarrow> u32 \<Rightarrow> fdb_msg \<Rightarrow> mac_event \<Rightarrow> crash + mlearn_hmap_node" where
  "ops_fpa_mac_learning_mlearn_entry_fill_data P port_name switchId fdb_entry event =
     (case port_name (fm_portNum fdb_entry) of None \<Rightarrow> Inl Assert_Failed
      | Some name \<Rightarrow> Inr \<lparr>mn_mac = fm_address fdb_entry, mn_port = fm_portNum fdb_entry,
          mn_vlan = fm_vid fdb_entry, mn_hw_unit = switchId, mn_oper = event,
          mn_port_name = take (PORT_NAME_SIZE P) name\<rparr>)"

definition ops_fpa_mac_learning_process_mlearn :: "ml_params \<Rightarrow> fpa_mac_learning \<Rightarrow> fpa_mac_learning" where
  "ops_fpa_mac_learning_process_mlearn P ml =
     (if ml_plugin ml then
        (if hmap_count (mh_table (ml_event_tables ml ! ml_curr ml)) \<noteq> 0 then
           (let curr = ml_curr ml XOR 1
            in ml\<lparr>ml_callbacks := Suc (ml_callbacks ml), ml_curr := curr,
                  ml_event_tables := (ml_event_tables ml)[curr :=
                    ops_fpa_mac_learning_clear_mlearn_hmap P (ml_event_tables ml ! curr)]\<rparr>)
         else ml)
      else ml)"

text \<open>\<open>hmap_first_with_hash\<close> is a search over the nodes of one hash.\<close>

definition ops_fpa_mac_learning_mlearn_action_add ::
  "ml_params \<Rightarrow> (u32 \<Rightarrow> string option) \<Rightarrow> fpa_mac_learning \<Rightarrow> fdb_msg \<Rightarrow> u32 \<Rightarrow> mac_event
    \<Rightarrow> crash + fpa_mac_learning" where
  "ops_fpa_mac_learning_mlearn_action_add P port_name ml fdb_entry index event =
     (let mhmap = ml_event_tables ml ! ml_curr ml;
          actual_size = length (mh_nodes mhmap);
          fill = ops_fpa_mac_learning_mlearn_entry_fill_data P port_name (ml_switchId ml) fdb_entry event;
          result =
            (case hmap_search_hash (node_order P) index (\<lambda>_. True) (mh_table mhmap) of
               Some (h, i) \<Rightarrow>
                 (case fill of Inl c \<Rightarrow> Inl c
                  | Inr e \<Rightarrow> Inr (mhmap\<lparr>mh_nodes := (mh_nodes mhmap)[i := e]\<rparr>))
             | None \<Rightarrow>
                 if actual_size < mh_size mhmap then
                   (case fill of Inl c \<Rightarrow> Inl c
                    | Inr e \<Rightarrow> Inr (mhmap\<lparr>mh_nodes := mh_nodes mhmap @ [e],
                                mh_table := hmap_insert (mh_table mhmap) index actual_size\<rparr>))
                 else Inr mhmap)
      in case result of Inl c \<Rightarrow> Inl c
         | Inr mhmap \<Rightarrow>
             let ml = ml\<lparr>ml_event_tables := (ml_event_tables ml)[ml_curr ml := mhmap]\<rparr>
             in Inr (if ops_fpa_mac_learning_mlearn_table_is_full mhmap
                     then ops_fpa_mac_learning_process_mlearn P ml else ml))"

definition ops_fpa_mac_learning_insert ::
  "ml_params \<Rightarrow> (u32 \<Rightarrow> string option) \<Rightarrow> fpa_mac_learning \<Rightarrow> fdb_msg \<Rightarrow> crash + int \<times> fpa_mac_learning" where
  "ops_fpa_mac_learning_insert P port_name ml e =
     (if hmap_count (ml_table ml) \<ge> ml_max_entries ml then Inr (EPERM, ml)
      else
        let index = fpa_hash_fdb_entry P e;
            ml = ml\<lparr>ml_table := hmap_insert (ml_table ml) index e\<rparr>
        in case ops_fpa_mac_learning_mlearn_action_add P port_name ml e index MLEARN_ADD of
             Inl c \<Rightarrow> Inl c | Inr ml \<Rightarrow> Inr (0, ml))"

definition ops_fpa_mac_learning_lookup ::
  "ml_params \<Rightarrow> fpa_mac_learning \<Rightarrow> fdb_msg \<Rightarrow> (u32 \<times> fdb_msg) option" where
  "ops_fpa_mac_learning_lookup P ml fdb_entry =
     hmap_search_hash (fdb_order P) (fpa_hash_fdb_entry P fdb_entry)
       (\<lambda>e. fm_address e = fm_address fdb_entry \<and> fm_vid e = fm_vid fdb_entry) (ml_table ml)"

definition ops_fpa_mac_learning_lookup_by_vlan_and_mac ::
  "ml_params \<Rightarrow> fpa_mac_learning \<Rightarrow> u16 \<Rightarrow> eth_addr \<Rightarrow> (u32 \<times> fdb_msg) option" where
  "ops_fpa_mac_learning_lookup_by_vlan_and_mac P ml vlan_id macAddr =
     hmap_search (fdb_order P) (\<lambda>e. fm_address e = macAddr \<and> fm_vid e = vlan_id) (ml_table ml)"

definition ops_fpa_mac_learning_expire ::
  "ml_params \<Rightarrow> (u32 \<Rightarrow> string option) \<Rightarrow> fpa_mac_learning \<Rightarrow> u32 \<times> fdb_msg
    \<Rightarrow> crash + int \<times> fpa_mac_learning" where
  "ops_fpa_mac_learning_expire P port_name ml e =
     (let ml = ml\<lparr>ml_table := hmap_remove (ml_table ml) e\<rparr>
      in case ops_fpa_mac_learning_mlearn_action_add P port_name ml (snd e) (fst e) MLEARN_DEL of
           Inl c \<Rightarrow> Inl c | Inr ml \<Rightarrow> Inr (0, ml))"

primrec expire_all ::
  "ml_params \<Rightarrow> (u32 \<Rightarrow> string option) \<Rightarrow> (u32 \<times> fdb_msg) list \<Rightarrow> fpa_mac_learning
    \<Rightarrow> crash + fpa_mac_learning" where
  "expire_all P port_name [] ml = Inr ml"
| "expire_all P port_name (e # es) ml =
     (case ops_fpa_mac_learning_expire P port_name ml e of
        Inl c \<Rightarrow> Inl c | Inr (ret, ml) \<Rightarrow> expire_all P port_name es ml)"

definition ops_fpa_mac_learning_flush ::
  "ml_params \<Rightarrow> (u32 \<Rightarrow> string option) \<Rightarrow> fpa_mac_learning \<Rightarrow> crash + fpa_mac_learning" where
  "ops_fpa_mac_learning_flush P port_name ml = expire_all P port_name (fdb_order P (ml_table ml)) ml"

definition ops_fpa_mac_learning_learn ::
  "ml_params \<Rightarrow> (u32 \<Rightarrow> string option) \<Rightarrow> fpa_mac_learning \<Rightarrow> fdb_msg \<Rightarrow> crash + int \<times> fpa_mac_learning" where
  "ops_fpa_mac_learning_learn P port_name ml data =
     (if port_name (fm_portNum data) = None then Inr (EPERM, ml)
      else if \<not> ops_fpa_mac_learning_may_learn ml (fm_address data) (fm_vid data) then Inr (EPERM, ml)
      else ops_fpa_mac_learning_insert P port_name ml data)"

definition ops_fpa_mac_learning_age_by_entry ::
  "ml_params \<Rightarrow> (u32 \<Rightarrow> string option) \<Rightarrow> fpa_mac_learning \<Rightarrow> fdb_msg \<Rightarrow> crash + int \<times> fpa_mac_learning" where
  "ops_fpa_mac_learning_age_by_entry P port_name ml fdb_entry =
     (case ops_fpa_mac_learning_lookup P ml fdb_entry of
        Some e \<Rightarrow> ops_fpa_mac_learning_expire P port_name ml e
      | None \<Rightarrow> Inr (0, ml))"

definition ops_fpa_mac_learning_age_by_vlan_and_mac ::
  "ml_params \<Rightarrow> (u32 \<Rightarrow> string option) \<Rightarrow> fpa_mac_learning \<Rightarrow> u16 \<Rightarrow> eth_addr
    \<Rightarrow> crash + int \<times> fpa_mac_learning" where
  "ops_fpa_mac_learning_age_by_vlan_and_mac P port_name ml vlan macAddr =
     (case ops_fpa_mac_learning_lookup_by_vlan_and_mac P ml vlan macAddr of
        Some e \<Rightarrow> ops_fpa_mac_learning_expire P port_name ml e
      | None \<Rightarrow> Inr (EPERM, ml))"

text \<open>
  The event thread never leaves its loop; the model runs it on the results of a finite number of calls
  of \<open>fpaLibBridgingAuMsgGet\<close>, each with the port names at that moment.
\<close>

definition handle_au_msg ::
  "ml_params \<Rightarrow> (u32 \<Rightarrow> string option) \<Rightarrow> fpa_status \<Rightarrow> fdb_msg \<Rightarrow> fpa_mac_learning
    \<Rightarrow> crash + fpa_mac_learning" where
  "handle_au_msg P port_name ret msg ml =
     (if ret = FPA_OK then
        (case fm_type msg of
           FPA_EVENT_ADDRESS_UPDATE_NEW_E \<Rightarrow>
             (case ops_fpa_mac_learning_learn P port_name ml msg of Inl c \<Rightarrow> Inl c | Inr (r, ml) \<Rightarrow> Inr ml)
         | FPA_EVENT_ADDRESS_UPDATE_AGED_E \<Rightarrow>
             (case ops_fpa_mac_learning_age_by_entry P port_name ml msg of Inl c \<Rightarrow> Inl c | Inr (r, ml) \<Rightarrow> Inr ml)
         | FPA_EVENT_OTHER _ \<Rightarrow> Inr ml)
      else Inr ml)"

primrec mac_learning_asic_events_handler ::
  "ml_params \<Rightarrow> ((u32 \<Rightarrow> string option) \<times> fpa_status \<times> fdb_msg) list \<Rightarrow> fpa_mac_learning
    \<Rightarrow> crash + fpa_mac_learning" where
  "mac_learning_asic_events_handler P [] ml = Inr ml"
| "mac_learning_asic_events_handler P (x # xs) ml =
     (case x of (port_name, ret, msg) \<Rightarrow>
        case handle_au_msg P port_name ret msg ml of
          Inl c \<Rightarrow> Inl c | Inr ml \<Rightarrow> mac_learning_asic_events_handler P xs ml)"

definition ops_fpa_mac_learning_on_mlearn_timer_expired ::
  "ml_params \<Rightarrow> fpa_mac_learning option \<Rightarrow> fpa_mac_learning option" where
  "ops_fpa_mac_learning_on_mlearn_timer_expired P ml =
     map_option (ops_fpa_mac_learning_process_mlearn P) ml"

text \<open>
  The device structure of \<open>include/ops-fpa-dev.h\<close> holds the table. There is one device at most; asking
  for a device that does not exist ends in \<open>OVS_NOT_REACHED\<close>. In the last definition \<open>mhmap\<close> says
  whether the caller passed a place for the result.
\<close>

record fpa_dev =
  dv_switchId :: u32
  dv_ref_cnt :: u32
  dv_tap_if_info :: "tap_info option"
  dv_ml :: "fpa_mac_learning option"

abbreviation (input) FPA_DEV_SWITCH_ID_DEFAULT :: u32 where "FPA_DEV_SWITCH_ID_DEFAULT \<equiv> 0"

definition ops_fpa_dev_by_id :: "fpa_dev option \<Rightarrow> u32 \<Rightarrow> crash + fpa_dev" where
  "ops_fpa_dev_by_id dev switchId =
     (case dev of
        Some d \<Rightarrow> if dv_switchId d = switchId then Inr d else Inl Not_Reached
      | None \<Rightarrow> Inl Not_Reached)"

definition ops_fpa_ml_hmap_get :: "fpa_dev option \<Rightarrow> bool \<Rightarrow> crash + int \<times> mlearn_hmap option" where
  "ops_fpa_ml_hmap_get dev mhmap =
     (case ops_fpa_dev_by_id dev FPA_DEV_SWITCH_ID_DEFAULT of
        Inl c \<Rightarrow> Inl c
      | Inr d \<Rightarrow>
          (case dv_ml d of None \<Rightarrow> Inl Assert_Failed
           | Some ml \<Rightarrow>
               if \<not> mhmap then Inr (EINVAL, None)
               else let other = ml_event_tables ml ! (ml_curr ml XOR 1)
                    in Inr (0, if hmap_count (mh_table other) \<noteq> 0 then Some other else None)))"

text \<open>The device in normal operation, with a table.\<close>

definition dev_with :: "fpa_mac_learning \<Rightarrow> fpa_dev" where
  "dev_with ml = \<lparr>dv_switchId = FPA_DEV_SWITCH_ID_DEFAULT, dv_ref_cnt = 1, dv_tap_if_info = None, dv_ml = Some ml\<rparr>"

section \<open>Invariant\<close>

text \<open>
  What the code relies on of its parameters: hash map iteration visits every node, and the buffers have
  room for at least one event.
\<close>

definition ml_params_ok :: "ml_params \<Rightarrow> bool" where
  "ml_params_ok P \<longleftrightarrow> visits_all (fdb_order P) \<and> visits_all (node_order P) \<and> 0 < BUFFER_SIZE P"

text \<open>
  An event buffer is within its capacity, and its hash map lists the positions in use, each once and
  under its own hash.
\<close>

definition mlearn_inv :: "ml_params \<Rightarrow> mlearn_hmap \<Rightarrow> bool" where
  "mlearn_inv P mh \<longleftrightarrow> mh_size mh = BUFFER_SIZE P \<and> length (mh_nodes mh) \<le> BUFFER_SIZE P
     \<and> distinct (map fst (mh_table mh)) \<and> distinct (map snd (mh_table mh))
     \<and> snd ` set (mh_table mh) = {..<length (mh_nodes mh)}"

text \<open>
  There are two event buffers, one of them is in use, and while the bridge can be called back the one in
  use is not full; every FDB entry is under the hash of its key; the aging time is in range.
\<close>

definition ml_inv :: "ml_params \<Rightarrow> fpa_mac_learning \<Rightarrow> bool" where
  "ml_inv P ml \<longleftrightarrow> length (ml_event_tables ml) = 2 \<and> ml_curr ml < 2
     \<and> (\<forall>mh \<in> set (ml_event_tables ml). mlearn_inv P mh)
     \<and> (ml_plugin ml \<longrightarrow> length (mh_nodes (ml_event_tables ml ! ml_curr ml)) < BUFFER_SIZE P)
     \<and> hashed_by (fpa_hash_fdb_entry P) (ml_table ml)
     \<and> 10 \<le> ml_idle_time ml \<and> ml_idle_time ml \<le> 3600"

text \<open>The states that the operations of the component reach, one operation at a time.\<close>

inductive ml_reach :: "ml_params \<Rightarrow> fpa_mac_learning \<Rightarrow> bool" for P where
  create: "ops_fpa_mac_learning_create P aging_set learning_set plugin dev = Inr (0, Some ml) \<Longrightarrow> ml_reach P ml"
| set_idle: "ml_reach P ml \<Longrightarrow> ops_fpa_mac_learning_set_idle_time aging_set ml t = (ret, ml') \<Longrightarrow> ml_reach P ml'"
| set_max: "ml_reach P ml \<Longrightarrow> ml_reach P (ops_fpa_mac_learning_set_max_entries ml n)"
| learn: "ml_reach P ml \<Longrightarrow> ops_fpa_mac_learning_learn P port_name ml msg = Inr (ret, ml') \<Longrightarrow> ml_reach P ml'"
| age: "ml_reach P ml \<Longrightarrow> ops_fpa_mac_learning_age_by_entry P port_name ml msg = Inr (ret, ml') \<Longrightarrow> ml_reach P ml'"
| age_vlan: "ml_reach P ml \<Longrightarrow>
    ops_fpa_mac_learning_age_by_vlan_and_mac P port_name ml vlan mac = Inr (ret, ml') \<Longrightarrow> ml_reach P ml'"
| flush: "ml_reach P ml \<Longrightarrow> ops_fpa_mac_learning_flush P port_name ml = Inr ml' \<Longrightarrow> ml_reach P ml'"
| events: "ml_reach P ml \<Longrightarrow> mac_learning_asic_events_handler P msgs ml = Inr ml' \<Longrightarrow> ml_reach P ml'"
| timer: "ml_reach P ml \<Longrightarrow>
    ops_fpa_mac_learning_on_mlearn_timer_expired P (Some ml) = Some ml' \<Longrightarrow> ml_reach P ml'"

lemma xor_one_lt [simp]: "(n :: nat) < 2 \<Longrightarrow> n XOR Suc 0 < 2"
  by (cases "n = 0"; cases "n = 1") auto

lemma xor_one_neq [simp]: "(n :: nat) < 2 \<Longrightarrow> n XOR Suc 0 \<noteq> n"
  by (cases "n = 0"; cases "n = 1") auto

lemma normalize_range: "10 \<le> normalize_idle_time t \<and> normalize_idle_time t \<le> 3600"
  by (auto simp: normalize_idle_time_def)

lemma mlearn_inv_empty [simp]: "mlearn_inv P (empty_mlearn P)"
  by (simp add: mlearn_inv_def empty_mlearn_def)

lemma mlearn_inv_clear [simp]: "mlearn_inv P (ops_fpa_mac_learning_clear_mlearn_hmap P mh)"
  by (simp add: mlearn_inv_def ops_fpa_mac_learning_clear_mlearn_hmap_def)

lemma mlearn_count: "mlearn_inv P mh \<Longrightarrow> hmap_count (mh_table mh) = length (mh_nodes mh)"
  unfolding mlearn_inv_def by (metis card_lessThan distinct_card length_map set_map)

lemma mlearn_inv_insert:
  assumes "mlearn_inv P mh" and "length (mh_nodes mh) < mh_size mh" and "\<forall>i. (h, i) \<notin> set (mh_table mh)"
  shows "mlearn_inv P (mh\<lparr>mh_nodes := mh_nodes mh @ [e],
    mh_table := hmap_insert (mh_table mh) h (length (mh_nodes mh))\<rparr>)"
  using assms by (auto simp: mlearn_inv_def hmap_insert_def lessThan_Suc)

lemma mlearn_inv_update [simp]:
  "mlearn_inv P (mh\<lparr>mh_nodes := (mh_nodes mh)[i := e]\<rparr>) = mlearn_inv P mh"
  by (simp add: mlearn_inv_def)

text \<open>The node that an event writes, and the buffer after it.\<close>

definition event_node :: "ml_params \<Rightarrow> u32 \<Rightarrow> fdb_msg \<Rightarrow> mac_event \<Rightarrow> string \<Rightarrow> mlearn_hmap_node" where
  "event_node P sid msg ev name = \<lparr>mn_mac = fm_address msg, mn_port = fm_portNum msg, mn_vlan = fm_vid msg,
     mn_hw_unit = sid, mn_oper = ev, mn_port_name = take (PORT_NAME_SIZE P) name\<rparr>"

definition records :: "mlearn_hmap \<Rightarrow> u32 \<Rightarrow> mlearn_hmap_node \<Rightarrow> bool" where
  "records mh h e \<longleftrightarrow> (\<exists>i. (h, i) \<in> set (mh_table mh) \<and> i < length (mh_nodes mh) \<and> mh_nodes mh ! i = e)"

lemma action_add_cases:
  assumes P: "ml_params_ok P" and inv: "ml_inv P ml"
    and a: "ops_fpa_mac_learning_mlearn_action_add P port_name ml msg h ev = Inr ml'"
  obtains mh where "mlearn_inv P mh"
    and "ml' = (if length (mh_nodes mh) = BUFFER_SIZE P
           then ops_fpa_mac_learning_process_mlearn P (ml\<lparr>ml_event_tables := (ml_event_tables ml)[ml_curr ml := mh]\<rparr>)
           else ml\<lparr>ml_event_tables := (ml_event_tables ml)[ml_curr ml := mh]\<rparr>)"
    and "ml_plugin ml \<Longrightarrow> \<exists>name. port_name (fm_portNum msg) = Some name
           \<and> records mh h (event_node P (ml_switchId ml) msg ev name)"
proof -
  let ?mh = "ml_event_tables ml ! ml_curr ml"
  have mh: "mlearn_inv P ?mh" and size: "mh_size ?mh = BUFFER_SIZE P"
    using inv by (auto simp: ml_inv_def mlearn_inv_def)
  have ord: "visits_all (node_order P)" using P by (simp add: ml_params_ok_def)
  show ?thesis
  proof (cases "hmap_search_hash (node_order P) h (\<lambda>_. True) (mh_table ?mh)")
    case (Some n)
    obtain h' i where n: "n = (h', i)" by fastforce
    have mem: "(h, i) \<in> set (mh_table ?mh)"
      using hmap_search_hash_SomeD [OF ord Some [unfolded n]] by simp
    then have i: "i < length (mh_nodes ?mh)" using mh by (force simp: mlearn_inv_def)
    obtain name where name: "port_name (fm_portNum msg) = Some name"
      using a Some n by (auto simp: ops_fpa_mac_learning_mlearn_action_add_def
          ops_fpa_mac_learning_mlearn_entry_fill_data_def Let_def split: option.splits)
    let ?e = "event_node P (ml_switchId ml) msg ev name"
    let ?mh' = "?mh\<lparr>mh_nodes := (mh_nodes ?mh)[i := ?e]\<rparr>"
    show ?thesis
    proof (rule that [of ?mh'])
      show "mlearn_inv P ?mh'" using mh by simp
      show "\<exists>name. port_name (fm_portNum msg) = Some name \<and> records ?mh' h (event_node P (ml_switchId ml) msg ev name)"
        using name mem i by (auto simp: records_def)
    qed (use a Some n name size in \<open>auto simp: ops_fpa_mac_learning_mlearn_action_add_def event_node_def
          ops_fpa_mac_learning_mlearn_entry_fill_data_def ops_fpa_mac_learning_mlearn_table_is_full_def Let_def\<close>)
  next
    case None
    then have new: "\<forall>i. (h, i) \<notin> set (mh_table ?mh)" using hmap_search_hash_None [OF ord] by simp
    show ?thesis
    proof (cases "length (mh_nodes ?mh) < mh_size ?mh")
      case True
      obtain name where name: "port_name (fm_portNum msg) = Some name"
        using a None True by (auto simp: ops_fpa_mac_learning_mlearn_action_add_def
            ops_fpa_mac_learning_mlearn_entry_fill_data_def Let_def split: option.splits)
      let ?e = "event_node P (ml_switchId ml) msg ev name"
      let ?mh' = "?mh\<lparr>mh_nodes := mh_nodes ?mh @ [?e],
        mh_table := hmap_insert (mh_table ?mh) h (length (mh_nodes ?mh))\<rparr>"
      show ?thesis
      proof (rule that [of ?mh'])
        show "mlearn_inv P ?mh'" by (rule mlearn_inv_insert [OF mh True new])
        show "\<exists>name. port_name (fm_portNum msg) = Some name \<and> records ?mh' h (event_node P (ml_switchId ml) msg ev name)"
          using name by (auto simp: records_def hmap_insert_def)
      qed (use a None True name size in \<open>auto simp: ops_fpa_mac_learning_mlearn_action_add_def event_node_def
            ops_fpa_mac_learning_mlearn_entry_fill_data_def ops_fpa_mac_learning_mlearn_table_is_full_def Let_def\<close>)
    next
      case False
      then have "\<not> ml_plugin ml" using inv size by (auto simp: ml_inv_def)
      then show ?thesis
        using a None False size mh
        by (intro that [of ?mh]) (auto simp: ops_fpa_mac_learning_mlearn_action_add_def
            ops_fpa_mac_learning_mlearn_table_is_full_def Let_def)
    qed
  qed
qed

lemma process_frame [simp]:
  "ml_table (ops_fpa_mac_learning_process_mlearn P ml) = ml_table ml"
  "ml_max_entries (ops_fpa_mac_learning_process_mlearn P ml) = ml_max_entries ml"
  "ml_plugin (ops_fpa_mac_learning_process_mlearn P ml) = ml_plugin ml"
  "ml_switchId (ops_fpa_mac_learning_process_mlearn P ml) = ml_switchId ml"
  "ml_idle_time (ops_fpa_mac_learning_process_mlearn P ml) = ml_idle_time ml"
  by (simp_all add: ops_fpa_mac_learning_process_mlearn_def Let_def)

lemma process_inv:
  assumes P: "ml_params_ok P" and "length (ml_event_tables ml) = 2" and "ml_curr ml < 2"
    and "\<forall>mh \<in> set (ml_event_tables ml). mlearn_inv P mh"
    and "hashed_by (fpa_hash_fdb_entry P) (ml_table ml)" and "10 \<le> ml_idle_time ml" and "ml_idle_time ml \<le> 3600"
  shows "ml_inv P (ops_fpa_mac_learning_process_mlearn P ml)"
proof -
  have c: "mlearn_inv P (ml_event_tables ml ! ml_curr ml)" using assms by auto
  have pos: "0 < BUFFER_SIZE P" using P by (simp add: ml_params_ok_def)
  have x: "ml_curr ml XOR 1 < 2" using assms(3) by simp
  show ?thesis
    using assms x pos mlearn_count [OF c]
    by (auto simp: ml_inv_def ops_fpa_mac_learning_process_mlearn_def Let_def
        ops_fpa_mac_learning_clear_mlearn_hmap_def mlearn_inv_def
        dest!: subsetD [OF set_update_subset_insert])
qed

lemma action_add_inv:
  assumes P: "ml_params_ok P" and inv: "ml_inv P ml"
    and a: "ops_fpa_mac_learning_mlearn_action_add P port_name ml msg h ev = Inr ml'"
  shows "ml_inv P ml' \<and> ml_table ml' = ml_table ml \<and> ml_max_entries ml' = ml_max_entries ml
    \<and> ml_plugin ml' = ml_plugin ml"
  using P inv a
proof (cases rule: action_add_cases)
  case (1 mh)
  let ?ml = "ml\<lparr>ml_event_tables := (ml_event_tables ml)[ml_curr ml := mh]\<rparr>"
  have tabs: "\<forall>mh \<in> set (ml_event_tables ?ml). mlearn_inv P mh"
    using inv 1(1) by (auto simp: ml_inv_def dest!: subsetD [OF set_update_subset_insert])
  show ?thesis
  proof (cases "length (mh_nodes mh) = BUFFER_SIZE P")
    case True
    have "ml_inv P (ops_fpa_mac_learning_process_mlearn P ?ml)"
      by (rule process_inv [OF P]) (use inv tabs in \<open>auto simp: ml_inv_def\<close>)
    with True 1(2) show ?thesis by simp
  next
    case False
    then have "length (mh_nodes mh) < BUFFER_SIZE P" using 1(1) by (simp add: mlearn_inv_def)
    then show ?thesis using False 1(2) inv tabs by (auto simp: ml_inv_def)
  qed
qed

lemma insert_inv:
  assumes P: "ml_params_ok P" and inv: "ml_inv P ml"
    and a: "ops_fpa_mac_learning_insert P port_name ml e = Inr (ret, ml')"
  shows "ml_inv P ml'"
proof (cases "hmap_count (ml_table ml) \<ge> ml_max_entries ml")
  case False
  let ?ml = "ml\<lparr>ml_table := hmap_insert (ml_table ml) (fpa_hash_fdb_entry P e) e\<rparr>"
  have "ml_inv P ?ml" using inv by (simp add: ml_inv_def)
  moreover have "ops_fpa_mac_learning_mlearn_action_add P port_name ?ml e (fpa_hash_fdb_entry P e) MLEARN_ADD = Inr ml'"
    using a False by (simp add: ops_fpa_mac_learning_insert_def Let_def split: sum.splits)
  ultimately show ?thesis using action_add_inv [OF P] by blast
qed (use a inv in \<open>auto simp: ops_fpa_mac_learning_insert_def\<close>)

lemma expire_inv:
  assumes P: "ml_params_ok P" and inv: "ml_inv P ml"
    and a: "ops_fpa_mac_learning_expire P port_name ml e = Inr (ret, ml')"
  shows "ml_inv P ml'" and "ml_table ml' = hmap_remove (ml_table ml) e" and "ret = 0"
proof -
  let ?ml = "ml\<lparr>ml_table := hmap_remove (ml_table ml) e\<rparr>"
  have i: "ml_inv P ?ml" using inv by (simp add: ml_inv_def)
  have "ops_fpa_mac_learning_mlearn_action_add P port_name ?ml (snd e) (fst e) MLEARN_DEL = Inr ml'"
    and r: "ret = 0"
    using a by (simp_all add: ops_fpa_mac_learning_expire_def Let_def split: sum.splits)
  from action_add_inv [OF P i this(1)] r
  show "ml_inv P ml'" and "ml_table ml' = hmap_remove (ml_table ml) e" and "ret = 0" by simp_all
qed

lemma expire_all_inv:
  "ml_params_ok P \<Longrightarrow> ml_inv P ml \<Longrightarrow> expire_all P port_name es ml = Inr ml' \<Longrightarrow> ml_inv P ml'"
  by (induction es arbitrary: ml) (auto split: sum.splits prod.splits dest: expire_inv(1))

lemma age_inv:
  "ml_params_ok P \<Longrightarrow> ml_inv P ml \<Longrightarrow> ops_fpa_mac_learning_age_by_entry P port_name ml msg = Inr (ret, ml') \<Longrightarrow> ml_inv P ml'"
  "ml_params_ok P \<Longrightarrow> ml_inv P ml \<Longrightarrow>
    ops_fpa_mac_learning_age_by_vlan_and_mac P port_name ml vlan mac = Inr (ret, ml') \<Longrightarrow> ml_inv P ml'"
  by (auto simp: ops_fpa_mac_learning_age_by_entry_def ops_fpa_mac_learning_age_by_vlan_and_mac_def
      split: option.splits dest: expire_inv(1))

lemma learn_inv:
  "ml_params_ok P \<Longrightarrow> ml_inv P ml \<Longrightarrow> ops_fpa_mac_learning_learn P port_name ml msg = Inr (ret, ml') \<Longrightarrow> ml_inv P ml'"
  by (auto simp: ops_fpa_mac_learning_learn_def split: if_splits dest: insert_inv)

lemma handler_inv:
  "ml_params_ok P \<Longrightarrow> ml_inv P ml \<Longrightarrow> mac_learning_asic_events_handler P msgs ml = Inr ml' \<Longrightarrow> ml_inv P ml'"
proof (induction msgs arbitrary: ml)
  case (Cons x xs)
  obtain port_name ret msg where x: "x = (port_name, ret, msg)" by (cases x)
  obtain ml1 where h: "handle_au_msg P port_name ret msg ml = Inr ml1"
    and r: "mac_learning_asic_events_handler P xs ml1 = Inr ml'"
    using Cons.prems(3) by (auto simp: x split: sum.splits)
  have "ml_inv P ml1"
    using h Cons.prems(1,2)
    by (auto simp: handle_au_msg_def split: if_splits fdb_event.splits sum.splits prod.splits
        intro: learn_inv age_inv(1))
  then show ?case using Cons.IH [OF Cons.prems(1) _ r] by simp
qed simp

lemma ml_reach_ml_inv:
  assumes "ml_params_ok P" and "ml_reach P ml"
  shows "ml_inv P ml"
  using assms(2)
proof (induction rule: ml_reach.induct)
  case (create aging_set learning_set plugin dev ml)
  then show ?case
    using assms(1) normalize_range [of "MAC_ENTRY_DEFAULT_IDLE_TIME P"]
    by (auto simp: ops_fpa_mac_learning_create_def ml_inv_def hashed_by_def ml_params_ok_def empty_mlearn_def
        mlearn_inv_def numeral_2_eq_2 split: option.splits if_splits)
next
  case (set_idle ml aging_set t ret ml')
  then show ?case
    using normalize_range [of t]
    by (auto simp: ops_fpa_mac_learning_set_idle_time_def ml_inv_def Let_def split: if_splits)
next
  case (set_max ml n)
  then show ?case by (auto simp: ops_fpa_mac_learning_set_max_entries_def ml_inv_def)
next
  case (flush ml port_name ml')
  then show ?case using expire_all_inv [OF assms(1)] by (simp add: ops_fpa_mac_learning_flush_def)
next
  case (timer ml ml')
  then show ?case
    using process_inv [OF assms(1), of ml]
    by (auto simp: ops_fpa_mac_learning_on_mlearn_timer_expired_def ml_inv_def)
qed (auto intro: assms(1) learn_inv age_inv handler_inv)

text \<open>(C9) Whatever sequence of events, timer expirations and configuration calls the table goes through
  after it was created, the event buffers stay within their capacity with consistent hash maps, one of
  the two is in use and, while the bridge can be called back, has room for the next event; every FDB
  entry is stored under the hash of its key; and the aging time is between 10 and 3600 seconds.\<close>

theorem ml_reach_inv:
  assumes "ml_params_ok P" and "ml_reach P ml"
  shows "ml_inv P ml"
  by (rule ml_reach_ml_inv [OF assms])

text \<open>A concrete instance of the parameters, on which the witnesses run.\<close>

definition sample_params :: ml_params where
  "sample_params = \<lparr>hash_bytes = (\<lambda>bs. of_nat (sum_list (map unat bs))), fdb_order = (\<lambda>m. m),
     node_order = (\<lambda>m. m), BUFFER_SIZE = 2, PORT_NAME_SIZE = 32, MAC_DEFAULT_MAX = 1024,
     MAC_ENTRY_DEFAULT_IDLE_TIME = 300\<rparr>"

definition sample_ml :: fpa_mac_learning where
  "sample_ml = \<lparr>ml_table = [], ml_idle_time = 300, ml_max_entries = 1024, ml_ref_cnt = 1, ml_switchId = 0,
     ml_event_tables = [empty_mlearn sample_params, empty_mlearn sample_params],
     ml_curr = 0, ml_plugin = True, ml_callbacks = 0\<rparr>"

definition sample_msg :: "u32 \<Rightarrow> u16 \<Rightarrow> u8 \<Rightarrow> fdb_msg" where
  "sample_msg port vid b = \<lparr>fm_type = FPA_EVENT_ADDRESS_UPDATE_NEW_E, fm_portNum = port, fm_vid = vid,
     fm_address = Eth 0 0 0 0 0 b\<rparr>"

lemma sample_params_ok [simp]: "ml_params_ok sample_params"
  by (simp add: ml_params_ok_def sample_params_def)

lemma sample_ml_reach: "ml_reach sample_params sample_ml"
proof (rule ml_reach.create)
  show "ops_fpa_mac_learning_create sample_params (\<lambda>_ _. FPA_OK) (\<lambda>_. FPA_OK) True (Some 0) = Inr (0, Some sample_ml)"
    by (simp add: ops_fpa_mac_learning_create_def sample_ml_def normalize_idle_time_def numeral_2_eq_2)
      (simp add: sample_params_def)
qed

theorem ml_reach_inv_witness:
  "ml_params_ok sample_params \<and> ml_reach sample_params sample_ml \<and> ml_inv sample_params sample_ml"
  using ml_reach_inv [OF sample_params_ok sample_ml_reach] sample_ml_reach by simp

section \<open>The FDB as a keyed table\<close>

definition fdb_key :: "fdb_msg \<Rightarrow> u16 \<times> eth_addr" where
  "fdb_key e = (fm_vid e, fm_address e)"

definition fdb_key_hash :: "ml_params \<Rightarrow> u16 \<times> eth_addr \<Rightarrow> u32" where
  "fdb_key_hash P k = hash_bytes P ([ucast (fst k), ucast (drop_bit 8 (fst k))] @ eth_bytes (snd k))"

definition fdb_search :: "ml_params \<Rightarrow> u16 \<times> eth_addr \<Rightarrow> fdb_msg hmap \<Rightarrow> (u32 \<times> fdb_msg) option" where
  "fdb_search P k m = hmap_search_hash (fdb_order P) (fdb_key_hash P k) (\<lambda>e. fdb_key e = k) m"

definition fdb_scan :: "ml_params \<Rightarrow> u16 \<times> eth_addr \<Rightarrow> fdb_msg hmap \<Rightarrow> (u32 \<times> fdb_msg) option" where
  "fdb_scan P k m = hmap_search (fdb_order P) (\<lambda>e. fdb_key e = k) m"

definition fdb_add :: "ml_params \<Rightarrow> fdb_msg \<Rightarrow> fdb_msg hmap \<Rightarrow> fdb_msg hmap" where
  "fdb_add P e m = hmap_insert m (fpa_hash_fdb_entry P e) e"

definition fdb_wf :: "ml_params \<Rightarrow> fdb_msg hmap \<Rightarrow> bool" where
  "fdb_wf P m = hashed_by (fpa_hash_fdb_entry P) m"

lemma hash_fdb_key: "fpa_hash_fdb_entry P e = fdb_key_hash P (fdb_key e)"
  by (simp add: fpa_hash_fdb_entry_def fdb_key_hash_def fdb_key_def)

lemma lookup_search: "ops_fpa_mac_learning_lookup P ml e = fdb_search P (fdb_key e) (ml_table ml)"
  unfolding ops_fpa_mac_learning_lookup_def fdb_search_def hash_fdb_key by (simp add: fdb_key_def conj_commute)

lemma lookup_scan:
  "ops_fpa_mac_learning_lookup_by_vlan_and_mac P ml vlan mac = fdb_scan P (vlan, mac) (ml_table ml)"
  unfolding ops_fpa_mac_learning_lookup_by_vlan_and_mac_def fdb_scan_def by (simp add: fdb_key_def conj_commute)

interpretation fdb: keyed_table fdb_key ml_params_ok fdb_wf fdb_search fdb_add
proof unfold_locales
  fix P m k n
  assume P: "ml_params_ok P" and wf: "fdb_wf P m"
  have ord: "visits_all (fdb_order P)" using P by (simp add: ml_params_ok_def)
  show "fdb_search P k m = None \<longleftrightarrow> (\<forall>n \<in> set m. fdb_key (snd n) \<noteq> k)"
    using hmap_search_hash_None [OF ord] wf
    by (force simp: fdb_search_def fdb_wf_def hashed_by_def hash_fdb_key)
  show "fdb_search P k m = Some n \<Longrightarrow> n \<in> set m \<and> fdb_key (snd n) = k"
    by (cases n) (auto simp: fdb_search_def dest: hmap_search_hash_SomeD [OF ord])
qed (auto simp: fdb_add_def fdb_wf_def)

interpretation fdbscan: keyed_table fdb_key ml_params_ok fdb_wf fdb_scan fdb_add
proof unfold_locales
  fix P m k n
  assume P: "ml_params_ok P"
  have ord: "visits_all (fdb_order P)" using P by (simp add: ml_params_ok_def)
  show "fdb_scan P k m = None \<longleftrightarrow> (\<forall>n \<in> set m. fdb_key (snd n) \<noteq> k)"
    using hmap_search_None [OF ord] by (force simp: fdb_scan_def)
  show "fdb_scan P k m = Some n \<Longrightarrow> n \<in> set m \<and> fdb_key (snd n) = k"
    by (cases n) (auto simp: fdb_scan_def dest: hmap_search_SomeD [OF ord])
qed (auto simp: fdb_add_def fdb_wf_def)

text \<open>The search by hash and the search over the whole table agree on which addresses are known:
  for a VLAN and an address, either both find nothing, or both find an entry with that VLAN and
  address; when no two entries have the same VLAN and address they find the same one.\<close>

lemma lookup_agree:
  assumes "ml_params_ok P" and "ml_inv P ml"
  shows "(ops_fpa_mac_learning_lookup P ml e = None \<longleftrightarrow>
      ops_fpa_mac_learning_lookup_by_vlan_and_mac P ml (fm_vid e) (fm_address e) = None)
    \<and> (\<forall>n. ops_fpa_mac_learning_lookup P ml e = Some n \<longrightarrow>
         n \<in> set (ml_table ml) \<and> fm_vid (snd n) = fm_vid e \<and> fm_address (snd n) = fm_address e)
    \<and> (unique_keys fdb_key (ml_table ml) \<longrightarrow> ops_fpa_mac_learning_lookup P ml e =
      ops_fpa_mac_learning_lookup_by_vlan_and_mac P ml (fm_vid e) (fm_address e))"
proof -
  have wf: "fdb_wf P (ml_table ml)" using assms(2) by (simp add: ml_inv_def fdb_wf_def)
  have k: "(fm_vid e, fm_address e) = fdb_key e" by (simp add: fdb_key_def)
  have none: "fdb_search P (fdb_key e) (ml_table ml) = None \<longleftrightarrow> fdb_scan P (fdb_key e) (ml_table ml) = None"
    using fdb.search_None [OF assms(1) wf] fdbscan.search_None [OF assms(1) wf] by simp
  have "fdb_search P (fdb_key e) (ml_table ml) = fdb_scan P (fdb_key e) (ml_table ml)"
    if "unique_keys fdb_key (ml_table ml)"
  proof (cases "fdb_scan P (fdb_key e) (ml_table ml)")
    case (Some n)
    then show ?thesis
      using fdb.search_unique [OF assms(1) wf that] fdbscan.search_Some [OF assms(1) wf] by auto
  qed (use none in simp)
  moreover have "n \<in> set (ml_table ml) \<and> fm_vid (snd n) = fm_vid e \<and> fm_address (snd n) = fm_address e"
    if "fdb_search P (fdb_key e) (ml_table ml) = Some n" for n
    using fdb.search_Some [OF assms(1) wf that] by (simp add: fdb_key_def)
  ultimately show ?thesis using none by (simp add: lookup_search lookup_scan k)
qed

section \<open>Learning, aging and flushing\<close>

text \<open>An event of a port that exists is recorded without a failed assertion.\<close>

lemma action_add_total:
  "port_name (fm_portNum msg) \<noteq> None \<Longrightarrow>
    \<exists>ml'. ops_fpa_mac_learning_mlearn_action_add P port_name ml msg h ev = Inr ml'"
  by (auto simp: ops_fpa_mac_learning_mlearn_action_add_def ops_fpa_mac_learning_mlearn_entry_fill_data_def
      Let_def split: option.splits)

lemma learn_total:
  assumes "hmap_count (ml_table ml) < ml_max_entries ml" and "port_name (fm_portNum msg) \<noteq> None"
  shows "\<exists>ml'. ops_fpa_mac_learning_learn P port_name ml msg = Inr (0, ml')"
  using assms action_add_total [of port_name msg P
      "ml\<lparr>ml_table := hmap_insert (ml_table ml) (fpa_hash_fdb_entry P msg) msg\<rparr>" "fpa_hash_fdb_entry P msg" MLEARN_ADD]
  by (auto simp: ops_fpa_mac_learning_learn_def ops_fpa_mac_learning_may_learn_def ops_fpa_mac_learning_insert_def Let_def)

lemma expire_total:
  assumes "ml_params_ok P" and "ml_inv P ml" and "port_name (fm_portNum (snd e)) \<noteq> None"
  shows "\<exists>ml'. ops_fpa_mac_learning_expire P port_name ml e = Inr (0, ml') \<and> ml_inv P ml'
    \<and> ml_table ml' = hmap_remove (ml_table ml) e"
proof -
  obtain ml' where e: "ops_fpa_mac_learning_expire P port_name ml e = Inr (0, ml')"
    using action_add_total [of port_name "snd e" P "ml\<lparr>ml_table := hmap_remove (ml_table ml) e\<rparr>" "fst e" MLEARN_DEL] assms(3)
    by (auto simp: ops_fpa_mac_learning_expire_def)
  with expire_inv [OF assms(1,2) e] show ?thesis by blast
qed

text \<open>(C21) Learning a new address on a port that exists, while there is room, succeeds, and afterwards a
  search for its VLAN and address finds exactly this entry, while every other VLAN and address is
  answered as before. No assertion fails.\<close>

theorem learn_then_lookup:
  assumes P: "ml_params_ok P" and inv: "ml_inv P ml" and uniq: "unique_keys fdb_key (ml_table ml)"
    and new: "ops_fpa_mac_learning_lookup P ml msg = None" and room: "hmap_count (ml_table ml) < ml_max_entries ml"
    and port: "port_name (fm_portNum msg) \<noteq> None"
  shows "\<exists>ml'. ops_fpa_mac_learning_learn P port_name ml msg = Inr (0, ml')
    \<and> unique_keys fdb_key (ml_table ml') \<and> hmap_count (ml_table ml') \<le> ml_max_entries ml'
    \<and> (\<forall>q. map_option snd (ops_fpa_mac_learning_lookup P ml' q) =
        (if fdb_key q = fdb_key msg then Some msg else map_option snd (ops_fpa_mac_learning_lookup P ml q)))"
proof -
  let ?ml = "ml\<lparr>ml_table := fdb_add P msg (ml_table ml)\<rparr>"
  have wf: "fdb_wf P (ml_table ml)" using inv by (simp add: ml_inv_def fdb_wf_def)
  have inv1: "ml_inv P ?ml" using inv by (simp add: ml_inv_def fdb_add_def)
  obtain ml' where a: "ops_fpa_mac_learning_mlearn_action_add P port_name ?ml msg (fpa_hash_fdb_entry P msg) MLEARN_ADD = Inr ml'"
    using action_add_total port by blast
  then have l: "ops_fpa_mac_learning_learn P port_name ml msg = Inr (0, ml')"
    using room port by (simp add: ops_fpa_mac_learning_learn_def ops_fpa_mac_learning_may_learn_def
        ops_fpa_mac_learning_insert_def Let_def fdb_add_def)
  have t: "ml_table ml' = fdb_add P msg (ml_table ml)" "ml_max_entries ml' = ml_max_entries ml"
    using action_add_inv [OF P inv1 a] by simp_all
  have none: "fdb_search P (fdb_key msg) (ml_table ml) = None" using new by (simp add: lookup_search)
  note s = fdb.search_add [OF P wf uniq none]
  show ?thesis
    using l s room by (auto simp: t lookup_search) (simp add: fdb_add_def hmap_simps)
qed

theorem learn_then_lookup_witness:
  "\<exists>ml. ops_fpa_mac_learning_learn sample_params (\<lambda>_. Some ''1'') sample_ml (sample_msg 7 10 5) = Inr (0, ml)
    \<and> map_option snd (ops_fpa_mac_learning_lookup sample_params ml (sample_msg 9 10 5)) = Some (sample_msg 7 10 5)"
proof -
  have inv: "ml_inv sample_params sample_ml" using ml_reach_ml_inv [OF sample_params_ok sample_ml_reach] .
  have "\<exists>ml'. ops_fpa_mac_learning_learn sample_params (\<lambda>_. Some ''1'') sample_ml (sample_msg 7 10 5) = Inr (0, ml')
    \<and> unique_keys fdb_key (ml_table ml') \<and> hmap_count (ml_table ml') \<le> ml_max_entries ml'
    \<and> (\<forall>q. map_option snd (ops_fpa_mac_learning_lookup sample_params ml' q) =
        (if fdb_key q = fdb_key (sample_msg 7 10 5) then Some (sample_msg 7 10 5)
         else map_option snd (ops_fpa_mac_learning_lookup sample_params sample_ml q)))"
    by (rule learn_then_lookup [OF sample_params_ok inv])
      (simp_all add: sample_ml_def unique_keys_def ops_fpa_mac_learning_lookup_def hmap_search_hash_def sample_params_def)
  moreover have "fdb_key (sample_msg 9 10 5) = fdb_key (sample_msg 7 10 5)"
    by (simp add: fdb_key_def sample_msg_def)
  ultimately show ?thesis by metis
qed

text \<open>Aging an address that is known, on a port that exists, succeeds: afterwards its VLAN and address
  are not found, and every other VLAN and address is answered as before.\<close>

lemma age_then_lookup:
  assumes P: "ml_params_ok P" and inv: "ml_inv P ml" and uniq: "unique_keys fdb_key (ml_table ml)"
    and known: "ops_fpa_mac_learning_lookup P ml msg = Some e" and port: "port_name (fm_portNum (snd e)) \<noteq> None"
  shows "\<exists>ml'. ops_fpa_mac_learning_age_by_entry P port_name ml msg = Inr (0, ml')
    \<and> unique_keys fdb_key (ml_table ml')
    \<and> (\<forall>q. ops_fpa_mac_learning_lookup P ml' q =
        (if fdb_key q = fdb_key msg then None else ops_fpa_mac_learning_lookup P ml q))"
proof -
  have wf: "fdb_wf P (ml_table ml)" using inv by (simp add: ml_inv_def fdb_wf_def)
  obtain ml' where x: "ops_fpa_mac_learning_expire P port_name ml e = Inr (0, ml')"
    and t: "ml_table ml' = hmap_remove (ml_table ml) e"
    using expire_total [of P ml port_name e] P inv port by blast
  have some: "fdb_search P (fdb_key msg) (ml_table ml) = Some e" using known by (simp add: lookup_search)
  note r = fdb.search_remove [OF P wf uniq some]
  show ?thesis
    using x known r by (simp add: ops_fpa_mac_learning_age_by_entry_def t lookup_search)
qed

lemma expire_all_total:
  assumes P: "ml_params_ok P" and "ml_inv P ml" and "mset es \<subseteq># mset (ml_table ml)"
    and "\<And>e. e \<in> set es \<Longrightarrow> port_name (fm_portNum (snd e)) \<noteq> None"
  shows "\<exists>ml'. expire_all P port_name es ml = Inr ml' \<and> mset (ml_table ml') = mset (ml_table ml) - mset es"
  using assms(2-)
proof (induction es arbitrary: ml)
  case (Cons e es)
  obtain ml1 where x: "ops_fpa_mac_learning_expire P port_name ml e = Inr (0, ml1)" "ml_inv P ml1"
    "ml_table ml1 = hmap_remove (ml_table ml) e"
    using expire_total [OF P Cons.prems(1), of port_name e] Cons.prems(3) by auto
  have m: "mset (ml_table ml1) = mset (ml_table ml) - {#e#}" by (simp add: x(3) hmap_simps)
  have "mset es \<subseteq># mset (ml_table ml1)"
    using Cons.prems(2) unfolding m by (simp add: insert_subset_eq_iff)
  from Cons.IH [OF x(2) this] Cons.prems(3) obtain ml' where
    "expire_all P port_name es ml1 = Inr ml'" "mset (ml_table ml') = mset (ml_table ml1) - mset es"
    by auto
  with x(1) m show ?case by simp
qed simp

text \<open>Flushing empties the FDB when the port of every entry exists: the iteration removes each entry
  once and no assertion fails.\<close>

lemma flush_total:
  assumes P: "ml_params_ok P" and inv: "ml_inv P ml"
    and ports: "\<forall>e \<in> set (ml_table ml). port_name (fm_portNum (snd e)) \<noteq> None"
  shows "\<exists>ml'. ops_fpa_mac_learning_flush P port_name ml = Inr ml' \<and> ml_table ml' = []"
proof -
  have m: "mset (fdb_order P (ml_table ml)) = mset (ml_table ml)" and s: "set (fdb_order P (ml_table ml)) = set (ml_table ml)"
    using P visits_all_set by (auto simp: ml_params_ok_def visits_all_def)
  show ?thesis
    using expire_all_total [OF P inv, of "fdb_order P (ml_table ml)" port_name] ports
    by (auto simp: m s ops_fpa_mac_learning_flush_def)
qed

section \<open>Handing events to the bridge\<close>

text \<open>
  Turning the buffers over: what the bridge reads next is the buffer that was in use, as it was, and the
  buffer now in use is empty.
\<close>

lemma process_handover:
  assumes "ml_inv P ml \<or> length (ml_event_tables ml) = 2 \<and> ml_curr ml < 2" and "ml_plugin ml"
    and "hmap_count (mh_table (ml_event_tables ml ! ml_curr ml)) \<noteq> 0"
    and "ml' = ops_fpa_mac_learning_process_mlearn P ml"
  shows "ops_fpa_ml_hmap_get (Some (dev_with ml')) True = Inr (0, Some (ml_event_tables ml ! ml_curr ml))
    \<and> mh_nodes (ml_event_tables ml' ! ml_curr ml') = [] \<and> ml_curr ml' \<noteq> ml_curr ml
    \<and> ml_callbacks ml' = Suc (ml_callbacks ml)"
proof -
  have c: "length (ml_event_tables ml) = 2" "ml_curr ml < 2" using assms(1) by (auto simp: ml_inv_def)
  then have "(ml_curr ml XOR 1) XOR 1 = ml_curr ml" "ml_curr ml XOR 1 < 2" "ml_curr ml XOR 1 \<noteq> ml_curr ml"
    by (auto simp: xor.assoc)
  with c assms(2-4) show ?thesis
    by (simp add: ops_fpa_mac_learning_process_mlearn_def ops_fpa_ml_hmap_get_def ops_fpa_dev_by_id_def dev_with_def Let_def
        ops_fpa_mac_learning_clear_mlearn_hmap_def del: One_nat_def)
qed

text \<open>When the timer expires and events have been collected, the bridge is called back and reads
  exactly the buffer that was in use, unchanged, while new events go to the other buffer, which is
  empty.\<close>

lemma timer_handover:
  assumes "ml_inv P ml" and "ml_plugin ml" and "hmap_count (mh_table (ml_event_tables ml ! ml_curr ml)) \<noteq> 0"
  shows "\<exists>ml'. ops_fpa_mac_learning_on_mlearn_timer_expired P (Some ml) = Some ml'
    \<and> ops_fpa_ml_hmap_get (Some (dev_with ml')) True = Inr (0, Some (ml_event_tables ml ! ml_curr ml))
    \<and> mh_nodes (ml_event_tables ml' ! ml_curr ml') = [] \<and> ml_callbacks ml' = Suc (ml_callbacks ml)"
  using process_handover [of P ml] assms by (simp add: ops_fpa_mac_learning_on_mlearn_timer_expired_def)

definition sample_busy :: fpa_mac_learning where
  "sample_busy = sample_ml\<lparr>ml_event_tables := [\<lparr>mh_nodes =
     [event_node sample_params 0 (sample_msg 7 10 5) MLEARN_ADD ''1''], mh_size = 2, mh_table = [(15, 0)]\<rparr>,
     empty_mlearn sample_params]\<rparr>"

lemma sample_busy_inv: "ml_inv sample_params sample_busy"
  by (simp add: sample_busy_def ml_inv_def sample_ml_def mlearn_inv_def hashed_by_def)
    (auto simp: sample_params_def empty_mlearn_def)




end
