(* ===== verification/Fpa_Hosts.thy ===== *)
theory Fpa_Hosts
  imports Fpa_Keyed Fpa_MacLearning
begin

text \<open>
  The two tables behind directly connected hosts in \<open>src/ops-fpa-ofproto.c\<close>: the pool of ARP indices
  and the host table. The pool is an array whose entry 0 is the head of a chain through the free
  indices; the statements that take an index from it and put one back stand inline in
  \<open>add_l3_host_entry\<close> and \<open>delete_l3_host_entry\<close> and have a definition each here. The pool is given an
  interface, an abstract stack of free indices, and what it means for its client (an index is never
  handed out twice, and all of them can be handed out) is proved from the interface.
\<close>

section \<open>Definitions\<close>

abbreviation (input) ARP_INDICES_SIZE :: nat where "ARP_INDICES_SIZE \<equiv> 1024"

text \<open>The initialisation in \<open>ops_fpa_ofproto_init\<close>.\<close>

definition arp_indices_init :: "nat list" where
  "arp_indices_init = map (\<lambda>i. if i < ARP_INDICES_SIZE then i + 1 else 0) [0..<ARP_INDICES_SIZE + 1]"

definition arp_index_alloc :: "nat list \<Rightarrow> (nat \<times> nat list) option" where
  "arp_index_alloc arp_indices =
     (if arp_indices ! 0 = 0 then None
      else
        let arp_index = arp_indices ! 0;
            arp_indices = arp_indices[0 := arp_indices ! arp_index];
            arp_indices = arp_indices[arp_index := 0]
        in Some (arp_index, arp_indices))"

definition arp_index_release :: "nat \<Rightarrow> nat list \<Rightarrow> nat list" where
  "arp_index_release arp_index arp_indices =
     (let arp_indices = arp_indices[arp_index := arp_indices ! 0]
      in arp_indices[0 := arp_index])"

record host_table_entry =
  ht_ipv4_addr :: u32
  ht_arp_index :: nat
  ht_l3_group :: u32
  ht_l2_group :: u32

record host_params =
  host_hash_bytes :: "u8 list \<Rightarrow> u32"
  host_order :: "host_table_entry hmap_order"

text \<open>The bytes of the address in memory order.\<close>

definition host_table_key :: "host_params \<Rightarrow> u32 \<Rightarrow> u32" where
  "host_table_key H ipv4_addr =
     host_hash_bytes H [ucast ipv4_addr, ucast (drop_bit 8 ipv4_addr), ucast (drop_bit 16 ipv4_addr),
       ucast (drop_bit 24 ipv4_addr)]"

definition host_table_insert :: "host_params \<Rightarrow> host_table_entry \<Rightarrow> host_table_entry hmap \<Rightarrow> host_table_entry hmap" where
  "host_table_insert H entry host_table = hmap_insert host_table (host_table_key H (ht_ipv4_addr entry)) entry"

definition host_table_add ::
  "host_params \<Rightarrow> u32 \<Rightarrow> nat \<Rightarrow> u32 \<Rightarrow> u32 \<Rightarrow> host_table_entry hmap \<Rightarrow> host_table_entry hmap" where
  "host_table_add H ipv4_addr arp_index l3_group l2_group host_table =
     host_table_insert H \<lparr>ht_ipv4_addr = ipv4_addr, ht_arp_index = arp_index, ht_l3_group = l3_group,
       ht_l2_group = l2_group\<rparr> host_table"

definition host_table_delete :: "u32 \<times> host_table_entry \<Rightarrow> host_table_entry hmap \<Rightarrow> host_table_entry hmap" where
  "host_table_delete entry host_table = hmap_remove host_table entry"

definition host_table_find ::
  "host_params \<Rightarrow> u32 \<Rightarrow> host_table_entry hmap \<Rightarrow> (u32 \<times> host_table_entry) option" where
  "host_table_find H ipv4_addr host_table =
     hmap_search_hash (host_order H) (host_table_key H ipv4_addr) (\<lambda>e. ht_ipv4_addr e = ipv4_addr) host_table"

section \<open>The interface of an index pool\<close>

text \<open>
  The states of a pool that a client reaches which gives back only indices it holds; \<open>A\<close> are the
  indices it holds.
\<close>

inductive pool_used ::
  "'s \<Rightarrow> ('s \<Rightarrow> (nat \<times> 's) option) \<Rightarrow> (nat \<Rightarrow> 's \<Rightarrow> 's) \<Rightarrow> 's \<Rightarrow> nat set \<Rightarrow> bool"
  for start alloc release where
  start: "pool_used start alloc release start {}"
| alloc: "pool_used start alloc release s A \<Longrightarrow> alloc s = Some (i, s') \<Longrightarrow>
    pool_used start alloc release s' (insert i A)"
| release: "pool_used start alloc release s A \<Longrightarrow> i \<in> A \<Longrightarrow>
    pool_used start alloc release (release i s) (A - {i})"

locale index_pool =
  fixes size :: nat
    and rep :: "'s \<Rightarrow> nat list \<Rightarrow> bool"
    and start :: 's
    and alloc :: "'s \<Rightarrow> (nat \<times> 's) option"
    and release :: "nat \<Rightarrow> 's \<Rightarrow> 's"
  assumes rep_start: "rep start [1..<size + 1]"
    and rep_range: "rep s L \<Longrightarrow> distinct L \<and> set L \<subseteq> {1..size}"
    and alloc_empty: "rep s [] \<Longrightarrow> alloc s = None"
    and alloc_next: "rep s (i # L) \<Longrightarrow> \<exists>s'. alloc s = Some (i, s') \<and> rep s' L"
    and release_top: "rep s L \<Longrightarrow> i \<in> {1..size} \<Longrightarrow> i \<notin> set L \<Longrightarrow> rep (release i s) (i # L)"
begin

lemma used_rep: "pool_used start alloc release s A \<Longrightarrow> \<exists>L. rep s L \<and> set L = {1..size} - A \<and> A \<subseteq> {1..size}"
proof (induction rule: pool_used.induct)
  case start
  have "set [1..<size + 1] = {1..size}" by auto
  with rep_start show ?case by blast
next
  case (alloc s A i s')
  then obtain L where L: "rep s L" "set L = {1..size} - A" "A \<subseteq> {1..size}" by blast
  with alloc obtain j K where K: "L = j # K" using alloc_empty by (cases L) auto
  with L(1) alloc_next alloc.hyps(2) have "j = i" "rep s' K" by fastforce+
  moreover have "i \<notin> set K" "i \<in> {1..size}" using rep_range [OF L(1)] K \<open>j = i\<close> by auto
  ultimately show ?case using L K by (intro exI [of _ K]) auto
next
  case (release s A i)
  then obtain L where L: "rep s L" "set L = {1..size} - A" "A \<subseteq> {1..size}" by blast
  with release(2) have "rep (release i s) (i # L)" by (intro release_top) auto
  with L release(2) show ?case by (intro exI [of _ "i # L"]) auto
qed

lemma alloc_fresh:
  assumes "pool_used start alloc release s A" and "alloc s = Some (i, s')"
  shows "i \<notin> A" and "1 \<le> i" and "i \<le> size"
proof -
  obtain L where L: "rep s L" "set L = {1..size} - A" using used_rep [OF assms(1)] by blast
  with assms(2) obtain K where "L = i # K"
    using alloc_empty alloc_next by (cases L) fastforce+
  with L rep_range [OF L(1)] show "i \<notin> A" and "1 \<le> i" and "i \<le> size" by auto
qed

lemma alloc_full:
  assumes "pool_used start alloc release s A"
  shows "alloc s = None \<longleftrightarrow> A = {1..size}"
proof -
  obtain L where L: "rep s L" "set L = {1..size} - A" "A \<subseteq> {1..size}" using used_rep [OF assms] by blast
  show ?thesis
  proof (cases L)
    case Nil
    then show ?thesis using L alloc_empty by auto
  next
    case (Cons i K)
    then have "alloc s \<noteq> None" using alloc_next L(1) by fastforce
    moreover have "i \<in> {1..size} - A" using Cons L(2) by auto
    ultimately show ?thesis by blast
  qed
qed

end

section \<open>The pool of ARP indices\<close>

primrec free_chain :: "nat list \<Rightarrow> nat \<Rightarrow> nat list \<Rightarrow> bool" where
  "free_chain xs a [] = (xs ! a = 0)"
| "free_chain xs a (b # bs) = (xs ! a = b \<and> free_chain xs b bs)"

definition arp_rep :: "nat list \<Rightarrow> nat list \<Rightarrow> bool" where
  "arp_rep xs L \<longleftrightarrow> length xs = ARP_INDICES_SIZE + 1 \<and> distinct L \<and> set L \<subseteq> {1..ARP_INDICES_SIZE}
     \<and> free_chain xs 0 L"

lemma free_chain_cong:
  "(\<And>k. k \<in> set (a # L) \<Longrightarrow> xs ! k = ys ! k) \<Longrightarrow> free_chain xs a L = free_chain ys a L"
  by (induction L arbitrary: a) auto

lemma free_chain_init:
  assumes "\<And>i. i < n \<Longrightarrow> xs ! i = i + 1" and "xs ! n = 0" and "a \<le> n"
  shows "free_chain xs a [a + 1..<n + 1]"
  using assms(3)
proof (induction "n - a" arbitrary: a)
  case 0
  then show ?case using assms(2) by simp
next
  case (Suc d)
  then have "a < n" by simp
  then have "[a + 1..<n + 1] = (a + 1) # [a + 1 + 1..<n + 1]" using upt_conv_Cons [of "a + 1" "n + 1"] by (simp del: upt_Suc)
  moreover have "free_chain xs (a + 1) [a + 1 + 1..<n + 1]" by (rule Suc.hyps(1)) (use Suc.hyps(2) in simp_all)
  ultimately show ?case using assms(1) [of a] Suc.hyps(2) by (simp del: upt_Suc)
qed

lemma arp_alloc_next:
  assumes "arp_rep xs (i # L)"
  shows "\<exists>ys. arp_index_alloc xs = Some (i, ys) \<and> arp_rep ys L"
proof -
  let ?ys = "xs[0 := xs ! i, i := 0]"
  have i: "xs ! 0 = i" "i \<noteq> 0" "i < length xs" "0 < length xs" "i \<notin> set L" "0 \<notin> set L"
    and c: "free_chain xs i L" using assms by (auto simp: arp_rep_def)
  have "free_chain ?ys 0 L"
  proof (cases L)
    case Nil
    then show ?thesis using i c by simp
  next
    case (Cons j K)
    moreover have "free_chain ?ys j K = free_chain xs j K"
    proof (rule free_chain_cong)
      fix k assume "k \<in> set (j # K)"
      then have "k \<noteq> 0" "k \<noteq> i" using i(5,6) Cons by metis+
      then show "?ys ! k = xs ! k" by simp
    qed
    ultimately show ?thesis using i c by simp
  qed
  with assms i show ?thesis
    by (auto simp: arp_index_alloc_def arp_rep_def)
qed

lemma arp_release_top:
  assumes r: "arp_rep xs L" and i: "i \<in> {1..ARP_INDICES_SIZE}" "i \<notin> set L"
  shows "arp_rep (arp_index_release i xs) (i # L)"
proof -
  let ?ys = "xs[i := xs ! 0, 0 := i]"
  have l: "i < length xs" "0 < length xs" "i \<noteq> 0" "0 \<notin> set L" using r i by (auto simp: arp_rep_def)
  have "free_chain ?ys i L"
  proof (cases L)
    case Nil
    then show ?thesis using r l by (simp add: arp_rep_def)
  next
    case (Cons j K)
    moreover have "free_chain ?ys j K = free_chain xs j K"
    proof (rule free_chain_cong)
      fix k assume "k \<in> set (j # K)"
      then have "k \<noteq> 0" "k \<noteq> i" using i(2) l(4) Cons by metis+
      then show "?ys ! k = xs ! k" by simp
    qed
    ultimately show ?thesis using r l by (simp add: arp_rep_def)
  qed
  with r i l show ?thesis by (auto simp: arp_rep_def arp_index_release_def)
qed

interpretation arp: index_pool ARP_INDICES_SIZE arp_rep arp_indices_init arp_index_alloc arp_index_release
proof unfold_locales
  show "arp_rep arp_indices_init [1..<ARP_INDICES_SIZE + 1]"
    using free_chain_init [of ARP_INDICES_SIZE arp_indices_init 0]
    by (auto simp: arp_rep_def arp_indices_init_def simp del: upt_Suc)
  show "distinct L \<and> set L \<subseteq> {1..ARP_INDICES_SIZE}" if "arp_rep s L" for s L
    using that by (simp add: arp_rep_def)
  show "arp_index_alloc s = None" if "arp_rep s []" for s
    using that by (simp add: arp_rep_def arp_index_alloc_def)
qed (rule arp_alloc_next arp_release_top; assumption)+

text \<open>(C37) As long as only indices in use are given back, taking an ARP index never hands out one that is
  in use, every index handed out is between 1 and 1024, and taking one fails exactly when all 1024 are
  in use.\<close>

theorem arp_pool_sound:
  assumes "pool_used arp_indices_init arp_index_alloc arp_index_release xs A"
  shows "(arp_index_alloc xs = None \<longleftrightarrow> A = {1..ARP_INDICES_SIZE})
    \<and> (\<forall>i ys. arp_index_alloc xs = Some (i, ys) \<longrightarrow> i \<notin> A \<and> 1 \<le> i \<and> i \<le> ARP_INDICES_SIZE)"
  using arp.alloc_full [OF assms] arp.alloc_fresh [OF assms] by blast

theorem arp_pool_sound_witness:
  "pool_used arp_indices_init arp_index_alloc arp_index_release arp_indices_init {}
    \<and> (\<exists>i ys. arp_index_alloc arp_indices_init = Some (i, ys) \<and> 1 \<le> i \<and> i \<le> 1024)"
proof -
  have u: "pool_used arp_indices_init arp_index_alloc arp_index_release arp_indices_init {}"
    by (rule pool_used.start)
  from arp_pool_sound [OF u] u show ?thesis by (cases "arp_index_alloc arp_indices_init") auto
qed

section \<open>The host table\<close>

definition host_ok :: "host_params \<Rightarrow> bool" where
  "host_ok H = visits_all (host_order H)"

definition host_wf :: "host_params \<Rightarrow> host_table_entry hmap \<Rightarrow> bool" where
  "host_wf H m = hashed_by (\<lambda>e. host_table_key H (ht_ipv4_addr e)) m"

interpretation hosts: keyed_table ht_ipv4_addr host_ok host_wf host_table_find host_table_insert
proof unfold_locales
  fix H m k n
  assume H: "host_ok H" and wf: "host_wf H m"
  have ord: "visits_all (host_order H)" using H by (simp add: host_ok_def)
  show "host_table_find H k m = None \<longleftrightarrow> (\<forall>n \<in> set m. ht_ipv4_addr (snd n) \<noteq> k)"
    using hmap_search_hash_None [OF ord] wf
    by (force simp: host_table_find_def host_wf_def hashed_by_def)
  show "host_table_find H k m = Some n \<Longrightarrow> n \<in> set m \<and> ht_ipv4_addr (snd n) = k"
    by (cases n) (auto simp: host_table_find_def dest: hmap_search_hash_SomeD [OF ord])
qed (auto simp: host_table_insert_def host_wf_def hashed_by_insert [where hash = "\<lambda>e. host_table_key _ (ht_ipv4_addr e)"])

lemma arp_release_alloc:
  assumes "arp_rep xs L" and "arp_index_alloc xs = Some (i, ys)"
  shows "arp_index_release i ys = xs"
proof -
  obtain K where K: "L = i # K" using assms arp.alloc_empty arp.alloc_next by (cases L) fastforce+
  have i: "i < length xs" "0 < length xs" "i \<noteq> 0" "xs ! 0 = i" using assms(1) K by (auto simp: arp_rep_def)
  have "ys = xs[0 := xs ! i, i := 0]" using assms(2) i by (simp add: arp_index_alloc_def)
  moreover have "xs[0 := xs ! i, i := 0, i := xs ! i, 0 := i] = xs"
    by (rule nth_equalityI) (use i in \<open>auto simp: nth_list_update\<close>)
  ultimately show ?thesis using i by (simp add: arp_index_release_def)
qed

lemma host_table_roundtrip:
  assumes "host_ok H" and "host_wf H m" and "unique_keys ht_ipv4_addr m"
    and "host_table_find H ip m = None"
  shows "\<exists>n. host_table_find H ip (host_table_add H ip idx l3 l2 m) = Some n
    \<and> snd n = \<lparr>ht_ipv4_addr = ip, ht_arp_index = idx, ht_l3_group = l3, ht_l2_group = l2\<rparr>
    \<and> (\<forall>k. map_option snd (host_table_find H k (host_table_delete n (host_table_add H ip idx l3 l2 m)))
         = map_option snd (host_table_find H k m))"
proof -
  let ?e = "\<lparr>ht_ipv4_addr = ip, ht_arp_index = idx, ht_l3_group = l3, ht_l2_group = l2\<rparr>"
  let ?m = "host_table_insert H ?e m"
  have none: "host_table_find H (ht_ipv4_addr ?e) m = None" using assms(4) by simp
  note add = hosts.search_add [OF assms(1-3) none]
  obtain n where n: "host_table_find H ip ?m = Some n" "snd n = ?e"
    using add(2) [of ip] by auto
  note wfm = hosts.wf_add [OF assms(1,2), of ?e]
  note del = hosts.search_remove(2) [OF assms(1) wfm add(1) n(1)]
  show ?thesis
    using n add(2) assms(4) by (auto simp: host_table_add_def host_table_delete_def del)
qed

end
