(* ===== verification/Fpa_Ofproto.thy ===== *)
theory Fpa_Ofproto
  imports Fpa_Routing Fpa_Hosts
begin

text \<open>
  \<open>src/ops-fpa-ofproto.c\<close>: bridges and virtual routers, their ports and bundles, directly connected
  hosts and routes. The globals of the file, of \<open>ops-fpa-vlan.c\<close> and of \<open>ops-fpa-dev.c\<close> are the fields
  of one state; the bridge or router that a call is about is passed and returned beside it. Ports are
  objects in a store with addresses, because a port is reached both through its bridge and through
  the map \<open>ports_by_pid\<close>, and its pending VLAN bitmap is changed through the latter.

  What the file takes from Open vSwitch and from the interface database is in the record \<open>plugin_env\<close>:
  hash functions, the visiting orders and bucket masks of its hash maps, and the parser of MAC
  addresses. A function that can dereference a null pointer or fail an assertion has the result type
  \<open>crash + 'a\<close>; the two functions that read the VLAN state of a port from the switch can also fail to
  return, which is \<open>None\<close>.
\<close>

section \<open>State\<close>

text \<open>The interface types of the database schema that the file compares with.\<close>

datatype iface_type = TYPE_SYSTEM | TYPE_INTERNAL | TYPE_LOOPBACK | TYPE_VLANSUBINT | TYPE_OTHER string

record netdev =
  nd_name :: string
  nd_type :: iface_type
  nd_ifindex :: u32
  nd_etheraddr :: eth_addr

record fpa_ofport =
  op_ofp_port :: u32
  op_netdev :: netdev
  op_mtu :: u32
  op_vmap :: bitmap

record fpa_bundle =
  bn_aux :: nat
  bn_name :: "string option"
  bn_intf_id :: u32
  bn_l3_intf :: "fpa_l3_intf option"
  bn_ip4addr :: "string option"
  bn_secondary_ip4addr :: "string hmap"

record fpa_ofproto =
  pr_type :: string
  pr_name :: string
  pr_port_names :: "string set"
  pr_ports :: "u32 \<Rightarrow> nat option"
  pr_bundles :: "fpa_bundle hmap"
  pr_vlans :: bitmap
  pr_switch_id :: u32
  pr_vrf_id :: nat
  pr_change_seq :: u64

record 'hw plugin_env =
  en_lib :: "'hw fpa_lib"
  en_ml :: ml_params
  en_host :: host_params
  en_hash_pointer :: "nat \<Rightarrow> u32"
  en_hash_string :: "string \<Rightarrow> u32"
  en_bundle_order :: "fpa_bundle hmap_order"
  en_bundle_mask :: "fpa_bundle hmap \<Rightarrow> u32"
  en_port_order :: "nat hmap_order"
  en_port_mask :: "nat hmap \<Rightarrow> u32"
  en_addr_order :: "string hmap_order"
  en_shash_order :: "string list \<Rightarrow> string list"
  en_eth_addr_from_string :: "string \<Rightarrow> eth_addr option"

text \<open>\<open>st_bridge_cmds\<close> logs the calls that add a TAP interface to the Linux bridge or remove it.\<close>

record 'hw plugin_state =
  st_hw :: 'hw
  st_internal_vlans :: bitmap
  st_arp_indices :: "nat list"
  st_host_table :: "host_table_entry hmap"
  st_ports :: "nat \<Rightarrow> fpa_ofport option"
  st_ports_by_pid :: "nat hmap"
  st_dev :: "fpa_dev option"
  st_bridge_cmds :: "(bool \<times> string) list"

abbreviation (input) FPA_INVALID_INTF_ID :: u32 where "FPA_INVALID_INTF_ID \<equiv> 0xFFFF"
abbreviation (input) VLAN_BITMAP_SIZE :: nat where "VLAN_BITMAP_SIZE \<equiv> 4096"

text \<open>
  \<open>HMAP_FOR_EACH_IN_BUCKET\<close> and \<open>hmap_first_in_bucket\<close> visit the nodes whose hash agrees with the given
  one under the mask of the map, whatever their full hash is.
\<close>

definition hmap_search_bucket ::
  "'v hmap_order \<Rightarrow> ('v hmap \<Rightarrow> u32) \<Rightarrow> u32 \<Rightarrow> ('v \<Rightarrow> bool) \<Rightarrow> 'v hmap \<Rightarrow> (u32 \<times> 'v) option" where
  "hmap_search_bucket ord bmask h Q m = find (\<lambda>n. fst n AND bmask m = h AND bmask m \<and> Q (snd n)) (ord m)"

text \<open>A bundle is changed in place, without moving its node.\<close>

definition hmap_replace :: "'v hmap \<Rightarrow> u32 \<times> 'v \<Rightarrow> 'v \<Rightarrow> 'v hmap" where
  "hmap_replace m n v = map (\<lambda>x. if x = n then (fst n, v) else x) m"

section \<open>Ports and bundles\<close>

definition ops_fpa_get_ofport_by_pid ::
  "'hw plugin_env \<Rightarrow> 'hw plugin_state \<Rightarrow> u32 \<Rightarrow> (nat \<times> fpa_ofport) option" where
  "ops_fpa_get_ofport_by_pid env st pid =
     (case hmap_search_bucket (en_port_order env) (en_port_mask env) pid (\<lambda>_. True) (st_ports_by_pid st) of
        None \<Rightarrow> None
      | Some (h, a) \<Rightarrow> map_option (\<lambda>p. (a, p)) (st_ports st a))"

definition ops_fpa_ofport :: "'hw plugin_state \<Rightarrow> fpa_ofproto \<Rightarrow> u32 \<Rightarrow> fpa_ofport option" where
  "ops_fpa_ofport st up ofp_port = (case pr_ports up ofp_port of None \<Rightarrow> None | Some a \<Rightarrow> st_ports st a)"

definition ops_fpa_ofproto_init :: "'hw plugin_state \<Rightarrow> 'hw plugin_state" where
  "ops_fpa_ofproto_init st = st\<lparr>st_arp_indices := arp_indices_init, st_host_table := []\<rparr>"

definition ops_fpa_ofproto_enumerate_types :: "string set \<Rightarrow> string set" where
  "ops_fpa_ofproto_enumerate_types types = insert ''vrf'' (insert ''system'' types)"

definition ops_fpa_ofproto_enumerate_names ::
  "fpa_ofproto hmap_order \<Rightarrow> fpa_ofproto hmap \<Rightarrow> string \<Rightarrow> string set \<Rightarrow> int \<times> string set" where
  "ops_fpa_ofproto_enumerate_names ord protos typ names =
     (0, fold (\<lambda>(h, p) names. if typ = pr_type p then insert (pr_type p) names else names) (ord protos) names)"

definition ops_fpa_ofproto_port_open_type :: "iface_type \<Rightarrow> iface_type" where
  "ops_fpa_ofproto_port_open_type port_type =
     (if port_type = TYPE_INTERNAL \<or> port_type = TYPE_VLANSUBINT \<or> port_type = TYPE_LOOPBACK
      then port_type else TYPE_SYSTEM)"

definition ops_fpa_ofproto_port_construct :: "fpa_ofport \<Rightarrow> int \<times> fpa_ofport" where
  "ops_fpa_ofproto_port_construct p = (0, p\<lparr>op_vmap := bitmap_zero\<rparr>)"

text \<open>
  \<open>typ\<close> is \<open>netdev_get_type_from_name\<close>; the answer names the port, its type and its OpenFlow number,
  \<open>None\<close> standing for \<open>OFPP_NONE\<close>.
\<close>

definition ops_fpa_ofproto_port_query_by_name ::
  "(string \<Rightarrow> iface_type option) \<Rightarrow> (string \<Rightarrow> u32 option) \<Rightarrow> fpa_ofproto \<Rightarrow> string
    \<Rightarrow> int + (string \<times> iface_type \<times> u32 option)" where
  "ops_fpa_ofproto_port_query_by_name typ port_by_name this devname =
     (if devname \<notin> pr_port_names this then Inl ENODEV
      else case typ devname of
             Some t \<Rightarrow> Inr (devname, t, port_by_name devname)
           | None \<Rightarrow> Inl ENODEV)"

definition ops_fpa_ofproto_port_add :: "fpa_ofproto \<Rightarrow> netdev \<Rightarrow> int \<times> fpa_ofproto" where
  "ops_fpa_ofproto_port_add this dev =
     (0, this\<lparr>pr_port_names := insert (nd_name dev) (pr_port_names this)\<rparr>)"

definition ops_fpa_find_bundle :: "'hw plugin_env \<Rightarrow> fpa_ofproto \<Rightarrow> nat \<Rightarrow> (u32 \<times> fpa_bundle) option" where
  "ops_fpa_find_bundle env this aux =
     hmap_search_bucket (en_bundle_order env) (en_bundle_mask env) (en_hash_pointer env aux)
       (\<lambda>b. bn_aux b = aux) (pr_bundles this)"

definition ops_fpa_rm_bundle ::
  "'hw plugin_env \<Rightarrow> fpa_ofproto \<Rightarrow> (u32 \<times> fpa_bundle) option \<Rightarrow> 'hw plugin_state
    \<Rightarrow> crash + int \<times> fpa_ofproto \<times> 'hw plugin_state" where
  "ops_fpa_rm_bundle env this bundle st =
     (case bundle of None \<Rightarrow> Inr (EFAULT, this, st)
      | Some n \<Rightarrow>
          (case (if bn_l3_intf (snd n) \<noteq> None
                 then ops_fpa_disable_routing (en_lib env) (bn_l3_intf (snd n)) (st_internal_vlans st) (st_hw st)
                 else Inr (st_internal_vlans st, st_hw st)) of
             Inl c \<Rightarrow> Inl c
           | Inr (iv, hw) \<Rightarrow>
               Inr (0, this\<lparr>pr_bundles := hmap_remove (pr_bundles this) n\<rparr>,
                    st\<lparr>st_internal_vlans := iv, st_hw := hw\<rparr>)))"

text \<open>The record that \<open>ops_fpa_ofproto_bundle_set\<close> fills in right after creating it.\<close>

definition new_bundle :: "nat \<Rightarrow> u32 \<Rightarrow> fpa_bundle" where
  "new_bundle aux intf_id = \<lparr>bn_aux = aux, bn_name = None, bn_intf_id = intf_id, bn_l3_intf = None,
     bn_ip4addr = None, bn_secondary_ip4addr = []\<rparr>"

definition ops_fpa_create_bundle_record ::
  "'hw plugin_env \<Rightarrow> nat \<Rightarrow> fpa_bundle \<Rightarrow> fpa_ofproto \<Rightarrow> (u32 \<times> fpa_bundle) \<times> fpa_ofproto" where
  "ops_fpa_create_bundle_record env aux bundle this =
     ((en_hash_pointer env aux, bundle),
      this\<lparr>pr_bundles := hmap_insert (pr_bundles this) (en_hash_pointer env aux) bundle\<rparr>)"

section \<open>Hosts and routes\<close>

text \<open>
  Where the frames for a host leave: the port of the bundle when the VLAN is internal, and otherwise the
  port on which the MAC address was learned. The entry of the FDB is used without a check.
\<close>

definition host_egress ::
  "'hw plugin_env \<Rightarrow> 'hw plugin_state \<Rightarrow> fpa_l3_intf \<Rightarrow> eth_addr \<Rightarrow> crash + u32" where
  "host_egress env st l3 dst_mac_addr =
     (if ops_fpa_vlan_internal (st_internal_vlans st) (ucast (li_vlan_id l3)) then Inr (li_intf_id l3)
      else
        (case ops_fpa_dev_by_id (st_dev st) (li_switchId l3) of Inl c \<Rightarrow> Inl c
         | Inr d \<Rightarrow>
             (case dv_ml d of None \<Rightarrow> Inl Null_Deref
              | Some ml \<Rightarrow>
                  (case ops_fpa_mac_learning_lookup_by_vlan_and_mac (en_ml env) ml (li_vlan_id l3) dst_mac_addr of
                     None \<Rightarrow> Inl Null_Deref
                   | Some e \<Rightarrow> Inr (fm_portNum (snd e))))))"

text \<open>
  The part of \<open>add_l3_host_entry\<close> that changes the switch and the tables, once the address is parsed: the
  result code and the state. The index that was taken is not given back when a later step fails.
\<close>

definition host_install ::
  "'hw plugin_env \<Rightarrow> fpa_l3_intf \<Rightarrow> u32 \<Rightarrow> eth_addr \<Rightarrow> eth_addr \<Rightarrow> u32 \<Rightarrow> u32 \<Rightarrow> int \<Rightarrow> 'hw plugin_state
    \<Rightarrow> crash + int \<times> 'hw plugin_state" where
  "host_install env l3 mtu src_mac_addr dst_mac_addr l3_egress_id ipv4_addr mask_len st =
     (let lib = en_lib env; switch_id = li_switchId l3; vlan_id = ucast (li_vlan_id l3);
          (ret, l2_group, hw) = ops_fpa_route_add_l2_group lib switch_id l3_egress_id vlan_id False (st_hw st);
          st = st\<lparr>st_hw := hw\<rparr> in
      if ret \<noteq> 0 then Inr (EINVAL, st) else
      case arp_index_alloc (st_arp_indices st) of
        None \<Rightarrow> (let (ret, hw) = ops_fpa_route_del_group lib switch_id l2_group (st_hw st)
                 in Inr (EINVAL, st\<lparr>st_hw := hw\<rparr>))
      | Some (arp_index, arp_indices) \<Rightarrow>
          let st = st\<lparr>st_arp_indices := arp_indices\<rparr>;
              (ret, l3_group, hw) = ops_fpa_route_add_l3_group lib switch_id l2_group (of_nat arp_index) vlan_id mtu
                src_mac_addr dst_mac_addr (st_hw st);
              st = st\<lparr>st_hw := hw\<rparr> in
          if ret \<noteq> 0 then
            (let (ret, hw) = ops_fpa_route_del_group lib switch_id l2_group (st_hw st)
             in Inr (EINVAL, st\<lparr>st_hw := hw\<rparr>)) else
          case ops_fpa_route_add_route lib switch_id l3_group ipv4_addr mask_len (st_hw st) of
            Inl c \<Rightarrow> Inl c
          | Inr (err, hw) \<Rightarrow>
              let st = st\<lparr>st_hw := hw\<rparr> in
              if err \<noteq> 0 then
                (let (ret, hw) = ops_fpa_route_del_group lib switch_id l2_group (st_hw st);
                     (ret, hw) = ops_fpa_route_del_group lib switch_id l3_group hw
                 in Inr (EINVAL, st\<lparr>st_hw := hw\<rparr>))
              else Inr (0, st\<lparr>st_host_table :=
                     host_table_add (en_host env) ipv4_addr arp_index l3_group l2_group (st_host_table st)\<rparr>))"

text \<open>
  The whole function. \<open>l3_egress_id\<close> is the value behind the caller's pointer, returned as the function
  leaves it; \<open>mac\<close> is the next hop, or \<open>None\<close> for a null pointer.
\<close>

definition add_l3_host_entry ::
  "'hw plugin_env \<Rightarrow> fpa_ofproto \<Rightarrow> nat \<Rightarrow> bool \<Rightarrow> string \<Rightarrow> string option \<Rightarrow> u32 \<Rightarrow> 'hw plugin_state
    \<Rightarrow> crash + int \<times> u32 \<times> fpa_ofproto \<times> 'hw plugin_state" where
  "add_l3_host_entry env this aux is_ipv6_addr ip_addr next_hop_mac_addr l3_egress_id st =
     (if is_ipv6_addr then Inr (EINVAL, l3_egress_id, this, st) else
      case next_hop_mac_addr of None \<Rightarrow> Inr (EINVAL, l3_egress_id, this, st)
      | Some mac \<Rightarrow>
        case ops_fpa_find_bundle env this aux of None \<Rightarrow> Inl Null_Deref
        | Some n \<Rightarrow>
          let port = ops_fpa_get_ofport_by_pid env st (bn_intf_id (snd n)) in
          case bn_l3_intf (snd n) of None \<Rightarrow> Inr (EINVAL, l3_egress_id, this, st)
          | Some l3 \<Rightarrow>
            case port of None \<Rightarrow> Inl Null_Deref
            | Some (a, p) \<Rightarrow>
              case en_eth_addr_from_string env mac of None \<Rightarrow> Inr (EINVAL, l3_egress_id, this, st)
              | Some dst_mac_addr \<Rightarrow>
                case host_egress env st l3 dst_mac_addr of Inl c \<Rightarrow> Inl c
                | Inr egress \<Rightarrow>
                  case ops_fpa_str2ip ip_addr of None \<Rightarrow> Inr (EINVAL, egress, this, st)
                  | Some (ipv4_addr, mask_len) \<Rightarrow>
                    if mask_len \<noteq> 32 then Inr (EINVAL, egress, this, st) else
                    case host_install env l3 (op_mtu p) (nd_etheraddr (op_netdev p)) dst_mac_addr egress
                           ipv4_addr mask_len st of
                      Inl c \<Rightarrow> Inl c
                    | Inr (ret, st) \<Rightarrow>
                        if ret \<noteq> 0 then Inr (ret, egress, this, st)
                        else Inr (0, egress, this\<lparr>pr_bundles := hmap_replace (pr_bundles this) n
                               ((snd n)\<lparr>bn_l3_intf := Some (l3\<lparr>li_routes_count := li_routes_count l3 + 1\<rparr>)\<rparr>)\<rparr>, st))"

text \<open>
  The part of \<open>delete_l3_host_entry\<close> that changes the switch and the tables, once the entry of the host is
  found.
\<close>

definition host_uninstall ::
  "'hw plugin_env \<Rightarrow> u32 \<Rightarrow> u32 \<Rightarrow> int \<Rightarrow> u32 \<times> host_table_entry \<Rightarrow> 'hw plugin_state \<Rightarrow> 'hw plugin_state" where
  "host_uninstall env switch_id ipv4_addr mask_len entry st =
     (let lib = en_lib env;
          (ret, hw) = ops_fpa_route_del_route lib switch_id ipv4_addr mask_len (st_hw st);
          (ret, hw) = ops_fpa_route_del_group lib switch_id (ht_l3_group (snd entry)) hw;
          (ret, hw) = ops_fpa_route_del_group lib switch_id (ht_l2_group (snd entry)) hw
      in st\<lparr>st_hw := hw,
           st_arp_indices := arp_index_release (ht_arp_index (snd entry)) (st_arp_indices st),
           st_host_table := host_table_delete entry (st_host_table st)\<rparr>)"

definition delete_l3_host_entry ::
  "'hw plugin_env \<Rightarrow> fpa_ofproto \<Rightarrow> nat \<Rightarrow> bool \<Rightarrow> string \<Rightarrow> 'hw plugin_state
    \<Rightarrow> crash + int \<times> fpa_ofproto \<times> 'hw plugin_state" where
  "delete_l3_host_entry env this aux is_ipv6_addr ip_addr st =
     (if is_ipv6_addr then Inr (EINVAL, this, st) else
      case ops_fpa_find_bundle env this aux of None \<Rightarrow> Inl Null_Deref
      | Some n \<Rightarrow>
        case bn_l3_intf (snd n) of None \<Rightarrow> Inr (EINVAL, this, st)
        | Some l3 \<Rightarrow>
          case ops_fpa_str2ip ip_addr of None \<Rightarrow> Inr (EINVAL, this, st)
          | Some (ipv4_addr, mask_len) \<Rightarrow>
            if mask_len \<noteq> 32 then Inr (EINVAL, this, st) else
            case host_table_find (en_host env) ipv4_addr (st_host_table st) of None \<Rightarrow> Inr (EINVAL, this, st)
            | Some entry \<Rightarrow>
              let lib = en_lib env; st = host_uninstall env (li_switchId l3) ipv4_addr mask_len entry st;
                  l3 = l3\<lparr>li_routes_count := li_routes_count l3 - 1\<rparr> in
              if li_routes_count l3 = 0 then
                (case ops_fpa_disable_routing lib (Some l3) (st_internal_vlans st) (st_hw st) of
                   Inl c \<Rightarrow> Inl c
                 | Inr (iv, hw) \<Rightarrow>
                     Inr (0, this\<lparr>pr_bundles := hmap_replace (pr_bundles this) n ((snd n)\<lparr>bn_l3_intf := None\<rparr>)\<rparr>,
                       st\<lparr>st_internal_vlans := iv, st_hw := hw\<rparr>))
              else Inr (0, this\<lparr>pr_bundles := hmap_replace (pr_bundles this) n ((snd n)\<lparr>bn_l3_intf := Some l3\<rparr>)\<rparr>, st))"

text \<open>\<open>hit\<close> is the reference count of a group in \<open>fpaLibGroupEntryStatisticsGet\<close>.\<close>

definition get_l3_host_hit ::
  "'hw plugin_env \<Rightarrow> fpa_ofproto \<Rightarrow> bool \<Rightarrow> string \<Rightarrow> 'hw plugin_state \<Rightarrow> int + bool" where
  "get_l3_host_hit env this is_ipv6_addr ip_addr st =
     (if is_ipv6_addr then Inl EINVAL else
      case ops_fpa_str2ip ip_addr of None \<Rightarrow> Inl EINVAL
      | Some (ipv4_addr, mask_len) \<Rightarrow>
        if mask_len \<noteq> 32 then Inl EINVAL else
        case host_table_find (en_host env) ipv4_addr (st_host_table st) of None \<Rightarrow> Inl EINVAL
        | Some entry \<Rightarrow>
          let (err, count) = fpaLibGroupEntryReferenceCount (en_lib env) (pr_switch_id this)
                (ht_l3_group (snd entry)) (st_hw st)
          in if err \<noteq> FPA_OK then Inl EINVAL else Inr (1 < count))"

record nexthop =
  nh_id :: string
  nh_resolved :: bool

record ofproto_route =
  rt_ipv4 :: bool
  rt_prefix :: string
  rt_nexthops :: "nexthop list"

definition l3_route_action ::
  "'hw plugin_env \<Rightarrow> fpa_ofproto \<Rightarrow> route_action \<Rightarrow> ofproto_route \<Rightarrow> 'hw plugin_state
    \<Rightarrow> crash + int \<times> 'hw plugin_state" where
  "l3_route_action env this action route st =
     (if \<not> rt_ipv4 route then Inr (EINVAL, st) else
      case ops_fpa_str2ip (rt_prefix route) of None \<Rightarrow> Inr (EINVAL, st)
      | Some (route_ipv4_address, route_mask_len) \<Rightarrow>
        let lib = en_lib env; switchid = pr_switch_id this in
        case action of
          OFPROTO_ROUTE_ADD \<Rightarrow>
            (case rt_nexthops route of
               [nh] \<Rightarrow>
                 (case (if nh_resolved nh then
                     (case ops_fpa_str2ip (nh_id nh) of None \<Rightarrow> Inr None
                      | Some (host_ipv4_address, host_mask_len) \<Rightarrow>
                        (case host_table_find (en_host env) host_ipv4_address (st_host_table st) of None \<Rightarrow> Inr None
                         | Some host_entry \<Rightarrow>
                           let (ret, hw) = ops_fpa_route_del_route lib switchid route_ipv4_address route_mask_len (st_hw st)
                           in map_sum id Some (ops_fpa_route_add_route lib switchid (ht_l3_group (snd host_entry))
                                route_ipv4_address route_mask_len hw)))
                   else
                     (let (ret, hw) = ops_fpa_route_del_route lib switchid route_ipv4_address route_mask_len (st_hw st)
                      in map_sum id Some (ops_fpa_route_add_route_trap lib switchid route_ipv4_address route_mask_len hw))) of
                    Inl c \<Rightarrow> Inl c
                  | Inr None \<Rightarrow> Inr (EINVAL, st)
                  | Inr (Some (err, hw)) \<Rightarrow> Inr (if err \<noteq> 0 then EINVAL else 0, st\<lparr>st_hw := hw\<rparr>))
             | _ \<Rightarrow> Inr (EINVAL, st))
        | OFPROTO_ROUTE_DELETE \<Rightarrow>
            (let (ret, hw) = ops_fpa_route_del_route lib switchid route_ipv4_address route_mask_len (st_hw st)
             in Inr (0, st\<lparr>st_hw := hw\<rparr>))
        | _ \<Rightarrow> Inr (EINVAL, st))"

section \<open>A concrete plugin\<close>

text \<open>
  The reference switch with one bridge, one virtual router and one port, number 5, on which witnesses
  run.
\<close>

definition sample_env :: "fpa_table set \<Rightarrow> bool \<Rightarrow> sim plugin_env" where
  "sample_env full gfull = \<lparr>en_lib = sim_lib full gfull, en_ml = sample_params,
     en_host = \<lparr>host_hash_bytes = (\<lambda>bs. ucast (hd bs)), host_order = (\<lambda>m. m)\<rparr>,
     en_hash_pointer = of_nat, en_hash_string = (\<lambda>s. of_nat (length s)),
     en_bundle_order = (\<lambda>m. m), en_bundle_mask = (\<lambda>m. 0xFF), en_port_order = (\<lambda>m. m), en_port_mask = (\<lambda>m. 0xFF),
     en_addr_order = (\<lambda>m. m), en_shash_order = (\<lambda>l. l),
     en_eth_addr_from_string = (\<lambda>s. if s = ''mac'' then Some (Eth 0 1 2 3 4 5) else None)\<rparr>"

definition sample_port :: fpa_ofport where
  "sample_port = \<lparr>op_ofp_port = 1, op_netdev = \<lparr>nd_name = ''5'', nd_type = TYPE_SYSTEM, nd_ifindex = 5,
     nd_etheraddr = Eth 0 0 0 0 0 1\<rparr>, op_mtu = 1500, op_vmap = bitmap_zero\<rparr>"

definition sample_state :: "sim \<Rightarrow> sim plugin_state" where
  "sample_state hw = \<lparr>st_hw = hw, st_internal_vlans = (\<lambda>v. v = 1024), st_arp_indices = arp_indices_init,
     st_host_table = [], st_ports = [0 \<mapsto> sample_port], st_ports_by_pid = [(5, 0)], st_dev = None,
     st_bridge_cmds = []\<rparr>"

definition sample_l3 :: fpa_l3_intf where
  "sample_l3 = \<lparr>li_switchId = 0, li_intf_id = 5, li_vlan_id = 1024, li_mac = Eth 0 0 0 0 0 1,
     li_vlan_intf = True, li_routes_count = 1\<rparr>"

definition sample_bundle :: "fpa_l3_intf option \<Rightarrow> fpa_bundle" where
  "sample_bundle l3 = \<lparr>bn_aux = 9, bn_name = Some ''5'', bn_intf_id = 5, bn_l3_intf = l3,
     bn_ip4addr = None, bn_secondary_ip4addr = []\<rparr>"

definition sample_proto :: "string \<Rightarrow> fpa_l3_intf option \<Rightarrow> fpa_ofproto" where
  "sample_proto typ l3 = \<lparr>pr_type = typ, pr_name = ''bridge'', pr_port_names = {''5''}, pr_ports = [1 \<mapsto> 0],
     pr_bundles = [(9, sample_bundle l3)], pr_vlans = (\<lambda>_. True), pr_switch_id = 0, pr_vrf_id = 0,
     pr_change_seq = 0\<rparr>"

lemmas sample_defs = sample_env_def sample_port_def sample_state_def sample_l3_def sample_bundle_def sample_proto_def

lemma sample_env_simps [simp]:
  "en_lib (sample_env full gfull) = sim_lib full gfull"
  "en_ml (sample_env full gfull) = sample_params"
  by (simp_all add: sample_env_def)

lemma sample_port_found [simp]:
  "ops_fpa_get_ofport_by_pid (sample_env full gfull) (sample_state hw) 5 = Some (0, sample_port)"
  by (simp add: ops_fpa_get_ofport_by_pid_def hmap_search_bucket_def sample_env_def sample_state_def)

end
