(* ===== verification/Fpa_Bundles.thy ===== *)
theory Fpa_Bundles
  imports Fpa_Ofproto
begin

text \<open>
  The second half of \<open>src/ops-fpa-ofproto.c\<close>: configuring a bundle (\<open>ops_fpa_ofproto_bundle_set\<close>, for a
  bridge and for a virtual router, with the IP address changes it makes) and enabling or disabling a
  VLAN (\<open>ops_fpa_ofproto_set_vlan\<close>). For a bridge port both work on VIDX bitmaps: the desired state is
  compared with what the switch holds, and the difference is applied bit by bit in ascending order.
  A VIDX of a VLAN that is not enabled is kept in the port's bitmap of pending VIDX.
\<close>

section \<open>Definitions\<close>

text \<open>
  \<open>struct ofproto_bundle_settings\<close>: \<open>bs_internal_vlan_id\<close> is the integer read from the hardware
  configuration options, and the two flags are the bits of \<open>ip_change\<close> that the code acts on.
\<close>

record bundle_settings =
  bs_name :: string
  bs_slaves :: "u32 list"
  bs_vlan_mode :: port_vlan_mode
  bs_vlan :: u32
  bs_trunks :: "bitmap option"
  bs_enable :: bool
  bs_internal_vlan_id :: u32
  bs_primary_ipv4_changed :: bool
  bs_secondary_ipv4_changed :: bool
  bs_ip4_address :: "string option"
  bs_ip4_address_secondary :: "string list"

definition find_ipv4_addr_in_bundle :: "'hw plugin_env \<Rightarrow> fpa_bundle \<Rightarrow> string \<Rightarrow> (u32 \<times> string) option" where
  "find_ipv4_addr_in_bundle env bundle address =
     hmap_search_hash (en_addr_order env) (en_hash_string env address) (\<lambda>a. a = address) (bn_secondary_ip4addr bundle)"

text \<open>
  The bundle is reached through a pointer while the host functions change it; the model looks it up again
  by its \<open>aux\<close> before every use.
\<close>

definition set_bundle :: "fpa_ofproto \<Rightarrow> u32 \<times> fpa_bundle \<Rightarrow> fpa_bundle \<Rightarrow> fpa_ofproto" where
  "set_bundle this n b = this\<lparr>pr_bundles := hmap_replace (pr_bundles this) n b\<rparr>"

primrec secondary_remove_loop ::
  "'hw plugin_env \<Rightarrow> nat \<Rightarrow> (u32 \<times> string) list \<Rightarrow> fpa_ofproto \<Rightarrow> 'hw plugin_state
    \<Rightarrow> crash + fpa_ofproto \<times> 'hw plugin_state" where
  "secondary_remove_loop env aux [] this st = Inr (this, st)"
| "secondary_remove_loop env aux (x # xs) this st =
     (case ops_fpa_find_bundle env this aux of None \<Rightarrow> Inl Null_Deref
      | Some n \<Rightarrow>
        let b = (snd n)\<lparr>bn_secondary_ip4addr := hmap_remove (bn_secondary_ip4addr (snd n)) x\<rparr>;
            this = set_bundle this n b in
        case bn_ip4addr b of None \<Rightarrow> Inl Null_Deref
        | Some primary \<Rightarrow>
          case delete_l3_host_entry env this aux False primary st of Inl c \<Rightarrow> Inl c
          | Inr (ret, this, st) \<Rightarrow> secondary_remove_loop env aux xs this st)"

primrec secondary_add_loop ::
  "'hw plugin_env \<Rightarrow> nat \<Rightarrow> string list \<Rightarrow> fpa_ofproto \<Rightarrow> 'hw plugin_state
    \<Rightarrow> crash + fpa_ofproto \<times> 'hw plugin_state" where
  "secondary_add_loop env aux [] this st = Inr (this, st)"
| "secondary_add_loop env aux (address # xs) this st =
     (case ops_fpa_find_bundle env this aux of None \<Rightarrow> Inl Null_Deref
      | Some n \<Rightarrow>
        if find_ipv4_addr_in_bundle env (snd n) address \<noteq> None then secondary_add_loop env aux xs this st
        else
          let b = (snd n)\<lparr>bn_secondary_ip4addr :=
                hmap_insert (bn_secondary_ip4addr (snd n)) (en_hash_string env address) address\<rparr>;
              this = set_bundle this n b in
          case bn_ip4addr b of None \<Rightarrow> Inl Null_Deref
          | Some primary \<Rightarrow>
            case add_l3_host_entry env this aux False primary None (bn_intf_id b) st of Inl c \<Rightarrow> Inl c
            | Inr (ret, egress, this, st) \<Rightarrow> secondary_add_loop env aux xs this st)"

definition bundle_ipv4_secondary_reconfigure ::
  "'hw plugin_env \<Rightarrow> nat \<Rightarrow> bundle_settings \<Rightarrow> fpa_ofproto \<Rightarrow> 'hw plugin_state
    \<Rightarrow> crash + fpa_ofproto \<times> 'hw plugin_state" where
  "bundle_ipv4_secondary_reconfigure env aux cfg this st =
     (let new_ip_list = remdups (bs_ip4_address_secondary cfg) in
      case ops_fpa_find_bundle env this aux of None \<Rightarrow> Inl Null_Deref
      | Some n \<Rightarrow>
        case secondary_remove_loop env aux
               (filter (\<lambda>x. snd x \<notin> set new_ip_list) (en_addr_order env (bn_secondary_ip4addr (snd n)))) this st of
          Inl c \<Rightarrow> Inl c
        | Inr (this, st) \<Rightarrow> secondary_add_loop env aux (en_shash_order env new_ip_list) this st)"

definition bundle_ip_reconfigure ::
  "'hw plugin_env \<Rightarrow> nat \<Rightarrow> bundle_settings \<Rightarrow> fpa_ofproto \<Rightarrow> 'hw plugin_state
    \<Rightarrow> crash + fpa_ofproto \<times> 'hw plugin_state" where
  "bundle_ip_reconfigure env aux cfg this st =
     (case ops_fpa_find_bundle env this aux of None \<Rightarrow> Inl Null_Deref
      | Some n \<Rightarrow>
        if bs_primary_ipv4_changed cfg then
          (case (bs_ip4_address cfg, bn_ip4addr (snd n)) of
             (Some new, Some old) \<Rightarrow>
               if old = new then Inr (this, st)
               else
                 (case delete_l3_host_entry env this aux False old st of Inl c \<Rightarrow> Inl c
                  | Inr (ret, this, st) \<Rightarrow>
                    case ops_fpa_find_bundle env this aux of None \<Rightarrow> Inl Null_Deref
                    | Some n \<Rightarrow>
                      let this = set_bundle this n ((snd n)\<lparr>bn_ip4addr := Some new\<rparr>) in
                      map_sum id snd (map_sum id snd
                        (add_l3_host_entry env this aux False new None (bn_intf_id (snd n)) st)))
           | (Some new, None) \<Rightarrow>
               (let this = set_bundle this n ((snd n)\<lparr>bn_ip4addr := Some new\<rparr>) in
                map_sum id snd (map_sum id snd
                  (add_l3_host_entry env this aux False new None (bn_intf_id (snd n)) st)))
           | (None, Some old) \<Rightarrow>
               (case delete_l3_host_entry env this aux False old st of Inl c \<Rightarrow> Inl c
                | Inr (ret, this, st) \<Rightarrow>
                  case ops_fpa_find_bundle env this aux of None \<Rightarrow> Inl Null_Deref
                  | Some n \<Rightarrow> Inr (set_bundle this n ((snd n)\<lparr>bn_ip4addr := None\<rparr>), st))
           | (None, None) \<Rightarrow> Inr (this, st))
        else if bs_secondary_ipv4_changed cfg then bundle_ipv4_secondary_reconfigure env aux cfg this st
        else Inr (this, st))"

text \<open>Finding the bundle or creating it, with its port entered in \<open>ports_by_pid\<close>.\<close>

definition bundle_set_open ::
  "'hw plugin_env \<Rightarrow> nat \<Rightarrow> bundle_settings \<Rightarrow> fpa_ofproto \<Rightarrow> 'hw plugin_state
    \<Rightarrow> (u32 \<times> fpa_bundle) \<times> fpa_ofproto \<times> 'hw plugin_state" where
  "bundle_set_open env aux cfg this st =
     (case ops_fpa_find_bundle env this aux of
        Some n \<Rightarrow> (n, this, st)
      | None \<Rightarrow>
        let port = pr_ports this (bs_slaves cfg ! 0);
            intf_id = (case port of None \<Rightarrow> FPA_INVALID_INTF_ID
                       | Some a \<Rightarrow> (case st_ports st a of None \<Rightarrow> FPA_INVALID_INTF_ID
                                    | Some p \<Rightarrow> nd_ifindex (op_netdev p)));
            (n, this) = ops_fpa_create_bundle_record env aux (new_bundle aux intf_id) this;
            st = (case port of Some a \<Rightarrow>
                    if intf_id \<noteq> FPA_INVALID_INTF_ID
                    then st\<lparr>st_ports_by_pid := hmap_insert (st_ports_by_pid st) intf_id a\<rparr> else st
                  | None \<Rightarrow> st);
            st = (if pr_type this = ''system''
                  then st\<lparr>st_bridge_cmds := st_bridge_cmds st @ [(True, bs_name cfg)]\<rparr>
                  else if pr_type this = ''vrf''
                  then st\<lparr>st_bridge_cmds := st_bridge_cmds st @ [(False, bs_name cfg)]\<rparr>
                  else st)
        in (n, this, st))"

text \<open>
  Routing of a bundle of a virtual router: it is turned off when the bundle is disabled and has no routes,
  and on when the bundle is enabled, has a VLAN and routing is off. The flag says that turning it on for a
  port failed.
\<close>

definition bundle_routing_off ::
  "'hw plugin_env \<Rightarrow> bundle_settings \<Rightarrow> u32 \<times> fpa_bundle \<Rightarrow> fpa_ofproto \<Rightarrow> 'hw plugin_state
    \<Rightarrow> crash + (u32 \<times> fpa_bundle) \<times> fpa_ofproto \<times> 'hw plugin_state" where
  "bundle_routing_off env cfg n this st =
     (if \<not> bs_enable cfg \<and> (\<exists>l3. bn_l3_intf (snd n) = Some l3 \<and> li_routes_count l3 = 0)
      then map_sum id (\<lambda>(iv, hw). ((fst n, (snd n)\<lparr>bn_l3_intf := None\<rparr>),
             set_bundle this n ((snd n)\<lparr>bn_l3_intf := None\<rparr>), st\<lparr>st_internal_vlans := iv, st_hw := hw\<rparr>))
           (ops_fpa_disable_routing (en_lib env) (bn_l3_intf (snd n)) (st_internal_vlans st) (st_hw st))
      else Inr (n, this, st))"

definition bundle_routing_on ::
  "'hw plugin_env \<Rightarrow> bundle_settings \<Rightarrow> netdev \<Rightarrow> u32 \<Rightarrow> u32 \<times> fpa_bundle \<Rightarrow> fpa_ofproto \<Rightarrow> 'hw plugin_state
    \<Rightarrow> bool \<times> fpa_ofproto \<times> 'hw plugin_state" where
  "bundle_routing_on env cfg dev vlan_id n this st =
     (if vlan_id \<noteq> 0 \<and> bn_l3_intf (snd n) = None \<and> bs_enable cfg then
        (if nd_type dev = TYPE_SYSTEM then
           (let (l3, iv, hw) = ops_fpa_enable_routing_interface (en_lib env) (pr_switch_id this)
                  (bn_intf_id (snd n)) (ucast vlan_id) (nd_etheraddr dev) (st_internal_vlans st) (st_hw st)
            in (l3 = None, set_bundle this n ((snd n)\<lparr>bn_l3_intf := l3\<rparr>),
                st\<lparr>st_internal_vlans := iv, st_hw := hw\<rparr>))
         else
           (let (l3, hw) = ops_fpa_enable_routing_vlan (en_lib env) (pr_switch_id this) (ucast vlan_id)
                  (nd_etheraddr dev) (st_hw st)
            in (False, set_bundle this n ((snd n)\<lparr>bn_l3_intf := l3\<rparr>), st\<lparr>st_hw := hw\<rparr>)))
      else (False, this, st))"

text \<open>The bundle of a virtual router, after its name is set; the addresses are changed last.\<close>

definition bundle_set_vrf ::
  "'hw plugin_env \<Rightarrow> nat \<Rightarrow> bundle_settings \<Rightarrow> fpa_ofproto \<Rightarrow> 'hw plugin_state
    \<Rightarrow> crash + int \<times> fpa_ofproto \<times> 'hw plugin_state" where
  "bundle_set_vrf env aux cfg this st =
     (case ops_fpa_ofport st this (bs_slaves cfg ! 0) of None \<Rightarrow> Inr (0, this, st)
      | Some p \<Rightarrow>
        let dev = op_netdev p in
        if nd_type dev = TYPE_LOOPBACK then Inr (0, this, st)
        else if nd_type dev \<noteq> TYPE_SYSTEM \<and> nd_type dev \<noteq> TYPE_INTERNAL then Inr (ENOSYS, this, st)
        else
          let vlan_id = (if nd_type dev = TYPE_SYSTEM then bs_internal_vlan_id cfg else bs_vlan cfg) in
          case ops_fpa_find_bundle env this aux of None \<Rightarrow> Inl Null_Deref
          | Some n \<Rightarrow>
            case bundle_routing_off env cfg n this st of Inl c \<Rightarrow> Inl c
            | Inr (n, this, st) \<Rightarrow>
              let (failed, this, st) = bundle_routing_on env cfg dev vlan_id n this st
              in if failed then Inr (EINVAL, this, st)
                 else map_sum id (Pair 0) (bundle_ip_reconfigure env aux cfg this st))"

text \<open>The VLAN state that the settings of a bridge port ask for.\<close>

definition bundle_vnew :: "bundle_settings \<Rightarrow> bitmap" where
  "bundle_vnew cfg =
     (let vnew = (case bs_trunks cfg of None \<Rightarrow> bitmap_zero
                  | Some trunks \<Rightarrow>
                      fold (\<lambda>vid vnew. bitmap_set1 (bitmap_set1 vnew (unat (OPS_FPA_VIDX_INGRESS (of_nat vid) True)))
                              (unat (OPS_FPA_VIDX_EGRESS (of_nat vid) False)))
                        (bitmap_ones VLAN_BITMAP_SIZE trunks) bitmap_zero)
      in if bs_vlan_mode cfg \<noteq> PORT_VLAN_TRUNK
         then bitmap_set1 (bitmap_set1 vnew (unat (OPS_FPA_VIDX_INGRESS (bs_vlan cfg) False)))
                (unat (OPS_FPA_VIDX_EGRESS (bs_vlan cfg) (bs_vlan_mode cfg \<noteq> PORT_VLAN_NATIVE_TAGGED)))
         else vnew)"

text \<open>One bit of the difference, and all of them in ascending order; the result codes are dropped.\<close>

definition apply_vidx ::
  "'hw fpa_lib \<Rightarrow> u32 \<Rightarrow> u32 \<Rightarrow> bitmap \<Rightarrow> bitmap \<Rightarrow> nat \<Rightarrow> 'hw \<times> bitmap \<Rightarrow> 'hw \<times> bitmap" where
  "apply_vidx lib sid pid vlans vnew vidx s =
     (let (hw, vmap) = s in
      if vlans (unat (OPS_FPA_VIDX_VID (of_nat vidx))) then
        (if vnew vidx then (snd (ops_fpa_vlan_add lib sid pid (of_nat vidx) hw), vmap)
         else (snd (ops_fpa_vlan_del lib sid pid (of_nat vidx) hw), vmap))
      else if vnew vidx then (hw, bitmap_set1 vmap vidx) else (hw, vmap))"

definition apply_vdiff ::
  "'hw fpa_lib \<Rightarrow> u32 \<Rightarrow> u32 \<Rightarrow> bitmap \<Rightarrow> bitmap \<Rightarrow> bitmap \<Rightarrow> 'hw \<Rightarrow> 'hw \<times> bitmap" where
  "apply_vdiff lib sid pid vlans vnew vold hw =
     fold (apply_vidx lib sid pid vlans vnew) (bitmap_ones OPS_FPA_VMAP_BITS (bitmap_xor vold vnew)) (hw, bitmap_zero)"

definition bundle_set_l2 ::
  "'hw plugin_env \<Rightarrow> u32 \<times> fpa_bundle \<Rightarrow> bundle_settings \<Rightarrow> fpa_ofproto \<Rightarrow> 'hw plugin_state
    \<Rightarrow> (crash + 'hw plugin_state) option" where
  "bundle_set_l2 env n cfg this st =
     (case ops_fpa_get_ofport_by_pid env st (bn_intf_id (snd n)) of None \<Rightarrow> Some (Inl Null_Deref)
      | Some (a, p) \<Rightarrow>
        let vnew = bundle_vnew cfg; pid = nd_ifindex (op_netdev p) in
        case ops_fpa_vlan_fetch (en_lib env) (pr_switch_id this) pid (st_hw st) of None \<Rightarrow> None
        | Some vdiff \<Rightarrow>
          let (hw, vmap) = apply_vdiff (en_lib env) (pr_switch_id this) pid (pr_vlans this) vnew vdiff (st_hw st)
          in Some (Inr (st\<lparr>st_hw := hw, st_ports := (st_ports st)(a \<mapsto> p\<lparr>op_vmap := vmap\<rparr>)\<rparr>)))"

definition ops_fpa_ofproto_bundle_set ::
  "'hw plugin_env \<Rightarrow> nat \<Rightarrow> bundle_settings option \<Rightarrow> fpa_ofproto \<Rightarrow> 'hw plugin_state
    \<Rightarrow> (crash + int \<times> fpa_ofproto \<times> 'hw plugin_state) option" where
  "ops_fpa_ofproto_bundle_set env aux settings this st =
     (case settings of
        None \<Rightarrow> Some (ops_fpa_rm_bundle env this (ops_fpa_find_bundle env this aux) st)
      | Some cfg \<Rightarrow>
        if length (bs_slaves cfg) \<noteq> 1 then Some (Inr (EINVAL, this, st))
        else
          let (n, this, st) = bundle_set_open env aux cfg this st;
              b = (if bn_name (snd n) \<noteq> Some (bs_name cfg) then (snd n)\<lparr>bn_name := Some (bs_name cfg)\<rparr> else snd n);
              this = set_bundle this n b;
              n = (fst n, b) in
          if pr_type this = ''vrf'' then Some (bundle_set_vrf env aux cfg this st)
          else if bn_intf_id b \<noteq> FPA_INVALID_INTF_ID then
            (if pr_name this = bs_name cfg then Some (Inr (0, this, st))
             else map_option (map_sum id (\<lambda>st. (0, this, st))) (bundle_set_l2 env n cfg this st))
          else Some (Inr (0, this, st)))"

text \<open>
  Enabling a VLAN applies the pending VIDX of the VLAN, disabling it takes the VIDX of the VLAN out of the
  switch and makes them pending. Clearing a bit that was visited does not disturb the scan of the
  bitmap. The state of the port is read with its OpenFlow number and written with its device index.
\<close>

definition enable_vidx ::
  "'hw fpa_lib \<Rightarrow> u32 \<Rightarrow> u32 \<Rightarrow> u32 \<Rightarrow> nat \<Rightarrow> 'hw \<times> bitmap \<Rightarrow> 'hw \<times> bitmap" where
  "enable_vidx lib sid pid vid vidx s =
     (let (hw, vmap) = s in
      if OPS_FPA_VIDX_VID (of_nat vidx) = vid
      then (snd (ops_fpa_vlan_add lib sid pid (of_nat vidx) hw), bitmap_set0 vmap vidx) else (hw, vmap))"

definition disable_vidx ::
  "'hw fpa_lib \<Rightarrow> u32 \<Rightarrow> u32 \<Rightarrow> u32 \<Rightarrow> nat \<Rightarrow> 'hw \<times> bitmap \<Rightarrow> 'hw \<times> bitmap" where
  "disable_vidx lib sid pid vid vidx s =
     (let (hw, vmap) = s in
      if OPS_FPA_VIDX_VID (of_nat vidx) = vid
      then (snd (ops_fpa_vlan_del lib sid pid (of_nat vidx) hw), bitmap_set1 vmap vidx) else (hw, vmap))"

definition set_vlan_port ::
  "'hw plugin_env \<Rightarrow> u32 \<Rightarrow> u32 \<Rightarrow> bool \<Rightarrow> nat \<times> fpa_ofport \<Rightarrow> 'hw plugin_state \<Rightarrow> 'hw plugin_state option" where
  "set_vlan_port env sid vid add ap st =
     (let (a, p) = ap; pid = nd_ifindex (op_netdev p);
          put = (\<lambda>(hw, vmap). st\<lparr>st_hw := hw, st_ports := (st_ports st)(a \<mapsto> p\<lparr>op_vmap := vmap\<rparr>)\<rparr>) in
      if add then
        Some (put (fold (enable_vidx (en_lib env) sid pid vid) (bitmap_ones OPS_FPA_VMAP_BITS (op_vmap p))
                    (st_hw st, op_vmap p)))
      else
        map_option (\<lambda>l2asic. put (fold (disable_vidx (en_lib env) sid pid vid) (bitmap_ones OPS_FPA_VMAP_BITS l2asic)
                    (st_hw st, op_vmap p)))
          (ops_fpa_vlan_fetch (en_lib env) sid (op_ofp_port p) (st_hw st)))"

primrec set_vlan_loop ::
  "'hw plugin_env \<Rightarrow> u32 \<Rightarrow> u32 \<Rightarrow> bool \<Rightarrow> (u32 \<times> fpa_bundle) list \<Rightarrow> 'hw plugin_state \<Rightarrow> 'hw plugin_state option" where
  "set_vlan_loop env sid vid add [] st = Some st"
| "set_vlan_loop env sid vid add (n # ns) st =
     (case ops_fpa_get_ofport_by_pid env st (bn_intf_id (snd n)) of
        None \<Rightarrow> set_vlan_loop env sid vid add ns st
      | Some ap \<Rightarrow>
          (case set_vlan_port env sid vid add ap st of None \<Rightarrow> None
           | Some st \<Rightarrow> set_vlan_loop env sid vid add ns st))"

definition ops_fpa_ofproto_set_vlan ::
  "'hw plugin_env \<Rightarrow> u32 \<Rightarrow> bool \<Rightarrow> fpa_ofproto \<Rightarrow> 'hw plugin_state
    \<Rightarrow> (int \<times> fpa_ofproto \<times> 'hw plugin_state) option" where
  "ops_fpa_ofproto_set_vlan env vid add this st =
     map_option (\<lambda>st. (0, this\<lparr>pr_vlans := (pr_vlans this)(unat vid := add)\<rparr>, st))
       (set_vlan_loop env (pr_switch_id this) vid add (en_bundle_order env (pr_bundles this)) st)"

section \<open>Applying a VLAN configuration\<close>

text \<open>A switch that has room for another entry, and that does not refuse a bucket of a group it holds.\<close>

definition vlan_room :: "'hw fpa_lib \<Rightarrow> u32 \<Rightarrow> bool" where
  "vlan_room lib sid \<longleftrightarrow>
     (\<forall>f hw. fst (fpaLibFlowEntryAdd lib sid FPA_FLOW_TABLE_TYPE_VLAN_E f hw) = FPA_OK)
   \<and> (\<forall>e hw. groups_of lib hw sid (ge_groupIdentifier e) = None \<longrightarrow>
        fst (fpaLibGroupTableEntryAdd lib sid e hw) = FPA_OK)
   \<and> (\<forall>b hw. groups_of lib hw sid (bk_groupIdentifier b) \<noteq> None \<longrightarrow>
        fst (fpaLibGroupEntryBucketAdd lib sid b hw) = FPA_OK)"

lemma vlan_add_succeeds:
  assumes ok: "fpa_lib_ok lib" and ids: "l2_id_laws lib" and wf: "vlan_wf lib hw sid pid"
    and pid: "pid \<noteq> 0" "pid \<le> 0xFFFF" and room: "vlan_room lib sid"
    and free: "OPS_FPA_VIDX_IS_EGRESS x \<longrightarrow> (\<forall>y \<in> port_vmap lib hw sid pid. vidx_entry y \<noteq> vidx_entry x)"
  shows "fst (ops_fpa_vlan_add lib sid pid x hw) = 0"
proof (cases "OPS_FPA_VIDX_IS_EGRESS x")
  case False
  then show ?thesis
    using room ok by (auto simp: ops_fpa_vlan_add_def vlan_room_def Let_def split: prod.splits) (metis fst_conv)
next
  case True
  obtain gid where b: "fpaLibGroupIdentifierBuild lib (l2_ident pid (OPS_FPA_VIDX_VID x)) = (FPA_OK, gid)"
    and gp: "OPS_FPA_GID_PORT gid = pid" and gv: "OPS_FPA_GID_VLAN gid = OPS_FPA_VIDX_VID x"
    using l2_id_lawsD [OF ids pid(2) VIDX_VID_lt] by blast
  have none: "groups_of lib hw sid gid = None"
    by (rule egress_group_absent [OF ids wf pid gp]) (use free gv True in \<open>auto simp: vidx_entry_def\<close>)
  let ?e = "\<lparr>ge_groupIdentifier = gid, ge_groupTypeSemantics = FPA_GROUP_INDIRECT\<rparr>"
  obtain e1 hw1 where a: "fpaLibGroupTableEntryAdd lib sid ?e hw = (e1, hw1)" by fastforce
  have "fst (fpaLibGroupTableEntryAdd lib sid ?e hw) = FPA_OK"
    using room none unfolding vlan_room_def by (metis group_entry.select_convs(1))
  with a have e1: "e1 = FPA_OK" by simp
  have "groups_of lib hw1 sid gid \<noteq> None" using graw.gadd_new [OF ok a [unfolded e1]] none by simp
  then have "fst (fpaLibGroupEntryBucketAdd lib sid (l2_bucket gid pid t) hw1) = FPA_OK" for t
    using room by (simp add: vlan_room_def)
  then show ?thesis
    using True b a e1 by (auto simp: ops_fpa_vlan_add_def ops_fpa_route_add_l2_group_def split: prod.splits) (metis fst_conv)
qed

lemma port_vmap_range:
  assumes "vlan_wf lib hw sid pid" and "y \<in> port_vmap lib hw sid pid"
  shows "y < 2 ^ 14"
  using assms
proof (cases rule: port_vmap_entry)
  case (flow f)
  then show ?thesis using vidx_range(1) by (simp add: flow_vidx_def)
next
  case (grp gid b)
  then show ?thesis using vidx_range(2) by (simp add: group_vidx_def)
qed

text \<open>
  The state after some of the bits of the difference were applied: the VIDX of enabled VLANs among them
  are as desired, all others as they were.
\<close>

definition partly_applied :: "bitmap \<Rightarrow> bitmap \<Rightarrow> u32 set \<Rightarrow> nat set \<Rightarrow> u32 set" where
  "partly_applied vlans vnew V D =
     {x. if unat x \<in> D \<and> vlans (unat (OPS_FPA_VIDX_VID x)) then vnew (unat x) else x \<in> V}"

lemma unat_small: "unat (x :: u32) < 2 ^ 14 \<longleftrightarrow> x < 2 ^ 14"
  by (simp add: word_less_nat_alt)

lemma of_nat_small: "j < 2 ^ 14 \<Longrightarrow> unat (of_nat j :: u32) = j"
  using unat_of_nat [of j, where 'a = 32] by simp

lemma partly_applied_insert:
  assumes "j < 2 ^ 14"
  shows "partly_applied vlans vnew V (insert j D) =
    (if vlans (unat (OPS_FPA_VIDX_VID (of_nat j)))
     then (if vnew j then insert (of_nat j) (partly_applied vlans vnew V D)
           else partly_applied vlans vnew V D - {of_nat j})
     else partly_applied vlans vnew V D)"
proof -
  have u: "unat x = j \<longleftrightarrow> x = of_nat j" for x :: u32 using of_nat_small [OF assms] by auto
  show ?thesis by (rule set_eqI) (auto simp: partly_applied_def u of_nat_small [OF assms])
qed

lemma apply_vidx_step:
  assumes ok: "fpa_lib_ok lib" and ids: "l2_id_laws lib" and wf: "vlan_wf lib hw sid pid"
    and pid: "pid \<noteq> 0" "pid \<le> 0xFFFF" and room: "vlan_room lib sid" and j: "j < 2 ^ 14"
    and inj: "inj_on vidx_entry (V \<union> {x. vnew (unat x)})"
    and now: "port_vmap lib hw sid pid = partly_applied vlans vnew V D"
    and diff: "(of_nat j \<in> V) \<noteq> vnew j" and new: "j \<notin> D"
    and a: "apply_vidx lib sid pid vlans vnew j (hw, vmap) = (hw', vmap')"
  shows "vlan_wf lib hw' sid pid \<and> port_vmap lib hw' sid pid = partly_applied vlans vnew V (insert j D)
    \<and> vmap' = (if vnew j \<and> \<not> vlans (unat (OPS_FPA_VIDX_VID (of_nat j))) then bitmap_set1 vmap j else vmap)"
proof -
  let ?x = "of_nat j :: u32"
  have ux: "unat ?x = j" by (rule of_nat_small [OF j])
  have x14: "?x < 2 ^ 14" using j ux unat_small [of ?x] by simp
  have sub: "port_vmap lib hw sid pid \<subseteq> V \<union> {x. vnew (unat x)}"
    by (auto simp: now partly_applied_def split: if_splits)
  have xin: "?x \<in> V \<union> {x. vnew (unat x)}" using diff ux by auto
  have only: "y = ?x" if "y \<in> port_vmap lib hw sid pid" "vidx_entry y = vidx_entry ?x" for y
    using that sub xin inj by (meson inj_onD subsetD)
  show ?thesis
  proof (cases "vlans (unat (OPS_FPA_VIDX_VID ?x))")
    case en: True
    show ?thesis
    proof (cases "vnew j")
      case True
      then have "?x \<notin> port_vmap lib hw sid pid" using diff new ux by (auto simp: now partly_applied_def)
      then have free: "\<forall>y \<in> port_vmap lib hw sid pid. vidx_entry y \<noteq> vidx_entry ?x" using only by blast
      obtain r where r: "ops_fpa_vlan_add lib sid pid ?x hw = (r, hw')" and vm: "vmap' = vmap"
        using a en True by (cases "ops_fpa_vlan_add lib sid pid ?x hw") (auto simp: apply_vidx_def)
      have "r = 0" using vlan_add_succeeds [OF ok ids wf pid room, of ?x] free r by simp
      with vlan_add_effect [OF ok ids wf pid x14 _ r, of pid] free show ?thesis
        using en True vm by (simp add: partly_applied_insert [OF j] now)
    next
      case False
      then have mem: "?x \<in> port_vmap lib hw sid pid" using diff new ux by (auto simp: now partly_applied_def)
      obtain r where r: "ops_fpa_vlan_del lib sid pid ?x hw = (r, hw')" and vm: "vmap' = vmap"
        using a en False by (cases "ops_fpa_vlan_del lib sid pid ?x hw") (auto simp: apply_vidx_def)
      have "r = 0" using vlan_del_present [OF ok ids wf pid(2) mem refl r] .
      moreover have "{y \<in> port_vmap lib hw sid pid. vidx_entry y \<noteq> vidx_entry ?x} = port_vmap lib hw sid pid - {?x}"
        using only by auto
      ultimately show ?thesis
        using vlan_del_effect [OF ok ids wf pid(2) r, of pid] en False vm
        by (simp add: partly_applied_insert [OF j] now)
    qed
  next
    case False
    then have "hw' = hw" and "vmap' = (if vnew j then bitmap_set1 vmap j else vmap)"
      using a by (simp_all add: apply_vidx_def split: if_splits)
    then show ?thesis using wf now False by (simp add: partly_applied_insert [OF j])
  qed
qed

lemma apply_vidx_fold:
  assumes ok: "fpa_lib_ok lib" and ids: "l2_id_laws lib" and pid: "pid \<noteq> 0" "pid \<le> 0xFFFF"
    and room: "vlan_room lib sid" and inj: "inj_on vidx_entry (V \<union> {x. vnew (unat x)})"
    and "vlan_wf lib hw sid pid" and "port_vmap lib hw sid pid = partly_applied vlans vnew V D"
    and "\<forall>j \<in> set js. j < 2 ^ 14 \<and> (of_nat j \<in> V) \<noteq> vnew j \<and> j \<notin> D" and "distinct js"
    and "fold (apply_vidx lib sid pid vlans vnew) js (hw, vmap) = (hw', vmap')"
  shows "vlan_wf lib hw' sid pid \<and> port_vmap lib hw' sid pid = partly_applied vlans vnew V (D \<union> set js)
    \<and> (\<forall>j. vmap' j \<longleftrightarrow> vmap j \<or> j \<in> set js \<and> vnew j \<and> \<not> vlans (unat (OPS_FPA_VIDX_VID (of_nat j))))"
  using assms(7-)
proof (induction js arbitrary: hw vmap D)
  case (Cons j js)
  obtain hw1 vmap1 where s: "apply_vidx lib sid pid vlans vnew j (hw, vmap) = (hw1, vmap1)" by fastforce
  have st: "vlan_wf lib hw1 sid pid \<and> port_vmap lib hw1 sid pid = partly_applied vlans vnew V (insert j D)
    \<and> vmap1 = (if vnew j \<and> \<not> vlans (unat (OPS_FPA_VIDX_VID (of_nat j))) then bitmap_set1 vmap j else vmap)"
    by (rule apply_vidx_step [OF ok ids Cons.prems(1) pid room _ inj Cons.prems(2) _ _ s])
      (use Cons.prems(3) in auto)
  have "\<forall>i \<in> set js. i < 2 ^ 14 \<and> (of_nat i \<in> V) \<noteq> vnew i \<and> i \<notin> insert j D"
    using Cons.prems(3,4) by auto
  moreover have "fold (apply_vidx lib sid pid vlans vnew) js (hw1, vmap1) = (hw', vmap')"
    using Cons.prems(5) s by simp
  ultimately show ?case
    using Cons.IH [of hw1 "insert j D" vmap1] st Cons.prems(4) by (auto simp: bitmap_simps split: if_splits)
qed simp


lemma apply_vdiff_effect:
  assumes ok: "fpa_lib_ok lib" and ids: "l2_id_laws lib" and wf: "vlan_wf lib hw sid pid"
    and pid: "pid \<noteq> 0" "pid \<le> 0xFFFF" and room: "vlan_room lib sid"
    and inj: "inj_on vidx_entry (port_vmap lib hw sid pid \<union> {x. vnew (unat x)})"
    and vnew: "\<And>j. vnew j \<Longrightarrow> j < 2 ^ 14"
    and vold: "\<And>j. vold j \<longleftrightarrow> j \<in> unat ` port_vmap lib hw sid pid"
    and a: "apply_vdiff lib sid pid vlans vnew vold hw = (hw', vmap)"
  shows "vlan_wf lib hw' sid pid
    \<and> port_vmap lib hw' sid pid =
        {x. if vlans (unat (OPS_FPA_VIDX_VID x)) then vnew (unat x) else x \<in> port_vmap lib hw sid pid}
    \<and> (\<forall>j. vmap j \<longleftrightarrow> vnew j \<and> \<not> vold j \<and> \<not> vlans (unat (OPS_FPA_VIDX_VID (of_nat j))))"
proof -
  let ?V = "port_vmap lib hw sid pid" and ?js = "bitmap_ones (2 ^ 14) (bitmap_xor vold vnew)"
  have um: "vold (unat x) \<longleftrightarrow> x \<in> ?V" for x
    unfolding vold by (auto simp: image_iff dest: word_unat_eq_iff [THEN iffD2])
  have mem: "of_nat j \<in> ?V \<longleftrightarrow> vold j" if "j < 2 ^ 14" for j
    using um [of "of_nat j"] of_nat_small [OF that] by simp
  have js: "set ?js = {j. j < 2 ^ 14 \<and> vold j \<noteq> vnew j}" by (auto simp: bitmap_simps)
  have V: "?V = partly_applied vlans vnew ?V {}" by (simp add: partly_applied_def)
  have "fold (apply_vidx lib sid pid vlans vnew) ?js (hw, bitmap_zero) = (hw', vmap)"
    using a by (simp add: apply_vdiff_def)
  from apply_vidx_fold [OF ok ids pid room inj wf V _ distinct_bitmap_ones this]
  have eff: "vlan_wf lib hw' sid pid" "port_vmap lib hw' sid pid = partly_applied vlans vnew ?V (set ?js)"
    "\<And>j. vmap j \<longleftrightarrow> j \<in> set ?js \<and> vnew j \<and> \<not> vlans (unat (OPS_FPA_VIDX_VID (of_nat j)))"
    using mem js by auto
  have step: "(if unat x \<in> set ?js then vnew (unat x) else x \<in> ?V) \<longleftrightarrow> vnew (unat x)" for x
  proof (cases "unat x \<in> set ?js")
    case False
    then have "\<not> unat x < 2 ^ 14 \<or> vold (unat x) = vnew (unat x)" unfolding js by blast
    then show ?thesis
      using False vnew [of "unat x"] um [of x] port_vmap_range [OF wf, of x] unat_small [of x] by auto
  qed simp
  have pa: "partly_applied vlans vnew ?V (set ?js) =
      {x. if vlans (unat (OPS_FPA_VIDX_VID x)) then vnew (unat x) else x \<in> ?V}"
    unfolding partly_applied_def
  proof (rule Collect_cong)
    fix x
    show "(if unat x \<in> set ?js \<and> vlans (unat (OPS_FPA_VIDX_VID x)) then vnew (unat x) else x \<in> ?V) =
      (if vlans (unat (OPS_FPA_VIDX_VID x)) then vnew (unat x) else x \<in> ?V)"
      using step [of x] by (cases "vlans (unat (OPS_FPA_VIDX_VID x))") simp_all
  qed
  have "vmap j \<longleftrightarrow> vnew j \<and> \<not> vold j \<and> \<not> vlans (unat (OPS_FPA_VIDX_VID (of_nat j)))" for j
    using eff(3) [of j] vnew [of j] unfolding js by blast
  with eff(1,2) pa show ?thesis by (simp only: simp_thms)
qed

lemma fold_trunks:
  "fold (\<lambda>vid b. bitmap_set1 (bitmap_set1 b (f vid)) (g vid)) vs b j \<longleftrightarrow> b j \<or> j \<in> f ` set vs \<or> j \<in> g ` set vs"
  by (induction vs arbitrary: b) (auto simp: bitmap_simps)

definition trunk_vidx :: "nat \<Rightarrow> u32 set" where
  "trunk_vidx vid = {OPS_FPA_VIDX_INGRESS (of_nat vid) True, OPS_FPA_VIDX_EGRESS (of_nat vid) False}"

definition native_vidx :: "port_vlan_mode \<Rightarrow> u32 \<Rightarrow> u32 set" where
  "native_vidx mode vlan = (if mode = PORT_VLAN_TRUNK then {}
     else {OPS_FPA_VIDX_INGRESS vlan False, OPS_FPA_VIDX_EGRESS vlan (mode \<noteq> PORT_VLAN_NATIVE_TAGGED)})"

text \<open>The desired state as a set of VIDX: two for every trunk VLAN, two for the native VLAN.\<close>

definition desired_vidx :: "bundle_settings \<Rightarrow> u32 set" where
  "desired_vidx cfg =
     (case bs_trunks cfg of None \<Rightarrow> {} | Some t \<Rightarrow> \<Union> (trunk_vidx ` {vid. vid < VLAN_BITMAP_SIZE \<and> t vid}))
     \<union> native_vidx (bs_vlan_mode cfg) (bs_vlan cfg)"

lemma bundle_vnew_iff: "bundle_vnew cfg j \<longleftrightarrow> j \<in> unat ` desired_vidx cfg"
  unfolding bundle_vnew_def desired_vidx_def Let_def
  by (auto simp: fold_trunks bitmap_simps native_vidx_def trunk_vidx_def image_Un image_UN split: option.splits)

lemma desired_set: "{x. bundle_vnew cfg (unat x)} = desired_vidx cfg"
  by (auto simp: bundle_vnew_iff dest: word_unat_eq_iff [THEN iffD2])

lemma desired_range:
  assumes "bs_vlan_mode cfg = PORT_VLAN_TRUNK \<or> bs_vlan cfg < 4096" and "x \<in> desired_vidx cfg"
  shows "x < 2 ^ 14"
proof -
  have v: "(of_nat vid :: u32) < 4096" if "vid < 4096" for vid
    using that unat_of_nat [of vid, where 'a = 32] by (simp add: word_less_nat_alt)
  show ?thesis
    using assms vidx_range [OF v] vidx_range [of "bs_vlan cfg"]
    by (auto simp: desired_vidx_def trunk_vidx_def native_vidx_def split: option.splits if_splits)
qed

lemma bundle_set_l2_effect:
  assumes ok: "fpa_lib_ok (en_lib env)" and ids: "l2_id_laws (en_lib env)"
    and it: "iteration_laws (en_lib env) (st_hw st)" and room: "vlan_room (en_lib env) sid"
    and sid: "sid = pr_switch_id this"
    and port: "ops_fpa_get_ofport_by_pid env st (bn_intf_id (snd n)) = Some (a, p)"
    and pid: "pid = nd_ifindex (op_netdev p)" "pid \<noteq> 0" "pid \<le> 0xFFFF"
    and wf: "vlan_wf (en_lib env) (st_hw st) sid pid"
    and cfg: "bs_vlan_mode cfg = PORT_VLAN_TRUNK \<or> bs_vlan cfg < 4096"
    and inj: "inj_on vidx_entry (port_vmap (en_lib env) (st_hw st) sid pid \<union> desired_vidx cfg)"
  shows "\<exists>st'. bundle_set_l2 env n cfg this st = Some (Inr st')
    \<and> port_vmap (en_lib env) (st_hw st') sid pid =
        {x. if pr_vlans this (unat (OPS_FPA_VIDX_VID x)) then x \<in> desired_vidx cfg
            else x \<in> port_vmap (en_lib env) (st_hw st) sid pid}
    \<and> (\<exists>p'. st_ports st' a = Some p' \<and> (\<forall>j. op_vmap p' j \<longleftrightarrow>
         (\<exists>x \<in> desired_vidx cfg - port_vmap (en_lib env) (st_hw st) sid pid.
            j = unat x \<and> \<not> pr_vlans this (unat (OPS_FPA_VIDX_VID x)))))"
proof -
  let ?lib = "en_lib env" and ?V = "port_vmap (en_lib env) (st_hw st) sid pid"
  obtain vold where f: "ops_fpa_vlan_fetch ?lib sid pid (st_hw st) = Some vold"
    and vold: "\<And>j. vold j \<longleftrightarrow> j \<in> unat ` ?V"
    using vlan_fetch_eq [OF ok it] by blast
  obtain hw' vmap where a: "apply_vdiff ?lib sid pid (pr_vlans this) (bundle_vnew cfg) vold (st_hw st) = (hw', vmap)"
    by fastforce
  have vnew: "bundle_vnew cfg j \<Longrightarrow> j < 2 ^ 14" for j
    using desired_range [OF cfg] by (auto simp: bundle_vnew_iff word_less_nat_alt)
  have eff: "port_vmap ?lib hw' sid pid =
      {x. if pr_vlans this (unat (OPS_FPA_VIDX_VID x)) then bundle_vnew cfg (unat x) else x \<in> ?V}"
    "\<And>j. vmap j \<longleftrightarrow> bundle_vnew cfg j \<and> \<not> vold j \<and> \<not> pr_vlans this (unat (OPS_FPA_VIDX_VID (of_nat j)))"
    using apply_vdiff_effect [OF ok ids wf pid(2,3) room _ vnew vold a] inj by (auto simp: desired_set)
  have um: "vold (unat x) \<longleftrightarrow> x \<in> ?V" and nm: "bundle_vnew cfg (unat x) \<longleftrightarrow> x \<in> desired_vidx cfg" for x
    unfolding vold bundle_vnew_iff by (auto simp: image_iff dest: word_unat_eq_iff [THEN iffD2])
  have "vmap j \<longleftrightarrow> (\<exists>x \<in> desired_vidx cfg - ?V. j = unat x \<and> \<not> pr_vlans this (unat (OPS_FPA_VIDX_VID x)))" for j
    unfolding eff(2) bundle_vnew_iff by (auto simp: um)
  with eff(1) show ?thesis
    using f a port sid pid(1) by (simp add: bundle_set_l2_def Let_def nm)
qed


definition sample_cfg :: "port_vlan_mode \<Rightarrow> u32 \<Rightarrow> bitmap option \<Rightarrow> bundle_settings" where
  "sample_cfg mode vlan trunks = \<lparr>bs_name = ''5'', bs_slaves = [1], bs_vlan_mode = mode, bs_vlan = vlan,
     bs_trunks = trunks, bs_enable = True, bs_internal_vlan_id = 0, bs_primary_ipv4_changed = False,
     bs_secondary_ipv4_changed = False, bs_ip4_address = None, bs_ip4_address_secondary = []\<rparr>"

lemma sim_vlan_room: "vlan_room (sim_lib {} False) sid"
  by (auto simp: vlan_room_def sim_defs split: option.splits)

lemma sim_empty_iteration: "iteration_laws (sim_lib full gfull) sim_empty"
  by (rule sim_iteration_laws) (simp add: sim_empty_def)


section \<open>Two changes that lose a VLAN\<close>

lemma INGRESS_untagged: "OPS_FPA_VIDX_INGRESS vid False = vid"
  by (simp add: OPS_FPA_VIDX_INGRESS_def)

lemma EGRESS_plus:
  assumes "vid < 4096"
  shows "unat (OPS_FPA_VIDX_EGRESS vid t) = 8192 + (if t then 4096 else 0) + unat vid"
proof -
  let ?b = "OPS_FPA_VIDX_EGRESS 0 t"
  have "\<not> bit ?b k \<or> \<not> bit vid k" for k
    using vid_bits [OF assms, of k] by (auto simp: bit_VIDX_EGRESS)
  then have "?b + vid = ?b OR vid" by (rule disjunctive_add)
  moreover have "?b OR vid = OPS_FPA_VIDX_EGRESS vid t"
    by (rule bit_word_eqI) (auto simp: bit_or_iff bit_VIDX_EGRESS)
  ultimately have e: "OPS_FPA_VIDX_EGRESS vid t = ?b + vid" by simp
  have "?b = (if t then 12288 else 8192)" by (simp add: OPS_FPA_VIDX_EGRESS_def of_bool_def)
  moreover have "unat vid < 4096" using assms by (simp add: word_less_nat_alt)
  ultimately show ?thesis unfolding e by (auto simp: unat_word_ariths)
qed

lemma bitmap_ones_eq:
  assumes "sorted js" and "distinct js" and "\<And>j. j \<in> set js \<longleftrightarrow> j < n \<and> b j"
  shows "bitmap_ones n b = js"
proof (rule sorted_distinct_set_unique)
  show "sorted (bitmap_ones n b)" by (simp add: bitmap_ones_def sorted_wrt_filter)
qed (use assms in \<open>auto simp: bitmap_simps\<close>)


lemma desired_native:
  "bs_trunks cfg = None \<Longrightarrow> desired_vidx cfg = native_vidx (bs_vlan_mode cfg) (bs_vlan cfg)"
  by (simp add: desired_vidx_def)

text \<open>A VIDX whose group already exists cannot be added when the switch refuses existing groups.\<close>

lemma vlan_add_refused:
  assumes ok: "fpa_lib_ok lib" and ids: "l2_id_laws lib" and wf: "vlan_wf lib hw sid pid" and pid: "pid \<le> 0xFFFF"
    and refuse: "\<And>e hw. groups_of lib hw sid (ge_groupIdentifier e) \<noteq> None \<Longrightarrow>
        fst (fpaLibGroupTableEntryAdd lib sid e hw) \<noteq> FPA_OK"
    and x: "OPS_FPA_VIDX_IS_EGRESS x" and y: "y \<in> port_vmap lib hw sid pid" "vidx_entry y = vidx_entry x"
    and add: "ops_fpa_vlan_add lib sid pid x hw = (ret, hw')"
  shows "ret = 1 \<and> vlan_wf lib hw' sid pid \<and> port_vmap lib hw' sid pid = port_vmap lib hw sid pid"
proof -
  obtain gid where b: "fpaLibGroupIdentifierBuild lib (l2_ident pid (OPS_FPA_VIDX_VID x)) = (FPA_OK, gid)"
    and gp: "OPS_FPA_GID_PORT gid = pid" and gv: "OPS_FPA_GID_VLAN gid = OPS_FPA_VIDX_VID x"
    using l2_id_lawsD [OF ids pid VIDX_VID_lt] by blast
  have some: "groups_of lib hw sid gid \<noteq> None"
    using wf y(1)
  proof (cases rule: port_vmap_entry)
    case (flow f)
    then show ?thesis using y(2) x by (auto simp: flow_vidx_def vidx_entry_def [of x])
  next
    case (grp k bk)
    then have "OPS_FPA_GID_VLAN k = OPS_FPA_VIDX_VID x" using y(2) x
      by (auto simp: group_vidx_def vidx_entry_def [of x])
    moreover obtain v where "OPS_FPA_GID_PORT k = pid" and "groups_of lib hw sid k = Some v"
      using grp(1) by (auto simp: port_groups_def)
    then have "fpaLibGroupIdentifierBuild lib (l2_ident pid (OPS_FPA_GID_VLAN k)) = (FPA_OK, k)"
      using wf by (simp add: vlan_wf_def)
    ultimately have "k = gid" using b by simp
    with grp(1) show ?thesis by (auto simp: port_groups_def)
  qed
  let ?e = "\<lparr>ge_groupIdentifier = gid, ge_groupTypeSemantics = FPA_GROUP_INDIRECT\<rparr>"
  obtain err hw1 where a: "fpaLibGroupTableEntryAdd lib sid ?e hw = (err, hw1)" by fastforce
  have e: "err \<noteq> FPA_OK" using refuse [of hw ?e] some a by simp
  then have r: "ret = 1" "hw' = hw1"
    using add x b a by (auto simp: ops_fpa_vlan_add_def ops_fpa_route_add_l2_group_def)
  have fl: "flows_of lib hw1 = flows_of lib hw" and gr: "groups_of lib hw1 = groups_of lib hw"
    using graw.gadd_flows [OF ok a] graw.gadd_fail [OF ok a e] by simp_all
  show ?thesis using r vlan_view_cong [of lib hw1 sid hw pid] fl gr wf by simp
qed

text \<open>(C39) Changing a port from native-untagged to native-tagged on the same VLAN leaves it without the
  VLAN on egress, on a switch that refuses to create a group that exists. The difference is applied in
  ascending order: first the VIDX that keeps the tag is added, which fails because both VIDX are one
  group, then the VIDX that pops the tag is deleted, and the group with it.\<close>

theorem native_tagging_loses_egress:
  assumes ok: "fpa_lib_ok lib" and ids: "l2_id_laws lib" and wf: "vlan_wf lib hw sid pid" and pid: "pid \<le> 0xFFFF"
    and refuse: "\<And>e hw. groups_of lib hw sid (ge_groupIdentifier e) \<noteq> None \<Longrightarrow>
        fst (fpaLibGroupTableEntryAdd lib sid e hw) \<noteq> FPA_OK"
    and v: "v < 4096" and en: "vlans (unat v)"
    and now: "port_vmap lib hw sid pid = native_vidx PORT_VLAN_NATIVE_UNTAGGED v"
    and vold: "\<And>j. vold j \<longleftrightarrow> j \<in> unat ` port_vmap lib hw sid pid"
    and cfg: "bs_trunks cfg = None" "bs_vlan_mode cfg = PORT_VLAN_NATIVE_TAGGED" "bs_vlan cfg = v"
    and a: "apply_vdiff lib sid pid vlans (bundle_vnew cfg) vold hw = (hw', vmap)"
  shows "port_vmap lib hw' sid pid = {OPS_FPA_VIDX_INGRESS v False}"
proof -
  let ?i = "OPS_FPA_VIDX_INGRESS v False" and ?e = "OPS_FPA_VIDX_EGRESS v"
  have uv: "unat v < 4096" using v by (simp add: word_less_nat_alt)
  have V: "port_vmap lib hw sid pid = {?i, ?e True}" using now by (simp add: native_vidx_def)
  have ui: "unat ?i = unat v" by (simp add: INGRESS_untagged)
  have ue: "unat (?e True) = 12288 + unat v" "unat (?e False) = 8192 + unat v" using EGRESS_plus [OF v] by simp_all
  have new: "bundle_vnew cfg j \<longleftrightarrow> j = unat v \<or> j = 8192 + unat v" for j
    by (auto simp: bundle_vnew_iff desired_native [OF cfg(1)] cfg native_vidx_def ui ue)
  have old: "vold j \<longleftrightarrow> j = unat v \<or> j = 12288 + unat v" for j by (auto simp: vold V ui ue)
  have js: "bitmap_ones (2 ^ 14) (bitmap_xor vold (bundle_vnew cfg)) = [8192 + unat v, 12288 + unat v]"
    by (rule bitmap_ones_eq) (use uv in \<open>auto simp: bitmap_simps new old\<close>)
  have of: "of_nat (8192 + unat v) = ?e False" "of_nat (12288 + unat v) = ?e True"
    unfolding ue [symmetric] by simp_all
  obtain r1 hw1 where s1: "ops_fpa_vlan_add lib sid pid (?e False) hw = (r1, hw1)" by fastforce
  have entries: "vidx_entry (?e t) = (True, v)" "vidx_entry ?i = (False, 0)" for t using v by simp_all
  have st1: "vlan_wf lib hw1 sid pid" "port_vmap lib hw1 sid pid = {?i, ?e True}"
    using vlan_add_refused [OF ok ids wf pid refuse _ _ _ s1, of "?e True"] v V by (simp_all add: entries)
  obtain r2 hw2 where s2: "ops_fpa_vlan_del lib sid pid (?e True) hw1 = (r2, hw2)" by fastforce
  have "r2 = 0" using vlan_del_present [OF ok ids st1(1) pid _ refl s2] st1(2) by simp
  then have st2: "port_vmap lib hw2 sid pid = {?i}"
    using vlan_del_effect [OF ok ids st1(1) pid s2, of pid] st1(2) by (auto simp: entries)
  have "hw' = hw2"
    using a v en s1 s2 unfolding apply_vdiff_def js by (simp add: apply_vidx_def of new del: of_nat_add)
  with st2 show ?thesis by simp
qed

text \<open>A simulated switch with one access port.\<close>

lemma sim_access_port:
  assumes v: "v < 4096"
  shows "\<exists>hw. vlan_wf (sim_lib {} False) hw 0 5
    \<and> port_vmap (sim_lib {} False) hw 0 5 = {OPS_FPA_VIDX_INGRESS v False, OPS_FPA_VIDX_EGRESS v True}"
proof -
  let ?l = "sim_lib {} False" and ?x = "OPS_FPA_VIDX_INGRESS v False" and ?y = "OPS_FPA_VIDX_EGRESS v True"
  obtain r1 hw1 where a1: "ops_fpa_vlan_add ?l 0 5 ?x sim_empty = (r1, hw1)" by fastforce
  obtain r2 hw2 where a2: "ops_fpa_vlan_add ?l 0 5 ?y hw1 = (r2, hw2)" by fastforce
  note r = vidx_range [OF v]
  have v1: "vlan_wf ?l hw1 0 5" "port_vmap ?l hw1 0 5 = {?x}"
    using vlan_add_effect [OF sim_lib_ok sim_l2_id_laws sim_empty_wf _ _ _ _ a1, of 5] r v a1
      vlan_add_succeeds [OF sim_lib_ok sim_l2_id_laws sim_empty_wf _ _ sim_vlan_room, of 5 ?x 0]
    by (simp_all add: sim_empty_vmap)
  have v2: "vlan_wf ?l hw2 0 5" "port_vmap ?l hw2 0 5 = {?x, ?y}"
    using vlan_add_effect [OF sim_lib_ok sim_l2_id_laws v1(1) _ _ _ _ a2, of 5] r v a2 v1(2)
      vlan_add_succeeds [OF sim_lib_ok sim_l2_id_laws v1(1) _ _ sim_vlan_room, of ?y]
    by auto
  then show ?thesis by blast
qed

lemma sim_refuses:
  "groups_of (sim_lib {} False) hw sid (ge_groupIdentifier e) \<noteq> None \<Longrightarrow>
    fst (fpaLibGroupTableEntryAdd (sim_lib {} False) sid e hw) \<noteq> FPA_OK"
  by (auto simp: sim_defs split: option.splits)

theorem native_tagging_loses_egress_witness:
  "\<exists>hw hw' vmap. port_vmap (sim_lib {} False) hw 0 5 = {OPS_FPA_VIDX_INGRESS 10 False, OPS_FPA_VIDX_EGRESS 10 True}
    \<and> apply_vdiff (sim_lib {} False) 0 5 (\<lambda>_. True) (bundle_vnew (sample_cfg PORT_VLAN_NATIVE_TAGGED 10 None))
        (\<lambda>j. j \<in> unat ` port_vmap (sim_lib {} False) hw 0 5) hw = (hw', vmap)
    \<and> port_vmap (sim_lib {} False) hw' 0 5 = {OPS_FPA_VIDX_INGRESS 10 False}"
proof -
  obtain hw where wf: "vlan_wf (sim_lib {} False) hw 0 5"
    and V: "port_vmap (sim_lib {} False) hw 0 5 = {OPS_FPA_VIDX_INGRESS 10 False, OPS_FPA_VIDX_EGRESS 10 True}"
    using sim_access_port [of 10] by auto
  have now: "port_vmap (sim_lib {} False) hw 0 5 = native_vidx PORT_VLAN_NATIVE_UNTAGGED 10"
    by (simp add: V native_vidx_def)
  let ?v = "\<lambda>j. j \<in> unat ` port_vmap (sim_lib {} False) hw 0 5"
    and ?c = "sample_cfg PORT_VLAN_NATIVE_TAGGED 10 None"
  obtain hw' vmap where a: "apply_vdiff (sim_lib {} False) 0 5 (\<lambda>_. True) (bundle_vnew ?c) ?v hw = (hw', vmap)"
    by fastforce
  have "port_vmap (sim_lib {} False) hw' 0 5 = {OPS_FPA_VIDX_INGRESS 10 False}"
    by (rule native_tagging_loses_egress [OF sim_lib_ok sim_l2_id_laws wf _ sim_refuses _ _ now _ _ _ _ a])
      (simp_all add: sample_cfg_def)
  with V a show ?thesis by blast
qed

text \<open>Moving an access port to a VLAN with a smaller number leaves it without a native VLAN on
  ingress. The untagged flow of the new VLAN is added first, then the untagged flow of the old VLAN is
  deleted by its cookie, which is the cookie of both. Only the egress group of the new VLAN is left.\<close>

lemma access_vlan_decrease_loses_ingress:
  assumes ok: "fpa_lib_ok lib" and ids: "l2_id_laws lib" and wf: "vlan_wf lib hw sid pid"
    and pid: "pid \<noteq> 0" "pid \<le> 0xFFFF" and room: "vlan_room lib sid"
    and v: "w < v" "v < 4096" and en: "vlans (unat v)" "vlans (unat w)"
    and now: "port_vmap lib hw sid pid = native_vidx PORT_VLAN_ACCESS v"
    and vold: "\<And>j. vold j \<longleftrightarrow> j \<in> unat ` port_vmap lib hw sid pid"
    and cfg: "bs_trunks cfg = None" "bs_vlan_mode cfg = PORT_VLAN_ACCESS" "bs_vlan cfg = w"
    and a: "apply_vdiff lib sid pid vlans (bundle_vnew cfg) vold hw = (hw', vmap)"
  shows "port_vmap lib hw' sid pid = {OPS_FPA_VIDX_EGRESS w True}"
proof -
  let ?i = "\<lambda>v. OPS_FPA_VIDX_INGRESS v False" and ?e = "\<lambda>v. OPS_FPA_VIDX_EGRESS v True"
  have w: "w < 4096" using v by simp
  have uv: "unat v < 4096" "unat w < unat v" using v by (simp_all add: word_less_nat_alt)
  have V: "port_vmap lib hw sid pid = {?i v, ?e v}" using now by (simp add: native_vidx_def)
  have ui: "unat (?i v) = unat v" for v by (simp add: INGRESS_untagged)
  have ue: "unat (?e v) = 12288 + unat v" "unat (?e w) = 12288 + unat w"
    using EGRESS_plus [OF v(2)] EGRESS_plus [OF w] by simp_all
  have new: "bundle_vnew cfg j \<longleftrightarrow> j = unat w \<or> j = 12288 + unat w" for j
    by (auto simp: bundle_vnew_iff desired_native [OF cfg(1)] cfg native_vidx_def ui ue)
  have old: "vold j \<longleftrightarrow> j = unat v \<or> j = 12288 + unat v" for j by (auto simp: vold V ui ue)
  have js: "bitmap_ones (2 ^ 14) (bitmap_xor vold (bundle_vnew cfg)) =
      [unat w, unat v, 12288 + unat w, 12288 + unat v]"
    by (rule bitmap_ones_eq) (use uv in \<open>auto simp: bitmap_simps new old\<close>)
  have of: "of_nat (12288 + unat w) = ?e w" "of_nat (12288 + unat v) = ?e v" "of_nat (unat v) = ?i v"
    "of_nat (unat w) = ?i w"
    unfolding ue [symmetric] by (simp_all add: INGRESS_untagged)
  note entries = vidx_range [OF v(2)] vidx_range [OF w]
  have ne: "w \<noteq> v" using v by auto
  obtain r1 hw1 where s1: "ops_fpa_vlan_add lib sid pid (?i w) hw = (r1, hw1)" by fastforce
  have "r1 = 0" using vlan_add_succeeds [OF ok ids wf pid room, of "?i w"] s1 w by simp
  then have st1: "vlan_wf lib hw1 sid pid" "port_vmap lib hw1 sid pid = {?i w, ?i v, ?e v}"
    using vlan_add_effect [OF ok ids wf pid _ _ s1, of pid] V entries w by auto
  obtain r2 hw2 where s2: "ops_fpa_vlan_del lib sid pid (?i v) hw1 = (r2, hw2)" by fastforce
  have "r2 = 0" using vlan_del_present [OF ok ids st1(1) pid(2) _ refl s2] st1(2) by simp
  then have st2: "vlan_wf lib hw2 sid pid" "port_vmap lib hw2 sid pid = {?e v}"
    using vlan_del_effect [OF ok ids st1(1) pid(2) s2, of pid] st1(2) w v by auto
  obtain r3 hw3 where s3: "ops_fpa_vlan_add lib sid pid (?e w) hw2 = (r3, hw3)" by fastforce
  have "r3 = 0" using vlan_add_succeeds [OF ok ids st2(1) pid room, of "?e w"] s3 st2(2) w v ne by simp
  then have st3: "vlan_wf lib hw3 sid pid" "port_vmap lib hw3 sid pid = {?e w, ?e v}"
    using vlan_add_effect [OF ok ids st2(1) pid _ _ s3, of pid] st2(2) entries w v ne by auto
  obtain r4 hw4 where s4: "ops_fpa_vlan_del lib sid pid (?e v) hw3 = (r4, hw4)" by fastforce
  have "r4 = 0" using vlan_del_present [OF ok ids st3(1) pid(2) _ refl s4] st3(2) by simp
  then have st4: "port_vmap lib hw4 sid pid = {?e w}"
    using vlan_del_effect [OF ok ids st3(1) pid(2) s4, of pid] st3(2) w v ne by auto
  have vids: "OPS_FPA_VIDX_VID (?e w) = w" "OPS_FPA_VIDX_VID (?e v) = v"
    "OPS_FPA_VIDX_VID (?i w) = w" "OPS_FPA_VIDX_VID (?i v) = v" using w v by simp_all
  have "hw' = hw4"
    using a uv en s1 s2 s3 s4 unfolding apply_vdiff_def js
    by (simp add: apply_vidx_def of new vids del: of_nat_add of_nat_unat)
  with st4 show ?thesis by simp
qed

end
