(* ===== verification/Fpa_SetVlan.thy ===== *)
theory Fpa_SetVlan
  imports Fpa_Bundles
begin

text \<open>
  Enabling and disabling a VLAN (\<open>ops_fpa_ofproto_set_vlan\<close> of \<open>src/ops-fpa-ofproto.c\<close>) as an operation on the
  abstract VLAN state of a port, a pair of VIDX sets.
\<close>

section \<open>The abstract VLAN state of a port\<close>

text \<open>
  A port has active VIDX, those in the tables of the switch, and pending ones, those in its bitmap. For the
  specification, enabling a VLAN makes its pending VIDX active and disabling it makes its active VIDX
  pending.
\<close>

definition of_vlan :: "u32 \<Rightarrow> u32 set" where
  "of_vlan vid = {x. OPS_FPA_VIDX_VID x = vid}"

definition toggle_vlan :: "u32 \<Rightarrow> bool \<Rightarrow> u32 set \<times> u32 set \<Rightarrow> u32 set \<times> u32 set" where
  "toggle_vlan vid add v =
     (if add then (fst v \<union> snd v \<inter> of_vlan vid, snd v - of_vlan vid)
      else (fst v - of_vlan vid, snd v \<union> fst v \<inter> of_vlan vid))"

definition vlan_view :: "'hw fpa_lib \<Rightarrow> u32 \<Rightarrow> 'hw \<Rightarrow> u32 \<Rightarrow> bitmap \<Rightarrow> u32 set \<times> u32 set" where
  "vlan_view lib sid hw pid vmap = (port_vmap lib hw sid pid, {x. vmap (unat x)})"

text \<open>Disabling a VLAN and enabling it again is the identity when none of its VIDX was pending.\<close>

lemma toggle_vlan_back:
  "snd v \<inter> of_vlan vid = {} \<Longrightarrow> toggle_vlan vid True (toggle_vlan vid False v) = v"
  by (cases v) (auto simp: toggle_vlan_def)

lemma of_nat_eq_small:
  "i < 2 ^ 14 \<Longrightarrow> j < 2 ^ 14 \<Longrightarrow> (of_nat i :: u32) = of_nat j \<longleftrightarrow> i = j"
  by (metis of_nat_small)

lemma enable_fold:
  assumes ok: "fpa_lib_ok lib" and ids: "l2_id_laws lib" and pid: "pid \<noteq> 0" "pid \<le> 0xFFFF" and room: "vlan_room lib sid"
    and "vlan_wf lib hw sid pid" and "\<forall>j \<in> set js. j < 2 ^ 14 \<and> of_nat j \<notin> port_vmap lib hw sid pid" and "distinct js"
    and "inj_on vidx_entry (port_vmap lib hw sid pid \<union> of_nat ` set js)"
    and "fold (enable_vidx lib sid pid vid) js (hw, vmap) = (hw', vmap')"
  shows "vlan_wf lib hw' sid pid
    \<and> port_vmap lib hw' sid pid = port_vmap lib hw sid pid \<union> of_nat ` set js \<inter> of_vlan vid
    \<and> (\<forall>j. vmap' j \<longleftrightarrow> vmap j \<and> \<not> (j \<in> set js \<and> of_nat j \<in> of_vlan vid))
    \<and> (\<forall>q. q \<noteq> pid \<longrightarrow> port_vmap lib hw' sid q = port_vmap lib hw sid q)
    \<and> (\<forall>q. vlan_wf lib hw sid q \<longrightarrow> vlan_wf lib hw' sid q)"
  using assms(6-)
proof (induction js arbitrary: hw vmap)
  case (Cons j js)
  let ?x = "of_nat j :: u32" and ?S = "port_vmap lib hw sid pid"
  have j: "j < 2 ^ 14" and x14: "?x < 2 ^ 14" and notin: "?x \<notin> ?S"
    using Cons.prems(2) of_nat_small [of j] unat_small [of ?x] by auto
  show ?case
  proof (cases "OPS_FPA_VIDX_VID ?x = vid")
    case False
    then have "fold (enable_vidx lib sid pid vid) js (hw, vmap) = (hw', vmap')"
      using Cons.prems(5) by (simp add: enable_vidx_def [of lib sid pid vid j "(hw, vmap)"])
    moreover have "inj_on vidx_entry (?S \<union> of_nat ` set js)"
      using Cons.prems(4) by (rule inj_on_subset) auto
    ultimately show ?thesis
      using Cons.IH [of hw vmap] Cons.prems(1-3) False by (auto simp: of_vlan_def)
  next
    case True
    have free: "\<forall>y \<in> ?S. vidx_entry y \<noteq> vidx_entry ?x"
      using Cons.prems(4) notin by (metis UnCI image_eqI inj_onD list.set_intros(1))
    obtain r hw1 where a: "ops_fpa_vlan_add lib sid pid ?x hw = (r, hw1)" by fastforce
    have "r = 0" using vlan_add_succeeds [OF ok ids Cons.prems(1) pid room, of ?x] free a by simp
    with vlan_add_effect [OF ok ids Cons.prems(1) pid x14 _ a, of pid] free
    have w1: "vlan_wf lib hw1 sid pid" and v1: "port_vmap lib hw1 sid pid = insert ?x ?S" by simp_all
    have o1: "q \<noteq> pid \<Longrightarrow> port_vmap lib hw1 sid q = port_vmap lib hw sid q" for q
      using vlan_add_effect [OF ok ids Cons.prems(1) pid x14 _ a, of q] free by simp
    have o2: "vlan_wf lib hw sid q \<Longrightarrow> vlan_wf lib hw1 sid q" for q
      using vlan_add_wf [OF ok ids Cons.prems(1) pid x14 _ a] free by blast
    have "\<forall>i \<in> set js. i < 2 ^ 14 \<and> of_nat i \<notin> port_vmap lib hw1 sid pid"
      using Cons.prems(2,3) j of_nat_eq_small [of _ j] by (auto simp: v1)
    moreover have "inj_on vidx_entry (port_vmap lib hw1 sid pid \<union> of_nat ` set js)"
      using Cons.prems(4) by (simp add: v1)
    moreover have "fold (enable_vidx lib sid pid vid) js (hw1, bitmap_set0 vmap j) = (hw', vmap')"
      using Cons.prems(5) True a by (simp add: enable_vidx_def [of lib sid pid vid j "(hw, vmap)"])
    ultimately have "vlan_wf lib hw' sid pid
      \<and> port_vmap lib hw' sid pid = insert ?x ?S \<union> of_nat ` set js \<inter> of_vlan vid
      \<and> (\<forall>i. vmap' i \<longleftrightarrow> bitmap_set0 vmap j i \<and> \<not> (i \<in> set js \<and> of_nat i \<in> of_vlan vid))
      \<and> (\<forall>q. q \<noteq> pid \<longrightarrow> port_vmap lib hw' sid q = port_vmap lib hw1 sid q)
      \<and> (\<forall>q. vlan_wf lib hw1 sid q \<longrightarrow> vlan_wf lib hw' sid q)"
      using Cons.IH [OF w1, of "bitmap_set0 vmap j"] Cons.prems(3) unfolding v1 by simp
    then show ?thesis using True o1 o2 by (auto simp: bitmap_simps of_vlan_def)
  qed
qed simp

lemma disable_fold:
  assumes ok: "fpa_lib_ok lib" and ids: "l2_id_laws lib" and pid: "pid \<le> 0xFFFF"
    and "vlan_wf lib hw sid pid" and "\<forall>j \<in> set js. j < 2 ^ 14 \<and> of_nat j \<in> port_vmap lib hw sid pid" and "distinct js"
    and "inj_on vidx_entry (port_vmap lib hw sid pid)"
    and "fold (disable_vidx lib sid pid vid) js (hw, vmap) = (hw', vmap')"
  shows "vlan_wf lib hw' sid pid
    \<and> port_vmap lib hw' sid pid = port_vmap lib hw sid pid - of_nat ` set js \<inter> of_vlan vid
    \<and> (\<forall>j. vmap' j \<longleftrightarrow> vmap j \<or> j \<in> set js \<and> of_nat j \<in> of_vlan vid)
    \<and> (\<forall>q. q \<noteq> pid \<longrightarrow> port_vmap lib hw' sid q = port_vmap lib hw sid q)
    \<and> (\<forall>q. vlan_wf lib hw sid q \<longrightarrow> vlan_wf lib hw' sid q)"
  using assms(4-)
proof (induction js arbitrary: hw vmap)
  case (Cons j js)
  let ?x = "of_nat j :: u32" and ?S = "port_vmap lib hw sid pid"
  have j: "j < 2 ^ 14" and mem: "?x \<in> ?S" using Cons.prems(2) by auto
  show ?case
  proof (cases "OPS_FPA_VIDX_VID ?x = vid")
    case False
    then have "fold (disable_vidx lib sid pid vid) js (hw, vmap) = (hw', vmap')"
      using Cons.prems(5) by (simp add: disable_vidx_def [of lib sid pid vid j "(hw, vmap)"])
    then show ?thesis
      using Cons.IH [of hw vmap] Cons.prems(1-4) False by (auto simp: of_vlan_def)
  next
    case True
    obtain r hw1 where a: "ops_fpa_vlan_del lib sid pid ?x hw = (r, hw1)" by fastforce
    have "r = 0" using vlan_del_present [OF ok ids Cons.prems(1) pid mem refl a] .
    moreover have "{y \<in> ?S. vidx_entry y \<noteq> vidx_entry ?x} = ?S - {?x}"
      using Cons.prems(4) mem by (auto dest: inj_onD)
    ultimately have w1: "vlan_wf lib hw1 sid pid" and v1: "port_vmap lib hw1 sid pid = ?S - {?x}"
      using vlan_del_effect [OF ok ids Cons.prems(1) pid a, of pid] by simp_all
    have o1: "q \<noteq> pid \<Longrightarrow> port_vmap lib hw1 sid q = port_vmap lib hw sid q" for q
      using vlan_del_effect [OF ok ids Cons.prems(1) pid a, of q] by simp
    have o2: "vlan_wf lib hw sid q \<Longrightarrow> vlan_wf lib hw1 sid q" for q
      by (rule vlan_del_wf [OF ok ids Cons.prems(1) pid a])
    have "\<forall>i \<in> set js. i < 2 ^ 14 \<and> of_nat i \<in> port_vmap lib hw1 sid pid"
      using Cons.prems(2,3) j of_nat_eq_small [of _ j] by (auto simp: v1)
    moreover have "inj_on vidx_entry (port_vmap lib hw1 sid pid)"
      using Cons.prems(4) unfolding v1 by (rule inj_on_subset) auto
    moreover have "fold (disable_vidx lib sid pid vid) js (hw1, bitmap_set1 vmap j) = (hw', vmap')"
      using Cons.prems(5) True a by (simp add: disable_vidx_def [of lib sid pid vid j "(hw, vmap)"])
    ultimately have "vlan_wf lib hw' sid pid
      \<and> port_vmap lib hw' sid pid = ?S - {?x} - of_nat ` set js \<inter> of_vlan vid
      \<and> (\<forall>i. vmap' i \<longleftrightarrow> bitmap_set1 vmap j i \<or> i \<in> set js \<and> of_nat i \<in> of_vlan vid)
      \<and> (\<forall>q. q \<noteq> pid \<longrightarrow> port_vmap lib hw' sid q = port_vmap lib hw1 sid q)
      \<and> (\<forall>q. vlan_wf lib hw1 sid q \<longrightarrow> vlan_wf lib hw' sid q)"
      using Cons.IH [OF w1, of "bitmap_set1 vmap j"] Cons.prems(3) unfolding v1 by simp
    then show ?thesis using True o1 o2 by (auto simp: bitmap_simps of_vlan_def)
  qed
qed simp

text \<open>The pending VIDX are 14-bit numbers and not active, and no two VIDX of the port share a table entry.\<close>

definition view_ok :: "u32 set \<times> u32 set \<Rightarrow> bool" where
  "view_ok v \<longleftrightarrow> fst v \<inter> snd v = {} \<and> snd v \<subseteq> {x. x < 2 ^ 14} \<and> inj_on vidx_entry (fst v \<union> snd v)"

lemma view_ok_toggle:
  assumes "view_ok v" and "fst v \<subseteq> {x. x < 2 ^ 14}"
  shows "view_ok (toggle_vlan vid add v)"
proof -
  have "fst (toggle_vlan vid add v) \<union> snd (toggle_vlan vid add v) = fst v \<union> snd v"
    by (auto simp: toggle_vlan_def)
  then show ?thesis using assms by (auto simp: view_ok_def toggle_vlan_def)
qed

lemma bits_of_vmap:
  assumes "{x. vmap (unat (x :: u32))} \<subseteq> {x. x < 2 ^ 14}"
  shows "of_nat ` set (bitmap_ones (2 ^ 14) vmap) = {x :: u32. vmap (unat x)}"
proof (rule set_eqI)
  fix x :: u32
  show "x \<in> of_nat ` set (bitmap_ones (2 ^ 14) vmap) \<longleftrightarrow> x \<in> {x. vmap (unat x)}"
  proof
    assume "x \<in> {x. vmap (unat x)}"
    with assms have "vmap (unat x)" "unat x < 2 ^ 14" using unat_small [of x] by auto
    then show "x \<in> of_nat ` set (bitmap_ones (2 ^ 14) vmap)"
      by (intro image_eqI [of _ _ "unat x"]) (auto simp: bitmap_simps)
  next
    assume "x \<in> of_nat ` set (bitmap_ones (2 ^ 14) vmap)"
    then show "x \<in> {x. vmap (unat x)}" by (auto simp: bitmap_simps of_nat_small)
  qed
qed

lemma set_vlan_port_enable:
  assumes ok: "fpa_lib_ok (en_lib env)" and ids: "l2_id_laws (en_lib env)" and room: "vlan_room (en_lib env) sid"
    and pid: "pid = nd_ifindex (op_netdev p)" "pid \<noteq> 0" "pid \<le> 0xFFFF" and wf: "vlan_wf (en_lib env) (st_hw st) sid pid"
    and v: "view_ok (vlan_view (en_lib env) sid (st_hw st) pid (op_vmap p))"
  shows "\<exists>st' p'. set_vlan_port env sid vid True (a, p) st = Some st'
    \<and> st' = st\<lparr>st_hw := st_hw st', st_ports := (st_ports st)(a \<mapsto> p')\<rparr> \<and> p' = p\<lparr>op_vmap := op_vmap p'\<rparr>
    \<and> (\<forall>q. q \<noteq> pid \<longrightarrow> port_vmap (en_lib env) (st_hw st') sid q = port_vmap (en_lib env) (st_hw st) sid q)
    \<and> (\<forall>q. vlan_wf (en_lib env) (st_hw st) sid q \<longrightarrow> vlan_wf (en_lib env) (st_hw st') sid q)
    \<and> vlan_view (en_lib env) sid (st_hw st') pid (op_vmap p') =
        toggle_vlan vid True (vlan_view (en_lib env) sid (st_hw st) pid (op_vmap p))"
proof -
  let ?lib = "en_lib env" and ?js = "bitmap_ones (2 ^ 14) (op_vmap p)" and ?S = "port_vmap (en_lib env) (st_hw st) sid pid"
  obtain hw' vmap' where f: "fold (enable_vidx ?lib sid pid vid) ?js (st_hw st, op_vmap p) = (hw', vmap')" by fastforce
  have bits: "of_nat ` set ?js = {x :: u32. op_vmap p (unat x)}"
    by (rule bits_of_vmap) (use v in \<open>simp add: view_ok_def vlan_view_def\<close>)
  have js: "\<forall>j \<in> set ?js. j < 2 ^ 14 \<and> of_nat j \<notin> ?S"
    using v bits by (auto simp: view_ok_def vlan_view_def bitmap_simps of_nat_small)
  have "inj_on vidx_entry (?S \<union> of_nat ` set ?js)" unfolding bits using v by (simp add: view_ok_def vlan_view_def)
  from enable_fold [OF ok ids pid(2,3) room wf js distinct_bitmap_ones this f]
  have e: "vlan_wf ?lib hw' sid pid" "port_vmap ?lib hw' sid pid = ?S \<union> {x. op_vmap p (unat x)} \<inter> of_vlan vid"
    "\<And>j. vmap' j \<longleftrightarrow> op_vmap p j \<and> \<not> (j \<in> set ?js \<and> of_nat j \<in> of_vlan vid)"
    "\<forall>q. q \<noteq> pid \<longrightarrow> port_vmap ?lib hw' sid q = port_vmap ?lib (st_hw st) sid q"
    "\<forall>q. vlan_wf ?lib (st_hw st) sid q \<longrightarrow> vlan_wf ?lib hw' sid q" unfolding bits by blast+
  have "unat x \<in> set ?js \<longleftrightarrow> op_vmap p (unat x)" for x :: u32
    using v unat_small [of x] by (auto simp: bitmap_simps view_ok_def vlan_view_def)
  then have "{x :: u32. vmap' (unat x)} = {x. op_vmap p (unat x)} - of_vlan vid" unfolding e(3) by auto
  then show ?thesis
    using f e(2,4,5) pid(1) by (simp add: set_vlan_port_def Let_def vlan_view_def toggle_vlan_def)
      (intro exI [of _ "p\<lparr>op_vmap := vmap'\<rparr>"], simp)
qed

lemma set_vlan_port_disable:
  assumes ok: "fpa_lib_ok (en_lib env)" and ids: "l2_id_laws (en_lib env)"
    and it: "iteration_laws (en_lib env) (st_hw st)" and ofp: "op_ofp_port p = pid"
    and pid: "pid = nd_ifindex (op_netdev p)" "pid \<le> 0xFFFF" and wf: "vlan_wf (en_lib env) (st_hw st) sid pid"
    and v: "view_ok (vlan_view (en_lib env) sid (st_hw st) pid (op_vmap p))"
  shows "\<exists>st' p'. set_vlan_port env sid vid False (a, p) st = Some st'
    \<and> st' = st\<lparr>st_hw := st_hw st', st_ports := (st_ports st)(a \<mapsto> p')\<rparr> \<and> p' = p\<lparr>op_vmap := op_vmap p'\<rparr>
    \<and> (\<forall>q. q \<noteq> pid \<longrightarrow> port_vmap (en_lib env) (st_hw st') sid q = port_vmap (en_lib env) (st_hw st) sid q)
    \<and> (\<forall>q. vlan_wf (en_lib env) (st_hw st) sid q \<longrightarrow> vlan_wf (en_lib env) (st_hw st') sid q)
    \<and> vlan_view (en_lib env) sid (st_hw st') pid (op_vmap p') =
        toggle_vlan vid False (vlan_view (en_lib env) sid (st_hw st) pid (op_vmap p))"
proof -
  let ?lib = "en_lib env" and ?S = "port_vmap (en_lib env) (st_hw st) sid pid"
  obtain l2 where l2: "ops_fpa_vlan_fetch ?lib sid pid (st_hw st) = Some l2" "\<And>j. l2 j \<longleftrightarrow> j \<in> unat ` ?S"
    using vlan_fetch_eq [OF ok it] by blast
  let ?js = "bitmap_ones (2 ^ 14) l2"
  obtain hw' vmap' where f: "fold (disable_vidx ?lib sid pid vid) ?js (st_hw st, op_vmap p) = (hw', vmap')" by fastforce
  have um: "{x :: u32. l2 (unat x)} = ?S" unfolding l2(2) by (auto simp: image_iff dest: word_unat_eq_iff [THEN iffD2])
  have bits: "of_nat ` set ?js = ?S"
    using bits_of_vmap [of l2, unfolded um] port_vmap_range [OF wf] by (meson mem_Collect_eq subsetI)
  have js: "\<forall>j \<in> set ?js. j < 2 ^ 14 \<and> of_nat j \<in> ?S"
    unfolding bits [symmetric] by (simp add: bitmap_simps)
  have "inj_on vidx_entry ?S" using v by (auto simp: view_ok_def vlan_view_def inj_on_Un)
  from disable_fold [OF ok ids pid(2) wf js distinct_bitmap_ones this f]
  have e: "vlan_wf ?lib hw' sid pid" "port_vmap ?lib hw' sid pid = ?S - of_vlan vid"
    "\<And>j. vmap' j \<longleftrightarrow> op_vmap p j \<or> j \<in> set ?js \<and> of_nat j \<in> of_vlan vid"
    "\<forall>q. q \<noteq> pid \<longrightarrow> port_vmap ?lib hw' sid q = port_vmap ?lib (st_hw st) sid q"
    "\<forall>q. vlan_wf ?lib (st_hw st) sid q \<longrightarrow> vlan_wf ?lib hw' sid q" unfolding bits by blast+
  have "unat x \<in> set ?js \<longleftrightarrow> x \<in> ?S" for x
    using port_vmap_range [OF wf, of x] unat_small [of x] um by (auto simp: bitmap_simps)
  then have "{x :: u32. vmap' (unat x)} = {x. op_vmap p (unat x)} \<union> ?S \<inter> of_vlan vid" unfolding e(3) by auto
  then show ?thesis
    using f e(2,4,5) l2(1) pid(1) ofp by (simp add: set_vlan_port_def Let_def vlan_view_def toggle_vlan_def)
      (intro exI [of _ "p\<lparr>op_vmap := vmap'\<rparr>"], simp)
qed

text \<open>
  A port on which a VLAN can be toggled. Disabling reads the VLAN state with the OpenFlow number of the
  port, which has to be its device index.
\<close>

definition vlan_ready :: "'hw plugin_env \<Rightarrow> u32 \<Rightarrow> bool \<Rightarrow> 'hw plugin_state \<Rightarrow> nat \<times> fpa_ofport \<Rightarrow> bool" where
  "vlan_ready env sid add st ap \<longleftrightarrow>
     (case ap of (a, p) \<Rightarrow> st_ports st a = Some p
        \<and> nd_ifindex (op_netdev p) \<noteq> 0 \<and> nd_ifindex (op_netdev p) \<le> 0xFFFF
        \<and> (add \<or> op_ofp_port p = nd_ifindex (op_netdev p))
        \<and> vlan_wf (en_lib env) (st_hw st) sid (nd_ifindex (op_netdev p))
        \<and> view_ok (vlan_view (en_lib env) sid (st_hw st) (nd_ifindex (op_netdev p)) (op_vmap p)))"

lemma set_vlan_port_effect:
  assumes ok: "fpa_lib_ok (en_lib env)" and ids: "l2_id_laws (en_lib env)" and room: "vlan_room (en_lib env) sid"
    and it: "add \<or> iteration_laws (en_lib env) (st_hw st)" and ready: "vlan_ready env sid add st (a, p)"
    and pid: "pid = nd_ifindex (op_netdev p)"
  shows "\<exists>st' p'. set_vlan_port env sid vid add (a, p) st = Some st'
    \<and> st' = st\<lparr>st_hw := st_hw st', st_ports := (st_ports st)(a \<mapsto> p')\<rparr> \<and> p' = p\<lparr>op_vmap := op_vmap p'\<rparr>
    \<and> (\<forall>q. q \<noteq> pid \<longrightarrow> port_vmap (en_lib env) (st_hw st') sid q = port_vmap (en_lib env) (st_hw st) sid q)
    \<and> (\<forall>q. vlan_wf (en_lib env) (st_hw st) sid q \<longrightarrow> vlan_wf (en_lib env) (st_hw st') sid q)
    \<and> vlan_view (en_lib env) sid (st_hw st') pid (op_vmap p') =
        toggle_vlan vid add (vlan_view (en_lib env) sid (st_hw st) pid (op_vmap p))"
proof -
  have r: "pid \<noteq> 0" "pid \<le> 0xFFFF" "add \<or> op_ofp_port p = pid" "vlan_wf (en_lib env) (st_hw st) sid pid"
    "view_ok (vlan_view (en_lib env) sid (st_hw st) pid (op_vmap p))"
    using ready pid by (simp_all add: vlan_ready_def)
  show ?thesis
  proof (cases add)
    case True
    then have t: "add = True" by simp
    show ?thesis unfolding t by (rule set_vlan_port_enable [OF ok ids room pid r(1,2,4,5)])
  next
    case False
    then have i: "iteration_laws (en_lib env) (st_hw st)" and o: "op_ofp_port p = pid" and t: "add = False"
      using it r(3) by simp_all
    show ?thesis unfolding t by (rule set_vlan_port_disable [OF ok ids i o pid r(2,4,5)])
  qed
qed

section \<open>All ports of a bridge\<close>

text \<open>The states of the switch that deleting VIDX leads to.\<close>

inductive dels_to :: "'hw fpa_lib \<Rightarrow> u32 \<Rightarrow> 'hw \<Rightarrow> 'hw \<Rightarrow> bool" for lib sid hw where
  start: "dels_to lib sid hw hw"
| del: "dels_to lib sid hw hw' \<Longrightarrow> ops_fpa_vlan_del lib sid pid x hw' = (ret, hw'') \<Longrightarrow> dels_to lib sid hw hw''"

lemma dels_to_trans: "dels_to lib sid hw' hw'' \<Longrightarrow> dels_to lib sid hw hw' \<Longrightarrow> dels_to lib sid hw hw''"
  by (induction rule: dels_to.induct) (auto intro: dels_to.del)

lemma disable_fold_dels:
  "dels_to lib sid hw0 hw \<Longrightarrow> dels_to lib sid hw0 (fst (fold (disable_vidx lib sid pid vid) js (hw, vmap)))"
proof (induction js arbitrary: hw vmap)
  case (Cons j js)
  then have "dels_to lib sid hw0 (snd (ops_fpa_vlan_del lib sid pid (of_nat j) hw))"
    using dels_to.del [OF Cons.prems] by (metis prod.collapse)
  with Cons show ?case by (simp add: disable_vidx_def [of lib sid pid vid j "(hw, vmap)"])
qed simp

lemma set_vlan_port_dels:
  "set_vlan_port env sid vid False ap st = Some st' \<Longrightarrow> dels_to (en_lib env) sid (st_hw st) (st_hw st')"
  by (auto simp: set_vlan_port_def Let_def split_def intro!: disable_fold_dels dels_to.start)

text \<open>The ports of the bundles, as the loop finds them.\<close>

definition bundle_ports :: "'hw plugin_env \<Rightarrow> 'hw plugin_state \<Rightarrow> (u32 \<times> fpa_bundle) list \<Rightarrow> (nat \<times> fpa_ofport) list" where
  "bundle_ports env st ns = List.map_filter (\<lambda>n. ops_fpa_get_ofport_by_pid env st (bn_intf_id (snd n))) ns"

lemma bundle_ports_simps [simp]:
  "bundle_ports env st [] = []"
  "bundle_ports env st (n # ns) =
     (case ops_fpa_get_ofport_by_pid env st (bn_intf_id (snd n)) of None \<Rightarrow> bundle_ports env st ns
      | Some ap \<Rightarrow> ap # bundle_ports env st ns)"
  by (simp_all add: bundle_ports_def List.map_filter_simps split: option.splits)

lemma bundle_ports_update:
  assumes "st_ports st a = Some p" and "a \<notin> fst ` set (bundle_ports env st ns)"
  shows "bundle_ports env (st\<lparr>st_hw := hw, st_ports := (st_ports st)(a \<mapsto> p')\<rparr>) ns = bundle_ports env st ns"
  using assms
  by (induction ns) (auto simp: ops_fpa_get_ofport_by_pid_def split: option.splits if_splits prod.splits)

lemma set_vlan_loop_effect:
  assumes ok: "fpa_lib_ok (en_lib env)" and ids: "l2_id_laws (en_lib env)" and room: "vlan_room (en_lib env) sid"
    and "add \<or> (\<forall>hw. dels_to (en_lib env) sid (st_hw st) hw \<longrightarrow> iteration_laws (en_lib env) hw)"
    and "\<forall>ap \<in> set (bundle_ports env st ns). vlan_ready env sid add st ap"
    and "distinct (map fst (bundle_ports env st ns))"
    and "distinct (map (\<lambda>ap. nd_ifindex (op_netdev (snd ap))) (bundle_ports env st ns))"
  shows "\<exists>st'. set_vlan_loop env sid vid add ns st = Some st'
    \<and> (\<forall>(a, p) \<in> set (bundle_ports env st ns). \<exists>p'. st_ports st' a = Some p' \<and> p' = p\<lparr>op_vmap := op_vmap p'\<rparr>
        \<and> vlan_view (en_lib env) sid (st_hw st') (nd_ifindex (op_netdev p)) (op_vmap p') =
            toggle_vlan vid add (vlan_view (en_lib env) sid (st_hw st) (nd_ifindex (op_netdev p)) (op_vmap p)))
    \<and> (\<forall>a. a \<notin> fst ` set (bundle_ports env st ns) \<longrightarrow> st_ports st' a = st_ports st a)
    \<and> (\<forall>q. q \<notin> (\<lambda>ap. nd_ifindex (op_netdev (snd ap))) ` set (bundle_ports env st ns) \<longrightarrow>
        port_vmap (en_lib env) (st_hw st') sid q = port_vmap (en_lib env) (st_hw st) sid q)
    \<and> (\<forall>q. vlan_wf (en_lib env) (st_hw st) sid q \<longrightarrow> vlan_wf (en_lib env) (st_hw st') sid q)
    \<and> st' = st\<lparr>st_hw := st_hw st', st_ports := st_ports st'\<rparr>"
  using assms(4-)
proof (induction ns arbitrary: st)
  case (Cons n ns)
  show ?case
  proof (cases "ops_fpa_get_ofport_by_pid env st (bn_intf_id (snd n))")
    case None
    then show ?thesis using Cons by simp
  next
    case (Some ap)
    obtain a p where ap: "ap = (a, p)" by (cases ap)
    let ?pid = "nd_ifindex (op_netdev p)" and ?ps = "bundle_ports env st ns"
    have ready: "vlan_ready env sid add st (a, p)" using Cons.prems(2) Some ap by simp
    have it: "add \<or> iteration_laws (en_lib env) (st_hw st)" using Cons.prems(1) dels_to.start [of "en_lib env" sid "st_hw st"] by blast
    obtain st1 p1 where 1: "set_vlan_port env sid vid add (a, p) st = Some st1"
      and st1: "st1 = st\<lparr>st_hw := st_hw st1, st_ports := (st_ports st)(a \<mapsto> p1)\<rparr>" and p1: "p1 = p\<lparr>op_vmap := op_vmap p1\<rparr>"
      and oth': "\<forall>q. q \<noteq> ?pid \<longrightarrow> port_vmap (en_lib env) (st_hw st1) sid q = port_vmap (en_lib env) (st_hw st) sid q"
      and wf': "\<forall>q. vlan_wf (en_lib env) (st_hw st) sid q \<longrightarrow> vlan_wf (en_lib env) (st_hw st1) sid q"
      and view: "vlan_view (en_lib env) sid (st_hw st1) ?pid (op_vmap p1) =
        toggle_vlan vid add (vlan_view (en_lib env) sid (st_hw st) ?pid (op_vmap p))"
      using set_vlan_port_effect [OF ok ids room it ready refl, of vid] by (elim exE conjE) (rule that)
    note oth = oth' [rule_format] and wf = wf' [rule_format]
    have a: "st_ports st a = Some p" using ready by (simp add: vlan_ready_def)
    have new: "a \<notin> fst ` set ?ps" "?pid \<notin> (\<lambda>ap. nd_ifindex (op_netdev (snd ap))) ` set ?ps"
      using Cons.prems(3,4) Some ap by (auto simp: image_iff)
    have d: "distinct (map fst ?ps)" "distinct (map (\<lambda>ap. nd_ifindex (op_netdev (snd ap))) ?ps)"
      using Cons.prems(3,4) Some ap by simp_all
    have ps: "bundle_ports env st1 ns = ?ps" by (subst st1) (rule bundle_ports_update [OF a new(1)])
    have ports1: "st_ports st1 = (st_ports st)(a \<mapsto> p1)" by (subst st1) simp
    have ready1: "\<forall>ap \<in> set (bundle_ports env st1 ns). vlan_ready env sid add st1 ap" unfolding ps
    proof
      fix bq assume m: "bq \<in> set ?ps"
      obtain b q where bq: "bq = (b, q)" by (cases bq)
      have ne: "b \<noteq> a" "nd_ifindex (op_netdev q) \<noteq> ?pid" using new m bq by (force, force)
      have "vlan_ready env sid add st (b, q)" using Cons.prems(2) Some m bq by simp
      then show "vlan_ready env sid add st1 bq"
        using ne wf oth [OF ne(2)] by (simp add: vlan_ready_def bq ports1 vlan_view_def)
    qed
    have it1: "add \<or> (\<forall>hw. dels_to (en_lib env) sid (st_hw st1) hw \<longrightarrow> iteration_laws (en_lib env) hw)"
    proof (cases add)
      case False
      with 1 have d1: "dels_to (en_lib env) sid (st_hw st) (st_hw st1)" by (intro set_vlan_port_dels) simp
      show ?thesis
      proof (intro disjI2 allI impI)
        fix hw assume "dels_to (en_lib env) sid (st_hw st1) hw"
        from dels_to_trans [OF this d1] show "iteration_laws (en_lib env) hw" using Cons.prems(1) False by simp
      qed
    qed simp
    obtain st' where 2: "set_vlan_loop env sid vid add ns st1 = Some st'"
      and v2: "\<forall>(b, q) \<in> set ?ps. \<exists>p'. st_ports st' b = Some p' \<and> p' = q\<lparr>op_vmap := op_vmap p'\<rparr>
        \<and> vlan_view (en_lib env) sid (st_hw st') (nd_ifindex (op_netdev q)) (op_vmap p') =
            toggle_vlan vid add (vlan_view (en_lib env) sid (st_hw st1) (nd_ifindex (op_netdev q)) (op_vmap q))"
      and s2': "\<forall>b. b \<notin> fst ` set ?ps \<longrightarrow> st_ports st' b = st_ports st1 b"
      and o2': "\<forall>q. q \<notin> (\<lambda>ap. nd_ifindex (op_netdev (snd ap))) ` set ?ps \<longrightarrow>
        port_vmap (en_lib env) (st_hw st') sid q = port_vmap (en_lib env) (st_hw st1) sid q"
      and w2: "\<forall>q. vlan_wf (en_lib env) (st_hw st1) sid q \<longrightarrow> vlan_wf (en_lib env) (st_hw st') sid q"
      and f2: "st' = st1\<lparr>st_hw := st_hw st', st_ports := st_ports st'\<rparr>"
      using Cons.IH [OF it1 ready1, unfolded ps, OF d] by (elim exE conjE) (rule that)
    note s2 = s2' [rule_format] and o2 = o2' [rule_format]
    have here: "st_ports st' a = Some p1" "vlan_view (en_lib env) sid (st_hw st') ?pid (op_vmap p1) =
        toggle_vlan vid add (vlan_view (en_lib env) sid (st_hw st) ?pid (op_vmap p))"
      using s2 [OF new(1)] ports1 view o2 [OF new(2)] by (simp_all add: vlan_view_def)
    have same: "vlan_view (en_lib env) sid (st_hw st1) (nd_ifindex (op_netdev q)) (op_vmap q) =
        vlan_view (en_lib env) sid (st_hw st) (nd_ifindex (op_netdev q)) (op_vmap q)" if "(b, q) \<in> set ?ps" for b q
      using oth new(2) that by (force simp: vlan_view_def)
    have B: "bundle_ports env st (n # ns) = (a, p) # ?ps" and L: "set_vlan_loop env sid vid add (n # ns) st = Some st'"
      using 1 2 Some ap by simp_all
    have "\<forall>(b, q) \<in> set ((a, p) # ?ps). \<exists>p'. st_ports st' b = Some p' \<and> p' = q\<lparr>op_vmap := op_vmap p'\<rparr>
        \<and> vlan_view (en_lib env) sid (st_hw st') (nd_ifindex (op_netdev q)) (op_vmap p') =
            toggle_vlan vid add (vlan_view (en_lib env) sid (st_hw st) (nd_ifindex (op_netdev q)) (op_vmap q))"
      using here p1 v2 same by auto
    moreover have "\<forall>b. b \<notin> fst ` set ((a, p) # ?ps) \<longrightarrow> st_ports st' b = st_ports st b"
      using s2 ports1 by simp
    moreover have "\<forall>q. q \<notin> (\<lambda>ap. nd_ifindex (op_netdev (snd ap))) ` set ((a, p) # ?ps) \<longrightarrow>
        port_vmap (en_lib env) (st_hw st') sid q = port_vmap (en_lib env) (st_hw st) sid q"
      using o2 oth by simp
    moreover have "\<forall>q. vlan_wf (en_lib env) (st_hw st) sid q \<longrightarrow> vlan_wf (en_lib env) (st_hw st') sid q" using wf w2 by blast
    moreover have "st' = st\<lparr>st_hw := st_hw st', st_ports := st_ports st'\<rparr>"
    proof -
      note f2
      also have "st1\<lparr>st_hw := h, st_ports := q\<rparr> = st\<lparr>st_hw := h, st_ports := q\<rparr>" for h q by (subst st1) simp
      finally show ?thesis .
    qed
    ultimately show ?thesis unfolding B L by - (intro exI [of _ st'] conjI, rule refl, assumption+)
  qed
qed simp



end
