(* ===== verification/Fpa_VlanConfig.thy ===== *)
theory Fpa_VlanConfig
  imports Fpa_SetVlan
begin

text \<open>
  The VLAN configuration of a bridge over time: what \<open>bundle_set\<close> leaves on a port, and what any sequence of
  \<open>ops_fpa_ofproto_set_vlan\<close> calls makes of it. The state of a configured port is a function of the VIDX that its
  settings ask for and of the VLANs that are enabled now, whatever the order in which they were enabled and disabled.
\<close>

section \<open>The configuration of the ports\<close>

text \<open>The VIDX of the VLANs that are enabled, and the state in which a port with the VIDX \<open>D\<close> is to be.\<close>

definition enabled_vidx :: "bitmap \<Rightarrow> u32 set" where
  "enabled_vidx vlans = {x. vlans (unat (OPS_FPA_VIDX_VID x))}"

definition vlan_target :: "bitmap \<Rightarrow> u32 set \<Rightarrow> u32 set \<times> u32 set" where
  "vlan_target vlans D = (D \<inter> enabled_vidx vlans, D - enabled_vidx vlans)"

lemma toggle_target: "toggle_vlan vid add (vlan_target vlans D) = vlan_target (vlans(unat vid := add)) D"
proof -
  have "enabled_vidx (vlans(unat vid := add)) = (if add then enabled_vidx vlans \<union> of_vlan vid else enabled_vidx vlans - of_vlan vid)"
    by (auto simp: enabled_vidx_def of_vlan_def word_unat_eq_iff)
  then show ?thesis by (auto simp: toggle_vlan_def vlan_target_def)
qed

text \<open>
  A port that is configured: the VIDX that its settings ask for are active where their VLAN is enabled and pending
  elsewhere. \<open>port_fit\<close> is what does not change: the numbers of the port fit, its
  OpenFlow number is its number in the switch (a disabling call deletes by the one and reads by the other), and no two VIDX
  have the same table entry.
\<close>

definition port_fit :: "u32 set \<Rightarrow> fpa_ofport \<Rightarrow> bool" where
  "port_fit D p \<longleftrightarrow> nd_ifindex (op_netdev p) \<noteq> 0 \<and> nd_ifindex (op_netdev p) \<le> 0xFFFF
     \<and> op_ofp_port p = nd_ifindex (op_netdev p) \<and> D \<subseteq> {x. x < 2 ^ 14} \<and> inj_on vidx_entry D"

definition port_configured :: "'hw plugin_env \<Rightarrow> u32 \<Rightarrow> bitmap \<Rightarrow> u32 set \<Rightarrow> 'hw plugin_state \<Rightarrow> nat \<times> fpa_ofport \<Rightarrow> bool" where
  "port_configured env sid vlans D st ap \<longleftrightarrow> st_ports st (fst ap) = Some (snd ap) \<and> port_fit D (snd ap)
     \<and> vlan_wf (en_lib env) (st_hw st) sid (nd_ifindex (op_netdev (snd ap)))
     \<and> vlan_view (en_lib env) sid (st_hw st) (nd_ifindex (op_netdev (snd ap))) (op_vmap (snd ap)) = vlan_target vlans D"

definition bridge_ports :: "'hw plugin_env \<Rightarrow> fpa_ofproto \<Rightarrow> 'hw plugin_state \<Rightarrow> (nat \<times> fpa_ofport) list" where
  "bridge_ports env this st = bundle_ports env st (en_bundle_order env (pr_bundles this))"

definition port_devices :: "(nat \<times> fpa_ofport) list \<Rightarrow> (nat \<times> netdev) list" where
  "port_devices ps = map (\<lambda>(a, p). (a, op_netdev p)) ps"

definition bridge_configured :: "'hw plugin_env \<Rightarrow> (nat \<Rightarrow> u32 set) \<Rightarrow> fpa_ofproto \<Rightarrow> 'hw plugin_state \<Rightarrow> bool" where
  "bridge_configured env D this st \<longleftrightarrow> distinct (map fst (bridge_ports env this st))
     \<and> distinct (map (\<lambda>ap. nd_ifindex (op_netdev (snd ap))) (bridge_ports env this st))
     \<and> (\<forall>ap \<in> set (bridge_ports env this st). port_configured env (pr_switch_id this) (pr_vlans this) (D (fst ap)) st ap)"

lemma configured_ready:
  assumes "port_configured env sid vlans D st ap"
  shows "vlan_ready env sid add st ap"
  using assms
  by (cases ap) (auto simp: port_configured_def port_fit_def vlan_ready_def view_ok_def vlan_target_def inj_on_def)

text \<open>The ports that the loop finds after a change of the VLAN maps are the same, with their new maps.\<close>

lemma bundle_ports_map:
  assumes st': "st' = st\<lparr>st_hw := hw', st_ports := ports'\<rparr>" and same: "\<And>a. ports' a = None \<longleftrightarrow> st_ports st a = None"
  shows "bundle_ports env st' ns = map (\<lambda>(a, p). (a, the (ports' a))) (bundle_ports env st ns)"
proof -
  have "ops_fpa_get_ofport_by_pid env st' i =
      map_option (\<lambda>(a, p). (a, the (ports' a))) (ops_fpa_get_ofport_by_pid env st i)" for i
  proof -
    have "map_option (Pair b) (ports' b) = map_option (\<lambda>(a, p). (a, the (ports' a))) (map_option (Pair b) (st_ports st b))" for b
      using same [of b] by (cases "ports' b"; cases "st_ports st b") simp_all
    then show ?thesis by (simp add: ops_fpa_get_ofport_by_pid_def st' split: option.split)
  qed
  then show ?thesis by (induction ns) (auto split: option.splits)
qed

lemma set_vlan_configured:
  assumes ok: "fpa_lib_ok (en_lib env)" and ids: "l2_id_laws (en_lib env)" and room: "vlan_room (en_lib env) (pr_switch_id this)"
    and it: "add \<or> (\<forall>hw. dels_to (en_lib env) (pr_switch_id this) (st_hw st) hw \<longrightarrow> iteration_laws (en_lib env) hw)"
    and c: "bridge_configured env D this st"
  shows "\<exists>st'. ops_fpa_ofproto_set_vlan env vid add this st = Some (0, this\<lparr>pr_vlans := (pr_vlans this)(unat vid := add)\<rparr>, st')
    \<and> bridge_configured env D (this\<lparr>pr_vlans := (pr_vlans this)(unat vid := add)\<rparr>) st'
    \<and> port_devices (bridge_ports env (this\<lparr>pr_vlans := (pr_vlans this)(unat vid := add)\<rparr>) st') =
        port_devices (bridge_ports env this st)"
proof -
  let ?lib = "en_lib env" and ?sid = "pr_switch_id this" and ?ps = "bridge_ports env this st"
    and ?pr = "this\<lparr>pr_vlans := (pr_vlans this)(unat vid := add)\<rparr>"
  have d: "distinct (map fst ?ps)" "distinct (map (\<lambda>ap. nd_ifindex (op_netdev (snd ap))) ?ps)"
    and pc: "\<forall>ap \<in> set ?ps. port_configured env ?sid (pr_vlans this) (D (fst ap)) st ap"
    using c by (simp_all add: bridge_configured_def)
  have ready: "\<forall>ap \<in> set ?ps. vlan_ready env ?sid add st ap" using pc configured_ready by blast
  obtain st' where l: "set_vlan_loop env ?sid vid add (en_bundle_order env (pr_bundles this)) st = Some st'"
    and v: "\<forall>(a, p) \<in> set ?ps. \<exists>p'. st_ports st' a = Some p' \<and> p' = p\<lparr>op_vmap := op_vmap p'\<rparr>
        \<and> vlan_view ?lib ?sid (st_hw st') (nd_ifindex (op_netdev p)) (op_vmap p') =
            toggle_vlan vid add (vlan_view ?lib ?sid (st_hw st) (nd_ifindex (op_netdev p)) (op_vmap p))"
    and out: "\<forall>a. a \<notin> fst ` set ?ps \<longrightarrow> st_ports st' a = st_ports st a"
    and wf: "\<forall>q. vlan_wf ?lib (st_hw st) ?sid q \<longrightarrow> vlan_wf ?lib (st_hw st') ?sid q"
    and fr: "st' = st\<lparr>st_hw := st_hw st', st_ports := st_ports st'\<rparr>"
    using set_vlan_loop_effect [OF ok ids room it ready [unfolded bridge_ports_def] d [unfolded bridge_ports_def], of vid]
    by (elim exE conjE) (rule that [unfolded bridge_ports_def]; assumption)
  have same: "st_ports st' a = None \<longleftrightarrow> st_ports st a = None" for a
    using v out pc by (cases "a \<in> fst ` set ?ps") (force simp: port_configured_def)+
  have ps': "bridge_ports env ?pr st' = map (\<lambda>(a, p). (a, the (st_ports st' a))) ?ps"
    using bundle_ports_map [OF fr same, of env "en_bundle_order env (pr_bundles this)"] by (simp add: bridge_ports_def)
  have one: "port_configured env ?sid (pr_vlans ?pr) (D a) st' (a, the (st_ports st' a))
      \<and> op_netdev (the (st_ports st' a)) = op_netdev p" if m: "(a, p) \<in> set ?ps" for a p
  proof -
    obtain p' where p': "st_ports st' a = Some p'" "p' = p\<lparr>op_vmap := op_vmap p'\<rparr>"
        "vlan_view ?lib ?sid (st_hw st') (nd_ifindex (op_netdev p)) (op_vmap p') =
          toggle_vlan vid add (vlan_view ?lib ?sid (st_hw st) (nd_ifindex (op_netdev p)) (op_vmap p))"
      using bspec [OF v m] unfolding prod.case by (elim exE conjE) (rule that)
    have eq: "op_netdev p' = op_netdev p" "op_ofp_port p' = op_ofp_port p" by (subst p'(2), simp)+
    have "port_configured env ?sid (pr_vlans this) (D a) st (a, p)" using bspec [OF pc m] by simp
    then show ?thesis using p'(1,3) wf eq by (simp add: port_configured_def port_fit_def toggle_target)
  qed
  have m: "map fst (bridge_ports env ?pr st') = map fst ?ps"
    "map (\<lambda>ap. nd_ifindex (op_netdev (snd ap))) (bridge_ports env ?pr st') = map (\<lambda>ap. nd_ifindex (op_netdev (snd ap))) ?ps"
    "port_devices (bridge_ports env ?pr st') = port_devices ?ps"
    unfolding ps' port_devices_def using one by (auto simp: split_beta)
  have "\<forall>ap \<in> set (bridge_ports env ?pr st'). port_configured env ?sid (pr_vlans ?pr) (D (fst ap)) st' ap"
    unfolding ps' using one by auto
  then have "bridge_configured env D ?pr st'" using d m by (simp add: bridge_configured_def)
  then show ?thesis using l m(3) by (simp add: ops_fpa_ofproto_set_vlan_def)
qed

text \<open>A sequence of calls; \<open>True\<close> enables.\<close>

primrec set_vlans ::
  "'hw plugin_env \<Rightarrow> (u32 \<times> bool) list \<Rightarrow> fpa_ofproto \<Rightarrow> 'hw plugin_state \<Rightarrow> (fpa_ofproto \<times> 'hw plugin_state) option" where
  "set_vlans env [] this st = Some (this, st)"
| "set_vlans env (c # cs) this st =
     (case ops_fpa_ofproto_set_vlan env (fst c) (snd c) this st of None \<Rightarrow> None
      | Some (ret, this, st) \<Rightarrow> set_vlans env cs this st)"

text \<open>The VLANs that a sequence leaves enabled: for each the last call counts.\<close>

definition enabled_after :: "bitmap \<Rightarrow> (u32 \<times> bool) list \<Rightarrow> bitmap" where
  "enabled_after vlans cs = foldl (\<lambda>v (vid, add). v(unat vid := add)) vlans cs"

lemma enabled_after_simps [simp]:
  "enabled_after v [] = v" "enabled_after v ((vid, add) # cs) = enabled_after (v(unat vid := add)) cs"
  by (simp_all add: enabled_after_def)

text \<open>Where a disabling call starts, the tables can be read, also after deletions.\<close>

definition readable_before ::
  "'hw plugin_env \<Rightarrow> (u32 \<times> bool) list \<Rightarrow> fpa_ofproto \<Rightarrow> 'hw plugin_state \<Rightarrow> bool" where
  "readable_before env cs this st \<longleftrightarrow>
     (\<forall>pre vid rest this' st' hw. cs = pre @ (vid, False) # rest \<longrightarrow> set_vlans env pre this st = Some (this', st') \<longrightarrow>
        dels_to (en_lib env) (pr_switch_id this) (st_hw st') hw \<longrightarrow> iteration_laws (en_lib env) hw)"


text \<open>Configuring a bridge port makes it configured, when VIDX of VLANs that are not enabled were not active.\<close>

lemma bundle_set_l2_configured:
  assumes ok: "fpa_lib_ok (en_lib env)" and ids: "l2_id_laws (en_lib env)"
    and it: "iteration_laws (en_lib env) (st_hw st)" and room: "vlan_room (en_lib env) sid"
    and sid: "sid = pr_switch_id this"
    and port: "ops_fpa_get_ofport_by_pid env st (bn_intf_id (snd n)) = Some (a, p)"
    and pid: "pid = nd_ifindex (op_netdev p)" "pid \<noteq> 0" "pid \<le> 0xFFFF"
    and wf: "vlan_wf (en_lib env) (st_hw st) sid pid"
    and cfg: "bs_vlan_mode cfg = PORT_VLAN_TRUNK \<or> bs_vlan cfg < 4096"
    and inj: "inj_on vidx_entry (port_vmap (en_lib env) (st_hw st) sid pid \<union> desired_vidx cfg)"
    and act: "port_vmap (en_lib env) (st_hw st) sid pid \<subseteq> enabled_vidx (pr_vlans this)"
  shows "\<exists>st' p'. bundle_set_l2 env n cfg this st = Some (Inr st') \<and> st_ports st' a = Some p'
    \<and> vlan_view (en_lib env) sid (st_hw st') pid (op_vmap p') = vlan_target (pr_vlans this) (desired_vidx cfg)"
proof -
  let ?V = "port_vmap (en_lib env) (st_hw st) sid pid"
  obtain st' p' where r: "bundle_set_l2 env n cfg this st = Some (Inr st')" "st_ports st' a = Some p'"
      "port_vmap (en_lib env) (st_hw st') sid pid =
        {x. if pr_vlans this (unat (OPS_FPA_VIDX_VID x)) then x \<in> desired_vidx cfg else x \<in> ?V}"
      "\<forall>j. op_vmap p' j \<longleftrightarrow> (\<exists>x \<in> desired_vidx cfg - ?V. j = unat x \<and> \<not> pr_vlans this (unat (OPS_FPA_VIDX_VID x)))"
    using bundle_set_l2_effect [OF ok ids it room sid port pid wf cfg inj] by (elim exE conjE) (rule that)
  have "port_vmap (en_lib env) (st_hw st') sid pid = desired_vidx cfg \<inter> enabled_vidx (pr_vlans this)"
    unfolding r(3) using act by (auto simp: enabled_vidx_def)
  moreover have "{x. op_vmap p' (unat x)} = desired_vidx cfg - enabled_vidx (pr_vlans this)"
    using act r(4) by (auto simp: enabled_vidx_def word_unat_eq_iff [symmetric])
  ultimately show ?thesis using r(1,2) by (auto simp: vlan_view_def vlan_target_def)
qed

section \<open>An example\<close>

lemma sim_dels_length:
  assumes "dels_to (sim_lib full gfull) sid hw hw'"
  shows "length (sim_flows hw' s t) \<le> length (sim_flows hw s t)"
  using assms
proof induction
  case (del hw' pid x ret hw'')
  have "length (sim_flows hw'' s t) \<le> length (sim_flows hw' s t)"
    using del(2) by (auto simp: ops_fpa_vlan_del_def sim_defs Let_def split: if_splits prod.splits)
  then show ?case using del(3) by simp
qed simp


end
