(* ===== verification/Fpa_L3.thy ===== *)
theory Fpa_L3
  imports Fpa_Ofproto
begin

text \<open>
  Hosts and routes of \<open>src/ops-fpa-ofproto.c\<close>: what adding and deleting a directly connected host does to
  the switch, the ARP indices, the host table and the bundle, and what adding a route does to the route
  table. The operations are in \<open>Fpa_Ofproto\<close>; the results here compose the group and route operations of
  \<open>ops-fpa-route.c\<close>, the index pool and the host table.
\<close>

section \<open>Directly connected hosts\<close>

lemma bucket_refers_simps [simp]:
  "bucket_refers (l2_bucket gid pid t) k = False"
  "bucket_refers (l3_bucket gid d s vid mtu r) k \<longleftrightarrow> r = k"
  by (simp_all add: bucket_refers_def l2_bucket_def l3_bucket_def)

text \<open>The steps of a host that was installed.\<close>

lemma host_installD:
  assumes "host_install env l3 mtu src dst egress ip m st = Inr (0, st')"
  obtains l2 l3g i arp hw1 hw2 hw3 where
    "ops_fpa_route_add_l2_group (en_lib env) (li_switchId l3) egress (ucast (li_vlan_id l3)) False (st_hw st) = (0, l2, hw1)"
    and "arp_index_alloc (st_arp_indices st) = Some (i, arp)"
    and "ops_fpa_route_add_l3_group (en_lib env) (li_switchId l3) l2 (of_nat i) (ucast (li_vlan_id l3)) mtu src dst hw1
      = (0, l3g, hw2)"
    and "ops_fpa_route_add_route (en_lib env) (li_switchId l3) l3g ip m hw2 = Inr (0, hw3)"
    and "st' = st\<lparr>st_hw := hw3, st_arp_indices := arp,
      st_host_table := host_table_add (en_host env) ip i l3g l2 (st_host_table st)\<rparr>"
  using assms unfolding host_install_def
  by (auto simp: Let_def split: prod.splits option.splits sum.splits if_splits)

text \<open>
  What a host needs before it is installed: its identifiers are valid, its L2 group is not there,
  nothing refers to its two groups, and no route has its cookie.
\<close>

definition host_fresh :: "'hw fpa_lib \<Rightarrow> 'hw \<Rightarrow> u32 \<Rightarrow> u32 \<Rightarrow> u32 \<Rightarrow> nat \<Rightarrow> u64 \<Rightarrow> bool" where
  "host_fresh lib hw sid egress vid i c \<longleftrightarrow>
     (\<exists>l2 l3g. fpaLibGroupIdentifierBuild lib (l2_ident egress vid) = (FPA_OK, l2)
        \<and> fpaLibGroupIdentifierBuild lib (l3_ident (of_nat i)) = (FPA_OK, l3g)
        \<and> groups_of lib hw sid l2 = None
        \<and> \<not> group_in_use (flows_of lib hw) (groups_of lib hw) sid l2
        \<and> \<not> group_in_use (flows_of lib hw) (groups_of lib hw) sid l3g)
     \<and> (\<forall>f \<in> flows_of lib hw sid FPA_FLOW_TABLE_TYPE_L3_UNICAST_E. fl_cookie f \<noteq> c)"

lemma del_group_effect:
  assumes "fpa_lib_ok lib" and "groups_of lib hw sid gid \<noteq> None"
    and "\<not> group_in_use (flows_of lib hw) (groups_of lib hw) sid gid"
  shows "flows_of lib (snd (ops_fpa_route_del_group lib sid gid hw)) = flows_of lib hw"
    and "groups_of lib (snd (ops_fpa_route_del_group lib sid gid hw)) = set_group sid gid None (groups_of lib hw)"
  using gwrapped.gdel_effect [OF assms] gwrapped.gdel_flows [OF assms(1)]
  by (auto simp: ops_fpa_route_del_group_def split: prod.splits)

text \<open>The two groups of a host, as the switch shows them.\<close>

definition host_l2_view :: "u32 \<Rightarrow> u32 \<Rightarrow> group_view" where
  "host_l2_view l2 egress = \<lparr>gv_semantics = FPA_GROUP_INDIRECT, gv_buckets = [0 \<mapsto> l2_bucket l2 egress False]\<rparr>"

definition host_l3_view :: "u32 \<Rightarrow> eth_addr \<Rightarrow> eth_addr \<Rightarrow> u32 \<Rightarrow> u32 \<Rightarrow> u32 \<Rightarrow> group_view" where
  "host_l3_view l3g dst src vid mtu l2 =
     \<lparr>gv_semantics = FPA_GROUP_INDIRECT, gv_buckets = [0 \<mapsto> l3_bucket l3g dst src vid mtu l2]\<rparr>"

lemma host_views_use:
  "group_in_use F (set_group sid l2 (Some (host_l2_view l2 egress)) G) sid k \<Longrightarrow> group_in_use F G sid k"
  "r \<noteq> k \<Longrightarrow> group_in_use F (set_group sid l3g (Some (host_l3_view l3g dst src vid mtu r)) G) sid k
    \<Longrightarrow> group_in_use F G sid k"
  by (erule group_in_use_set, auto simp: host_l2_view_def host_l3_view_def split: if_splits)+

lemma host_install_effect:
  assumes ok: "fpa_lib_ok (en_lib env)"
    and fresh: "host_fresh (en_lib env) (st_hw st) (li_switchId l3) egress (ucast (li_vlan_id l3))
      (st_arp_indices st ! 0) (OPS_FPA_ROUTE_IPV4_COOKIE ip m)"
    and add: "host_install env l3 mtu src dst egress ip m st = Inr (0, st1)"
  obtains l2 l3g i arp f where "l3g \<noteq> l2"
    and "groups_of (en_lib env) (st_hw st) (li_switchId l3) l2 = None"
    and "groups_of (en_lib env) (st_hw st) (li_switchId l3) l3g = None"
    and "\<not> group_in_use (flows_of (en_lib env) (st_hw st)) (groups_of (en_lib env) (st_hw st)) (li_switchId l3) l2"
    and "\<not> group_in_use (flows_of (en_lib env) (st_hw st)) (groups_of (en_lib env) (st_hw st)) (li_switchId l3) l3g"
    and "arp_index_alloc (st_arp_indices st) = Some (i, arp)"
    and "fl_cookie f = OPS_FPA_ROUTE_IPV4_COOKIE ip m \<and> l3_groupId (fl_l3_unicast f) = l3g \<and> l3_dstIp4 (fl_l3_unicast f) = ip"
    and "flows_of (en_lib env) (st_hw st1) =
      insert_flow (li_switchId l3) FPA_FLOW_TABLE_TYPE_L3_UNICAST_E f (flows_of (en_lib env) (st_hw st))"
    and "groups_of (en_lib env) (st_hw st1) =
      set_group (li_switchId l3) l3g (Some (host_l3_view l3g dst src (ucast (li_vlan_id l3)) mtu l2))
        (set_group (li_switchId l3) l2 (Some (host_l2_view l2 egress)) (groups_of (en_lib env) (st_hw st)))"
    and "st1 = st\<lparr>st_hw := st_hw st1, st_arp_indices := arp,
      st_host_table := host_table_add (en_host env) ip i l3g l2 (st_host_table st)\<rparr>"
proof -
  let ?lib = "en_lib env" and ?sid = "li_switchId l3"
  let ?F = "flows_of ?lib (st_hw st)" and ?G = "groups_of ?lib (st_hw st)"
  obtain l2 l3g i arp hw1 hw2 hw3 where
    s1: "ops_fpa_route_add_l2_group ?lib ?sid egress (ucast (li_vlan_id l3)) False (st_hw st) = (0, l2, hw1)"
    and s2: "arp_index_alloc (st_arp_indices st) = Some (i, arp)"
    and s3: "ops_fpa_route_add_l3_group ?lib ?sid l2 (of_nat i) (ucast (li_vlan_id l3)) mtu src dst hw1 = (0, l3g, hw2)"
    and s4: "ops_fpa_route_add_route ?lib ?sid l3g ip m hw2 = Inr (0, hw3)"
    and st1: "st1 = st\<lparr>st_hw := hw3, st_arp_indices := arp,
      st_host_table := host_table_add (en_host env) ip i l3g l2 (st_host_table st)\<rparr>"
    by (rule host_installD [OF add]) blast
  have i: "st_arp_indices st ! 0 = i" using s2 by (auto simp: arp_index_alloc_def Let_def split: if_splits)
  from fresh obtain gl2 gl3 where f: "fpaLibGroupIdentifierBuild ?lib (l2_ident egress (ucast (li_vlan_id l3))) = (FPA_OK, gl2)"
    "fpaLibGroupIdentifierBuild ?lib (l3_ident (of_nat i)) = (FPA_OK, gl3)"
    "?G ?sid gl2 = None" "\<not> group_in_use ?F ?G ?sid gl2" "\<not> group_in_use ?F ?G ?sid gl3"
    by (auto simp: host_fresh_def i)
  have e1: "l2 = gl2" "flows_of ?lib hw1 = ?F" "groups_of ?lib hw1 = set_group ?sid gl2 (Some (host_l2_view gl2 egress)) ?G"
    using add_l2_group_effect [OF ok f(1,3,4) s1] by (simp_all add: host_l2_view_def)
  have "\<not> group_in_use (flows_of ?lib hw1) (groups_of ?lib hw1) ?sid gl3" using f(5) e1 host_views_use(1) by metis
  then have e3: "l3g = gl3" "flows_of ?lib hw2 = ?F" "groups_of ?lib hw1 ?sid gl3 = None"
    "groups_of ?lib hw2 = set_group ?sid gl3 (Some (host_l3_view gl3 dst src (ucast (li_vlan_id l3)) mtu gl2)) (groups_of ?lib hw1)"
    using add_l3_group_effect [OF ok f(2) _ s3] e1 by (simp_all add: host_l3_view_def)
  have ne: "gl3 \<noteq> gl2" "?G ?sid gl3 = None" using e3(3) e1(3) by (auto simp: set_group_def split: if_splits)
  obtain entry nm where e4: "flows_of ?lib hw3 = insert_flow ?sid FPA_FLOW_TABLE_TYPE_L3_UNICAST_E
      (route_flow entry l3g 0 ip m nm) (flows_of ?lib hw2)" "groups_of ?lib hw3 = groups_of ?lib hw2"
    using add_routeD [OF ok s4] by metis
  show ?thesis
    by (rule that [of gl3 gl2 i arp "route_flow entry l3g 0 ip m nm"])
      (use ne f e1 e3 e4 s2 st1 in \<open>simp_all add: route_flow_def\<close>)
qed

text \<open>Removing a host that was just installed takes its route and both groups out again.\<close>

lemma host_uninstall_effect:
  assumes ok: "fpa_lib_ok (en_lib env)" and ne: "l3g \<noteq> l2" and none: "G sid l2 = None" "G sid l3g = None"
    and use: "\<not> group_in_use F G sid l2" "\<not> group_in_use F G sid l3g"
    and f: "fl_cookie f = OPS_FPA_ROUTE_IPV4_COOKIE ip m"
    and c: "\<forall>g \<in> F sid FPA_FLOW_TABLE_TYPE_L3_UNICAST_E. fl_cookie g \<noteq> OPS_FPA_ROUTE_IPV4_COOKIE ip m"
    and F1: "flows_of (en_lib env) (st_hw st) = insert_flow sid FPA_FLOW_TABLE_TYPE_L3_UNICAST_E f F"
    and G1: "groups_of (en_lib env) (st_hw st) = set_group sid l3g (Some (host_l3_view l3g dst src vid mtu l2))
        (set_group sid l2 (Some (host_l2_view l2 egress)) G)"
    and e: "ht_l3_group (snd e) = l3g" "ht_l2_group (snd e) = l2"
    and u: "host_uninstall env sid ip m e st = st2"
  shows "flows_of (en_lib env) (st_hw st2) = F \<and> groups_of (en_lib env) (st_hw st2) = G
    \<and> st2 = st\<lparr>st_hw := st_hw st2, st_arp_indices := arp_index_release (ht_arp_index (snd e)) (st_arp_indices st),
        st_host_table := hmap_remove (st_host_table st) e\<rparr>"
proof -
  let ?lib = "en_lib env" and ?G2 = "set_group sid l2 (Some (host_l2_view l2 egress)) G"
  obtain r4 hw4 where d1: "ops_fpa_route_del_route ?lib sid ip m (st_hw st) = (r4, hw4)" by fastforce
  obtain r5 hw5 where d2: "ops_fpa_route_del_group ?lib sid l3g hw4 = (r5, hw5)" by fastforce
  obtain r6 hw6 where d3: "ops_fpa_route_del_group ?lib sid l2 hw5 = (r6, hw6)" by fastforce
  have mem: "f \<in> flows_of ?lib (st_hw st) sid FPA_FLOW_TABLE_TYPE_L3_UNICAST_E" by (simp add: F1 insert_flow_def)
  obtain err where w: "wrap_fpaLibFlowTableCookieDelete ?lib sid FPA_FLOW_TABLE_TYPE_L3_UNICAST_E
      (OPS_FPA_ROUTE_IPV4_COOKIE ip m) (st_hw st) = (err, hw4)"
    using d1 by (auto simp: ops_fpa_route_del_route_def split: prod.splits)
  have e4: "flows_of ?lib hw4 = F" "groups_of ?lib hw4 = groups_of ?lib (st_hw st)"
    using wrapped.del_effect(2) [OF ok mem f w] wrapped.del_groups [OF ok w] F1
      delete_insert_flow [of f _ F sid, OF f c] by simp_all
  have "\<not> group_in_use F ?G2 sid l3g" using use(2) host_views_use(1) by metis
  then have "\<not> group_in_use (flows_of ?lib hw4) (groups_of ?lib hw4) sid l3g"
    using host_views_use(2) ne e4 G1 by metis
  then have e5: "flows_of ?lib hw5 = F" "groups_of ?lib hw5 = ?G2"
    using del_group_effect [OF ok, of hw4 sid l3g] e4 G1 d2 ne none by (simp_all add: set_group_id set_group_other)
  then have "\<not> group_in_use (flows_of ?lib hw5) (groups_of ?lib hw5) sid l2" using use(1) host_views_use(1) by metis
  then have "flows_of ?lib hw6 = F" "groups_of ?lib hw6 = G"
    using del_group_effect [OF ok, of hw5 sid l2] e5 d3 none by (simp_all add: set_group_id)
  then show ?thesis
    using u by (auto simp: host_uninstall_def host_table_delete_def Let_def d1 d2 d3 e)
qed

lemma host_install_uninstall:
  assumes ok: "fpa_lib_ok (en_lib env)" and arp: "arp_rep (st_arp_indices st) L"
    and fresh: "host_fresh (en_lib env) (st_hw st) (li_switchId l3) egress (ucast (li_vlan_id l3))
      (st_arp_indices st ! 0) (OPS_FPA_ROUTE_IPV4_COOKIE ip m)"
    and add: "host_install env l3 mtu src dst egress ip m st = Inr (0, st1)"
  obtains e where "st_host_table st1 = host_table_insert (en_host env) e (st_host_table st)" and "ht_ipv4_addr e = ip"
    and "\<And>st2. host_uninstall env (li_switchId l3) ip m (host_table_key (en_host env) ip, e) st1 = st2 \<Longrightarrow>
      st2 = st\<lparr>st_hw := st_hw st2\<rparr> \<and> flows_of (en_lib env) (st_hw st2) = flows_of (en_lib env) (st_hw st)
      \<and> groups_of (en_lib env) (st_hw st2) = groups_of (en_lib env) (st_hw st)"
proof -
  obtain l2 l3g i arp f where e: "l3g \<noteq> l2"
    "groups_of (en_lib env) (st_hw st) (li_switchId l3) l2 = None"
    "groups_of (en_lib env) (st_hw st) (li_switchId l3) l3g = None"
    "\<not> group_in_use (flows_of (en_lib env) (st_hw st)) (groups_of (en_lib env) (st_hw st)) (li_switchId l3) l2"
    "\<not> group_in_use (flows_of (en_lib env) (st_hw st)) (groups_of (en_lib env) (st_hw st)) (li_switchId l3) l3g"
    and a: "arp_index_alloc (st_arp_indices st) = Some (i, arp)"
    and f: "fl_cookie f = OPS_FPA_ROUTE_IPV4_COOKIE ip m \<and> l3_groupId (fl_l3_unicast f) = l3g \<and> l3_dstIp4 (fl_l3_unicast f) = ip"
    and v: "flows_of (en_lib env) (st_hw st1) =
      insert_flow (li_switchId l3) FPA_FLOW_TABLE_TYPE_L3_UNICAST_E f (flows_of (en_lib env) (st_hw st))"
    "groups_of (en_lib env) (st_hw st1) =
      set_group (li_switchId l3) l3g (Some (host_l3_view l3g dst src (ucast (li_vlan_id l3)) mtu l2))
        (set_group (li_switchId l3) l2 (Some (host_l2_view l2 egress)) (groups_of (en_lib env) (st_hw st)))"
    and st1: "st1 = st\<lparr>st_hw := st_hw st1, st_arp_indices := arp,
      st_host_table := host_table_add (en_host env) ip i l3g l2 (st_host_table st)\<rparr>"
    by (rule host_install_effect [OF ok fresh add])
  let ?e = "\<lparr>ht_ipv4_addr = ip, ht_arp_index = i, ht_l3_group = l3g, ht_l2_group = l2\<rparr>"
  have t: "st_host_table st1 = host_table_insert (en_host env) ?e (st_host_table st)" "st_arp_indices st1 = arp"
    using arg_cong [OF st1, of st_host_table] arg_cong [OF st1, of st_arp_indices]
    by (simp_all add: host_table_add_def)
  have c: "\<forall>g \<in> flows_of (en_lib env) (st_hw st) (li_switchId l3) FPA_FLOW_TABLE_TYPE_L3_UNICAST_E.
      fl_cookie g \<noteq> OPS_FPA_ROUTE_IPV4_COOKIE ip m" using fresh by (simp add: host_fresh_def)
  have undo: "st1\<lparr>st_hw := x, st_arp_indices := st_arp_indices st, st_host_table := st_host_table st\<rparr> = st\<lparr>st_hw := x\<rparr>"
    for x by (subst st1) simp
  have f1: "fl_cookie f = OPS_FPA_ROUTE_IPV4_COOKIE ip m" using f by simp
  show ?thesis
  proof (rule that [OF t(1)])
    fix st2
    assume u: "host_uninstall env (li_switchId l3) ip m (host_table_key (en_host env) ip, ?e) st1 = st2"
    have "flows_of (en_lib env) (st_hw st2) = flows_of (en_lib env) (st_hw st)
      \<and> groups_of (en_lib env) (st_hw st2) = groups_of (en_lib env) (st_hw st)
      \<and> st2 = st1\<lparr>st_hw := st_hw st2, st_arp_indices := arp_index_release i (st_arp_indices st1),
        st_host_table := hmap_remove (st_host_table st1) (host_table_key (en_host env) ip, ?e)\<rparr>"
      using host_uninstall_effect [OF ok e f1 c v _ _ u] by simp
    then show "st2 = st\<lparr>st_hw := st_hw st2\<rparr> \<and> flows_of (en_lib env) (st_hw st2) = flows_of (en_lib env) (st_hw st)
      \<and> groups_of (en_lib env) (st_hw st2) = groups_of (en_lib env) (st_hw st)"
      using t arp_release_alloc [OF arp a] undo [of "st_hw st2"] by (simp add: host_table_insert_def)
  qed simp
qed

text \<open>Searching a bundle by its key: the record is found again after it was changed in place.\<close>

definition bundles_ok :: "'hw plugin_env \<Rightarrow> fpa_ofproto \<Rightarrow> bool" where
  "bundles_ok env this \<longleftrightarrow> visits_all (en_bundle_order env) \<and> unique_keys bn_aux (pr_bundles this)
     \<and> hashed_by (\<lambda>b. en_hash_pointer env (bn_aux b)) (pr_bundles this)"

lemma find_bundle_mem:
  assumes ok: "bundles_ok env this" and find: "ops_fpa_find_bundle env this aux = Some n"
  shows "n \<in> set (pr_bundles this)" and "bn_aux (snd n) = aux"
proof -
  have v: "visits_all (en_bundle_order env)" using ok by (simp add: bundles_ok_def)
  note d = find_order_SomeD [OF v find [unfolded ops_fpa_find_bundle_def hmap_search_bucket_def]]
  show "n \<in> set (pr_bundles this)" and "bn_aux (snd n) = aux" using d by simp_all
qed

lemma find_bundle_unique:
  assumes "bundles_ok env this" and "n \<in> set (pr_bundles this)" and "bn_aux (snd n) = aux"
  shows "ops_fpa_find_bundle env this aux = Some n"
proof (cases "ops_fpa_find_bundle env this aux")
  case None
  then show ?thesis
    using assms find_order_None [of "en_bundle_order env"]
    by (force simp: ops_fpa_find_bundle_def hmap_search_bucket_def bundles_ok_def hashed_by_def)
next
  case (Some k)
  then have "k \<in> set (pr_bundles this)" "bn_aux (snd k) = aux"
    using find_bundle_mem [OF assms(1)] by simp_all
  with assms have "k = n" unfolding bundles_ok_def unique_keys_def distinct_map inj_on_def by blast
  with Some show ?thesis by simp
qed

lemma bundles_ok_replace:
  assumes "bundles_ok env this" and "n \<in> set (pr_bundles this)" and "bn_aux b = bn_aux (snd n)"
  shows "bundles_ok env (this\<lparr>pr_bundles := hmap_replace (pr_bundles this) n b\<rparr>)"
proof -
  have "unique_keys bn_aux (hmap_replace m n b) = unique_keys bn_aux m" for m
  proof -
    have "map (\<lambda>x. bn_aux (snd x)) (hmap_replace m n b) = map (\<lambda>x. bn_aux (snd x)) m"
      using assms(3) by (auto simp: hmap_replace_def)
    then show ?thesis by (simp only: unique_keys_def)
  qed
  with assms show ?thesis by (auto simp: bundles_ok_def hashed_by_def hmap_replace_def)
qed

lemma hmap_replace_undo:
  assumes "(fst n, v) \<notin> set m"
  shows "hmap_replace (hmap_replace m n v) (fst n, v) (snd n) = m"
  unfolding hmap_replace_def map_map by (rule map_idI) (use assms in auto)

lemma hmap_replace_mem: "n \<in> set m \<Longrightarrow> (fst n, v) \<in> set (hmap_replace m n v)"
  by (force simp: hmap_replace_def)

lemma find_bundle_replace:
  assumes ok: "bundles_ok env this" and find: "ops_fpa_find_bundle env this aux = Some n" and b: "bn_aux b = aux"
  shows "ops_fpa_find_bundle env (this\<lparr>pr_bundles := hmap_replace (pr_bundles this) n b\<rparr>) aux = Some (fst n, b)"
    and "b \<noteq> snd n \<Longrightarrow> (fst n, b) \<notin> set (pr_bundles this)"
proof -
  note mem = find_bundle_mem [OF ok find]
  show "ops_fpa_find_bundle env (this\<lparr>pr_bundles := hmap_replace (pr_bundles this) n b\<rparr>) aux = Some (fst n, b)"
    by (rule find_bundle_unique [OF bundles_ok_replace [OF ok mem(1)]])
      (use mem b hmap_replace_mem [OF mem(1)] in simp_all)
  show "(fst n, b) \<notin> set (pr_bundles this)" if "b \<noteq> snd n"
    using find_bundle_unique [OF ok, of "(fst n, b)" aux] find b that by (auto simp: prod_eq_iff)
qed

lemma add_l3_host_entryD:
  assumes "add_l3_host_entry env this aux v6 ip mac e st = Inr (0, e', this1, st1)"
    and "ops_fpa_find_bundle env this aux = Some n" and "bn_l3_intf (snd n) = Some l3"
  obtains mtu src dst ipv4 where "ops_fpa_str2ip ip = Some (ipv4, 32)"
    and "host_install env l3 mtu src dst e' ipv4 32 st = Inr (0, st1)"
    and "this1 = this\<lparr>pr_bundles := hmap_replace (pr_bundles this) n
           ((snd n)\<lparr>bn_l3_intf := Some (l3\<lparr>li_routes_count := li_routes_count l3 + 1\<rparr>)\<rparr>)\<rparr>"
  using assms unfolding add_l3_host_entry_def
  by (auto simp: Let_def split: if_splits option.splits prod.splits sum.splits)


lemma sample_arp_head: "arp_indices_init ! 0 = 1"
  unfolding arp_indices_init_def by (subst nth_map) simp_all

lemma sample_arp: "\<exists>ys. arp_index_alloc arp_indices_init = Some (1, ys)"
  by (simp add: arp_index_alloc_def sample_arp_head)

lemma sample_find_bundle [simp]:
  "ops_fpa_find_bundle (sample_env full gfull) (sample_proto typ l3) 9 = Some (9, sample_bundle l3)"
  by (simp add: ops_fpa_find_bundle_def hmap_search_bucket_def sample_env_def sample_proto_def sample_bundle_def)

lemma sample_bundles_ok: "bundles_ok (sample_env full gfull) (sample_proto typ l3)"
  by (simp add: bundles_ok_def sample_env_def sample_proto_def sample_bundle_def unique_keys_def hashed_by_def)

definition sample_ip :: string where
  "sample_ip = ops_fpa_ip2str 0x0100000A"

lemma sample_str2ip: "ops_fpa_str2ip sample_ip = Some (0x0100000A, 32)"
  by (simp add: sample_ip_def str2ip_of_ip2str)

lemma sample_host_fresh: "host_fresh (sim_lib full gfull) sim_empty 0 5 1024 1 c"
  by (simp add: host_fresh_def sim_empty_def group_in_use_def l2_ident_def l3_ident_def sim_defs)

lemma sample_host_install:
  "\<exists>st1. host_install (sample_env full False) sample_l3 1500 src dst 5 0x0100000A 32 (sample_state sim_empty) =
     Inr (if FPA_FLOW_TABLE_TYPE_L3_UNICAST_E \<in> full then EINVAL else 0, st1)"
proof -
  obtain ys where ys: "arp_index_alloc arp_indices_init = Some (1, ys)" using sample_arp by blast
  show ?thesis
    by (simp add: host_install_def sample_l3_def sample_state_def ys ops_fpa_route_add_l2_group_def
        ops_fpa_route_add_l3_group_def ops_fpa_route_add_route_def ops_fpa_route_del_group_def
        wrap_fpaLibGroupTableEntryAdd_def wrap_fpaLibGroupEntryBucketAdd_def wrap_fpaLibFlowEntryAdd_def
        wrap_fpaLibGroupTableEntryDelete_def
        route_netmask_def sim_defs sim_empty_def l2_ident_def l3_ident_def)
qed

lemma sample_host_add:
  "\<exists>this1 st1. add_l3_host_entry (sample_env full False) (sample_proto ''vrf'' (Some sample_l3)) 9 False
       sample_ip (Some ''mac'') 0 (sample_state sim_empty) =
     Inr (if FPA_FLOW_TABLE_TYPE_L3_UNICAST_E \<in> full then EINVAL else 0, 5, this1, st1)"
proof -
  have p: "bn_intf_id (sample_bundle l3) = 5" "bn_l3_intf (sample_bundle l3) = l3" "op_mtu sample_port = 1500" for l3
    by (simp_all add: sample_bundle_def sample_port_def)
  have e: "host_egress (sample_env full False) (sample_state sim_empty) sample_l3 d = Inr 5" for d
    by (simp add: host_egress_def ops_fpa_vlan_internal_def sample_state_def sample_l3_def)
  have m: "en_eth_addr_from_string (sample_env full False) ''mac'' = Some (Eth 0 1 2 3 4 5)"
    by (simp add: sample_env_def)
  show ?thesis
    using sample_host_install [of full "nd_etheraddr (op_netdev sample_port)" "Eth 0 1 2 3 4 5"]
    by (auto simp: add_l3_host_entry_def p e m sample_str2ip split: if_splits)
qed


text \<open>No group operation touches a flow table.\<close>

lemma group_ops_flows:
  assumes "fpa_lib_ok lib"
  shows "flows_of lib (snd (snd (ops_fpa_route_add_l2_group lib sid pid vid t hw))) = flows_of lib hw"
    and "flows_of lib (snd (snd (ops_fpa_route_add_l3_group lib sid l2 i vid mtu src dst hw))) = flows_of lib hw"
    and "flows_of lib (snd (ops_fpa_route_del_group lib sid gid hw)) = flows_of lib hw"
  using graw.gadd_flows [OF assms] graw.badd_flows [OF assms] graw.gdel_flows [OF assms]
    gwrapped.gadd_flows [OF assms] gwrapped.badd_flows [OF assms] gwrapped.gdel_flows [OF assms]
  by (simp_all add: ops_fpa_route_add_l2_group_def ops_fpa_route_add_l3_group_def ops_fpa_route_del_group_def
      Let_def split: prod.splits)

lemma add_route_fail_flows:
  assumes "fpa_lib_ok lib" and "ops_fpa_route_add_route lib sid g ip m hw = Inr (err, hw')" and "err \<noteq> 0"
  shows "flows_of lib hw' = flows_of lib hw"
  using assms wrapped.add_flows [OF assms(1)]
  by (auto simp: ops_fpa_route_add_route_def Let_def split: prod.splits if_splits sum.splits)

lemma host_install_fail:
  assumes ok: "fpa_lib_ok (en_lib env)" and inst: "host_install env l3 mtu src dst e ip m st = Inr (ret, st1)"
    and fail: "ret \<noteq> 0"
  shows "st_host_table st1 = st_host_table st
    \<and> flows_of (en_lib env) (st_hw st1) = flows_of (en_lib env) (st_hw st)
    \<and> (st_arp_indices st1 = st_arp_indices st
       \<or> (\<exists>i. arp_index_alloc (st_arp_indices st) = Some (i, st_arp_indices st1)))"
proof -
  let ?lib = "en_lib env" and ?sid = "li_switchId l3" and ?vid = "ucast (li_vlan_id l3)"
  obtain r1 l2 hw1 where s1: "ops_fpa_route_add_l2_group ?lib ?sid e ?vid False (st_hw st) = (r1, l2, hw1)"
    by (metis surj_pair)
  have f1: "flows_of ?lib hw1 = flows_of ?lib (st_hw st)"
    using group_ops_flows(1) [OF ok, of ?sid e ?vid False "st_hw st"] s1 by simp
  note del = group_ops_flows(3) [OF ok, of ?sid]
  show ?thesis
  proof (cases "r1 = 0")
    case False
    then show ?thesis using inst s1 f1 by (auto simp: host_install_def)
  next
    case l2: True
    show ?thesis
    proof (cases "arp_index_alloc (st_arp_indices st)")
      case None
      then show ?thesis using inst l2 s1 f1 del [of l2 hw1] by (auto simp: host_install_def split: prod.splits)
    next
      case (Some ia)
      obtain i arp where ia: "ia = (i, arp)" by fastforce
      obtain r3 l3g hw2 where s3: "ops_fpa_route_add_l3_group ?lib ?sid l2 (of_nat i) ?vid mtu src dst hw1 = (r3, l3g, hw2)"
        by (metis surj_pair)
      have f2: "flows_of ?lib hw2 = flows_of ?lib (st_hw st)"
        using group_ops_flows(2) [OF ok, of ?sid l2 "of_nat i" ?vid mtu src dst hw1] s3 f1 by simp
      show ?thesis
      proof (cases "r3 = 0")
        case False
        then show ?thesis
          using inst l2 s1 s3 f2 Some ia del [of l2 hw2] by (auto simp: host_install_def split: prod.splits)
      next
        case True
        then obtain err hw3 where s4: "ops_fpa_route_add_route ?lib ?sid l3g ip m hw2 = Inr (err, hw3)" and e: "err \<noteq> 0"
          using inst fail l2 s1 s3 Some ia by (auto simp: host_install_def Let_def split: sum.splits if_splits)
        have f3: "flows_of ?lib hw3 = flows_of ?lib (st_hw st)" using add_route_fail_flows [OF ok s4 e] f2 by simp
        obtain r5 hw5 where d5: "ops_fpa_route_del_group ?lib ?sid l2 hw3 = (r5, hw5)" by fastforce
        show ?thesis
          using inst l2 s1 s3 s4 e Some ia True f3 d5 del [of l2 hw3] del [of l3g hw5]
          by (auto simp: host_install_def split: prod.splits)
      qed
    qed
  qed
qed

text \<open>(C38) A host that cannot be added is not entered: the flow tables of the switch, the host table and
  the bundle are as before. But an ARP index that was taken for it is lost, because no error path puts
  it back: the pool is then one index shorter although no host holds the index.\<close>

theorem host_add_failure:
  assumes ok: "fpa_lib_ok (en_lib env)" and add: "add_l3_host_entry env this aux v6 ip mac e st = Inr (ret, e', this1, st1)"
    and fail: "ret \<noteq> 0"
  shows "this1 = this \<and> st_host_table st1 = st_host_table st
    \<and> flows_of (en_lib env) (st_hw st1) = flows_of (en_lib env) (st_hw st)
    \<and> (st_arp_indices st1 = st_arp_indices st
       \<or> (\<exists>i. arp_index_alloc (st_arp_indices st) = Some (i, st_arp_indices st1)))"
  using add fail host_install_fail [OF ok] unfolding add_l3_host_entry_def
  by (fastforce simp: Let_def split: if_splits option.splits prod.splits sum.splits)

theorem host_add_failure_witness:
  "\<exists>this1 st1. add_l3_host_entry (sample_env {FPA_FLOW_TABLE_TYPE_L3_UNICAST_E} False)
       (sample_proto ''vrf'' (Some sample_l3)) 9 False sample_ip (Some ''mac'') 0 (sample_state sim_empty)
       = Inr (EINVAL, 5, this1, st1)
    \<and> this1 = sample_proto ''vrf'' (Some sample_l3) \<and> st_host_table st1 = []"
proof -
  let ?env = "sample_env {FPA_FLOW_TABLE_TYPE_L3_UNICAST_E} False" and ?pr = "sample_proto ''vrf'' (Some sample_l3)"
  obtain this1 st1 where a: "add_l3_host_entry ?env ?pr 9 False sample_ip (Some ''mac'') 0 (sample_state sim_empty)
      = Inr (EINVAL, 5, this1, st1)"
    using sample_host_add [of "{FPA_FLOW_TABLE_TYPE_L3_UNICAST_E}"] by auto
  with host_add_failure [OF _ a] show ?thesis by (auto simp: sim_lib_ok sample_state_def)
qed

text \<open>Adding a host on a VLAN interface whose next hop has not been learned crashes the daemon: the
  result of the FDB lookup is used without a check.\<close>

lemma host_add_unlearned_crashes:
  assumes find: "ops_fpa_find_bundle env this aux = Some n" and l3: "bn_l3_intf (snd n) = Some l3"
    and port: "ops_fpa_get_ofport_by_pid env st (bn_intf_id (snd n)) = Some ap"
    and mac: "en_eth_addr_from_string env mac = Some dst"
    and vlan: "\<not> ops_fpa_vlan_internal (st_internal_vlans st) (ucast (li_vlan_id l3))"
    and dev: "ops_fpa_dev_by_id (st_dev st) (li_switchId l3) = Inr d" "dv_ml d = Some ml"
    and none: "ops_fpa_mac_learning_lookup_by_vlan_and_mac (en_ml env) ml (li_vlan_id l3) dst = None"
  shows "add_l3_host_entry env this aux False ip (Some mac) e st = Inl Null_Deref"
proof -
  have "host_egress env st l3 dst = Inl Null_Deref" using vlan dev none by (simp add: host_egress_def)
  then show ?thesis using find l3 port mac by (auto simp: add_l3_host_entry_def split: prod.splits)
qed

section \<open>Routes\<close>

lemma del_route_flows:
  assumes ok: "fpa_lib_ok lib"
  shows "flows_of lib (snd (ops_fpa_route_del_route lib sid ip m hw)) =
      delete_cookie sid FPA_FLOW_TABLE_TYPE_L3_UNICAST_E (OPS_FPA_ROUTE_IPV4_COOKIE ip m) (flows_of lib hw)"
    and "groups_of lib (snd (ops_fpa_route_del_route lib sid ip m hw)) = groups_of lib hw"
proof -
  let ?T = FPA_FLOW_TABLE_TYPE_L3_UNICAST_E and ?c = "OPS_FPA_ROUTE_IPV4_COOKIE ip m"
  obtain err hw' where d: "wrap_fpaLibFlowTableCookieDelete lib sid ?T ?c hw = (err, hw')" by fastforce
  have hw': "snd (ops_fpa_route_del_route lib sid ip m hw) = hw'" by (simp add: ops_fpa_route_del_route_def d)
  show "groups_of lib (snd (ops_fpa_route_del_route lib sid ip m hw)) = groups_of lib hw"
    unfolding hw' by (rule wrapped.del_groups [OF ok d])
  show "flows_of lib (snd (ops_fpa_route_del_route lib sid ip m hw)) = delete_cookie sid ?T ?c (flows_of lib hw)"
  proof (cases "err = FPA_OK")
    case False
    then have "\<forall>f \<in> flows_of lib hw sid ?T. fl_cookie f \<noteq> ?c" using wrapped.del_status [OF ok _ _ d] by blast
    then have "delete_cookie sid ?T ?c (flows_of lib hw) = flows_of lib hw"
      by (auto simp: delete_cookie_def fun_eq_iff)
    then show ?thesis unfolding hw' using wrapped.del_flows [OF ok d] False by simp
  qed (simp add: hw' wrapped.del_flows [OF ok d])
qed

lemma add_route_shape:
  assumes ok: "fpa_lib_ok lib" and add: "ops_fpa_route_add_route lib sid g ip m hw = Inr (err, hw')"
  shows "groups_of lib hw' = groups_of lib hw \<and>
    (err = 0 \<and> (\<exists>f. fl_cookie f = OPS_FPA_ROUTE_IPV4_COOKIE ip m \<and> l3_dstIp4 (fl_l3_unicast f) = ip
        \<and> l3_groupId (fl_l3_unicast f) = g \<and> l3_outputPort (fl_l3_unicast f) = 0
        \<and> flows_of lib hw' = insert_flow sid FPA_FLOW_TABLE_TYPE_L3_UNICAST_E f (flows_of lib hw))
     \<or> err \<noteq> 0 \<and> flows_of lib hw' = flows_of lib hw)"
proof (cases "err = 0")
  case True
  with add obtain entry nm where "flows_of lib hw' = insert_flow sid FPA_FLOW_TABLE_TYPE_L3_UNICAST_E
      (route_flow entry g 0 ip m nm) (flows_of lib hw)" "groups_of lib hw' = groups_of lib hw"
    using add_routeD [OF ok] by metis
  then show ?thesis using True by (auto simp: route_flow_def intro!: exI [of _ "route_flow entry g 0 ip m nm"])
next
  case False
  then show ?thesis
    using add_route_fail_flows [OF ok add] add wrapped.add_groups [OF ok]
    by (auto simp: ops_fpa_route_add_route_def Let_def split: prod.splits if_splits sum.splits)
qed

lemma add_route_trap_shape:
  assumes ok: "fpa_lib_ok lib" and add: "ops_fpa_route_add_route_trap lib sid ip m hw = Inr (err, hw')"
  shows "groups_of lib hw' = groups_of lib hw \<and>
    (err = 0 \<and> (\<exists>f. fl_cookie f = OPS_FPA_ROUTE_IPV4_COOKIE ip m \<and> l3_dstIp4 (fl_l3_unicast f) = ip
        \<and> l3_groupId (fl_l3_unicast f) = 0xFFFFFFFF \<and> l3_outputPort (fl_l3_unicast f) = FPA_OUTPUT_CONTROLLER lib
        \<and> flows_of lib hw' = insert_flow sid FPA_FLOW_TABLE_TYPE_L3_UNICAST_E f (flows_of lib hw))
     \<or> err \<noteq> 0 \<and> flows_of lib hw' = flows_of lib hw)"
proof -
  consider (init) entry where "fpaLibFlowEntryInit lib sid FPA_FLOW_TABLE_TYPE_L3_UNICAST_E = (FPA_OK, entry)"
    | (fail) "err = 1" "hw' = hw"
    using add by (auto simp: ops_fpa_route_add_route_trap_def split: prod.splits if_splits)
  then show ?thesis
  proof cases
    case init
    then obtain nm st where "wrap_fpaLibFlowEntryAdd lib sid FPA_FLOW_TABLE_TYPE_L3_UNICAST_E
        (route_flow entry 0xFFFFFFFF (FPA_OUTPUT_CONTROLLER lib) ip m nm) hw = (st, hw')" and e: "err = status_code lib st"
      using add by (auto simp: ops_fpa_route_add_route_trap_def split: prod.splits sum.splits)
    note a = this(1)
    show ?thesis
      using wrapped.add_flows [OF ok a] wrapped.add_groups [OF ok a] ok e
      by (auto simp: route_flow_def intro!: exI [of _ "route_flow entry 0xFFFFFFFF (FPA_OUTPUT_CONTROLLER lib) ip m nm"])
  qed simp
qed

text \<open>The ways a route can be added.\<close>

lemma route_add_cases [consumes 3, case_names early host trap]:
  assumes r: "l3_route_action env this OFPROTO_ROUTE_ADD route st = Inr (ret, st')"
    and ip: "ops_fpa_str2ip (rt_prefix route) = Some (ip, m)"
    and d: "ops_fpa_route_del_route (en_lib env) (pr_switch_id this) ip m (st_hw st) = (r0, hw0)"
  obtains "ret = EINVAL" "st' = st"
  | nh h hm e err hw where "rt_nexthops route = [nh]" "nh_resolved nh" "ops_fpa_str2ip (nh_id nh) = Some (h, hm)"
      "host_table_find (en_host env) h (st_host_table st) = Some e"
      "ops_fpa_route_add_route (en_lib env) (pr_switch_id this) (ht_l3_group (snd e)) ip m hw0 = Inr (err, hw)"
      "ret = (if err \<noteq> 0 then EINVAL else 0)" "st' = st\<lparr>st_hw := hw\<rparr>"
  | nh err hw where "rt_nexthops route = [nh]" "\<not> nh_resolved nh"
      "ops_fpa_route_add_route_trap (en_lib env) (pr_switch_id this) ip m hw0 = Inr (err, hw)"
      "ret = (if err \<noteq> 0 then EINVAL else 0)" "st' = st\<lparr>st_hw := hw\<rparr>"
proof (cases "rt_ipv4 route \<and> (\<exists>nh. rt_nexthops route = [nh])")
  case False
  then show thesis using that(1) r ip by (auto simp: l3_route_action_def Let_def split: if_splits list.splits)
next
  case True
  then obtain nh where v4: "rt_ipv4 route" and nh: "rt_nexthops route = [nh]" by blast
  note eqs = l3_route_action_def v4 nh ip d
  show thesis
  proof (cases "nh_resolved nh")
    case res: True
    show thesis
    proof (cases "ops_fpa_str2ip (nh_id nh)")
      case None
      then show thesis using that(1) r res by (simp add: eqs)
    next
      case (Some hh)
      obtain h hm where hh: "hh = (h, hm)" by fastforce
      show thesis
      proof (cases "host_table_find (en_host env) h (st_host_table st)")
        case None
        then show thesis using that(1) r res Some hh by (simp add: eqs)
      next
        case e: (Some e)
        obtain err hw where a: "ops_fpa_route_add_route (en_lib env) (pr_switch_id this) (ht_l3_group (snd e)) ip m hw0 = Inr (err, hw)"
          using r res Some hh e
          by (cases "ops_fpa_route_add_route (en_lib env) (pr_switch_id this) (ht_l3_group (snd e)) ip m hw0")
            (auto simp: eqs)
        then have "ret = (if err \<noteq> 0 then EINVAL else 0)" "st' = st\<lparr>st_hw := hw\<rparr>"
          using r res Some hh e by (auto simp: eqs)
        then show thesis using that(2) [OF nh res _ e a] Some hh by blast
      qed
    qed
  next
    case False
    then show thesis
      using that(3) [OF nh False] r
      by (cases "ops_fpa_route_add_route_trap (en_lib env) (pr_switch_id this) ip m hw0") (auto simp: eqs)
  qed
qed

text \<open>(C19) Adding a route replaces the route with the same prefix: on success the route table holds the
  old routes without those of this prefix, and one flow for it, which leads to the L3 group of the
  next hop's host entry when the next hop is resolved and to the CPU otherwise. When the call fails,
  nothing has changed, or the old route is gone without a new one. The groups and the rest of the
  state are never touched.\<close>

theorem route_add_replaces:
  assumes ok: "fpa_lib_ok (en_lib env)" and ip: "ops_fpa_str2ip (rt_prefix route) = Some (ip, m)"
    and r: "l3_route_action env this OFPROTO_ROUTE_ADD route st = Inr (ret, st')"
  defines "F \<equiv> flows_of (en_lib env) (st_hw st)" and "T \<equiv> FPA_FLOW_TABLE_TYPE_L3_UNICAST_E"
  shows "st' = st\<lparr>st_hw := st_hw st'\<rparr> \<and> groups_of (en_lib env) (st_hw st') = groups_of (en_lib env) (st_hw st)
    \<and> (ret = 0 \<and> (\<exists>nh f. rt_nexthops route = [nh] \<and> fl_cookie f = OPS_FPA_ROUTE_IPV4_COOKIE ip m
          \<and> l3_dstIp4 (fl_l3_unicast f) = ip
          \<and> (if nh_resolved nh
             then \<exists>h hm e. ops_fpa_str2ip (nh_id nh) = Some (h, hm)
               \<and> host_table_find (en_host env) h (st_host_table st) = Some e
               \<and> l3_groupId (fl_l3_unicast f) = ht_l3_group (snd e)
             else l3_outputPort (fl_l3_unicast f) = FPA_OUTPUT_CONTROLLER (en_lib env))
          \<and> flows_of (en_lib env) (st_hw st') =
              insert_flow (pr_switch_id this) T f (delete_cookie (pr_switch_id this) T (OPS_FPA_ROUTE_IPV4_COOKIE ip m) F))
     \<or> ret = EINVAL \<and> (flows_of (en_lib env) (st_hw st') = F
          \<or> flows_of (en_lib env) (st_hw st') = delete_cookie (pr_switch_id this) T (OPS_FPA_ROUTE_IPV4_COOKIE ip m) F))"
proof -
  let ?lib = "en_lib env" and ?sid = "pr_switch_id this" and ?c = "OPS_FPA_ROUTE_IPV4_COOKIE ip m"
  obtain r0 hw0 where d: "ops_fpa_route_del_route ?lib ?sid ip m (st_hw st) = (r0, hw0)" by fastforce
  have D: "flows_of ?lib hw0 = delete_cookie ?sid T ?c F" "groups_of ?lib hw0 = groups_of ?lib (st_hw st)"
    using del_route_flows [OF ok, of ?sid ip m "st_hw st"] by (simp_all add: d T_def F_def)
  from r ip d show ?thesis
  proof (cases rule: route_add_cases)
    case early
    then show ?thesis by (simp add: F_def)
  next
    case (host nh h hm e err hw)
    show ?thesis
    proof (cases "err = 0")
      case True
      then obtain f where f: "fl_cookie f = ?c" "l3_dstIp4 (fl_l3_unicast f) = ip"
        "l3_groupId (fl_l3_unicast f) = ht_l3_group (snd e)" "flows_of ?lib hw = insert_flow ?sid T f (flows_of ?lib hw0)"
        and g: "groups_of ?lib hw = groups_of ?lib hw0"
        using add_route_shape [OF ok host(5)] unfolding T_def by blast
      show ?thesis using True f g D host by (cases e, simp, intro exI [of _ f]) auto
    qed (use host add_route_shape [OF ok host(5)] D in simp)
  next
    case (trap nh err hw)
    show ?thesis
    proof (cases "err = 0")
      case True
      then obtain f where f: "fl_cookie f = ?c" "l3_dstIp4 (fl_l3_unicast f) = ip"
        "l3_outputPort (fl_l3_unicast f) = FPA_OUTPUT_CONTROLLER ?lib" "flows_of ?lib hw = insert_flow ?sid T f (flows_of ?lib hw0)"
        and g: "groups_of ?lib hw = groups_of ?lib hw0"
        using add_route_trap_shape [OF ok trap(3)] unfolding T_def by blast
      show ?thesis using True f g D trap by (simp, intro exI [of _ f]) auto
    qed (use trap add_route_trap_shape [OF ok trap(3)] D in simp)
  qed
qed

theorem route_add_replaces_witness:
  "\<exists>st'. l3_route_action (sample_env {} False) (sample_proto ''vrf'' None) OFPROTO_ROUTE_ADD
      \<lparr>rt_ipv4 = True, rt_prefix = sample_ip, rt_nexthops = [\<lparr>nh_id = [], nh_resolved = False\<rparr>]\<rparr>
      (sample_state sim_empty) = Inr (0, st')
    \<and> (\<exists>f \<in> flows_of (sim_lib {} False) (st_hw st') 0 FPA_FLOW_TABLE_TYPE_L3_UNICAST_E.
         l3_dstIp4 (fl_l3_unicast f) = 0x0100000A)"
proof -
  let ?route = "\<lparr>rt_ipv4 = True, rt_prefix = sample_ip, rt_nexthops = [\<lparr>nh_id = [], nh_resolved = False\<rparr>]\<rparr>"
  have ip: "ops_fpa_str2ip (rt_prefix ?route) = Some (0x0100000A, 32)" by (simp add: sample_str2ip)
  have t: "\<exists>hw'. ops_fpa_route_add_route_trap (sim_lib {} False) sid 0x0100000A 32 hw = Inr (0, hw')" for sid hw
    by (simp add: ops_fpa_route_add_route_trap_def wrap_fpaLibFlowEntryAdd_def route_netmask_def sim_defs)
  obtain r0 hw0 where d: "ops_fpa_route_del_route (sim_lib {} False) 0 0x0100000A 32 (st_hw (sample_state sim_empty)) = (r0, hw0)"
    by fastforce
  obtain hw1 where t1: "ops_fpa_route_add_route_trap (sim_lib {} False) 0 0x0100000A 32 hw0 = Inr (0, hw1)" using t by blast
  have p: "pr_switch_id (sample_proto ''vrf'' None) = 0" by (simp add: sample_proto_def)
  have r: "l3_route_action (sample_env {} False) (sample_proto ''vrf'' None) OFPROTO_ROUTE_ADD
      ?route (sample_state sim_empty) = Inr (0, (sample_state sim_empty)\<lparr>st_hw := hw1\<rparr>)"
    using ip by (simp add: l3_route_action_def p d t1)
  let ?st = "(sample_state sim_empty)\<lparr>st_hw := hw1\<rparr>" and ?T = FPA_FLOW_TABLE_TYPE_L3_UNICAST_E
  obtain f F where f: "l3_dstIp4 (fl_l3_unicast f) = 0x0100000A"
    "flows_of (en_lib (sample_env {} False)) (st_hw ?st) = insert_flow (pr_switch_id (sample_proto ''vrf'' None)) ?T f F"
    using route_add_replaces [OF _ ip r] sim_lib_ok by auto
  have "f \<in> flows_of (sim_lib {} False) (st_hw ?st) 0 ?T"
    using f(2) by (simp only: sample_env_simps p) (simp add: insert_flow_def)
  with f(1) r show ?thesis by blast
qed

lemma sample_tbl: "ml_table sample_ml = []"
  unfolding sample_ml_def by simp

end
