(* ===== verification/Fpa_Addresses.thy ===== *)
theory Fpa_Addresses
  imports Fpa_Bundles Fpa_L3
begin

text \<open>
  The IP addresses of a routed bundle (\<open>bundle_ip_reconfigure\<close> and \<open>bundle_ipv4_secondary_reconfigure\<close> of
  \<open>src/ops-fpa-ofproto.c\<close>): what reconfiguring them does, and when it crashes.
\<close>

section \<open>Host calls for the bundle's own address\<close>

text \<open>
  The addresses of a bundle are passed to the host functions without a next hop, and adding a host without a
  next hop is always refused.
\<close>

lemma add_without_mac [simp]: "add_l3_host_entry env this aux v6 ip None e st = Inr (EINVAL, e, this, st)"
  by (simp add: add_l3_host_entry_def)

text \<open>The host table has no entry for an address.\<close>

definition host_absent :: "'hw plugin_env \<Rightarrow> 'hw plugin_state \<Rightarrow> string \<Rightarrow> bool" where
  "host_absent env st ip \<longleftrightarrow>
     (\<forall>ipv4 m. ops_fpa_str2ip ip = Some (ipv4, m) \<longrightarrow> host_table_find (en_host env) ipv4 (st_host_table st) = None)"

lemma delete_absent:
  "host_absent env st ip \<Longrightarrow> ops_fpa_find_bundle env this aux = Some n \<Longrightarrow>
    delete_l3_host_entry env this aux False ip st = Inr (EINVAL, this, st)"
  by (auto simp: delete_l3_host_entry_def host_absent_def split: option.splits)

lemma delete_returns:
  assumes ok: "bundles_ok env this" and find: "ops_fpa_find_bundle env this aux = Some n"
  shows "\<exists>ret l3 this' st'. delete_l3_host_entry env this aux False ip st = Inr (ret, this', st')
    \<and> ops_fpa_find_bundle env this' aux = Some (fst n, (snd n)\<lparr>bn_l3_intf := l3\<rparr>) \<and> bundles_ok env this'"
proof -
  have keep: "(snd n)\<lparr>bn_l3_intf := bn_l3_intf (snd n)\<rparr> = snd n" by (cases "snd n") simp
  have aux: "bn_aux ((snd n)\<lparr>bn_l3_intf := l3\<rparr>) = aux" for l3
    using find_bundle_mem(2) [OF ok find] by simp
  have r: "ops_fpa_find_bundle env (this\<lparr>pr_bundles := hmap_replace (pr_bundles this) n ((snd n)\<lparr>bn_l3_intf := l3\<rparr>)\<rparr>) aux
      = Some (fst n, (snd n)\<lparr>bn_l3_intf := l3\<rparr>)"
    "bundles_ok env (this\<lparr>pr_bundles := hmap_replace (pr_bundles this) n ((snd n)\<lparr>bn_l3_intf := l3\<rparr>)\<rparr>)" for l3
    using find_bundle_replace(1) [OF ok find aux] bundles_ok_replace [OF ok] find_bundle_mem(1) [OF ok find] by auto
  have d_off: "\<exists>iv hw. ops_fpa_disable_routing lib (Some l3) iv0 hw0 = Inr (iv, hw)"
    for lib :: "'a fpa_lib" and l3 iv0 hw0
    by (simp add: ops_fpa_disable_routing_def Let_def split_def)
  have "\<exists>ret this' st'. delete_l3_host_entry env this aux False ip st = Inr (ret, this', st')
    \<and> (this' = this \<or> (\<exists>l3. this' = this\<lparr>pr_bundles := hmap_replace (pr_bundles this) n ((snd n)\<lparr>bn_l3_intf := l3\<rparr>)\<rparr>))"
  proof (cases "delete_l3_host_entry env this aux False ip st")
    case (Inl c)
    then show ?thesis
      using d_off by (auto simp: delete_l3_host_entry_def find Let_def split: option.splits prod.splits if_splits sum.splits)
        (metis sum.distinct(1))+
  next
    case (Inr x)
    then show ?thesis
      by (cases x) (auto simp: delete_l3_host_entry_def find Let_def split: option.splits prod.splits if_splits sum.splits)
  qed
  then obtain ret this' st' where d: "delete_l3_host_entry env this aux False ip st = Inr (ret, this', st')"
    and t: "this' = this \<or> (\<exists>l3. this' = this\<lparr>pr_bundles := hmap_replace (pr_bundles this) n ((snd n)\<lparr>bn_l3_intf := l3\<rparr>)\<rparr>)"
    by blast
  from t show ?thesis
  proof (elim disjE exE)
    assume "this' = this"
    then show ?thesis using d find keep ok by (intro exI [of _ ret] exI [of _ "bn_l3_intf (snd n)"]) auto
  next
    fix l3 assume "this' = this\<lparr>pr_bundles := hmap_replace (pr_bundles this) n ((snd n)\<lparr>bn_l3_intf := l3\<rparr>)\<rparr>"
    then show ?thesis using d r by (intro exI [of _ ret] exI [of _ l3]) auto
  qed
qed

section \<open>Secondary addresses\<close>

text \<open>The secondary addresses of a bundle: each of them once, under its hash.\<close>

definition addrs_ok :: "'hw plugin_env \<Rightarrow> string hmap \<Rightarrow> bool" where
  "addrs_ok env m \<longleftrightarrow> visits_all (en_addr_order env) \<and> (\<forall>n \<in> set m. fst n = en_hash_string env (snd n)) \<and> distinct m"

lemma find_addr_iff:
  assumes "addrs_ok env (bn_secondary_ip4addr b)"
  shows "find_ipv4_addr_in_bundle env b a \<noteq> None \<longleftrightarrow> a \<in> snd ` set (bn_secondary_ip4addr b)"
proof -
  have v: "visits_all (en_addr_order env)" using assms by (simp add: addrs_ok_def)
  show ?thesis
    using assms hmap_search_hash_None [OF v, of "en_hash_string env a" "\<lambda>x. x = a" "bn_secondary_ip4addr b"]
    by (force simp: find_ipv4_addr_in_bundle_def addrs_ok_def)
qed

lemma secondary_remove_effect:
  assumes "bundles_ok env this" and "ops_fpa_find_bundle env this aux = Some n"
    and "bn_ip4addr (snd n) = Some primary" and "host_absent env st primary"
    and "addrs_ok env (bn_secondary_ip4addr (snd n))" and "distinct xs" and "set xs \<subseteq> set (bn_secondary_ip4addr (snd n))"
  shows "\<exists>this' m. secondary_remove_loop env aux xs this st = Inr (this', st)
    \<and> bundles_ok env this' \<and> ops_fpa_find_bundle env this' aux = Some (fst n, (snd n)\<lparr>bn_secondary_ip4addr := m\<rparr>)
    \<and> addrs_ok env m \<and> set m = set (bn_secondary_ip4addr (snd n)) - set xs"
  using assms
proof (induction xs arbitrary: this n)
  case Nil
  moreover have "(snd n)\<lparr>bn_secondary_ip4addr := bn_secondary_ip4addr (snd n)\<rparr> = snd n" by (cases "snd n") simp
  ultimately show ?case by (intro exI [of _ this] exI [of _ "bn_secondary_ip4addr (snd n)"]) simp
next
  case (Cons x xs)
  let ?m = "hmap_remove (bn_secondary_ip4addr (snd n)) x"
  let ?b = "(snd n)\<lparr>bn_secondary_ip4addr := ?m\<rparr>"
  note mem = find_bundle_mem [OF Cons.prems(1,2)]
  have find: "ops_fpa_find_bundle env (set_bundle this n ?b) aux = Some (fst n, ?b)"
    using find_bundle_replace(1) [OF Cons.prems(1,2), of ?b] mem(2) by (simp add: set_bundle_def)
  have ok: "bundles_ok env (set_bundle this n ?b)"
    using bundles_ok_replace [OF Cons.prems(1) mem(1), of ?b] by (simp add: set_bundle_def)
  have m: "addrs_ok env ?m" "set ?m = set (bn_secondary_ip4addr (snd n)) - {x}"
    using Cons.prems(5) by (auto simp: addrs_ok_def hmap_remove_def)
  have "secondary_remove_loop env aux (x # xs) this st = secondary_remove_loop env aux xs (set_bundle this n ?b) st"
    using Cons.prems(2,3) delete_absent [OF Cons.prems(4) find] by simp
  moreover have "set xs \<subseteq> set (bn_secondary_ip4addr (snd (fst n, ?b)))" using Cons.prems(6,7) m(2) by auto
  moreover have "set (bn_secondary_ip4addr (snd n)) - {x} - set xs = set (bn_secondary_ip4addr (snd n)) - set (x # xs)" by auto
  moreover have "distinct xs" using Cons.prems(6) by simp
  moreover have "bn_ip4addr (snd (fst n, ?b)) = Some primary" "addrs_ok env (bn_secondary_ip4addr (snd (fst n, ?b)))"
    using Cons.prems(3) m(1) by simp_all
  ultimately show ?case using Cons.IH [OF ok find _ Cons.prems(4)] m(2) by simp
qed

lemma secondary_add_effect:
  assumes "bundles_ok env this" and "ops_fpa_find_bundle env this aux = Some n"
    and "bn_ip4addr (snd n) = Some primary" and "addrs_ok env (bn_secondary_ip4addr (snd n))"
  shows "\<exists>this' m. secondary_add_loop env aux xs this st = Inr (this', st)
    \<and> bundles_ok env this' \<and> ops_fpa_find_bundle env this' aux = Some (fst n, (snd n)\<lparr>bn_secondary_ip4addr := m\<rparr>)
    \<and> addrs_ok env m \<and> snd ` set m = snd ` set (bn_secondary_ip4addr (snd n)) \<union> set xs"
  using assms
proof (induction xs arbitrary: this n)
  case Nil
  moreover have "(snd n)\<lparr>bn_secondary_ip4addr := bn_secondary_ip4addr (snd n)\<rparr> = snd n" by (cases "snd n") simp
  ultimately show ?case by (intro exI [of _ this] exI [of _ "bn_secondary_ip4addr (snd n)"]) simp
next
  case (Cons x xs)
  show ?case
  proof (cases "find_ipv4_addr_in_bundle env (snd n) x")
    case None
    let ?m = "hmap_insert (bn_secondary_ip4addr (snd n)) (en_hash_string env x) x"
    let ?b = "(snd n)\<lparr>bn_secondary_ip4addr := ?m\<rparr>"
    note mem = find_bundle_mem [OF Cons.prems(1,2)]
    have find: "ops_fpa_find_bundle env (set_bundle this n ?b) aux = Some (fst n, ?b)"
      using find_bundle_replace(1) [OF Cons.prems(1,2), of ?b] mem(2) by (simp add: set_bundle_def)
    have ok: "bundles_ok env (set_bundle this n ?b)"
      using bundles_ok_replace [OF Cons.prems(1) mem(1), of ?b] by (simp add: set_bundle_def)
    have m: "addrs_ok env ?m"
      using Cons.prems(4) None find_addr_iff [OF Cons.prems(4), of x] by (force simp: addrs_ok_def hmap_insert_def)
    have "secondary_add_loop env aux (x # xs) this st = secondary_add_loop env aux xs (set_bundle this n ?b) st"
      using Cons.prems(2,3) None by simp
    then show ?thesis
      using Cons.IH [OF ok find, unfolded snd_conv fst_conv] Cons.prems(3) m by (auto simp: hmap_simps)
  next
    case (Some y)
    then have "x \<in> snd ` set (bn_secondary_ip4addr (snd n))" using find_addr_iff [OF Cons.prems(4)] by blast
    then show ?thesis using Cons Some by (auto simp: insert_absorb)
  qed
qed



section \<open>Crashes\<close>

lemma find_set_bundle:
  assumes "bundles_ok env this" and "ops_fpa_find_bundle env this aux = Some n" and "bn_aux b = bn_aux (snd n)"
  shows "ops_fpa_find_bundle env (set_bundle this n b) aux = Some (fst n, b)" and "bundles_ok env (set_bundle this n b)"
  using find_bundle_replace(1) [OF assms(1,2), of b] bundles_ok_replace [OF assms(1), of n b] assms(3)
    find_bundle_mem [OF assms(1,2)] by (simp_all add: set_bundle_def)

lemma secondary_remove_returns:
  assumes "bundles_ok env this" and "ops_fpa_find_bundle env this aux = Some n" and "bn_ip4addr (snd n) = Some a"
  shows "\<exists>this' st' n'. secondary_remove_loop env aux xs this st = Inr (this', st') \<and> bundles_ok env this'
    \<and> ops_fpa_find_bundle env this' aux = Some n' \<and> bn_ip4addr (snd n') = Some a"
  using assms
proof (induction xs arbitrary: this n st)
  case (Cons x xs)
  let ?b = "(snd n)\<lparr>bn_secondary_ip4addr := hmap_remove (bn_secondary_ip4addr (snd n)) x\<rparr>"
  note s = find_set_bundle [OF Cons.prems(1,2), of ?b, simplified]
  obtain ret l3 this1 st1 where d: "delete_l3_host_entry env (set_bundle this n ?b) aux False a st = Inr (ret, this1, st1)"
    "ops_fpa_find_bundle env this1 aux = Some (fst n, ?b\<lparr>bn_l3_intf := l3\<rparr>)" "bundles_ok env this1"
    using delete_returns [OF s(2,1), of a st] by auto
  then show ?case using Cons.IH [OF d(3,2)] Cons.prems(2,3) by simp
qed auto

lemma secondary_add_returns:
  assumes "bundles_ok env this" and "ops_fpa_find_bundle env this aux = Some n" and "bn_ip4addr (snd n) = Some a"
  shows "\<exists>this' st'. secondary_add_loop env aux xs this st = Inr (this', st')"
  using assms
proof (induction xs arbitrary: this n)
  case (Cons x xs)
  let ?b = "(snd n)\<lparr>bn_secondary_ip4addr := hmap_insert (bn_secondary_ip4addr (snd n)) (en_hash_string env x) x\<rparr>"
  note s = find_set_bundle [OF Cons.prems(1,2), of ?b, simplified]
  show ?case using Cons.IH [OF Cons.prems] Cons.IH [OF s(2,1)] Cons.prems(2,3) by simp
qed simp

lemma ip_reconfigure_crash:
  assumes ok: "bundles_ok env this" and find: "ops_fpa_find_bundle env this aux = Some n"
    and crash: "bundle_ip_reconfigure env aux cfg this st = Inl c"
  shows "bs_secondary_ipv4_changed cfg" and "\<not> bs_primary_ipv4_changed cfg" and "bn_ip4addr (snd n) = None"
proof -
  have del: "\<exists>ret this' st' n'. delete_l3_host_entry env this aux False ip st = Inr (ret, this', st')
      \<and> ops_fpa_find_bundle env this' aux = Some n'" for ip
    using delete_returns [OF ok find, of ip st] by blast
  show np: "\<not> bs_primary_ipv4_changed cfg"
  proof
    assume "bs_primary_ipv4_changed cfg"
    with crash find del show False
      by (auto simp: bundle_ip_reconfigure_def Let_def split: option.splits if_splits sum.splits) (metis option.distinct(1) sum.inject(2) prod.inject sum.distinct(1))+
  qed
  with crash find show s: "bs_secondary_ipv4_changed cfg"
    by (auto simp: bundle_ip_reconfigure_def split: if_splits)
  show "bn_ip4addr (snd n) = None"
  proof (rule ccontr)
    assume "bn_ip4addr (snd n) \<noteq> None"
    then obtain a where a: "bn_ip4addr (snd n) = Some a" by auto
    let ?new = "remdups (bs_ip4_address_secondary cfg)"
    let ?xs = "filter (\<lambda>x. snd x \<notin> set ?new) (en_addr_order env (bn_secondary_ip4addr (snd n)))"
    obtain this1 st1 n1 where 1: "secondary_remove_loop env aux ?xs this st = Inr (this1, st1)" "bundles_ok env this1"
      "ops_fpa_find_bundle env this1 aux = Some n1" "bn_ip4addr (snd n1) = Some a"
      using secondary_remove_returns [OF ok find a] by blast
    obtain this2 st2 where "secondary_add_loop env aux (en_shash_order env ?new) this1 st1 = Inr (this2, st2)"
      using secondary_add_returns [OF 1(2-4)] by blast
    with crash np s find 1(1) show False
      by (simp add: bundle_ip_reconfigure_def bundle_ipv4_secondary_reconfigure_def Let_def)
  qed
qed

end
