(* ===== verification/Fpa_Plugin.thy ===== *)
theory Fpa_Plugin
  imports Fpa_VlanConfig Fpa_Addresses
begin

text \<open>
  All bridges and virtual routers of \<open>src/ops-fpa-ofproto.c\<close> with the state they share, as one transition
  system. The tables are consistent in every reachable state, whatever operations are called in whatever
  order, and from this follow the cases in which configuring a bundle crashes. Two theorems are about the map of
  ports, which keeps the ports of removed bundles.
\<close>

section \<open>Freeing a port\<close>

text \<open>\<open>ops_fpa_ofproto_port_dealloc\<close> frees the structure and does nothing else.\<close>

definition ops_fpa_ofproto_port_dealloc :: "nat \<Rightarrow> 'hw plugin_state \<Rightarrow> 'hw plugin_state" where
  "ops_fpa_ofproto_port_dealloc a st = st\<lparr>st_ports := (st_ports st)(a := None)\<rparr>"

section \<open>Well-formed states\<close>

text \<open>
  Hosts: the table is hashed by address, every entry has an ARP index of its own, and no index of an entry
  is in the chain of free indices.
\<close>

definition hosts_sound :: "'hw plugin_env \<Rightarrow> 'hw plugin_state \<Rightarrow> bool" where
  "hosts_sound env st \<longleftrightarrow> host_wf (en_host env) (st_host_table st) \<and> unique_keys ht_arp_index (st_host_table st)
     \<and> (\<exists>L. arp_rep (st_arp_indices st) L
          \<and> (\<forall>n \<in> set (st_host_table st). ht_arp_index (snd n) \<in> {1..ARP_INDICES_SIZE} - set L))"

text \<open>Ports: every node of \<open>ports_by_pid\<close> is a port that exists, under its device index.\<close>

definition ports_sound :: "'hw plugin_state \<Rightarrow> bool" where
  "ports_sound st \<longleftrightarrow>
     (\<forall>n \<in> set (st_ports_by_pid st). \<exists>p. st_ports st (snd n) = Some p \<and> nd_ifindex (op_netdev p) = fst n)"

text \<open>A bridge: its bundles are well-formed, its ports exist, and the port of every bundle can be found.\<close>

definition proto_sound :: "'hw plugin_env \<Rightarrow> 'hw plugin_state \<Rightarrow> fpa_ofproto \<Rightarrow> bool" where
  "proto_sound env st this \<longleftrightarrow> bundles_ok env this
     \<and> (\<forall>f a. pr_ports this f = Some a \<longrightarrow> st_ports st a \<noteq> None)
     \<and> (\<forall>n \<in> set (pr_bundles this). bn_intf_id (snd n) \<noteq> FPA_INVALID_INTF_ID \<longrightarrow>
          bn_intf_id (snd n) \<in> fst ` set (st_ports_by_pid st))"

definition env_sound :: "'hw plugin_env \<Rightarrow> bool" where
  "env_sound env \<longleftrightarrow> host_ok (en_host env) \<and> visits_all (en_bundle_order env) \<and> visits_all (en_port_order env)"

text \<open>
  What every operation keeps: ports do not disappear or change their device, nodes of \<open>ports_by_pid\<close> are
  not lost, and a well-formed state stays well-formed.
\<close>

definition st_le :: "'hw plugin_state \<Rightarrow> 'hw plugin_state \<Rightarrow> bool" where
  "st_le st st' \<longleftrightarrow> mset (st_ports_by_pid st) \<subseteq># mset (st_ports_by_pid st')
     \<and> (\<forall>a p. st_ports st a = Some p \<longrightarrow> (\<exists>p'. st_ports st' a = Some p' \<and> op_netdev p' = op_netdev p))"

definition part_sound :: "'hw plugin_env \<Rightarrow> fpa_ofproto \<times> 'hw plugin_state \<Rightarrow> bool" where
  "part_sound env s \<longleftrightarrow> proto_sound env (snd s) (fst s) \<and> ports_sound (snd s) \<and> hosts_sound env (snd s)"

text \<open>What identifies a bridge, and its map of ports.\<close>

definition proto_head :: "fpa_ofproto \<Rightarrow> string \<times> string \<times> u32 \<times> (u32 \<Rightarrow> nat option)" where
  "proto_head this = (pr_type this, pr_name this, pr_switch_id this, pr_ports this)"

lemma proto_head_simps [simp]:
  "proto_head (this\<lparr>pr_bundles := b\<rparr>) = proto_head this" "proto_head (this\<lparr>pr_vlans := v\<rparr>) = proto_head this"
  "proto_head (this\<lparr>pr_port_names := n\<rparr>) = proto_head this" "proto_head (this\<lparr>pr_change_seq := c\<rparr>) = proto_head this"
  by (simp_all add: proto_head_def)

lemma proto_head_ports: "proto_head this' = proto_head this \<Longrightarrow> pr_ports this' = pr_ports this"
  by (simp add: proto_head_def)

definition safe_step :: "'hw plugin_env \<Rightarrow> fpa_ofproto \<times> 'hw plugin_state \<Rightarrow> fpa_ofproto \<times> 'hw plugin_state \<Rightarrow> bool" where
  "safe_step env s s' \<longleftrightarrow> st_le (snd s) (snd s') \<and> proto_head (fst s') = proto_head (fst s) \<and> st_dev (snd s') = st_dev (snd s)
     \<and> (part_sound env s \<longrightarrow> part_sound env s')"

lemma st_le_refl [simp]: "st_le st st"
  by (simp add: st_le_def)

lemma st_le_trans [trans]: "st_le s t \<Longrightarrow> st_le t u \<Longrightarrow> st_le s u"
  unfolding st_le_def by (elim conjE, intro conjI) (erule (1) subset_mset.trans, fastforce)

lemma safe_refl [simp]: "safe_step env s s"
  by (simp add: safe_step_def)

lemma safe_trans [trans]: "safe_step env s t \<Longrightarrow> safe_step env t u \<Longrightarrow> safe_step env s u"
  by (auto simp: safe_step_def intro: st_le_trans)

lemma st_le_set: "st_le st st' \<Longrightarrow> set (st_ports_by_pid st) \<subseteq> set (st_ports_by_pid st')"
  by (metis set_mset_mono set_mset_mset st_le_def)

lemma proto_sound_mono:
  assumes "st_le st st'" and "proto_sound env st this"
  shows "proto_sound env st' this"
  using st_le_set [OF assms(1)] assms unfolding st_le_def proto_sound_def
  by (elim conjE, intro conjI) (assumption, fastforce, blast)

text \<open>
  Steps of the parts: changes of the switch, of the fields of a bundle other than its key and port, and of
  the hosts.
\<close>

definition bundle_shape :: "fpa_ofproto \<Rightarrow> (u32 \<times> nat \<times> u32) list" where
  "bundle_shape this = map (\<lambda>n. (fst n, bn_aux (snd n), bn_intf_id (snd n))) (pr_bundles this)"

lemma bundle_shape_replace:
  "bn_aux b = bn_aux (snd n) \<Longrightarrow> bn_intf_id b = bn_intf_id (snd n) \<Longrightarrow>
    bundle_shape (this\<lparr>pr_bundles := hmap_replace (pr_bundles this) n b\<rparr>) = bundle_shape this"
  by (auto simp: bundle_shape_def hmap_replace_def)

lemma bundles_ok_shape:
  assumes "bundle_shape this' = bundle_shape this"
  shows "bundles_ok env this' = bundles_ok env this"
proof -
  have u: "unique_keys bn_aux (pr_bundles t) \<longleftrightarrow> distinct (map (\<lambda>(h, a, i). a) (bundle_shape t))" for t
    by (simp add: unique_keys_def bundle_shape_def comp_def)
  have h: "hashed_by (\<lambda>b. en_hash_pointer env (bn_aux b)) (pr_bundles t)
      \<longleftrightarrow> (\<forall>(h, a, i) \<in> set (bundle_shape t). h = en_hash_pointer env a)" for t
    by (auto simp: hashed_by_def bundle_shape_def)
  show ?thesis unfolding bundles_ok_def u h assms ..
qed

lemma proto_sound_shape:
  assumes "bundle_shape this' = bundle_shape this" and "pr_ports this' = pr_ports this"
  shows "proto_sound env st this' = proto_sound env st this"
proof -
  have i: "(\<forall>n \<in> set (pr_bundles t). bn_intf_id (snd n) \<noteq> FPA_INVALID_INTF_ID \<longrightarrow> bn_intf_id (snd n) \<in> X)
      \<longleftrightarrow> (\<forall>(h, a, i) \<in> set (bundle_shape t). i \<noteq> FPA_INVALID_INTF_ID \<longrightarrow> i \<in> X)" for t X
    by (auto simp: bundle_shape_def)
  show ?thesis unfolding proto_sound_def i assms bundles_ok_shape [OF assms(1)] ..
qed

lemma safe_part:
  assumes "bundle_shape this' = bundle_shape this" and "proto_head this' = proto_head this"
    and "st_ports st' = st_ports st" and "st_ports_by_pid st' = st_ports_by_pid st"
    and dev: "st_dev st' = st_dev st"
    and "part_sound env (this, st) \<Longrightarrow> hosts_sound env st'"
  shows "safe_step env (this, st) (this', st')"
proof -
  have le: "st_le st st'" using assms(3,4) by (simp add: st_le_def)
  moreover have "part_sound env (this', st')" if "part_sound env (this, st)"
    using that assms(6) [OF that] proto_sound_mono [OF le, of env this'] assms(3,4)
      proto_sound_shape [OF assms(1) proto_head_ports [OF assms(2)], of env st]
    by (simp add: part_sound_def ports_sound_def)
  ultimately show ?thesis using assms(2) dev by (simp add: safe_step_def)
qed

lemma safe_hw [simp]:
  "safe_step env (this, st) (this, st\<lparr>st_hw := hw\<rparr>)"
  "safe_step env (this, st) (this, st\<lparr>st_internal_vlans := iv, st_hw := hw\<rparr>)"
  by (rule safe_part; simp add: part_sound_def hosts_sound_def)+

lemma safe_set_bundle:
  "bn_aux b = bn_aux (snd n) \<Longrightarrow> bn_intf_id b = bn_intf_id (snd n) \<Longrightarrow>
    safe_step env (this, st) (this\<lparr>pr_bundles := hmap_replace (pr_bundles this) n b\<rparr>, st)"
  by (rule safe_part) (simp_all add: bundle_shape_replace part_sound_def)

lemma safe_set_bundle' [simp]:
  "bn_aux b = bn_aux (snd n) \<Longrightarrow> bn_intf_id b = bn_intf_id (snd n) \<Longrightarrow> safe_step env (this, st) (set_bundle this n b, st)"
  unfolding set_bundle_def by (rule safe_set_bundle)

section \<open>Hosts\<close>

lemma hosts_sound_alloc:
  assumes "hosts_sound env st" and "arp_index_alloc (st_arp_indices st) = Some (i, arp)"
  shows "hosts_sound env (st\<lparr>st_arp_indices := arp, st_hw := hw\<rparr>)"
    and "hosts_sound env (st\<lparr>st_arp_indices := arp, st_hw := hw,
      st_host_table := host_table_add (en_host env) ip i l3g l2 (st_host_table st)\<rparr>)"
proof -
  obtain L where L: "arp_rep (st_arp_indices st) L" "\<forall>n \<in> set (st_host_table st). ht_arp_index (snd n) \<in> {1..ARP_INDICES_SIZE} - set L"
    and t: "host_wf (en_host env) (st_host_table st)" "unique_keys ht_arp_index (st_host_table st)"
    using assms(1) by (auto simp: hosts_sound_def)
  obtain K where K: "L = i # K" using assms(2) L(1) arp.alloc_empty arp.alloc_next by (cases L) fastforce+
  have r: "arp_rep arp K" using arp.alloc_next [of "st_arp_indices st" i K] L(1) K assms(2) by auto
  have i: "i \<in> {1..ARP_INDICES_SIZE}" "i \<notin> set K" using L(1) K by (auto simp: arp_rep_def)
  show "hosts_sound env (st\<lparr>st_arp_indices := arp, st_hw := hw\<rparr>)"
    using r L(2) K t by (auto simp: hosts_sound_def)
  have "\<forall>n \<in> set (st_host_table st). ht_arp_index (snd n) \<noteq> i" using L(2) K by auto
  then have "unique_keys ht_arp_index (host_table_add (en_host env) ip i l3g l2 (st_host_table st))"
    using t(2) by (auto simp: unique_keys_def host_table_add_def host_table_insert_def hmap_insert_def)
  moreover have "host_wf (en_host env) (host_table_add (en_host env) ip i l3g l2 (st_host_table st))"
    using t(1) by (simp add: host_table_add_def host_table_insert_def host_wf_def hashed_by_def hmap_simps)
  ultimately show "hosts_sound env (st\<lparr>st_arp_indices := arp, st_hw := hw,
      st_host_table := host_table_add (en_host env) ip i l3g l2 (st_host_table st)\<rparr>)"
    using r i L(2) K
    by (auto simp: hosts_sound_def host_table_add_def host_table_insert_def hmap_simps intro!: exI [of _ K])
qed

lemma host_install_cases:
  assumes "host_install env l3 mtu src dst egress ip m st = Inr (ret, st')"
  obtains hw where "st' = st\<lparr>st_hw := hw\<rparr>"
  | i arp hw where "arp_index_alloc (st_arp_indices st) = Some (i, arp)" and "st' = st\<lparr>st_arp_indices := arp, st_hw := hw\<rparr>"
  | i arp hw l3g l2 where "arp_index_alloc (st_arp_indices st) = Some (i, arp)"
    and "st' = st\<lparr>st_arp_indices := arp, st_hw := hw,
      st_host_table := host_table_add (en_host env) ip i l3g l2 (st_host_table st)\<rparr>"
  using assms unfolding host_install_def
  by (auto simp: Let_def split: prod.splits option.splits sum.splits if_splits)

lemma host_install_safe:
  assumes "host_install env l3 mtu src dst egress ip m st = Inr (ret, st')"
  shows "safe_step env (this, st) (this, st')"
  using assms
proof (cases rule: host_install_cases)
  case 1
  then show ?thesis by simp
qed (auto intro!: safe_part simp: part_sound_def hosts_sound_alloc)

lemma hosts_sound_release:
  assumes s: "hosts_sound env st" and e: "e \<in> set (st_host_table st)"
  shows "hosts_sound env (st\<lparr>st_hw := hw, st_arp_indices := arp_index_release (ht_arp_index (snd e)) (st_arp_indices st),
      st_host_table := hmap_remove (st_host_table st) e\<rparr>)"
proof -
  let ?i = "ht_arp_index (snd e)" and ?m = "hmap_remove (st_host_table st) e"
  obtain L where L: "arp_rep (st_arp_indices st) L" "\<forall>n \<in> set (st_host_table st). ht_arp_index (snd n) \<in> {1..ARP_INDICES_SIZE} - set L"
    and t: "host_wf (en_host env) (st_host_table st)" "unique_keys ht_arp_index (st_host_table st)"
    using s by (auto simp: hosts_sound_def)
  have r: "arp_rep (arp_index_release ?i (st_arp_indices st)) (?i # L)"
    using arp.release_top [OF L(1)] L(2) e by blast
  have d: "distinct (st_host_table st)" using t(2) by (simp add: unique_keys_def distinct_map)
  have mem: "n \<in> set ?m \<longleftrightarrow> n \<in> set (st_host_table st) \<and> n \<noteq> e" for n using d by (auto simp: hmap_remove_def)
  have inj: "inj_on (\<lambda>n. ht_arp_index (snd n)) (set (st_host_table st))"
    using t(2) by (simp add: unique_keys_def distinct_map)
  have "unique_keys ht_arp_index ?m"
    using t(2) d by (auto simp: unique_keys_def hmap_remove_def distinct_map distinct_remove1
        intro: inj_on_subset set_remove1_subset)
  moreover have "ht_arp_index (snd n) \<in> {1..ARP_INDICES_SIZE} - set (?i # L)" if "n \<in> set ?m" for n
    using that [unfolded mem] L(2) inj_onD [OF inj _ _ e, of n] by auto
  moreover have "host_wf (en_host env) ?m" using t(1) by (simp add: host_wf_def)
  ultimately show ?thesis using r by (auto simp: hosts_sound_def intro!: exI [of _ "?i # L"])
qed

lemma host_uninstall_safe:
  assumes "e \<in> set (st_host_table st)"
  shows "safe_step env (this, st) (this, host_uninstall env sid ip m e st)"
proof (rule safe_part)
  have u: "host_uninstall env sid ip m e st = st\<lparr>st_hw := st_hw (host_uninstall env sid ip m e st),
      st_arp_indices := arp_index_release (ht_arp_index (snd e)) (st_arp_indices st),
      st_host_table := hmap_remove (st_host_table st) e\<rparr>"
    by (simp add: host_uninstall_def host_table_delete_def split_def Let_def)
  show "st_ports (host_uninstall env sid ip m e st) = st_ports st"
    and "st_ports_by_pid (host_uninstall env sid ip m e st) = st_ports_by_pid st"
    and "st_dev (host_uninstall env sid ip m e st) = st_dev st" by (subst u, simp)+
  show "hosts_sound env (host_uninstall env sid ip m e st)" if "part_sound env (this, st)"
    by (subst u) (use that assms in \<open>simp add: part_sound_def hosts_sound_release\<close>)
qed simp_all

lemma add_l3_host_entry_safe:
  assumes "add_l3_host_entry env this aux v6 ip mac e st = Inr (ret, e', this', st')"
  shows "safe_step env (this, st) (this', st')"
  using assms unfolding add_l3_host_entry_def
  by (auto simp: Let_def split: if_splits option.splits prod.splits sum.splits
      intro: host_install_safe safe_trans [OF host_install_safe safe_set_bundle])

lemma delete_l3_host_entry_safe:
  assumes "env_sound env" and "delete_l3_host_entry env this aux v6 ip st = Inr (ret, this', st')"
  shows "safe_step env (this, st) (this', st')"
proof (cases "this' = this \<and> st' = st")
  case False
  with assms(2) obtain ipv4 m n l3 entry where
    e: "host_table_find (en_host env) ipv4 (st_host_table st) = Some entry"
    and n: "ops_fpa_find_bundle env this aux = Some n"
    and r: "(let st = host_uninstall env (li_switchId l3) ipv4 m entry st;
                  l3 = l3\<lparr>li_routes_count := li_routes_count l3 - 1\<rparr> in
              if li_routes_count l3 = 0 then
                (case ops_fpa_disable_routing (en_lib env) (Some l3) (st_internal_vlans st) (st_hw st) of
                   Inl c \<Rightarrow> Inl c
                 | Inr (iv, hw) \<Rightarrow>
                     Inr (0, this\<lparr>pr_bundles := hmap_replace (pr_bundles this) n ((snd n)\<lparr>bn_l3_intf := None\<rparr>)\<rparr>,
                       st\<lparr>st_internal_vlans := iv, st_hw := hw\<rparr>))
              else Inr (0, this\<lparr>pr_bundles := hmap_replace (pr_bundles this) n ((snd n)\<lparr>bn_l3_intf := Some l3\<rparr>)\<rparr>, st))
        = (Inr (ret, this', st') :: crash + int \<times> fpa_ofproto \<times> 'a plugin_state)"
    unfolding delete_l3_host_entry_def by (auto simp: Let_def split: if_splits option.splits prod.splits)
  have "entry \<in> set (st_host_table st)"
    using e assms(1) by (cases entry) (auto simp: host_table_find_def env_sound_def host_ok_def dest: hmap_search_hash_SomeD)
  note u = host_uninstall_safe [OF this, of env this "li_switchId l3" ipv4 m]
  let ?st = "host_uninstall env (li_switchId l3) ipv4 m entry st"
  have 1: "safe_step env (this, st) (this\<lparr>pr_bundles := hmap_replace (pr_bundles this) n ((snd n)\<lparr>bn_l3_intf := x\<rparr>)\<rparr>, ?st)" for x
    by (rule safe_trans [OF u safe_set_bundle]) simp_all
  from r show ?thesis
    by (auto simp: Let_def split: if_splits sum.splits prod.splits intro: 1 safe_trans [OF 1 safe_hw(2)])
qed simp

section \<open>Bundles and VLANs\<close>

lemma secondary_remove_safe:
  assumes "env_sound env" and "secondary_remove_loop env aux xs this st = Inr (this', st')"
  shows "safe_step env (this, st) (this', st')"
  using assms(2)
proof (induction xs arbitrary: this st)
  case (Cons x xs)
  obtain n primary ret this1 st1 where
    d: "delete_l3_host_entry env (set_bundle this n ((snd n)\<lparr>bn_secondary_ip4addr :=
          hmap_remove (bn_secondary_ip4addr (snd n)) x\<rparr>)) aux False primary st = Inr (ret, this1, st1)"
    and l: "secondary_remove_loop env aux xs this1 st1 = Inr (this', st')"
    using Cons.prems by (auto simp: Let_def split: option.splits sum.splits)
  show ?case
    by (rule safe_trans [OF safe_set_bundle' safe_trans [OF delete_l3_host_entry_safe [OF assms(1) d] Cons.IH [OF l]]]) simp_all
qed simp

lemma secondary_add_safe:
  assumes "secondary_add_loop env aux xs this st = Inr (this', st')"
  shows "safe_step env (this, st) (this', st')"
  using assms
proof (induction xs arbitrary: this st)
  case (Cons x xs)
  obtain n where n: "ops_fpa_find_bundle env this aux = Some n" using Cons.prems by (auto split: option.splits)
  show ?case
  proof (cases "find_ipv4_addr_in_bundle env (snd n) x")
    case None
    then obtain primary ret e this1 st1 where
      d: "add_l3_host_entry env (set_bundle this n ((snd n)\<lparr>bn_secondary_ip4addr :=
            hmap_insert (bn_secondary_ip4addr (snd n)) (en_hash_string env x) x\<rparr>)) aux False primary None
            (bn_intf_id (snd n)) st = Inr (ret, e, this1, st1)"
      and l: "secondary_add_loop env aux xs this1 st1 = Inr (this', st')"
      using Cons.prems n by (auto simp: Let_def split: option.splits sum.splits)
    show ?thesis
      by (rule safe_trans [OF safe_set_bundle' safe_trans [OF add_l3_host_entry_safe [OF d] Cons.IH [OF l]]]) simp_all
  next
    case (Some y)
    then show ?thesis using Cons n by simp
  qed
qed simp

lemma ip_reconfigure_safe:
  assumes e: "env_sound env" and "bundle_ip_reconfigure env aux cfg this st = Inr (this', st')"
  shows "safe_step env (this, st) (this', st')"
proof -
  have add: "safe_step env (this, st) (this', st')"
    if "map_sum id snd (map_sum id snd (add_l3_host_entry env (set_bundle this n ((snd n)\<lparr>bn_ip4addr := new\<rparr>)) aux v6 ip mac e st))
      = Inr (this', st')" for n new v6 ip mac e this st
    using that
    by (cases "add_l3_host_entry env (set_bundle this n ((snd n)\<lparr>bn_ip4addr := new\<rparr>)) aux v6 ip mac e st")
      (auto, rule safe_trans [OF safe_set_bundle' add_l3_host_entry_safe], auto)
  from assms(2) show ?thesis
    unfolding bundle_ip_reconfigure_def bundle_ipv4_secondary_reconfigure_def
    by (auto simp: Let_def split: option.splits sum.splits if_splits prod.splits
        intro: add safe_trans [OF delete_l3_host_entry_safe [OF e] add]
          safe_trans [OF delete_l3_host_entry_safe [OF e] safe_set_bundle']
          safe_trans [OF secondary_remove_safe [OF e] secondary_add_safe])
qed

lemma rm_bundle_safe:
  assumes "ops_fpa_rm_bundle env this bundle st = Inr (ret, this', st')"
  shows "safe_step env (this, st) (this', st')"
proof -
  have "safe_step env (this, st) (this\<lparr>pr_bundles := hmap_remove (pr_bundles this) n\<rparr>, st)" for n and st :: "'a plugin_state"
  proof -
    have sub: "set (hmap_remove (pr_bundles this) n) \<subseteq> set (pr_bundles this)" by (rule set_hmap_remove_subset)
    have "unique_keys bn_aux (hmap_remove (pr_bundles this) n)" if "unique_keys bn_aux (pr_bundles this)"
      using that sub by (auto simp: unique_keys_def hmap_remove_def distinct_map distinct_remove1 intro: inj_on_subset)
    then have "proto_sound env st (this\<lparr>pr_bundles := hmap_remove (pr_bundles this) n\<rparr>)" if "proto_sound env st this"
      using that sub by (auto simp: proto_sound_def bundles_ok_def)
    then show ?thesis by (simp add: safe_step_def part_sound_def)
  qed
  note rm = this
  from assms show ?thesis
    by (auto simp: ops_fpa_rm_bundle_def split: option.splits sum.splits if_splits
        intro: safe_trans [OF safe_hw(2) rm] rm safe_trans [OF rm safe_hw(2)])
qed

text \<open>A new bundle: its key is not in use, and its port is entered under its device index.\<close>

lemma open_cases:
  assumes "bundle_set_open env aux cfg this st = (n, this', st')"
  obtains "ops_fpa_find_bundle env this aux = Some n" and "this' = this" and "st' = st"
  | intf_id pids cmds where "ops_fpa_find_bundle env this aux = None"
    and "n = (en_hash_pointer env aux, new_bundle aux intf_id)"
    and "this' = this\<lparr>pr_bundles := hmap_insert (pr_bundles this) (en_hash_pointer env aux) (new_bundle aux intf_id)\<rparr>"
    and "st' = st\<lparr>st_ports_by_pid := pids, st_bridge_cmds := cmds\<rparr>"
    and "intf_id = FPA_INVALID_INTF_ID \<and> pids = st_ports_by_pid st
      \<or> (\<exists>a p. st_ports st a = Some p \<and> nd_ifindex (op_netdev p) = intf_id \<and> pids = hmap_insert (st_ports_by_pid st) intf_id a)"
proof (cases "ops_fpa_find_bundle env this aux")
  case None
  define port where "port = pr_ports this (bs_slaves cfg ! 0)"
  define i where "i = (case port of None \<Rightarrow> FPA_INVALID_INTF_ID
    | Some a \<Rightarrow> (case st_ports st a of None \<Rightarrow> FPA_INVALID_INTF_ID | Some p \<Rightarrow> nd_ifindex (op_netdev p)))"
  define pids where "pids = (case port of None \<Rightarrow> st_ports_by_pid st
    | Some a \<Rightarrow> if i \<noteq> FPA_INVALID_INTF_ID then hmap_insert (st_ports_by_pid st) i a else st_ports_by_pid st)"
  have ip: "i = FPA_INVALID_INTF_ID \<and> pids = st_ports_by_pid st
      \<or> (\<exists>a p. st_ports st a = Some p \<and> nd_ifindex (op_netdev p) = i \<and> pids = hmap_insert (st_ports_by_pid st) i a)"
    by (auto simp: i_def pids_def split: option.splits)
  have "\<exists>cmds. bundle_set_open env aux cfg this st = ((en_hash_pointer env aux, new_bundle aux i),
      this\<lparr>pr_bundles := hmap_insert (pr_bundles this) (en_hash_pointer env aux) (new_bundle aux i)\<rparr>,
      st\<lparr>st_ports_by_pid := pids, st_bridge_cmds := cmds\<rparr>)"
  proof (cases port)
    case None
    then show ?thesis
      using \<open>ops_fpa_find_bundle env this aux = None\<close>
      by (intro exI [of _ "st_bridge_cmds (snd (snd (bundle_set_open env aux cfg this st)))"])
        (simp add: bundle_set_open_def ops_fpa_create_bundle_record_def i_def pids_def port_def Let_def)
  next
    case (Some a)
    then show ?thesis
      using \<open>ops_fpa_find_bundle env this aux = None\<close>
      by (intro exI [of _ "st_bridge_cmds (snd (snd (bundle_set_open env aux cfg this st)))"], cases "st_ports st a")
        (simp_all add: bundle_set_open_def ops_fpa_create_bundle_record_def i_def pids_def port_def Let_def)
  qed
  then obtain cmds where c: "n = (en_hash_pointer env aux, new_bundle aux i)"
    "this' = this\<lparr>pr_bundles := hmap_insert (pr_bundles this) (en_hash_pointer env aux) (new_bundle aux i)\<rparr>"
    "st' = st\<lparr>st_ports_by_pid := pids, st_bridge_cmds := cmds\<rparr>" using assms by auto
  show ?thesis by (rule that(2) [OF None c ip])
next
  case (Some m)
  show ?thesis by (rule that(1)) (use assms Some in \<open>simp_all add: bundle_set_open_def\<close>)
qed

lemma proto_sound_insert:
  assumes "proto_sound env st this" and "ops_fpa_find_bundle env this aux = None" and "env_sound env"
    and "i = FPA_INVALID_INTF_ID \<or> i \<in> fst ` set (st_ports_by_pid st)"
  shows "proto_sound env st (this\<lparr>pr_bundles := hmap_insert (pr_bundles this) (en_hash_pointer env aux) (new_bundle aux i)\<rparr>)"
proof -
  have "bn_aux (snd n) \<noteq> aux" if "n \<in> set (pr_bundles this)" for n
    using find_bundle_unique [of env this n aux] that assms(1,2) by (auto simp: proto_sound_def)
  then have "unique_keys bn_aux (hmap_insert (pr_bundles this) (en_hash_pointer env aux) (new_bundle aux i))"
    using assms(1) by (auto simp: proto_sound_def bundles_ok_def unique_keys_def hmap_insert_def new_bundle_def)
  moreover have "hashed_by (\<lambda>b. en_hash_pointer env (bn_aux b))
      (hmap_insert (pr_bundles this) (en_hash_pointer env aux) (new_bundle aux i))"
    using assms(1) by (simp add: proto_sound_def bundles_ok_def hashed_by_def hmap_simps new_bundle_def)
  ultimately show ?thesis
    using assms(1,4) by (auto simp: proto_sound_def bundles_ok_def hmap_simps new_bundle_def)
qed

lemma open_safe:
  assumes e: "env_sound env" and o: "bundle_set_open env aux cfg this st = (n, this', st')"
  shows "safe_step env (this, st) (this', st')"
  using o
proof (cases rule: open_cases)
  case (2 i pids cmds)
  have le: "st_le st st'" using 2 by (auto simp: st_le_def hmap_simps)
  have "part_sound env (this', st')" if p: "part_sound env (this, st)"
  proof -
    have "proto_sound env st' this'" unfolding 2(3)
    proof (rule proto_sound_insert [OF _ 2(1) e])
      show "proto_sound env st' this" using p proto_sound_mono [OF le] by (simp add: part_sound_def)
      show "i = FPA_INVALID_INTF_ID \<or> i \<in> fst ` set (st_ports_by_pid st')"
        using 2(4,5) by (auto simp: hmap_simps)
    qed
    moreover have "ports_sound st'" using p 2(4,5) by (auto simp: part_sound_def ports_sound_def hmap_simps)
    moreover have "hosts_sound env st'" using p 2(4) by (simp add: part_sound_def hosts_sound_def)
    ultimately show ?thesis by (simp add: part_sound_def)
  qed
  with le show ?thesis using 2(3,4) by (simp add: safe_step_def)
qed simp

lemma put_port_safe:
  assumes "st_ports st a = Some p" and "op_netdev p' = op_netdev p"
  shows "safe_step env (this, st) (this, st\<lparr>st_hw := hw, st_ports := (st_ports st)(a \<mapsto> p')\<rparr>)"
proof -
  let ?st = "st\<lparr>st_hw := hw, st_ports := (st_ports st)(a \<mapsto> p')\<rparr>"
  have le: "st_le st ?st" using assms by (auto simp: st_le_def)
  moreover have "ports_sound ?st" if "ports_sound st" using that assms by (force simp: ports_sound_def)
  ultimately show ?thesis
    using proto_sound_mono [OF le] by (simp add: safe_step_def part_sound_def hosts_sound_def)
qed

lemma get_ofport_SomeD: "ops_fpa_get_ofport_by_pid env st pid = Some (a, p) \<Longrightarrow> st_ports st a = Some p"
  by (auto simp: ops_fpa_get_ofport_by_pid_def split: option.splits)

lemma bundle_set_l2_safe:
  assumes "bundle_set_l2 env n cfg this st = Some (Inr st')"
  shows "safe_step env (this, st) (this, st')"
  using assms unfolding bundle_set_l2_def
  by (auto simp: Let_def split: option.splits prod.splits intro!: put_port_safe dest: get_ofport_SomeD)

lemma routing_off_safe:
  assumes "bundle_routing_off env cfg n this st = Inr (n1, this1, st1)"
  shows "safe_step env (this, st) (this1, st1)"
proof (cases "this1 = this \<and> st1 = st")
  case False
  with assms obtain iv hw where
    "this1 = set_bundle this n ((snd n)\<lparr>bn_l3_intf := None\<rparr>)" "st1 = st\<lparr>st_internal_vlans := iv, st_hw := hw\<rparr>"
    by (cases "ops_fpa_disable_routing (en_lib env) (bn_l3_intf (snd n)) (st_internal_vlans st) (st_hw st)")
      (auto simp: bundle_routing_off_def split: if_splits)
  then show ?thesis by (auto intro!: safe_trans [OF safe_set_bundle' safe_hw(2)])
qed simp

lemma routing_on_safe:
  assumes "bundle_routing_on env cfg dev vlan_id n this st = (failed, this1, st1)"
  shows "safe_step env (this, st) (this1, st1)"
  using assms unfolding bundle_routing_on_def
  by (auto split: if_splits prod.splits intro!: safe_trans [OF safe_set_bundle' safe_hw(2)]
      safe_trans [OF safe_set_bundle' safe_hw(1)])

lemma bundle_set_vrf_safe:
  assumes e: "env_sound env" and "bundle_set_vrf env aux cfg this st = Inr (ret, this', st')"
  shows "safe_step env (this, st) (this', st')"
proof (cases "this' = this \<and> st' = st")
  case False
  with assms(2) obtain n n1 this1 st1 dev vlan_id failed this2 st2 where
    1: "bundle_routing_off env cfg n this st = Inr (n1, this1, st1)"
    and 2: "bundle_routing_on env cfg dev vlan_id n1 this1 st1 = (failed, this2, st2)"
    and 3: "this' = this2 \<and> st' = st2 \<or> bundle_ip_reconfigure env aux cfg this2 st2 = Inr (this', st')"
    unfolding bundle_set_vrf_def Let_def
    by (auto split: option.splits if_splits sum.splits prod.splits elim!: map_sum_eq_InrE)
  have "safe_step env (this, st) (this2, st2)"
    by (rule safe_trans [OF routing_off_safe [OF 1] routing_on_safe [OF 2]])
  with 3 show ?thesis by (auto intro: safe_trans [OF _ ip_reconfigure_safe [OF e]])
qed simp

lemma bundle_set_tail:
  assumes e: "env_sound env" and b: "ops_fpa_ofproto_bundle_set env aux (Some cfg) this st = Some (Inr (ret, this', st'))"
    and l: "length (bs_slaves cfg) = 1" and o: "bundle_set_open env aux cfg this st = (n, this1, st1)"
  shows "safe_step env (this1, st1) (this', st')"
proof -
  let ?b = "if bn_name (snd n) \<noteq> Some (bs_name cfg) then (snd n)\<lparr>bn_name := Some (bs_name cfg)\<rparr> else snd n"
  have "safe_step env (this1, st1) (set_bundle this1 n ?b, st1)" by simp
  moreover have "safe_step env (set_bundle this1 n ?b, st1) (this', st')"
    using b l
    by (auto simp: ops_fpa_ofproto_bundle_set_def Let_def o split: if_splits elim!: map_sum_eq_InrE
        intro: bundle_set_vrf_safe [OF e] bundle_set_l2_safe)
  ultimately show ?thesis by (rule safe_trans)
qed

lemma bundle_set_safe:
  assumes e: "env_sound env" and b: "ops_fpa_ofproto_bundle_set env aux settings this st = Some (Inr (ret, this', st'))"
  shows "safe_step env (this, st) (this', st')"
proof (cases settings)
  case None
  then show ?thesis using b rm_bundle_safe [of env this _ st] by (auto simp: ops_fpa_ofproto_bundle_set_def)
next
  case (Some cfg)
  obtain n this1 st1 where o: "bundle_set_open env aux cfg this st = (n, this1, st1)" by (metis prod_cases3)
  show ?thesis
  proof (cases "length (bs_slaves cfg) = 1")
    case True
    show ?thesis by (rule safe_trans [OF open_safe [OF e o] bundle_set_tail [OF e b [unfolded Some] True o]])
  next
    case False
    then show ?thesis using b Some by (simp add: ops_fpa_ofproto_bundle_set_def)
  qed
qed

lemma set_vlan_port_safe:
  assumes "set_vlan_port env sid vid add (a, p) st = Some st'" and "st_ports st a = Some p"
  shows "safe_step env (this, st) (this, st')"
  using assms unfolding set_vlan_port_def
  by (auto simp: Let_def split_def split: if_splits intro!: put_port_safe)

lemma set_vlan_safe:
  assumes "ops_fpa_ofproto_set_vlan env vid add this st = Some (ret, this', st')"
  shows "safe_step env (this, st) (this', st')"
proof -
  have loop: "set_vlan_loop env sid vid add ns st = Some st' \<Longrightarrow> safe_step env (this, st) (this, st')" for sid ns st st'
  proof (induction ns arbitrary: st)
    case (Cons n ns)
    then show ?case
      by (auto split: option.splits prod.splits intro: safe_trans [OF set_vlan_port_safe] dest: get_ofport_SomeD)
  qed simp
  from assms obtain st1 where "safe_step env (this, st) (this, st1)" "st' = st1"
    "this' = this\<lparr>pr_vlans := (pr_vlans this)(unat vid := add)\<rparr>"
    by (auto simp: ops_fpa_ofproto_set_vlan_def dest: loop)
  moreover have "safe_step env (this, st1) (this\<lparr>pr_vlans := x\<rparr>, st1)" for x
    by (rule safe_part) (simp_all add: bundle_shape_def part_sound_def)
  ultimately show ?thesis by (metis safe_trans)
qed

lemma route_action_safe:
  assumes "l3_route_action env this action route st = Inr (ret, st')"
  shows "safe_step env (this, st) (this, st')"
  using assms unfolding l3_route_action_def
  by (auto simp: Let_def split: if_splits option.splits prod.splits sum.splits list.splits route_action.splits)

section \<open>The plugin as a transition system\<close>

text \<open>
  The bridges and virtual routers that exist, and the state they share. Open vSwitch creates bridges and
  ports and calls their operations in any order; an operation that returns makes a step. What the MAC
  learning thread and the life of the bridges do to the device is left open here and is added in \<open>Fpa_System\<close>. Ports are not freed; the last theorem
  shows what freeing them would break.
\<close>

type_synonym 'hw plugin_sys = "(nat \<Rightarrow> fpa_ofproto option) \<times> 'hw plugin_state"

inductive plugin_step :: "'hw plugin_env \<Rightarrow> 'hw plugin_sys \<Rightarrow> 'hw plugin_sys \<Rightarrow> bool" for env where
  construct: "P k = None \<Longrightarrow> pr_ports this = Map.empty \<Longrightarrow> pr_bundles this = [] \<Longrightarrow>
    plugin_step env (P, st) (P(k \<mapsto> this), st)"
| destruct: "plugin_step env (P, st) (P(k := None), st)"
| port_construct: "P k = Some this \<Longrightarrow> st_ports st a = None \<Longrightarrow> ops_fpa_ofproto_port_construct p = (ret, p') \<Longrightarrow>
    plugin_step env (P, st) (P(k \<mapsto> this\<lparr>pr_ports := (pr_ports this)(op_ofp_port p \<mapsto> a)\<rparr>),
      st\<lparr>st_ports := (st_ports st)(a \<mapsto> p')\<rparr>)"
| port_add: "P k = Some this \<Longrightarrow> ops_fpa_ofproto_port_add this dev = (ret, this') \<Longrightarrow>
    plugin_step env (P, st) (P(k \<mapsto> this'), st)"
| bundle_set: "P k = Some this \<Longrightarrow>
    ops_fpa_ofproto_bundle_set env aux settings this st = Some (Inr (ret, this', st')) \<Longrightarrow>
    plugin_step env (P, st) (P(k \<mapsto> this'), st')"
| set_vlan: "P k = Some this \<Longrightarrow> ops_fpa_ofproto_set_vlan env vid add this st = Some (ret, this', st') \<Longrightarrow>
    plugin_step env (P, st) (P(k \<mapsto> this'), st')"
| add_host: "P k = Some this \<Longrightarrow> add_l3_host_entry env this aux v6 ip mac e st = Inr (ret, e', this', st') \<Longrightarrow>
    plugin_step env (P, st) (P(k \<mapsto> this'), st')"
| delete_host: "P k = Some this \<Longrightarrow> delete_l3_host_entry env this aux v6 ip st = Inr (ret, this', st') \<Longrightarrow>
    plugin_step env (P, st) (P(k \<mapsto> this'), st')"
| route: "P k = Some this \<Longrightarrow> l3_route_action env this action route st = Inr (ret, st') \<Longrightarrow>
    plugin_step env (P, st) (P, st')"
| run: "P k = Some this \<Longrightarrow> plugin_step env (P, st) (P(k \<mapsto> this\<lparr>pr_change_seq := new_seq\<rparr>), st)"
| device: "plugin_step env (P, st) (P, st\<lparr>st_dev := d\<rparr>)"

inductive plugin_reach :: "'hw plugin_env \<Rightarrow> 'hw plugin_sys \<Rightarrow> bool" for env where
  init: "st_ports st = Map.empty \<Longrightarrow> st_ports_by_pid st = [] \<Longrightarrow>
    plugin_reach env (Map.empty, ops_fpa_ofproto_init st)"
| step: "plugin_reach env s \<Longrightarrow> plugin_step env s s' \<Longrightarrow> plugin_reach env s'"

definition system_sound :: "'hw plugin_env \<Rightarrow> 'hw plugin_sys \<Rightarrow> bool" where
  "system_sound env s \<longleftrightarrow> ports_sound (snd s) \<and> hosts_sound env (snd s)
     \<and> (\<forall>k this. fst s k = Some this \<longrightarrow> proto_sound env (snd s) this)"

lemma system_sound_safe:
  assumes "system_sound env (P, st)" and "P k = Some this" and "safe_step env (this, st) (this', st')"
  shows "system_sound env (P(k \<mapsto> this'), st')"
proof -
  have "part_sound env (this, st)" using assms(1,2) by (simp add: system_sound_def part_sound_def)
  with assms(3) have "part_sound env (this', st')" and "st_le st st'" by (simp_all add: safe_step_def)
  with assms(1) show ?thesis using proto_sound_mono [of st st'] by (simp add: system_sound_def part_sound_def)
qed

lemma system_sound_step:
  assumes e: "env_sound env" and "plugin_step env s s'" and "system_sound env s"
  shows "system_sound env s'"
  using assms(2,3)
proof cases
  case (construct P k this st)
  then show ?thesis
    using assms(3) e by (auto simp: system_sound_def proto_sound_def bundles_ok_def env_sound_def unique_keys_def hashed_by_def)
next
  case (destruct P st k)
  then show ?thesis using assms(3) by (simp add: system_sound_def)
next
  case (port_construct P k this st a p ret p')
  let ?st = "st\<lparr>st_ports := (st_ports st)(a \<mapsto> p')\<rparr>"
  have le: "st_le st ?st" using port_construct(4) by (auto simp: st_le_def)
  have "ports_sound ?st" using assms(3) port_construct by (force simp: system_sound_def ports_sound_def)
  moreover have "proto_sound env ?st (this\<lparr>pr_ports := (pr_ports this)(f \<mapsto> a)\<rparr>)" if "proto_sound env ?st this" for f
    using that by (auto simp: proto_sound_def bundles_ok_def)
  ultimately show ?thesis
    using assms(3) port_construct proto_sound_mono [OF le] by (simp add: system_sound_def hosts_sound_def)
next
  case (port_add P k this dev ret this' st)
  then have "safe_step env (this, st) (this', st)"
    by (auto simp: ops_fpa_ofproto_port_add_def bundle_shape_def part_sound_def intro!: safe_part)
  with port_add show ?thesis using assms(3) system_sound_safe by blast
next
  case (route P k this action route st ret st')
  then show ?thesis
    using assms(3) system_sound_safe [OF _ _ route_action_safe] by (metis fun_upd_triv)
next
  case (run P k this st new_seq)
  have "safe_step env (this, st) (this\<lparr>pr_change_seq := new_seq\<rparr>, st)"
    by (rule safe_part) (simp_all add: bundle_shape_def part_sound_def)
  with run show ?thesis using assms(3) system_sound_safe by blast
next
  case (device P st d)
  then show ?thesis
    using assms(3) by (auto simp: system_sound_def ports_sound_def hosts_sound_def proto_sound_def)
qed (use assms(3) in \<open>auto intro: system_sound_safe bundle_set_safe [OF e] set_vlan_safe add_l3_host_entry_safe
  delete_l3_host_entry_safe [OF e]\<close>)

lemma plugin_reach_sound_aux:
  assumes "env_sound env" and "plugin_reach env s"
  shows "system_sound env s"
  using assms(2)
proof induction
  case (init st)
  have "arp_rep arp_indices_init [1..<ARP_INDICES_SIZE + 1]" by (rule arp.rep_start)
  with init show ?case
    by (auto simp: system_sound_def ports_sound_def hosts_sound_def ops_fpa_ofproto_init_def host_wf_def
        hashed_by_def unique_keys_def simp del: upt_Suc)
next
  case (step s s')
  then show ?case using system_sound_step [OF assms(1)] by blast
qed


section \<open>Crashes\<close>

lemma get_ofport_found:
  assumes "ports_sound st" and "visits_all (en_port_order env)" and "pid \<in> fst ` set (st_ports_by_pid st)"
  shows "ops_fpa_get_ofport_by_pid env st pid \<noteq> None"
proof -
  let ?P = "\<lambda>n. fst n AND en_port_mask env (st_ports_by_pid st) = pid AND en_port_mask env (st_ports_by_pid st)"
  have "find ?P (en_port_order env (st_ports_by_pid st)) \<noteq> None"
    using assms(3) by (auto simp: find_order_None [OF assms(2)])
  then obtain n where n: "find ?P (en_port_order env (st_ports_by_pid st)) = Some n" by auto
  then have "st_ports st (snd n) \<noteq> None"
    using find_order_SomeD(1) [OF assms(2) n] assms(1) by (auto simp: ports_sound_def)
  with n show ?thesis
    by (cases n) (auto simp: ops_fpa_get_ofport_by_pid_def hmap_search_bucket_def)
qed

lemma open_find:
  assumes "env_sound env" and "part_sound env (this, st)" and o: "bundle_set_open env aux cfg this st = (n, this', st')"
  shows "ops_fpa_find_bundle env this' aux = Some n" and "pr_type this' = pr_type this" and "pr_name this' = pr_name this"
    and "ops_fpa_find_bundle env this aux \<noteq> None \<Longrightarrow> ops_fpa_find_bundle env this aux = Some n"
    and "ops_fpa_find_bundle env this aux = None \<Longrightarrow> bn_ip4addr (snd n) = None"
proof -
  have "part_sound env (this', st')" using open_safe [OF assms(1) o] assms(2) by (simp add: safe_step_def)
  then have ok: "bundles_ok env this'" by (simp add: part_sound_def proto_sound_def)
  from o show "ops_fpa_find_bundle env this' aux = Some n"
  proof (cases rule: open_cases)
    case (2 i pids cmds)
    show ?thesis by (rule find_bundle_unique [OF ok]) (simp_all add: 2(2,3) hmap_simps new_bundle_def)
  qed simp
  from o show "pr_type this' = pr_type this" and "pr_name this' = pr_name this"
    and "ops_fpa_find_bundle env this aux \<noteq> None \<Longrightarrow> ops_fpa_find_bundle env this aux = Some n"
    and "ops_fpa_find_bundle env this aux = None \<Longrightarrow> bn_ip4addr (snd n) = None"
    by (cases rule: open_cases; simp add: new_bundle_def)+
qed

lemma routing_stages_find:
  assumes ok: "bundles_ok env this" and find: "ops_fpa_find_bundle env this aux = Some n"
    and off: "bundle_routing_off env cfg n this st = Inr (n1, this1, st1)"
    and on: "bundle_routing_on env cfg dev vlan_id n1 this1 st1 = (failed, this2, st2)"
  shows "bundles_ok env this2"
    and "\<exists>n2. ops_fpa_find_bundle env this2 aux = Some n2 \<and> bn_ip4addr (snd n2) = bn_ip4addr (snd n)"
proof -
  have 1: "bundles_ok env this1 \<and> ops_fpa_find_bundle env this1 aux = Some n1 \<and> bn_ip4addr (snd n1) = bn_ip4addr (snd n)"
    using off find_set_bundle [OF ok find, of "(snd n)\<lparr>bn_l3_intf := None\<rparr>"] ok find
    by (auto simp: bundle_routing_off_def split: if_splits elim!: map_sum_eq_InrE)
  have "bundles_ok env this2 \<and> (\<exists>n2. ops_fpa_find_bundle env this2 aux = Some n2 \<and> bn_ip4addr (snd n2) = bn_ip4addr (snd n1))"
    using on find_set_bundle [of env this1 aux n1] 1
    by (cases n1) (auto simp: bundle_routing_on_def split: if_splits prod.splits)
  with 1 show "bundles_ok env this2"
    and "\<exists>n2. ops_fpa_find_bundle env this2 aux = Some n2 \<and> bn_ip4addr (snd n2) = bn_ip4addr (snd n)" by auto
qed

lemma routing_off_returns: "\<exists>x. bundle_routing_off env cfg n this st = Inr x"
  by (cases "bn_l3_intf (snd n)") (auto simp: bundle_routing_off_def ops_fpa_disable_routing_def Let_def split_def)

lemma bundle_set_vrf_crash:
  assumes ok: "bundles_ok env this" and find: "ops_fpa_find_bundle env this aux = Some n"
    and crash: "bundle_set_vrf env aux cfg this st = Inl c"
  shows "bs_secondary_ipv4_changed cfg" and "\<not> bs_primary_ipv4_changed cfg" and "bn_ip4addr (snd n) = None"
proof -
  obtain n1 this1 st1 where off: "bundle_routing_off env cfg n this st = Inr (n1, this1, st1)"
    using routing_off_returns by (metis prod_cases3)
  obtain dev vlan_id failed this2 st2 where on: "bundle_routing_on env cfg dev vlan_id n1 this1 st1 = (failed, this2, st2)"
    and ip: "bundle_ip_reconfigure env aux cfg this2 st2 = Inl c"
    using crash find off unfolding bundle_set_vrf_def Let_def
    by (auto split: option.splits if_splits sum.splits prod.splits elim!: map_sum_eq_InlE)
  note s = routing_stages_find [OF ok find off on]
  from s(2) obtain n2 where "ops_fpa_find_bundle env this2 aux = Some n2" "bn_ip4addr (snd n2) = bn_ip4addr (snd n)" by blast
  with ip_reconfigure_crash [OF s(1) this(1) ip] show "bs_secondary_ipv4_changed cfg"
    and "\<not> bs_primary_ipv4_changed cfg" and "bn_ip4addr (snd n) = None" by simp_all
qed

text \<open>In every reachable state, configuring or removing a bundle crashes in one case only: on a virtual
  router, when the secondary addresses change and the bundle has no primary address. Every other
  configuration returns, if reading the VLAN state from the switch returns.\<close>

lemma bundle_set_crash:
  assumes e: "env_sound env" and reach: "plugin_reach env (P, st)" and P: "P k = Some this"
    and crash: "ops_fpa_ofproto_bundle_set env aux settings this st = Some (Inl c)"
  shows "\<exists>cfg. settings = Some cfg \<and> pr_type this = ''vrf'' \<and> bs_secondary_ipv4_changed cfg \<and> \<not> bs_primary_ipv4_changed cfg
    \<and> (\<forall>n. ops_fpa_find_bundle env this aux = Some n \<longrightarrow> bn_ip4addr (snd n) = None)"
proof -
  have sound: "part_sound env (this, st)"
    using plugin_reach_sound_aux [OF e reach] P by (simp add: system_sound_def part_sound_def)
  show ?thesis
  proof (cases settings)
    case None
    then show ?thesis
      using crash by (auto simp: ops_fpa_ofproto_bundle_set_def ops_fpa_rm_bundle_def ops_fpa_disable_routing_def Let_def
          split_def split: option.splits if_splits sum.splits)
  next
    case (Some cfg)
    obtain n this1 st1 where o: "bundle_set_open env aux cfg this st = (n, this1, st1)" by (metis prod_cases3)
    define b where "b = (if bn_name (snd n) \<noteq> Some (bs_name cfg) then (snd n)\<lparr>bn_name := Some (bs_name cfg)\<rparr> else snd n)"
    have b: "bn_aux b = bn_aux (snd n)" "bn_intf_id b = bn_intf_id (snd n)" "bn_ip4addr b = bn_ip4addr (snd n)"
      by (simp_all add: b_def)
    note f = open_find [OF e sound o]
    have s1: "part_sound env (this1, st1)" using open_safe [OF e o] sound by (simp add: safe_step_def)
    then have ok1: "bundles_ok env this1" by (simp add: part_sound_def proto_sound_def)
    note s = find_set_bundle [OF ok1 f(1) b(1)]
    have "ops_fpa_get_ofport_by_pid env st1 (bn_intf_id (snd n)) \<noteq> None" if "bn_intf_id (snd n) \<noteq> FPA_INVALID_INTF_ID"
      by (rule get_ofport_found)
        (use s1 that e find_bundle_mem(1) [OF ok1 f(1)] in \<open>auto simp: part_sound_def proto_sound_def env_sound_def\<close>)
    then have l2: "bundle_set_l2 env (fst n, b) cfg this' st1 \<noteq> Some (Inl c)"
      if "bn_intf_id b \<noteq> FPA_INVALID_INTF_ID" for this'
      using that b(2) by (auto simp: bundle_set_l2_def Let_def split: option.splits prod.splits)
    have t: "pr_type (set_bundle this1 n b) = pr_type this" using f(2) by (simp add: set_bundle_def)
    have "pr_type this = ''vrf'' \<and> bundle_set_vrf env aux cfg (set_bundle this1 n b) st1 = Inl c"
      using crash l2 t Some b_def o
      by (auto simp: ops_fpa_ofproto_bundle_set_def Let_def split: if_splits elim!: map_sum_eq_InlE)
    moreover from this have "bs_secondary_ipv4_changed cfg" "\<not> bs_primary_ipv4_changed cfg" "bn_ip4addr b = None"
      using bundle_set_vrf_crash [OF s(2,1)] by auto
    ultimately show ?thesis using Some b(3) f(4) by auto
  qed
qed

section \<open>Ports of removed bundles\<close>

lemma bundle_set_enters_port:
  assumes e: "env_sound env" and l: "length (bs_slaves cfg) = 1" and none: "ops_fpa_find_bundle env this aux = None"
    and port: "pr_ports this (bs_slaves cfg ! 0) = Some a" "st_ports st a = Some p"
    and id: "nd_ifindex (op_netdev p) \<noteq> FPA_INVALID_INTF_ID"
    and b: "ops_fpa_ofproto_bundle_set env aux (Some cfg) this st = Some (Inr (ret, this', st'))"
  shows "add_mset (nd_ifindex (op_netdev p), a) (mset (st_ports_by_pid st)) \<subseteq># mset (st_ports_by_pid st')"
proof -
  obtain n this1 st1 where o: "bundle_set_open env aux cfg this st = (n, this1, st1)" by (metis prod_cases3)
  then have "mset (st_ports_by_pid st1) = add_mset (nd_ifindex (op_netdev p), a) (mset (st_ports_by_pid st))"
    using none port id
    by (auto simp: bundle_set_open_def ops_fpa_create_bundle_record_def Let_def hmap_simps split: if_splits)
  with bundle_set_tail [OF e b l o] show ?thesis by (simp add: safe_step_def st_le_def)
qed

lemma rm_bundle_find:
  assumes ok: "bundles_ok env this" and rm: "ops_fpa_ofproto_bundle_set env aux None this st = Some (Inr (ret, this', st'))"
  shows "ops_fpa_find_bundle env this' aux = None"
proof (cases "ops_fpa_find_bundle env this aux")
  case None
  then show ?thesis using rm by (auto simp: ops_fpa_ofproto_bundle_set_def ops_fpa_rm_bundle_def)
next
  case (Some n)
  then have t: "pr_bundles this' = hmap_remove (pr_bundles this) n"
    using rm by (auto simp: ops_fpa_ofproto_bundle_set_def ops_fpa_rm_bundle_def split: sum.splits if_splits)
  have d: "distinct (pr_bundles this)" using ok by (simp add: bundles_ok_def unique_keys_def distinct_map)
  have "bn_aux (snd m) \<noteq> aux" if "m \<in> set (pr_bundles this')" for m
  proof
    assume "bn_aux (snd m) = aux"
    then have "m = n" using find_bundle_unique [OF ok, of m aux] that Some set_hmap_remove_subset t by fastforce
    then show False using that t d by (simp add: hmap_remove_def)
  qed
  then show ?thesis
    using ok by (simp add: ops_fpa_find_bundle_def hmap_search_bucket_def bundles_ok_def find_order_None)
qed

text \<open>(C24) Removing a bundle leaves its port in the map of ports. If Open vSwitch then frees the port, the map
  points to freed memory; if it configures the bundle again, the same node is put into the map a second
  time, which a hash map does not allow.\<close>

theorem port_dealloc_dangles:
  assumes e: "env_sound env" and sound: "system_sound env (P, st)" and P: "P k = Some this"
    and l: "length (bs_slaves cfg) = 1" and none: "ops_fpa_find_bundle env this aux = None"
    and port: "pr_ports this (bs_slaves cfg ! 0) = Some a" "st_ports st a = Some p"
    and id: "nd_ifindex (op_netdev p) \<noteq> FPA_INVALID_INTF_ID"
    and add: "ops_fpa_ofproto_bundle_set env aux (Some cfg) this st = Some (Inr (r1, this1, st1))"
    and rm: "ops_fpa_ofproto_bundle_set env aux None this1 st1 = Some (Inr (r2, this2, st2))"
  shows "(nd_ifindex (op_netdev p), a) \<in> set (st_ports_by_pid (ops_fpa_ofproto_port_dealloc a st2))
      \<and> st_ports (ops_fpa_ofproto_port_dealloc a st2) a = None
    \<and> (\<forall>r3 this3 st3. ops_fpa_ofproto_bundle_set env aux (Some cfg) this2 st2 = Some (Inr (r3, this3, st3)) \<longrightarrow>
         \<not> distinct (st_ports_by_pid st3))"
proof (intro conjI allI impI)
  have s0: "part_sound env (this, st)" using sound P by (simp add: system_sound_def part_sound_def)
  have s1: "safe_step env (this, st) (this1, st1)" and s2: "safe_step env (this1, st1) (this2, st2)"
    by (rule bundle_set_safe [OF e add], rule bundle_set_safe [OF e rm])
  then have ok1: "bundles_ok env this1" using s0 by (simp add: safe_step_def part_sound_def proto_sound_def)
  have "add_mset (nd_ifindex (op_netdev p), a) (mset (st_ports_by_pid st)) \<subseteq># mset (st_ports_by_pid st2)"
    using bundle_set_enters_port [OF e l none port id add] s2 by (auto simp: safe_step_def st_le_def)
  then have mem: "(nd_ifindex (op_netdev p), a) \<in> set (st_ports_by_pid st2)"
    by (metis mset_subset_eqD set_mset_mset union_single_eq_member)
  then show "(nd_ifindex (op_netdev p), a) \<in> set (st_ports_by_pid (ops_fpa_ofproto_port_dealloc a st2))"
    and "st_ports (ops_fpa_ofproto_port_dealloc a st2) a = None"
    by (simp_all add: ops_fpa_ofproto_port_dealloc_def)
  have "st_le st st2" and pp: "pr_ports this2 = pr_ports this" using safe_trans [OF s1 s2] by (auto simp: safe_step_def dest: proto_head_ports)
  then obtain p2 where p2: "st_ports st2 a = Some p2" "op_netdev p2 = op_netdev p" using port(2) by (auto simp: st_le_def)
  fix r3 this3 st3
  assume again: "ops_fpa_ofproto_bundle_set env aux (Some cfg) this2 st2 = Some (Inr (r3, this3, st3))"
  have "add_mset (nd_ifindex (op_netdev p), a) (mset (st_ports_by_pid st2)) \<subseteq># mset (st_ports_by_pid st3)"
    using bundle_set_enters_port [OF e l rm_bundle_find [OF ok1 rm] _ p2(1) _ again] pp port(1) id p2(2) by simp
  from mset_subset_eq_count [OF this, of "(nd_ifindex (op_netdev p), a)"]
  have "Suc (count (mset (st_ports_by_pid st2)) (nd_ifindex (op_netdev p), a))
      \<le> count (mset (st_ports_by_pid st3)) (nd_ifindex (op_netdev p), a)" by simp
  moreover have "0 < count (mset (st_ports_by_pid st2)) (nd_ifindex (op_netdev p), a)"
    unfolding count_greater_zero_iff set_mset_mset by (rule mem)
  ultimately have "1 < count (mset (st_ports_by_pid st3)) (nd_ifindex (op_netdev p), a)" by linarith
  then show "\<not> distinct (st_ports_by_pid st3)" by (metis distinct_count_atmost_1 less_irrefl not_less_zero)
qed

section \<open>A run\<close>

text \<open>A virtual router with one port, number 5, and no bundle.\<close>

definition sample_router :: fpa_ofproto where
  "sample_router = (sample_proto ''vrf'' None)\<lparr>pr_ports := Map.empty, pr_bundles := []\<rparr>"

definition sample_plugin :: "sim plugin_sys" where
  "sample_plugin = ([7 \<mapsto> sample_router\<lparr>pr_ports := [1 \<mapsto> 0]\<rparr>],
     (ops_fpa_ofproto_init ((sample_state sim_empty)\<lparr>st_ports := Map.empty, st_ports_by_pid := []\<rparr>))
       \<lparr>st_ports := [0 \<mapsto> sample_port]\<rparr>)"

lemma sample_env_sound: "env_sound (sample_env full gfull)"
  by (simp add: env_sound_def sample_env_def host_ok_def)

lemma sample_plugin_reach: "plugin_reach (sample_env full gfull) sample_plugin"
proof -
  let ?st = "(sample_state sim_empty)\<lparr>st_ports := Map.empty, st_ports_by_pid := []\<rparr>"
  have "plugin_reach (sample_env full gfull) (Map.empty, ops_fpa_ofproto_init ?st)" by (rule plugin_reach.init) simp_all
  from plugin_reach.step [OF this plugin_step.construct [of Map.empty 7 sample_router]]
  have 1: "plugin_reach (sample_env full gfull) ([7 \<mapsto> sample_router], ops_fpa_ofproto_init ?st)"
    by (simp add: sample_router_def)
  have p: "ops_fpa_ofproto_port_construct sample_port = (0, sample_port)"
    by (simp add: ops_fpa_ofproto_port_construct_def sample_port_def)
  have "plugin_step (sample_env full gfull) ([7 \<mapsto> sample_router], ops_fpa_ofproto_init ?st) sample_plugin"
    using plugin_step.port_construct [of "[7 \<mapsto> sample_router]" 7 sample_router "ops_fpa_ofproto_init ?st" 0, OF _ _ p]
    by (simp add: sample_plugin_def ops_fpa_ofproto_init_def sample_router_def sample_proto_def sample_port_def)
  with 1 show ?thesis by (rule plugin_reach.step)
qed


lemmas run_simps = sample_plugin_def sample_router_def sample_proto_def sample_cfg_def sample_state_def sample_port_def
  sample_env_def ops_fpa_ofproto_init_def ops_fpa_ofproto_bundle_set_def bundle_set_open_def ops_fpa_find_bundle_def
  hmap_search_bucket_def ops_fpa_create_bundle_record_def new_bundle_def set_bundle_def hmap_insert_def hmap_replace_def
  bundle_set_vrf_def ops_fpa_ofport_def bundle_routing_off_def bundle_routing_on_def bundle_ip_reconfigure_def
  bundle_ipv4_secondary_reconfigure_def find_ipv4_addr_in_bundle_def hmap_search_hash_def ops_fpa_rm_bundle_def hmap_remove_def

theorem port_dealloc_dangles_witness:
  "\<exists>this1 st1 this2 st2. ops_fpa_ofproto_bundle_set (sample_env {} False) 9 (Some (sample_cfg PORT_VLAN_ACCESS 0 None))
        (the (fst sample_plugin 7)) (snd sample_plugin) = Some (Inr (0, this1, st1))
    \<and> ops_fpa_ofproto_bundle_set (sample_env {} False) 9 None this1 st1 = Some (Inr (0, this2, st2))
    \<and> (5, 0) \<in> set (st_ports_by_pid (ops_fpa_ofproto_port_dealloc 0 st2))
    \<and> st_ports (ops_fpa_ofproto_port_dealloc 0 st2) 0 = None"
proof -
  let ?cfg = "sample_cfg PORT_VLAN_ACCESS 0 None" and ?env = "sample_env {} False"
  have sound: "system_sound ?env (fst sample_plugin, snd sample_plugin)"
    using plugin_reach_sound_aux [OF sample_env_sound sample_plugin_reach] by simp
  have P: "fst sample_plugin 7 = Some (the (fst sample_plugin 7))" by (simp add: sample_plugin_def)
  obtain this1 st1 where a: "ops_fpa_ofproto_bundle_set ?env 9 (Some ?cfg) (the (fst sample_plugin 7)) (snd sample_plugin)
      = Some (Inr (0, this1, st1))" by (simp add: run_simps)
  then obtain this2 st2 where r: "ops_fpa_ofproto_bundle_set ?env 9 None this1 st1 = Some (Inr (0, this2, st2))"
    by (auto simp: run_simps)
  have "(nd_ifindex (op_netdev sample_port), 0) \<in> set (st_ports_by_pid (ops_fpa_ofproto_port_dealloc 0 st2))
      \<and> st_ports (ops_fpa_ofproto_port_dealloc 0 st2) 0 = None
    \<and> (\<forall>r3 this3 st3. ops_fpa_ofproto_bundle_set ?env 9 (Some ?cfg) this2 st2 = Some (Inr (r3, this3, st3)) \<longrightarrow>
         \<not> distinct (st_ports_by_pid st3))"
    by (rule port_dealloc_dangles [OF sample_env_sound sound P _ _ _ _ _ a r]) (simp_all add: run_simps)
  with a r show ?thesis by (auto simp: sample_port_def)
qed

end
