(* ===== verification/Fpa_Tap.thy ===== *)
theory Fpa_Tap
  imports Fpa_Vlan Fpa_MacLearning
begin

text \<open>
  \<open>src/ops-fpa-tap.c\<close> and \<open>src/ops-fpa-util.c\<close>: a TAP interface of the kernel for every port of the
  switch. The main thread creates and deletes interfaces under the device mutex and tells two listener
  threads through pipes; one thread carries frames from the TAP interfaces to the switch, the other
  from the switch to the TAP interfaces. The operating system is a parameter with an abstract state
  \<open>'os\<close>. The listeners' loops have no end of their own; the model has the step of each loop: reading
  the pending commands, and carrying one frame.
\<close>

section \<open>The operating system\<close>

text \<open>
  \<open>os_system\<close> is \<open>system\<close> with the wait status it returns; \<open>os_open\<close> opens \<open>/dev/net/tun\<close> and returns a
  descriptor or the negated error; \<open>os_tunsetiff\<close> is the \<open>ioctl\<close> of that name, with the error or the name
  of the interface; \<open>os_pipe_room\<close> says whether a non-blocking write to a pipe with the given contents
  succeeds.
\<close>

record 'os os_env =
  os_system :: "string \<Rightarrow> 'os \<Rightarrow> u32 \<times> 'os"
  os_open :: "'os \<Rightarrow> int \<times> 'os"
  os_tunsetiff :: "int \<Rightarrow> string \<Rightarrow> 'os \<Rightarrow> (int + string) \<times> 'os"
  os_set_nonblocking :: "int \<Rightarrow> 'os \<Rightarrow> int \<times> 'os"
  os_close :: "int \<Rightarrow> 'os \<Rightarrow> 'os"
  os_pipe :: "'os \<Rightarrow> (int \<times> int) \<times> 'os"
  os_pipe_room :: "ctrl_cmd list \<Rightarrow> bool"
  os_ether_ntoa :: "eth_addr \<Rightarrow> string"
  os_map_order :: "tap_if_entry hmap_order"

definition WIFEXITED :: "u32 \<Rightarrow> bool" where
  "WIFEXITED s \<longleftrightarrow> s AND 0x7F = 0"

definition WEXITSTATUS :: "u32 \<Rightarrow> u32" where
  "WEXITSTATUS s = drop_bit 8 s AND 0xFF"

text \<open>The command is cut at the size of its buffer. A command that did not exit normally is an error.\<close>

definition ops_fpa_system :: "'os os_env \<Rightarrow> string \<Rightarrow> 'os \<Rightarrow> int \<times> 'os" where
  "ops_fpa_system E cmd os =
     (let (ret, os) = os_system E (take 255 cmd) os in
      if WIFEXITED ret then (if WEXITSTATUS ret = 0 then (0, os) else (EFAULT, os))
      else (EFAULT, os))"

definition ops_fpa_net_if_setup :: "'os os_env \<Rightarrow> string \<Rightarrow> eth_addr \<Rightarrow> 'os \<Rightarrow> int \<times> 'os" where
  "ops_fpa_net_if_setup E name mac os =
     (let (rc, os) = ops_fpa_system E (''/sbin/ifconfig '' @ name @ '' down'') os in
      if rc \<noteq> 0 then (EFAULT, os) else
      let (rc, os) = ops_fpa_system E (''/sbin/ip link set '' @ name @ '' address '' @ os_ether_ntoa E mac) os in
      if rc \<noteq> 0 then (EFAULT, os) else
      let (rc, os) = ops_fpa_system E (''/sbin/ifconfig '' @ name @ '' up'') os in
      if rc \<noteq> 0 then (EFAULT, os) else (0, os))"

definition ops_fpa_bridge_create :: "'os os_env \<Rightarrow> string \<Rightarrow> eth_addr \<Rightarrow> 'os \<Rightarrow> int \<times> 'os" where
  "ops_fpa_bridge_create E name mac os =
     (let (rc, os) = ops_fpa_system E (''ip link add name '' @ name @ '' type bridge'') os;
          (rc, os) = ops_fpa_net_if_setup E name mac os in
      if rc \<noteq> 0 then (EPERM, os) else
      let (rc, os) = ops_fpa_system E (''ip link set '' @ name @ '' up'') os in
      if rc \<noteq> 0 then (EPERM, os) else (0, os))"

definition ops_fpa_bridge_delete :: "'os os_env \<Rightarrow> string \<Rightarrow> 'os \<Rightarrow> int \<times> 'os" where
  "ops_fpa_bridge_delete E name os =
     (let (rc, os) = ops_fpa_system E (''ip link delete '' @ name @ '' type bridge'') os
      in if rc \<noteq> 0 then (EFAULT, os) else (0, os))"

text \<open>\<open>DEFAULT_BRIDGE_NAME\<close> is defined outside the repository and is an argument.\<close>

definition ops_fpa_bridge_port_add :: "'os os_env \<Rightarrow> string \<Rightarrow> string \<Rightarrow> 'os \<Rightarrow> int \<times> 'os" where
  "ops_fpa_bridge_port_add E bridge name os =
     (let (rc, os) = ops_fpa_system E (''ip link set '' @ name @ '' master '' @ bridge) os
      in if rc \<noteq> 0 then (EFAULT, os) else (0, os))"

definition ops_fpa_bridge_port_rm :: "'os os_env \<Rightarrow> string \<Rightarrow> 'os \<Rightarrow> int \<times> 'os" where
  "ops_fpa_bridge_port_rm E name os =
     (let (rc, os) = ops_fpa_system E (''ip link set '' @ name @ '' nomaster'') os in (0, os))"

text \<open>The descriptor or a negated error, and the name the kernel gave. \<open>ifr_name\<close> has room for 15 characters.\<close>

abbreviation (input) IFNAMSIZ :: nat where "IFNAMSIZ \<equiv> 16"

definition ops_fpa_tun_alloc :: "'os os_env \<Rightarrow> string \<Rightarrow> 'os \<Rightarrow> int \<times> string \<times> 'os" where
  "ops_fpa_tun_alloc E name os =
     (let (fd, os) = os_open E os in
      if fd < 0 then (fd, name, os) else
      case os_tunsetiff E fd (take (IFNAMSIZ - 1) name) os of
        (Inl err, os) \<Rightarrow> (- err, name, os_close E fd os)
      | (Inr name, os) \<Rightarrow> (fd, name, os))"

section \<open>Interfaces\<close>

text \<open>
  The globals of \<open>src/ops-fpa-dev.c\<close>: the device and whether its mutex is held. The main thread is the
  only one that takes the mutex, so finding it held means that the thread waits for itself.
\<close>

record dev_state =
  ds_dev :: "fpa_dev option"
  ds_mutex :: bool

abbreviation (input) FPA_INVALID_SWITCH_ID :: u32 where "FPA_INVALID_SWITCH_ID \<equiv> 0xFFFF"

definition ops_fpa_dev_mutex_lock :: "dev_state \<Rightarrow> crash + dev_state" where
  "ops_fpa_dev_mutex_lock ds = (if ds_mutex ds then Inl Self_Deadlock else Inr (ds\<lparr>ds_mutex := True\<rparr>))"

definition ops_fpa_dev_mutex_unlock :: "dev_state \<Rightarrow> dev_state" where
  "ops_fpa_dev_mutex_unlock ds = ds\<lparr>ds_mutex := False\<rparr>"

definition get_tap_info_by_switch_id :: "dev_state \<Rightarrow> u32 \<Rightarrow> crash + tap_info option" where
  "get_tap_info_by_switch_id ds switchId =
     (case ops_fpa_dev_by_id (ds_dev ds) switchId of Inl c \<Rightarrow> Inl c | Inr fdev \<Rightarrow> Inr (dv_tap_if_info fdev))"

text \<open>The structure is changed in place through the pointer in the device.\<close>

definition put_tap_info :: "tap_info \<Rightarrow> dev_state \<Rightarrow> dev_state" where
  "put_tap_info info ds = ds\<lparr>ds_dev := map_option (\<lambda>d. d\<lparr>dv_tap_if_info := Some info\<rparr>) (ds_dev ds)\<rparr>"

definition send_ctrl_cmd :: "'os os_env \<Rightarrow> int \<Rightarrow> ctrl_cmd \<Rightarrow> ctrl_cmd list \<Rightarrow> crash + ctrl_cmd list" where
  "send_ctrl_cmd E fd cmd pipe =
     (if fd < 0 then Inl Assert_Failed else Inr (if os_pipe_room E pipe then pipe @ [cmd] else pipe))"

text \<open>The loops that send one command to every thread, from thread \<open>i\<close> on.\<close>

primrec send_all_from :: "'os os_env \<Rightarrow> ctrl_cmd \<Rightarrow> nat \<Rightarrow> nat \<Rightarrow> tap_info \<Rightarrow> crash + tap_info" where
  "send_all_from E cmd i 0 info = Inr info"
| "send_all_from E cmd i (Suc n) info =
     (case send_ctrl_cmd E (snd (ti_ctrl_fds info ! i)) cmd (ti_pipes info ! i) of Inl c \<Rightarrow> Inl c
      | Inr pipe \<Rightarrow> send_all_from E cmd (Suc i) n (info\<lparr>ti_pipes := (ti_pipes info)[i := pipe]\<rparr>))"

definition get_if_entry :: "'os os_env \<Rightarrow> tap_if_entry hmap \<Rightarrow> int \<Rightarrow> (u32 \<times> tap_if_entry) option" where
  "get_if_entry E m key = hmap_search_hash (os_map_order E) (word_of_int key) (\<lambda>_. True) m"

text \<open>
  The result code and, when the interface was created, the descriptor that is stored through
  \<open>tap_fd\<close>. No error path after the lock releases the mutex.
\<close>

definition ops_fpa_tap_if_create ::
  "'os os_env \<Rightarrow> u32 \<Rightarrow> u32 \<Rightarrow> string \<Rightarrow> eth_addr option \<Rightarrow> dev_state \<Rightarrow> 'os
    \<Rightarrow> crash + int \<times> int option \<times> dev_state \<times> 'os" where
  "ops_fpa_tap_if_create E switchId portNum name mac ds os =
     (if switchId = FPA_INVALID_SWITCH_ID then Inl Assert_Failed else
      case mac of None \<Rightarrow> Inl Assert_Failed
      | Some mac \<Rightarrow>
        case ops_fpa_dev_mutex_lock ds of Inl c \<Rightarrow> Inl c
        | Inr ds \<Rightarrow>
          case get_tap_info_by_switch_id ds switchId of Inl c \<Rightarrow> Inl c
          | Inr None \<Rightarrow> Inr (EFAULT, None, ds, os)
          | Inr (Some info) \<Rightarrow>
            let (fd, tap_if_name, os) = ops_fpa_tun_alloc E (take (IFNAMSIZ - 1) name) os in
            if fd \<le> 0 then Inr (EFAULT, None, ds, os) else
            let (rc, os) = os_set_nonblocking E fd os in
            if rc \<noteq> 0 then Inr (EFAULT, None, ds, os_close E fd os) else
            let (rc, os) = ops_fpa_net_if_setup E tap_if_name mac os in
            if rc \<noteq> 0 then Inr (EFAULT, None, ds, os_close E fd os) else
            let if_entry = \<lparr>te_name = tap_if_name, te_fd_or_portNum = portNum, te_mac = mac\<rparr>;
                info = info\<lparr>ti_fd_to_tap_if_map :=
                  hmap_insert (ti_fd_to_tap_if_map info) (word_of_int fd) if_entry\<rparr> in
            case send_all_from E (OPS_FPA_CMD_ADD_IF tap_if_name fd portNum mac) 0 OPS_FPA_THREAD_CNT info of
              Inl c \<Rightarrow> Inl c
            | Inr info \<Rightarrow> Inr (0, Some fd, ops_fpa_dev_mutex_unlock (put_tap_info info ds), os))"

definition ops_fpa_tap_if_delete ::
  "'os os_env \<Rightarrow> u32 \<Rightarrow> int \<Rightarrow> dev_state \<Rightarrow> 'os \<Rightarrow> crash + int \<times> dev_state \<times> 'os" where
  "ops_fpa_tap_if_delete E switchId tap_fd ds os =
     (if switchId = FPA_INVALID_SWITCH_ID \<or> tap_fd \<le> 0 then Inl Assert_Failed else
      case ops_fpa_dev_mutex_lock ds of Inl c \<Rightarrow> Inl c
      | Inr ds \<Rightarrow>
        case get_tap_info_by_switch_id ds switchId of Inl c \<Rightarrow> Inl c
        | Inr None \<Rightarrow> Inr (EFAULT, ds, os)
        | Inr (Some info) \<Rightarrow>
          case get_if_entry E (ti_fd_to_tap_if_map info) tap_fd of None \<Rightarrow> Inr (ENOENT, ds, os)
          | Some if_entry \<Rightarrow>
            case send_all_from E (OPS_FPA_CMD_DEL_IF tap_fd (te_fd_or_portNum (snd if_entry))) 0 OPS_FPA_THREAD_CNT
                   info of
              Inl c \<Rightarrow> Inl c
            | Inr info \<Rightarrow>
              let info = info\<lparr>ti_fd_to_tap_if_map := hmap_remove (ti_fd_to_tap_if_map info) if_entry\<rparr>;
                  ds = ops_fpa_dev_mutex_unlock (put_tap_info info ds);
                  (rc, os) = ops_fpa_bridge_port_rm E (te_name (snd if_entry)) os;
                  (rc, os) = ops_fpa_system E (''/sbin/ifconfig '' @ te_name (snd if_entry) @ '' down'') os
              in Inr (0, ds, os_close E tap_fd os))"

text \<open>The control pipes of the threads, from thread \<open>i\<close> on; a pipe that cannot be made non-blocking ends it.\<close>

primrec tap_init_pipes ::
  "'os os_env \<Rightarrow> nat \<Rightarrow> (int \<times> int) list \<Rightarrow> 'os \<Rightarrow> (int \<times> int) list option \<times> 'os" where
  "tap_init_pipes E 0 fds os = (Some fds, os)"
| "tap_init_pipes E (Suc n) fds os =
     (let ((r, w), os) = os_pipe E os;
          (rc, os) = os_set_nonblocking E r os in
      if rc \<noteq> 0 then (None, os_close E r os) else
      let (rc, os) = os_set_nonblocking E w os in
      if rc \<noteq> 0 then (None, os_close E w os) else
      tap_init_pipes E n (fds @ [(r, w)]) os)"

definition ops_fpa_tap_init ::
  "'os os_env \<Rightarrow> u32 \<Rightarrow> dev_state \<Rightarrow> 'os \<Rightarrow> crash + tap_info option \<times> 'os" where
  "ops_fpa_tap_init E switchId ds os =
     (if switchId = FPA_INVALID_SWITCH_ID then Inl Assert_Failed else
      case get_tap_info_by_switch_id ds switchId of Inl c \<Rightarrow> Inl c
      | Inr (Some info) \<Rightarrow> Inr (Some info, os)
      | Inr None \<Rightarrow>
        let (fds, os) = tap_init_pipes E OPS_FPA_THREAD_CNT [] os
        in Inr (map_option (\<lambda>fds. \<lparr>ti_switchId = switchId, ti_fd_to_tap_if_map = [], ti_ctrl_fds = fds,
              ti_pipes = replicate OPS_FPA_THREAD_CNT []\<rparr>) fds, os))"

text \<open>
  Stopping the listeners waits for them, which ends when the exit command got into the pipe. The loop
  over the interfaces passes the field of the entry that holds the port number as the descriptor.
\<close>

primrec tap_delete_all ::
  "'os os_env \<Rightarrow> u32 \<Rightarrow> tap_if_entry hmap \<Rightarrow> dev_state \<Rightarrow> 'os \<Rightarrow> crash + dev_state \<times> 'os" where
  "tap_delete_all E switchId [] ds os = Inr (ds, os)"
| "tap_delete_all E switchId (e # es) ds os =
     (case ops_fpa_tap_if_delete E switchId (sint (te_fd_or_portNum (snd e))) ds os of Inl c \<Rightarrow> Inl c
      | Inr (ret, ds, os) \<Rightarrow> tap_delete_all E switchId es ds os)"

primrec tap_stop_threads ::
  "'os os_env \<Rightarrow> nat \<Rightarrow> nat \<Rightarrow> tap_info \<Rightarrow> 'os \<Rightarrow> (crash + 'os) option" where
  "tap_stop_threads E i 0 info os = Some (Inr os)"
| "tap_stop_threads E i (Suc n) info os =
     (let (r, w) = ti_ctrl_fds info ! i in
      case send_ctrl_cmd E w OPS_FPA_CMD_THREAD_EXIT (ti_pipes info ! i) of Inl c \<Rightarrow> Some (Inl c)
      | Inr pipe \<Rightarrow>
          if OPS_FPA_CMD_THREAD_EXIT \<notin> set pipe then None
          else tap_stop_threads E (Suc i) n info (os_close E w (os_close E r os)))"

definition ops_fpa_tap_deinit ::
  "'os os_env \<Rightarrow> u32 \<Rightarrow> dev_state \<Rightarrow> 'os \<Rightarrow> (crash + dev_state \<times> 'os) option" where
  "ops_fpa_tap_deinit E switchId ds os =
     (if switchId = FPA_INVALID_SWITCH_ID then Some (Inl Assert_Failed) else
      case get_tap_info_by_switch_id ds switchId of Inl c \<Rightarrow> Some (Inl c)
      | Inr None \<Rightarrow> Some (Inr (ds, os))
      | Inr (Some info) \<Rightarrow>
        case tap_delete_all E switchId (os_map_order E (ti_fd_to_tap_if_map info)) ds os of Inl c \<Rightarrow> Some (Inl c)
        | Inr (ds, os) \<Rightarrow>
          case get_tap_info_by_switch_id ds switchId of
            Inr (Some info) \<Rightarrow>
              map_option (map_sum id (\<lambda>os. (ds, os))) (tap_stop_threads E 0 OPS_FPA_THREAD_CNT info os)
          | Inr None \<Rightarrow> Some (Inr (ds, os))
          | Inl c \<Rightarrow> Some (Inl c))"

section \<open>Listener threads\<close>

text \<open>
  What the TAP listener keeps: its own map from descriptors to entries with the port number, and the
  set of descriptors it selects on. A descriptor outside \<open>fd_set\<close> would be written past its end.
\<close>

abbreviation (input) FD_SETSIZE :: int where "FD_SETSIZE \<equiv> 1024"

record tap_listener_state =
  tl_map :: "tap_if_entry hmap"
  tl_read_fd_set :: "int set"

definition tap_ctrl_cmd ::
  "'os os_env \<Rightarrow> ctrl_cmd \<Rightarrow> tap_listener_state \<Rightarrow> crash + tap_listener_state" where
  "tap_ctrl_cmd E cmd s =
     (case cmd of
        OPS_FPA_CMD_ADD_IF name fd portNum mac \<Rightarrow>
          let if_entry = \<lparr>te_name = name, te_fd_or_portNum = portNum, te_mac = mac\<rparr> in
          if fd < 0 \<or> FD_SETSIZE \<le> fd then Inl Buffer_Overflow
          else Inr (s\<lparr>tl_map := hmap_insert (tl_map s) (word_of_int fd) if_entry,
                 tl_read_fd_set := insert fd (tl_read_fd_set s)\<rparr>)
      | OPS_FPA_CMD_DEL_IF fd portNum \<Rightarrow>
          (case get_if_entry E (tl_map s) fd of None \<Rightarrow> Inr s
           | Some if_entry \<Rightarrow>
               if fd < 0 \<or> FD_SETSIZE \<le> fd then Inl Buffer_Overflow
               else Inr (s\<lparr>tl_map := hmap_remove (tl_map s) if_entry,
                      tl_read_fd_set := tl_read_fd_set s - {fd}\<rparr>))
      | _ \<Rightarrow> Inr s)"

text \<open>The ASIC listener has a map from port numbers to entries with the descriptor.\<close>

definition asic_ctrl_cmd :: "'os os_env \<Rightarrow> ctrl_cmd \<Rightarrow> tap_if_entry hmap \<Rightarrow> tap_if_entry hmap" where
  "asic_ctrl_cmd E cmd m =
     (case cmd of
        OPS_FPA_CMD_ADD_IF name fd portNum mac \<Rightarrow>
          hmap_insert m portNum \<lparr>te_name = name, te_fd_or_portNum = word_of_int fd, te_mac = mac\<rparr>
      | OPS_FPA_CMD_DEL_IF fd portNum \<Rightarrow>
          (case get_if_entry E m (sint portNum) of None \<Rightarrow> m | Some if_entry \<Rightarrow> hmap_remove m if_entry)
      | _ \<Rightarrow> m)"

text \<open>
  Reading the commands that are in the pipe: whether the thread leaves its loop, its state and the rest
  of the pipe.
\<close>

primrec tap_read_cmds ::
  "'os os_env \<Rightarrow> ctrl_cmd list \<Rightarrow> tap_listener_state \<Rightarrow> crash + bool \<times> tap_listener_state \<times> ctrl_cmd list" where
  "tap_read_cmds E [] s = Inr (False, s, [])"
| "tap_read_cmds E (cmd # pipe) s =
     (if cmd = OPS_FPA_CMD_THREAD_EXIT then Inr (True, s, pipe)
      else case tap_ctrl_cmd E cmd s of Inl c \<Rightarrow> Inl c | Inr s \<Rightarrow> tap_read_cmds E pipe s)"

primrec asic_read_cmds ::
  "'os os_env \<Rightarrow> ctrl_cmd list \<Rightarrow> tap_if_entry hmap \<Rightarrow> bool \<times> tap_if_entry hmap \<times> ctrl_cmd list" where
  "asic_read_cmds E [] m = (False, m, [])"
| "asic_read_cmds E (cmd # pipe) m =
     (if cmd = OPS_FPA_CMD_THREAD_EXIT then (True, m, pipe) else asic_read_cmds E pipe (asic_ctrl_cmd E cmd m))"

section \<open>Frames\<close>

text \<open>
  A listener has one packet buffer. Frames are placed at an offset of \<open>FPA_PKT_SAFEGUARD\<close> bytes, so that
  an 802.1q header can be put in front by moving the two addresses. A frame is the pair of its offset
  in the buffer and its size.
\<close>

abbreviation (input) FPA_HAL_MAX_MTU_CNS :: nat where "FPA_HAL_MAX_MTU_CNS \<equiv> 10240"
abbreviation (input) FPA_PKT_SAFEGUARD :: nat where "FPA_PKT_SAFEGUARD \<equiv> 32"
abbreviation (input) DOT1Q_LEN :: nat where "DOT1Q_LEN \<equiv> 4"
abbreviation (input) ETH_ALEN :: nat where "ETH_ALEN \<equiv> 6"
abbreviation (input) ETHERTYPE_VLAN :: u16 where "ETHERTYPE_VLAN \<equiv> 0x8100"
abbreviation (input) EWOULDBLOCK :: int where "EWOULDBLOCK \<equiv> 11"

definition buf_get :: "nat \<Rightarrow> nat \<Rightarrow> u8 list \<Rightarrow> u8 list" where
  "buf_get i n buf = take n (drop i buf)"

definition buf_put :: "nat \<Rightarrow> u8 list \<Rightarrow> u8 list \<Rightarrow> u8 list" where
  "buf_put i bs buf = take i buf @ bs @ drop (i + length bs) buf"

text \<open>\<open>ntohs\<close> of the two bytes at a position, and the two bytes of \<open>htons\<close>.\<close>

definition get_be16 :: "nat \<Rightarrow> u8 list \<Rightarrow> u16" where
  "get_be16 i buf = push_bit 8 (ucast (buf ! i)) OR ucast (buf ! (i + 1))"

definition put_be16 :: "u16 \<Rightarrow> u8 list" where
  "put_be16 v = [ucast (drop_bit 8 v), ucast v]"

definition ops_fpa_get_eth_type :: "nat \<Rightarrow> u8 list \<Rightarrow> u16" where
  "ops_fpa_get_eth_type pkt buf = get_be16 (pkt + 2 * ETH_ALEN) buf"

definition get_port_eg_tag_state :: "'hw fpa_lib \<Rightarrow> u32 \<Rightarrow> u32 \<Rightarrow> u16 \<Rightarrow> 'hw \<Rightarrow> int + bool" where
  "get_port_eg_tag_state lib switchId portNum vlanId hw =
     (let (err, gid) = fpaLibGroupIdentifierBuild lib (l2_ident portNum (ucast vlanId)) in
      if err \<noteq> FPA_OK then Inl EFAULT else
      let (err, bucket) = fpaLibGroupEntryBucketGet lib switchId gid 0 hw in
      if err \<noteq> FPA_OK then Inl ENOENT else Inr (bucket_pop bucket))"

text \<open>\<open>memmove\<close> of the two addresses, away from the tag or in front of the frame.\<close>

definition strip_tag :: "nat \<times> u32 \<Rightarrow> u8 list \<Rightarrow> (nat \<times> u32) \<times> u8 list" where
  "strip_tag pkt buf =
     ((fst pkt + DOT1Q_LEN, snd pkt - of_nat DOT1Q_LEN),
      buf_put (fst pkt + DOT1Q_LEN) (buf_get (fst pkt) (2 * ETH_ALEN) buf) buf)"

definition add_tag :: "u16 \<Rightarrow> nat \<times> u32 \<Rightarrow> u8 list \<Rightarrow> (nat \<times> u32) \<times> u8 list" where
  "add_tag vid pkt buf =
     (let buf = buf_put (fst pkt - DOT1Q_LEN) (buf_get (fst pkt) (2 * ETH_ALEN) buf) buf;
          pkt = (fst pkt - DOT1Q_LEN, snd pkt + of_nat DOT1Q_LEN);
          buf = buf_put (fst pkt + 2 * ETH_ALEN) (put_be16 ETHERTYPE_VLAN) buf;
          buf = buf_put (fst pkt + 14) (put_be16 vid) buf
      in (pkt, buf))"

text \<open>
  A frame that was read from the TAP interface with descriptor \<open>i\<close>. \<open>draining\<close> says that the first five
  seconds are not over. The result is the buffer and, when the frame is passed on, the output port and
  the frame. The VLAN number is not masked out of the tag.
\<close>

definition tap_forward ::
  "'hw fpa_lib \<Rightarrow> 'os os_env \<Rightarrow> u32 \<Rightarrow> bool \<Rightarrow> 'hw \<Rightarrow> tap_if_entry hmap \<Rightarrow> int \<Rightarrow> nat \<times> u32 \<Rightarrow> u8 list
    \<Rightarrow> crash + u8 list \<times> (u32 \<times> nat \<times> u32) option" where
  "tap_forward lib E switchId draining hw m i pkt pbuf =
     (case get_if_entry E m i of None \<Rightarrow> Inr (pbuf, None)
      | Some (h, if_entry) \<Rightarrow>
        if draining then Inr (pbuf, None)
        else if ops_fpa_get_eth_type (fst pkt) pbuf = ETHERTYPE_VLAN then
          (case get_port_eg_tag_state lib switchId (te_fd_or_portNum if_entry) (get_be16 (fst pkt + 14) pbuf) hw of
             Inl err \<Rightarrow> Inr (pbuf, None)
           | Inr pop \<Rightarrow>
               let (pkt, pbuf) = (if pop then strip_tag pkt pbuf else (pkt, pbuf))
               in Inr (pbuf, Some (te_fd_or_portNum if_entry, pkt)))
        else if buf_get (fst pkt + ETH_ALEN) ETH_ALEN pbuf \<noteq> eth_bytes (te_mac if_entry) then Inr (pbuf, None)
        else Inr (pbuf, Some (te_fd_or_portNum if_entry, pkt)))"

text \<open>
  \<open>r\<close> is what \<open>read\<close> finally returned, an error or the bytes. It may return as many bytes as the whole
  buffer has, but is given a position inside it. After \<open>EWOULDBLOCK\<close> the code goes on with a size of
  \<open>-1\<close>.
\<close>

definition tap_handle_frame ::
  "'hw fpa_lib \<Rightarrow> 'os os_env \<Rightarrow> u32 \<Rightarrow> bool \<Rightarrow> 'hw \<Rightarrow> tap_if_entry hmap \<Rightarrow> int \<Rightarrow> int + u8 list \<Rightarrow> u8 list
    \<Rightarrow> crash + u8 list \<times> (u32 \<times> nat \<times> u32) option" where
  "tap_handle_frame lib E switchId draining hw m i r pbuf =
     (case r of
        Inl errno \<Rightarrow> if errno \<noteq> EWOULDBLOCK then Inr (pbuf, None)
                    else tap_forward lib E switchId draining hw m i (FPA_PKT_SAFEGUARD, - 1) pbuf
      | Inr bytes \<Rightarrow>
          if FPA_HAL_MAX_MTU_CNS < FPA_PKT_SAFEGUARD + length bytes then Inl Buffer_Overflow
          else tap_forward lib E switchId draining hw m i (FPA_PKT_SAFEGUARD, of_nat (length bytes))
                 (buf_put FPA_PKT_SAFEGUARD bytes pbuf))"

text \<open>
  One call of \<open>fpaLibPktReceive\<close>: its status and the frame it stored, with the input port and the VLAN.
  A frame of a normal VLAN gets a tag. The result is the buffer and, when the port has an interface, its
  descriptor and the frame.
\<close>

definition asic_handle_frame ::
  "'os os_env \<Rightarrow> bitmap \<Rightarrow> tap_if_entry hmap \<Rightarrow> fpa_status \<Rightarrow> u8 list \<Rightarrow> u32 \<Rightarrow> u16 \<Rightarrow> u8 list
    \<Rightarrow> u8 list \<times> (u32 \<times> nat \<times> u32) option" where
  "asic_handle_frame E internal m err bytes inPortNum vid pbuf =
     (if err \<noteq> FPA_OK then (pbuf, None) else
      let pbuf = buf_put FPA_PKT_SAFEGUARD bytes pbuf;
          pkt = (FPA_PKT_SAFEGUARD, of_nat (length bytes));
          (pkt, pbuf) =
            (if \<not> ops_fpa_vlan_internal internal (ucast vid) \<and> ops_fpa_get_eth_type (fst pkt) pbuf \<noteq> ETHERTYPE_VLAN
             then add_tag vid pkt pbuf else (pkt, pbuf))
      in case get_if_entry E m (sint inPortNum) of None \<Rightarrow> (pbuf, None)
         | Some (h, if_entry) \<Rightarrow> (pbuf, Some (te_fd_or_portNum if_entry, pkt)))"

end
