(* ===== verification/Fpa_TapThreads.thy ===== *)
theory Fpa_TapThreads
  imports Fpa_Tap
begin

text \<open>
  Properties of \<open>src/ops-fpa-tap.c\<close>: the packet buffer keeps the contents of a frame when a tag is added
  or stripped; the tag that a port needs agrees with the VLAN state of the port; the main thread and
  the two listeners as one system of steps, in which the listeners' maps follow the main thread's; and
  what an error of the main thread's calls leaves behind.
\<close>

section \<open>Frames keep their contents\<close>

lemma length_buf_put [simp]: "i + length bs \<le> length buf \<Longrightarrow> length (buf_put i bs buf) = length buf"
  by (simp add: buf_put_def)

lemma length_buf_get [simp]: "length (buf_get i n buf) = min n (length buf - i)"
  by (simp add: buf_get_def)

lemma nth_buf_get [simp]: "j < n \<Longrightarrow> i + n \<le> length buf \<Longrightarrow> buf_get i n buf ! j = buf ! (i + j)"
  by (simp add: buf_get_def)

lemma nth_buf_put:
  assumes "i + length bs \<le> length buf"
  shows "buf_put i bs buf ! j = (if i \<le> j \<and> j < i + length bs then bs ! (j - i) else buf ! j)"
proof -
  have m: "min (length buf) i = i" using assms by simp
  show ?thesis
    using assms by (auto simp: buf_put_def nth_append m not_less not_le)
qed

lemma length_be16 [simp]: "length (put_be16 v) = 2"
  by (simp add: put_be16_def)

lemma be16_roundtrip:
  assumes "buf ! i = put_be16 v ! 0" and "buf ! (i + 1) = put_be16 v ! 1"
  shows "get_be16 i buf = v"
proof -
  have "get_be16 i buf = push_bit 8 (ucast (ucast (drop_bit 8 v) :: u8)) OR ucast (ucast v :: u8)"
    using assms by (simp add: get_be16_def put_be16_def)
  also have "\<dots> = v" by (rule bit_word_eqI) (auto simp: bit_simps)
  finally show ?thesis .
qed

lemma buf_put_get:
  assumes "i + length bs \<le> length buf"
  shows "buf_get i (length bs) (buf_put i bs buf) = bs"
  by (rule nth_equalityI) (use assms in \<open>auto simp: nth_buf_put\<close>)

text \<open>Reading and writing a buffer that is given in pieces.\<close>

lemma buf_pieces:
  "length pre = i \<Longrightarrow> length mid = n \<Longrightarrow> buf_get i n (pre @ mid @ post) = mid"
  "length pre = i \<Longrightarrow> length mid = length bs \<Longrightarrow> buf_put i bs (pre @ mid @ post) = pre @ bs @ post"
  by (simp_all add: buf_get_def buf_put_def)

lemma buf_split:
  assumes "off + n \<le> length buf" and "m \<le> n"
  obtains pre a b post where "buf = pre @ a @ b @ post" and "length pre = off" and "length a = m" and "length b = n - m"
    and "buf_get off n buf = a @ b"
proof (rule that)
  define d e where "d = drop off buf" and "e = drop m d"
  have "buf = take off buf @ d" and "d = take m d @ e" and "e = take (n - m) e @ drop (n - m) e"
    unfolding e_def d_def by (simp_all only: append_take_drop_id)
  then have "buf = take off buf @ take m d @ take (n - m) e @ drop (n - m) e" by argo
  then show "buf = take off buf @ take m (drop off buf) @ take (n - m) (drop (off + m) buf) @ drop (off + n) buf"
    using assms(2) by (simp add: d_def e_def add.commute)
  show "buf_get off n buf = take m (drop off buf) @ take (n - m) (drop (off + m) buf)"
    using take_add [of m "n - m" "drop off buf"] assms(2) by (simp add: buf_get_def add.commute)
qed (use assms in auto)

lemma add_tag_frame:
  assumes "4 \<le> off" and "12 \<le> n" and "off + n \<le> length buf"
  shows "buf_get (off - 4) (n + 4) (snd (add_tag vid (off, sz) buf)) =
      take 12 (buf_get off n buf) @ put_be16 ETHERTYPE_VLAN @ put_be16 vid @ drop 12 (buf_get off n buf)"
    and "length (snd (add_tag vid (off, sz) buf)) = length buf"
proof -
  obtain pre x f post where b1: "buf = pre @ x @ f @ post" "length pre = off - 4" "length x = 4" "length f = n"
    by (rule buf_split [of "off - 4" "n + 4" buf 4]) (use assms in \<open>simp_all\<close>)
  obtain a c where f: "f = a @ c" "length a = 12" "length c = n - 12"
    using b1(4) assms(2) by (intro that [of "take 12 f" "drop 12 f"]) auto
  obtain a1 a2 where a: "a = a1 @ a2" "length a1 = 8" "length a2 = 4"
    using f(2) by (intro that [of "take 8 a" "drop 8 a"]) auto
  obtain t u where tu: "a2 = t @ u" "length t = 2" "length u = 2"
    using a(3) by (intro that [of "take 2 a2" "drop 2 a2"]) auto
  have g: "buf_get off n buf = f" "buf_get off 12 buf = a"
    using buf_pieces(1) [of "pre @ x" off f n post] buf_pieces(1) [of "pre @ x" off a 12 "c @ post"] b1 f assms by simp_all
  have p1: "buf_put (off - 4) a buf = pre @ a @ a2 @ c @ post"
    using buf_pieces(2) [of pre "off - 4" "x @ a1" a "a2 @ c @ post"] b1 f a by simp
  have p2: "buf_put (off - 4 + 12) (put_be16 ETHERTYPE_VLAN) (pre @ a @ a2 @ c @ post) =
      pre @ a @ put_be16 ETHERTYPE_VLAN @ u @ c @ post"
    using buf_pieces(2) [of "pre @ a" "off - 4 + 12" t "put_be16 ETHERTYPE_VLAN" "u @ c @ post"] b1 f tu by simp
  have p3: "buf_put (off - 4 + 14) (put_be16 vid) (pre @ a @ put_be16 ETHERTYPE_VLAN @ u @ c @ post) =
      pre @ a @ put_be16 ETHERTYPE_VLAN @ put_be16 vid @ c @ post"
    using buf_pieces(2) [of "pre @ a @ put_be16 ETHERTYPE_VLAN" "off - 4 + 14" u "put_be16 vid" "c @ post"] b1 f tu by simp
  have e: "snd (add_tag vid (off, sz) buf) = pre @ a @ put_be16 ETHERTYPE_VLAN @ put_be16 vid @ c @ post"
    unfolding add_tag_def Let_def using g(2) p1 p2 p3 by simp
  show "length (snd (add_tag vid (off, sz) buf)) = length buf" using b1 f a tu e by simp
  show "buf_get (off - 4) (n + 4) (snd (add_tag vid (off, sz) buf)) =
      take 12 (buf_get off n buf) @ put_be16 ETHERTYPE_VLAN @ put_be16 vid @ drop 12 (buf_get off n buf)"
    using buf_pieces(1) [of pre "off - 4" "a @ put_be16 ETHERTYPE_VLAN @ put_be16 vid @ c" "n + 4" post] b1 f assms
    unfolding e g by simp
qed

lemma strip_tag_frame:
  assumes "16 \<le> n" and "off + n \<le> length buf"
  shows "buf_get (off + 4) (n - 4) (snd (strip_tag (off, sz) buf)) =
      take 12 (buf_get off n buf) @ drop 16 (buf_get off n buf)"
proof -
  obtain pre a c post where b: "buf = pre @ a @ c @ post" "length pre = off" "length a = 12" "length c = n - 12"
    and g: "buf_get off n buf = a @ c"
    by (rule buf_split [of off n buf 12]) (use assms in \<open>simp_all\<close>)
  obtain t d where c: "c = t @ d" "length t = 4" "length d = n - 16"
    using b(4) assms(1) by (intro that [of "take 4 c" "drop 4 c"]) auto
  obtain a1 a2 where a: "a = a1 @ a2" "length a1 = 4" "length a2 = 8"
    using b(3) by (intro that [of "take 4 a" "drop 4 a"]) auto
  have g12: "buf_get off 12 buf = a" using buf_pieces(1) [of pre off a 12 "c @ post"] b by simp
  have "buf_put (off + 4) a buf = pre @ a1 @ a @ d @ post"
    using buf_pieces(2) [of "pre @ a1" "off + 4" "a2 @ t" a "d @ post"] a b c by simp
  then show ?thesis
    using buf_pieces(1) [of "pre @ a1" "off + 4" "a @ d" "n - 4" post] a b c g g12 assms by (simp add: strip_tag_def)
qed

section \<open>The tag of a frame\<close>

lemma eg_tag_state_iff:
  assumes ok: "fpa_lib_ok lib" and ids: "l2_id_laws lib" and wf: "vlan_wf lib hw sid pid"
    and pid: "pid \<noteq> 0" "pid \<le> 0xFFFF" and vid: "vid < 4096"
  shows "get_port_eg_tag_state lib sid pid vid hw = Inr t \<longleftrightarrow>
    OPS_FPA_VIDX_EGRESS (ucast vid) t \<in> port_vmap lib hw sid pid"
proof -
  define v :: u32 where "v = ucast vid"
  have v: "v < 4096" using vid unfolding v_def word_less_nat_alt by (simp add: unsigned_ucast_eq) (meson le_less_trans take_bit_nat_less_eq_self)
  obtain gid where g: "fpaLibGroupIdentifierBuild lib (l2_ident pid v) = (FPA_OK, gid)"
    "OPS_FPA_GID_PORT gid = pid" "OPS_FPA_GID_VLAN gid = v"
    using l2_id_lawsD [OF ids pid(2) v] by blast
  have g0: "gid \<noteq> 0" using g(2) pid(1) by (auto simp: OPS_FPA_GID_PORT_def)
  have bucket: "get_port_eg_tag_state lib sid pid vid hw = Inr t \<longleftrightarrow>
      (\<exists>b. fpaLibGroupEntryBucketGet lib sid gid 0 hw = (FPA_OK, b) \<and> bucket_pop b = t)"
    by (auto simp: get_port_eg_tag_state_def g(1) v_def [symmetric] split: prod.splits)
  have "OPS_FPA_VIDX_EGRESS v t \<in> port_vmap lib hw sid pid \<longleftrightarrow>
      (\<exists>b. (gid, b) \<in> port_groups lib hw sid pid \<and> bucket_pop b = t)" (is "?l \<longleftrightarrow> ?r")
  proof
    assume ?l
    then consider (f) f where "f \<in> port_flows lib hw sid pid" "flow_vidx lib f = OPS_FPA_VIDX_EGRESS v t"
      | (g) k b where "(k, b) \<in> port_groups lib hw sid pid" "group_vidx k b = OPS_FPA_VIDX_EGRESS v t"
      unfolding port_vmap_def by fastforce
    then show ?r
    proof cases
      case f
      then have "vl_vlanId (fl_vlan f) < 4096" using wf by (simp add: port_flows_def vlan_wf_def)
      then have False using f(2) vidx_egress(3) [OF v, of t] vidx_ingress(3) by (metis flow_vidx_def)
      then show ?thesis ..
    next
      case g
      have "OPS_FPA_GID_VLAN k = v \<and> bucket_pop b = t"
        using g(2) vidx_egress [OF v] vidx_egress [OF GID_VLAN_lt] unfolding group_vidx_def by metis
      moreover have "k = gid" using g(1) wf calculation \<open>fpaLibGroupIdentifierBuild lib (l2_ident pid v) = (FPA_OK, gid)\<close>
        by (auto simp: port_groups_def vlan_wf_def)
      ultimately show ?thesis using g(1) by blast
    qed
  next
    assume ?r
    then show ?l unfolding port_vmap_def using g(3) by (force simp: group_vidx_def)
  qed
  then show ?thesis
    unfolding bucket v_def [symmetric] using g(2) g0 bucket_get_iff [OF ok] by (auto simp: port_groups_def)
qed

section \<open>The threads together\<close>

text \<open>
  The main thread's interfaces and what the two listeners know of them. A step is a successful call of the
  main thread or one command read by a listener, in any order. The kernel hands out descriptors that are
  not open and that fit an \<open>fd_set\<close>, a port has one interface at a time, and the pipes have room: without
  these the listeners' maps do get out of step, as the code does not look at the result of a write.
\<close>

record tap_sys =
  ts_ds :: dev_state
  ts_tap :: tap_listener_state
  ts_asic :: "tap_if_entry hmap"

definition main_info :: "dev_state \<Rightarrow> tap_info option" where
  "main_info ds = Option.bind (ds_dev ds) dv_tap_if_info"

definition fd_open :: "tap_info \<Rightarrow> int \<Rightarrow> bool" where
  "fd_open info fd \<longleftrightarrow> (\<exists>(r, w) \<in> set (ti_ctrl_fds info). fd = r \<or> fd = w)
     \<or> word_of_int fd \<in> fst ` set (ti_fd_to_tap_if_map info)"

definition pipes_room :: "'os os_env \<Rightarrow> tap_info \<Rightarrow> bool" where
  "pipes_room E info \<longleftrightarrow> (\<forall>p \<in> set (ti_pipes info). os_pipe_room E p)"

definition port_of :: "u32 \<times> tap_if_entry \<Rightarrow> u32" where
  "port_of n = te_fd_or_portNum (snd n)"

inductive tap_sys_step :: "'os os_env \<Rightarrow> tap_sys \<Rightarrow> tap_sys \<Rightarrow> bool" for E where
  create: "main_info (ts_ds s) = Some info \<Longrightarrow> pipes_room E info \<Longrightarrow>
    ops_fpa_tap_if_create E sid port name mac (ts_ds s) os = Inr (0, Some fd, ds', os') \<Longrightarrow>
    \<not> fd_open info fd \<Longrightarrow> fd < FD_SETSIZE \<Longrightarrow> port \<notin> port_of ` set (ti_fd_to_tap_if_map info) \<Longrightarrow>
    tap_sys_step E s (s\<lparr>ts_ds := ds'\<rparr>)"
| delete: "main_info (ts_ds s) = Some info \<Longrightarrow> pipes_room E info \<Longrightarrow>
    ops_fpa_tap_if_delete E sid fd (ts_ds s) os = Inr (0, ds', os') \<Longrightarrow> fd < FD_SETSIZE \<Longrightarrow>
    tap_sys_step E s (s\<lparr>ts_ds := ds'\<rparr>)"
| tap_read: "main_info (ts_ds s) = Some info \<Longrightarrow> ti_pipes info = [cmd # p, q] \<Longrightarrow>
    cmd \<noteq> OPS_FPA_CMD_THREAD_EXIT \<Longrightarrow> tap_ctrl_cmd E cmd (ts_tap s) = Inr t \<Longrightarrow>
    tap_sys_step E s (s\<lparr>ts_ds := put_tap_info (info\<lparr>ti_pipes := [p, q]\<rparr>) (ts_ds s), ts_tap := t\<rparr>)"
| asic_read: "main_info (ts_ds s) = Some info \<Longrightarrow> ti_pipes info = [p, cmd # q] \<Longrightarrow>
    cmd \<noteq> OPS_FPA_CMD_THREAD_EXIT \<Longrightarrow>
    tap_sys_step E s (s\<lparr>ts_ds := put_tap_info (info\<lparr>ti_pipes := [p, q]\<rparr>) (ts_ds s),
      ts_asic := asic_ctrl_cmd E cmd (ts_asic s)\<rparr>)"

text \<open>The state that \<open>ops_fpa_tap_init\<close> leaves, with the control descriptor of the TAP listener selected.\<close>

definition tap_sys_init :: "tap_sys \<Rightarrow> bool" where
  "tap_sys_init s \<longleftrightarrow> (\<exists>sid fds. length fds = 2
     \<and> main_info (ts_ds s) = Some \<lparr>ti_switchId = sid, ti_fd_to_tap_if_map = [], ti_ctrl_fds = fds, ti_pipes = [[], []]\<rparr>
     \<and> tl_map (ts_tap s) = [] \<and> tl_read_fd_set (ts_tap s) = {fst (fds ! OPS_FPA_THREAD_TAP)} \<and> ts_asic s = [])"

inductive tap_sys_reach :: "'os os_env \<Rightarrow> tap_sys \<Rightarrow> bool" for E where
  init: "tap_sys_init s \<Longrightarrow> tap_sys_reach E s"
| step: "tap_sys_reach E s \<Longrightarrow> tap_sys_step E s s' \<Longrightarrow> tap_sys_reach E s'"

text \<open>
  The abstract interfaces: a descriptor, a port, a name and an address. Every map of the component holds
  the same interfaces under its own key.
\<close>

definition by_port :: "u32 \<times> tap_if_entry \<Rightarrow> u32 \<times> tap_if_entry" where
  "by_port n = (te_fd_or_portNum (snd n), (snd n)\<lparr>te_fd_or_portNum := fst n\<rparr>)"

definition listeners_follow :: "'os os_env \<Rightarrow> tap_info \<Rightarrow> tap_sys \<Rightarrow> bool" where
  "listeners_follow E info s \<longleftrightarrow>
     (\<exists>t. tap_read_cmds E (ti_pipes info ! OPS_FPA_THREAD_TAP) (ts_tap s) = Inr (False, t, [])
        \<and> tl_map t = ti_fd_to_tap_if_map info
        \<and> tl_read_fd_set t =
            insert (fst (ti_ctrl_fds info ! OPS_FPA_THREAD_TAP)) ((\<lambda>n. uint (fst n)) ` set (ti_fd_to_tap_if_map info)))
   \<and> asic_read_cmds E (ti_pipes info ! OPS_FPA_THREAD_ASIC) (ts_asic s) =
       (False, map by_port (ti_fd_to_tap_if_map info), [])"

definition tap_maps_ok :: "tap_info \<Rightarrow> bool" where
  "tap_maps_ok info \<longleftrightarrow> length (ti_pipes info) = 2 \<and> length (ti_ctrl_fds info) = 2
     \<and> distinct (map fst (ti_fd_to_tap_if_map info)) \<and> distinct (map port_of (ti_fd_to_tap_if_map info))
     \<and> (\<forall>n \<in> set (ti_fd_to_tap_if_map info). uint (fst n) < FD_SETSIZE
          \<and> uint (fst n) \<noteq> fst (ti_ctrl_fds info ! OPS_FPA_THREAD_TAP))"

lemma inj_by_port: "inj by_port"
proof (rule inj_on_inverseI)
  show "by_port (by_port n) = n" for n by (simp add: by_port_def)
qed

lemma fst_by_port [simp]: "fst \<circ> by_port = port_of"
  by (auto simp: by_port_def port_of_def)

lemma hmap_remove_map:
  assumes "inj f"
  shows "hmap_remove (map f m) (f n) = map f (hmap_remove m n)"
  unfolding hmap_remove_def by (induction m) (auto simp: inj_eq [OF assms])

lemma get_if_entry_unique:
  assumes "visits_all (os_map_order E)" and "distinct (map fst m)" and "n \<in> set m" and "fst n = word_of_int key"
  shows "get_if_entry E m key = Some n"
proof (cases "get_if_entry E m key")
  case None
  then show ?thesis
    using assms(3,4) hmap_search_hash_None [OF assms(1)] unfolding get_if_entry_def by (metis prod.collapse)
next
  case (Some k)
  then have "k \<in> set m" "fst k = word_of_int key"
    using hmap_search_hash_SomeD [OF assms(1)] unfolding get_if_entry_def by (metis prod.collapse)+
  then show ?thesis using Some assms(2-4) by (metis distinct_map inj_onD)
qed

lemma get_if_entryD:
  assumes "visits_all (os_map_order E)" and "get_if_entry E m key = Some n"
  shows "n \<in> set m" and "fst n = word_of_int key"
  using hmap_search_hash_SomeD [OF assms(1)] assms(2) unfolding get_if_entry_def by (metis prod.collapse)+

text \<open>
  Both listeners read commands the same way: they stop at the command to exit and carry out every other
  one. What follows for a command that arrives behind others is shown once for both.
\<close>

locale command_reader =
  fixes exec :: "'e \<Rightarrow> ctrl_cmd \<Rightarrow> 's \<Rightarrow> crash + 's"
    and read :: "'e \<Rightarrow> ctrl_cmd list \<Rightarrow> 's \<Rightarrow> crash + bool \<times> 's \<times> ctrl_cmd list"
  assumes read_Nil: "read E [] s = Inr (False, s, [])"
    and read_exit: "read E (OPS_FPA_CMD_THREAD_EXIT # p) s = Inr (True, s, p)"
    and read_Cons: "c \<noteq> OPS_FPA_CMD_THREAD_EXIT \<Longrightarrow>
      read E (c # p) s = (case exec E c s of Inl x \<Rightarrow> Inl x | Inr s \<Rightarrow> read E p s)"
begin

lemma read_append:
  assumes "read E p s = Inr (False, t, [])"
  shows "read E (p @ q) s = read E q t"
  using assms
proof (induction p arbitrary: s)
  case (Cons c p)
  then show ?case
    by (cases "c = OPS_FPA_CMD_THREAD_EXIT") (auto simp: read_exit read_Cons split: sum.splits)
qed (simp add: read_Nil)

lemma read_snoc:
  assumes "read E p s = Inr (False, t, [])" and "c \<noteq> OPS_FPA_CMD_THREAD_EXIT" and "exec E c t = Inr t'"
  shows "read E (p @ [c]) s = Inr (False, t', [])"
  using read_append [OF assms(1)] assms(2,3) by (simp add: read_Cons read_Nil)

end

interpretation tapr: command_reader tap_ctrl_cmd tap_read_cmds
  by unfold_locales simp_all

interpretation asicr: command_reader "\<lambda>E c m. Inr (asic_ctrl_cmd E c m)" "\<lambda>E p m. Inr (asic_read_cmds E p m)"
  by unfold_locales simp_all

lemmas asic_read_snoc = asicr.read_snoc [OF _ _ refl, simplified sum.inject]

lemma send_all_room:
  assumes "pipes_room E info" and "length (ti_pipes info) = 2"
    and "send_all_from E cmd 0 OPS_FPA_THREAD_CNT info = Inr info'"
  shows "info' = info\<lparr>ti_pipes := map (\<lambda>p. p @ [cmd]) (ti_pipes info)\<rparr>"
proof -
  obtain p q where p: "ti_pipes info = [p, q]" using assms(2) by (metis (no_types) length_0_conv length_Suc_conv numeral_2_eq_2)
  show ?thesis
    using assms(1,3) by (auto simp: numeral_2_eq_2 p pipes_room_def send_ctrl_cmd_def split: if_splits)
qed

lemma main_info_put:
  "main_info ds = Some info \<Longrightarrow> main_info (ops_fpa_dev_mutex_unlock (put_tap_info info' ds)) = Some info'"
  "main_info ds = Some info \<Longrightarrow> main_info (put_tap_info info' ds) = Some info'"
  by (auto simp: main_info_def put_tap_info_def ops_fpa_dev_mutex_unlock_def bind_eq_Some_conv)

lemma get_tap_info_main:
  "get_tap_info_by_switch_id ds sid = Inr (Some info) \<Longrightarrow> main_info ds = Some info"
  by (auto simp: get_tap_info_by_switch_id_def main_info_def ops_fpa_dev_by_id_def split: sum.splits option.splits if_splits)

lemma mutex_lock_Inr: "ops_fpa_dev_mutex_lock ds = Inr ds' \<Longrightarrow> main_info ds' = main_info ds"
  by (auto simp: ops_fpa_dev_mutex_lock_def main_info_def split: if_splits)

lemma tap_if_create_success:
  assumes "ops_fpa_tap_if_create E sid port name mac ds os = Inr (0, Some fd, ds', os')"
    and "main_info ds = Some info" and "pipes_room E info" and "length (ti_pipes info) = 2"
  obtains nm m where "0 < fd"
    and "main_info ds' = Some (info\<lparr>ti_fd_to_tap_if_map := hmap_insert (ti_fd_to_tap_if_map info) (word_of_int fd)
           \<lparr>te_name = nm, te_fd_or_portNum = port, te_mac = m\<rparr>,
         ti_pipes := map (\<lambda>p. p @ [OPS_FPA_CMD_ADD_IF nm fd port m]) (ti_pipes info)\<rparr>)"
proof -
  have room: "pipes_room E (info\<lparr>ti_fd_to_tap_if_map := x\<rparr>)" "length (ti_pipes (info\<lparr>ti_fd_to_tap_if_map := x\<rparr>)) = 2" for x
    using assms(3,4) by (simp_all add: pipes_room_def)
  from assms(1) show thesis
    unfolding ops_fpa_tap_if_create_def Let_def
    by (auto split: if_splits option.splits sum.splits prod.splits dest!: mutex_lock_Inr get_tap_info_main send_all_room [OF room]
        simp: assms(2) main_info_put intro!: that)
qed

lemma tap_if_delete_success:
  assumes "ops_fpa_tap_if_delete E sid fd ds os = Inr (0, ds', os')"
    and "main_info ds = Some info" and "pipes_room E info" and "length (ti_pipes info) = 2"
  obtains n where "0 < fd" and "get_if_entry E (ti_fd_to_tap_if_map info) fd = Some n"
    and "main_info ds' = Some (info\<lparr>ti_fd_to_tap_if_map := hmap_remove (ti_fd_to_tap_if_map info) n,
         ti_pipes := map (\<lambda>p. p @ [OPS_FPA_CMD_DEL_IF fd (port_of n)]) (ti_pipes info)\<rparr>)"
proof -
  from assms(1) show thesis
    unfolding ops_fpa_tap_if_delete_def Let_def
    by (auto split: if_splits option.splits sum.splits prod.splits dest!: mutex_lock_Inr get_tap_info_main send_all_room [OF assms(3,4)]
        simp: assms(2) main_info_put port_of_def intro!: that)
qed


lemma tap_add_follows:
  assumes t: "tl_map t = m" "tl_read_fd_set t = insert c ((\<lambda>n. uint (fst n)) ` set m)"
    and fd: "0 < fd" "fd < FD_SETSIZE"
  obtains t' where "tap_ctrl_cmd E (OPS_FPA_CMD_ADD_IF nm fd port mac) t = Inr t'"
    and "tl_map t' = hmap_insert m (word_of_int fd) \<lparr>te_name = nm, te_fd_or_portNum = port, te_mac = mac\<rparr>"
    and "tl_read_fd_set t' = insert c ((\<lambda>n. uint (fst n)) ` set (hmap_insert m (word_of_int fd)
           \<lparr>te_name = nm, te_fd_or_portNum = port, te_mac = mac\<rparr>))"
proof -
  have "uint (word_of_int fd :: u32) = fd" using fd by (simp add: uint_word_of_int_eq take_bit_int_eq_self_iff)
  then show thesis
    by (intro that [of "t\<lparr>tl_map := hmap_insert m (word_of_int fd) \<lparr>te_name = nm, te_fd_or_portNum = port, te_mac = mac\<rparr>,
        tl_read_fd_set := insert fd (tl_read_fd_set t)\<rparr>"])
      (use fd t in \<open>simp_all add: tap_ctrl_cmd_def hmap_simps insert_commute\<close>)
qed

lemma tap_del_follows:
  assumes ord: "visits_all (os_map_order E)"
    and t: "tl_map t = m" "tl_read_fd_set t = insert c ((\<lambda>n. uint (fst n)) ` set m)"
    and m: "distinct (map fst m)" "\<forall>n \<in> set m. uint (fst n) \<noteq> c"
    and n: "get_if_entry E m fd = Some n" and fd: "0 < fd" "fd < FD_SETSIZE"
  obtains t' where "tap_ctrl_cmd E (OPS_FPA_CMD_DEL_IF fd port) t = Inr t'"
    and "tl_map t' = hmap_remove m n"
    and "tl_read_fd_set t' = insert c ((\<lambda>n. uint (fst n)) ` set (hmap_remove m n))"
proof -
  have fdw: "uint (word_of_int fd :: u32) = fd" using fd by (simp add: uint_word_of_int_eq take_bit_int_eq_self_iff)
  note nm = get_if_entryD [OF ord n]
  have "set (hmap_remove m n) = {k \<in> set m. fst k \<noteq> fst n}"
    using m(1) nm(1) by (auto simp: hmap_remove_def distinct_map inj_on_def)
  then have "insert c ((\<lambda>n. uint (fst n)) ` set m) - {fd} = insert c ((\<lambda>n. uint (fst n)) ` set (hmap_remove m n))"
    using nm m(2) fdw by (auto simp: image_iff)
  then show thesis
    by (intro that [of "t\<lparr>tl_map := hmap_remove m n, tl_read_fd_set := tl_read_fd_set t - {fd}\<rparr>"])
      (use fd t n in \<open>simp_all add: tap_ctrl_cmd_def\<close>)
qed

lemma asic_del_follows:
  assumes ord: "visits_all (os_map_order E)" and d: "distinct (map port_of m)" and n: "n \<in> set m"
  shows "asic_ctrl_cmd E (OPS_FPA_CMD_DEL_IF fd (port_of n)) (map by_port m) = map by_port (hmap_remove m n)"
proof -
  have "get_if_entry E (map by_port m) (sint (port_of n)) = Some (by_port n)"
    by (rule get_if_entry_unique [OF ord]) (use d n in \<open>auto simp: by_port_def port_of_def\<close>)
  then show ?thesis by (simp add: asic_ctrl_cmd_def hmap_remove_map [OF inj_by_port])
qed


definition tap_inv :: "'os os_env \<Rightarrow> tap_sys \<Rightarrow> bool" where
  "tap_inv E s \<longleftrightarrow> (\<exists>info. main_info (ts_ds s) = Some info \<and> tap_maps_ok info \<and> listeners_follow E info s)"

lemma pipes_two:
  assumes "tap_maps_ok info"
  obtains p q where "ti_pipes info = [p, q]"
  using assms unfolding tap_maps_ok_def by (metis (no_types) length_0_conv length_Suc_conv numeral_2_eq_2)

lemma maps_ok_insert:
  assumes ok: "tap_maps_ok info" and fd: "\<not> fd_open info fd" "0 < fd" "fd < FD_SETSIZE"
    and port: "port \<notin> port_of ` set (ti_fd_to_tap_if_map info)" and pl: "length pl = 2"
  shows "tap_maps_ok (info\<lparr>ti_fd_to_tap_if_map := hmap_insert (ti_fd_to_tap_if_map info) (word_of_int fd)
      \<lparr>te_name = nm, te_fd_or_portNum = port, te_mac = m\<rparr>, ti_pipes := pl\<rparr>)"
proof -
  have fdw: "uint (word_of_int fd :: u32) = fd" using fd by (simp add: uint_word_of_int_eq take_bit_int_eq_self_iff)
  have "fst (ti_ctrl_fds info ! 0) \<noteq> fd"
    using fd(1) ok nth_mem [of 0 "ti_ctrl_fds info"] by (auto simp: fd_open_def tap_maps_ok_def split_beta)
  then show ?thesis using ok fd port pl fdw
    by (auto simp: tap_maps_ok_def hmap_insert_def fd_open_def port_of_def image_iff)
qed

lemma maps_ok_remove:
  assumes "tap_maps_ok info" and "length pl = 2"
  shows "tap_maps_ok (info\<lparr>ti_fd_to_tap_if_map := hmap_remove (ti_fd_to_tap_if_map info) n, ti_pipes := pl\<rparr>)"
  using assms set_hmap_remove_subset [of "ti_fd_to_tap_if_map info" n]
  unfolding tap_maps_ok_def hmap_remove_def by (auto simp: distinct_map distinct_remove1 inj_on_subset)

lemma tap_inv_init: "tap_sys_init s \<Longrightarrow> tap_inv E s"
  by (auto simp: tap_sys_init_def tap_inv_def tap_maps_ok_def listeners_follow_def)

lemma tap_inv_step:
  assumes ord: "visits_all (os_map_order E)" and "tap_inv E s" and "tap_sys_step E s s'"
  shows "tap_inv E s'"
proof -
  from assms(2) obtain info where i: "main_info (ts_ds s) = Some info" and ok: "tap_maps_ok info"
    and f: "listeners_follow E info s" unfolding tap_inv_def by blast
  obtain p q where pq: "ti_pipes info = [p, q]" using pipes_two [OF ok] .
  have two: "length (ti_pipes info) = 2" by (simp add: pq)
  define m c where "m = ti_fd_to_tap_if_map info" and "c = fst (ti_ctrl_fds info ! 0)"
  obtain t where t: "tap_read_cmds E p (ts_tap s) = Inr (False, t, [])" "tl_map t = m"
      "tl_read_fd_set t = insert c ((\<lambda>n. uint (fst n)) ` set m)"
    and a: "asic_read_cmds E q (ts_asic s) = (False, map by_port m, [])"
    using f unfolding listeners_follow_def m_def c_def pq by auto
  have d: "distinct (map fst m)" "distinct (map port_of m)" "\<forall>n \<in> set m. uint (fst n) \<noteq> c"
    using ok by (auto simp: tap_maps_ok_def m_def c_def)
  from assms(3) show ?thesis
  proof cases
    case (create info' sid port name mac os fd ds' os')
    have info': "info' = info" using create i by simp
    obtain nm mc where fd: "0 < fd" and ds: "main_info ds' = Some (info\<lparr>ti_fd_to_tap_if_map := hmap_insert m (word_of_int fd)
           \<lparr>te_name = nm, te_fd_or_portNum = port, te_mac = mc\<rparr>,
         ti_pipes := map (\<lambda>p. p @ [OPS_FPA_CMD_ADD_IF nm fd port mc]) (ti_pipes info)\<rparr>)"
      using tap_if_create_success [OF create(4) i _ two] create(3) unfolding info' m_def by blast
    obtain t' where t': "tap_ctrl_cmd E (OPS_FPA_CMD_ADD_IF nm fd port mc) t = Inr t'"
      "tl_map t' = hmap_insert m (word_of_int fd) \<lparr>te_name = nm, te_fd_or_portNum = port, te_mac = mc\<rparr>"
      "tl_read_fd_set t' = insert c ((\<lambda>n. uint (fst n)) ` set (hmap_insert m (word_of_int fd)
           \<lparr>te_name = nm, te_fd_or_portNum = port, te_mac = mc\<rparr>))"
      using tap_add_follows [OF t(2,3) fd create(6)] .
    show ?thesis unfolding tap_inv_def
    proof (intro exI conjI)
      show "main_info (ts_ds s') = Some (info\<lparr>ti_fd_to_tap_if_map := hmap_insert m (word_of_int fd)
           \<lparr>te_name = nm, te_fd_or_portNum = port, te_mac = mc\<rparr>,
         ti_pipes := map (\<lambda>p. p @ [OPS_FPA_CMD_ADD_IF nm fd port mc]) (ti_pipes info)\<rparr>)" (is "_ = Some ?i")
        using ds create(1) by simp
      show "tap_maps_ok ?i" unfolding m_def
        by (rule maps_ok_insert) (use ok fd create info' pq in auto)
      show "listeners_follow E ?i s'"
        using tapr.read_snoc [OF t(1) _ t'(1)] asic_read_snoc [OF a, of "OPS_FPA_CMD_ADD_IF nm fd port mc"] t'(2,3) create(1)
        by (simp add: listeners_follow_def pq c_def asic_ctrl_cmd_def hmap_insert_def by_port_def)
    qed
  next
    case (delete info' sid fd os ds' os')
    have info': "info' = info" using delete i by simp
    obtain n where fd: "0 < fd" and n: "get_if_entry E m fd = Some n"
      and ds: "main_info ds' = Some (info\<lparr>ti_fd_to_tap_if_map := hmap_remove m n,
         ti_pipes := map (\<lambda>p. p @ [OPS_FPA_CMD_DEL_IF fd (port_of n)]) (ti_pipes info)\<rparr>)"
      using tap_if_delete_success [OF delete(4) i _ two] delete(3) unfolding info' m_def by blast
    obtain t' where t': "tap_ctrl_cmd E (OPS_FPA_CMD_DEL_IF fd (port_of n)) t = Inr t'"
      "tl_map t' = hmap_remove m n"
      "tl_read_fd_set t' = insert c ((\<lambda>n. uint (fst n)) ` set (hmap_remove m n))"
      using tap_del_follows [OF ord t(2,3) d(1,3) n fd delete(5)] .
    show ?thesis unfolding tap_inv_def
    proof (intro exI conjI)
      show "main_info (ts_ds s') = Some (info\<lparr>ti_fd_to_tap_if_map := hmap_remove m n,
         ti_pipes := map (\<lambda>p. p @ [OPS_FPA_CMD_DEL_IF fd (port_of n)]) (ti_pipes info)\<rparr>)" (is "_ = Some ?i")
        using ds delete(1) by simp
      show "tap_maps_ok ?i" unfolding m_def by (rule maps_ok_remove [OF ok]) (simp add: pq)
      show "listeners_follow E ?i s'"
        using tapr.read_snoc [OF t(1) _ t'(1)] asic_read_snoc [OF a, of "OPS_FPA_CMD_DEL_IF fd (port_of n)"] t'(2,3) delete(1)
          asic_del_follows [OF ord d(2) get_if_entryD(1) [OF ord n], of fd]
        by (simp add: listeners_follow_def pq c_def)
    qed
  next
    case (tap_read info' cmd p' q' t1)
    have "tap_inv E s'" if "p = cmd # p'"
      using tap_read i pq ok t a that main_info_put(2) [OF i]
      by (auto simp: tap_inv_def tap_maps_ok_def listeners_follow_def m_def c_def)
    then show ?thesis using tap_read i pq by simp
  next
    case (asic_read info' p' cmd q')
    have "tap_inv E s'" if "q = cmd # q'"
      using asic_read i pq ok t a that main_info_put(2) [OF i]
      by (auto simp: tap_inv_def tap_maps_ok_def listeners_follow_def m_def c_def)
    then show ?thesis using asic_read i pq by simp
  qed
qed

lemma tap_inv_reach:
  assumes "tap_sys_reach E s" and "visits_all (os_map_order E)"
  shows "tap_inv E s"
  using assms(1) by induction (auto intro: tap_inv_init tap_inv_step [OF assms(2)])

section \<open>A frame there and back\<close>

definition tag_frame :: "u16 \<Rightarrow> u8 list \<Rightarrow> u8 list" where
  "tag_frame vid f = take 12 f @ put_be16 ETHERTYPE_VLAN @ put_be16 vid @ drop 12 f"

lemma length_tag_frame [simp]: "12 \<le> length f \<Longrightarrow> length (tag_frame vid f) = length f + 4"
  by (simp add: tag_frame_def)

lemma get_be16_buf_put:
  assumes "k + length f \<le> length buf" and "j + 2 \<le> length f"
  shows "get_be16 (k + j) (buf_put k f buf) = get_be16 j f"
  using assms by (simp add: get_be16_def nth_buf_put)

lemma tag_frame_fields:
  assumes "12 \<le> length f"
  shows "get_be16 12 (tag_frame vid f) = ETHERTYPE_VLAN" and "get_be16 14 (tag_frame vid f) = vid"
    and "take 12 (tag_frame vid f) @ drop 16 (tag_frame vid f) = f"
proof -
  obtain a b where f: "f = a @ b" "length a = 12" using assms by (intro that [of "take 12 f" "drop 12 f"]) auto
  have l: "length (put_be16 v) = 2" for v by simp
  show "get_be16 12 (tag_frame vid f) = ETHERTYPE_VLAN" "get_be16 14 (tag_frame vid f) = vid"
    using f l by (auto intro!: be16_roundtrip simp: tag_frame_def nth_append)
  show "take 12 (tag_frame vid f) @ drop 16 (tag_frame vid f) = f"
    using f by (simp add: tag_frame_def)
qed

lemma asic_frame_tagged:
  assumes n: "get_if_entry E m (sint port) = Some (h, e)" and vid: "\<not> ops_fpa_vlan_internal internal (ucast vid)"
    and ty: "get_be16 12 f \<noteq> ETHERTYPE_VLAN" and f: "14 \<le> length f" "FPA_PKT_SAFEGUARD + length f \<le> length pbuf"
  obtains buf where
    "asic_handle_frame E internal m FPA_OK f port vid pbuf = (buf, Some (te_fd_or_portNum e, 28, of_nat (length f) + 4))"
    and "buf_get 28 (length f + 4) buf = tag_frame vid f"
proof -
  define b where "b = buf_put FPA_PKT_SAFEGUARD f pbuf"
  have lb: "length b = length pbuf" using f by (simp add: b_def)
  have g: "buf_get 32 (length f) b = f" using buf_put_get [of 32 f pbuf] f by (simp add: b_def)
  have t: "ops_fpa_get_eth_type 32 b \<noteq> ETHERTYPE_VLAN"
    using get_be16_buf_put [of 32 f pbuf 12] f ty by (simp add: ops_fpa_get_eth_type_def b_def)
  obtain pk buf where a: "add_tag vid (32, of_nat (length f)) b = (pk, buf)" by fastforce
  have pk: "pk = (28, of_nat (length f) + 4)" using a by (auto simp: add_tag_def Let_def)
  have "buf_get 28 (length f + 4) buf = tag_frame vid f"
    using add_tag_frame(1) [of 32 "length f" b vid "of_nat (length f)"] f lb a g by (simp add: tag_frame_def)
  moreover have "asic_handle_frame E internal m FPA_OK f port vid pbuf = (buf, Some (te_fd_or_portNum e, 28, of_nat (length f) + 4))"
    using t vid n a pk by (simp add: asic_handle_frame_def b_def)
  ultimately show thesis using that by blast
qed

lemma tap_frame_untagged:
  assumes n: "get_if_entry E m fd = Some (h, e)"
    and pop: "get_port_eg_tag_state lib sid (te_fd_or_portNum e) vid hw = Inr True"
    and f: "14 \<le> length f" "FPA_PKT_SAFEGUARD + length f + DOT1Q_LEN \<le> FPA_HAL_MAX_MTU_CNS"
    and buf: "length pbuf = FPA_HAL_MAX_MTU_CNS"
  obtains buf where
    "tap_handle_frame lib E sid False hw m fd (Inr (tag_frame vid f)) pbuf =
       Inr (buf, Some (te_fd_or_portNum e, 36, of_nat (length f)))"
    and "buf_get 36 (length f) buf = f"
proof -
  let ?t = "tag_frame vid f"
  define b where "b = buf_put FPA_PKT_SAFEGUARD ?t pbuf"
  have lt: "length ?t = length f + 4" using f by simp
  have lb: "length b = length pbuf" using f buf lt by (simp add: b_def)
  have g: "buf_get 32 (length f + 4) b = ?t" using buf_put_get [of 32 ?t pbuf] f buf lt by (simp add: b_def)
  have ty: "ops_fpa_get_eth_type 32 b = ETHERTYPE_VLAN"
    using get_be16_buf_put [of 32 ?t pbuf 12] tag_frame_fields(1) [of f vid] f buf lt
    by (simp add: ops_fpa_get_eth_type_def b_def)
  have v: "get_be16 (32 + 14) b = vid"
    using get_be16_buf_put [of 32 ?t pbuf 14] tag_frame_fields(2) [of f vid] f buf lt by (simp add: b_def)
  obtain pk b' where s: "strip_tag (32, of_nat (length f + 4)) b = (pk, b')" by fastforce
  have pk: "pk = (36, of_nat (length f))" using s by (auto simp: strip_tag_def)
  have "buf_get 36 (length f) b' = f"
    using strip_tag_frame [of "length f + 4" 32 b "of_nat (length f + 4)"] tag_frame_fields(3) [of f vid] f buf lb s g by simp
  moreover have "tap_handle_frame lib E sid False hw m fd (Inr ?t) pbuf = Inr (b', Some (te_fd_or_portNum e, 36, of_nat (length f)))"
    using n ty v pop s pk f lt b_def by (simp add: tap_handle_frame_def tap_forward_def)
  ultimately show thesis using that by blast
qed

text \<open>What both listeners know of an interface once their pipes are empty.\<close>

lemma quiet_lookup:
  assumes r: "tap_sys_reach E s" and ord: "visits_all (os_map_order E)" and i: "main_info (ts_ds s) = Some info"
    and quiet: "ti_pipes info = [[], []]" and n: "n \<in> set (ti_fd_to_tap_if_map info)"
  shows "get_if_entry E (tl_map (ts_tap s)) (uint (fst n)) = Some n"
    and "get_if_entry E (ts_asic s) (sint (port_of n)) = Some (by_port n)"
proof -
  from tap_inv_reach [OF r ord] i have ok: "tap_maps_ok info" and f: "listeners_follow E info s"
    by (auto simp: tap_inv_def)
  then have "tl_map (ts_tap s) = ti_fd_to_tap_if_map info" "ts_asic s = map by_port (ti_fd_to_tap_if_map info)"
    using quiet by (auto simp: listeners_follow_def)
  then show "get_if_entry E (tl_map (ts_tap s)) (uint (fst n)) = Some n"
      "get_if_entry E (ts_asic s) (sint (port_of n)) = Some (by_port n)"
    using ok n by (auto intro!: get_if_entry_unique [OF ord] simp: tap_maps_ok_def by_port_def port_of_def)
qed

section \<open>Properties\<close>

lemma tap_if_create_mutex:
  assumes "ops_fpa_tap_if_create E sid port name mac ds os = Inr (rc, fd, ds', os')"
  shows "ds_mutex ds' \<longleftrightarrow> rc \<noteq> 0"
  using assms unfolding ops_fpa_tap_if_create_def Let_def
  by (auto split: if_splits option.splits sum.splits prod.splits
      simp: ops_fpa_dev_mutex_lock_def ops_fpa_dev_mutex_unlock_def put_tap_info_def)

lemma tap_if_delete_mutex:
  assumes "ops_fpa_tap_if_delete E sid fd ds os = Inr (rc, ds', os')"
  shows "ds_mutex ds' \<longleftrightarrow> rc \<noteq> 0"
  using assms unfolding ops_fpa_tap_if_delete_def Let_def
  by (auto split: if_splits option.splits sum.splits prod.splits
      simp: ops_fpa_dev_mutex_lock_def ops_fpa_dev_mutex_unlock_def put_tap_info_def)

lemma tap_held_deadlock:
  assumes "ds_mutex ds"
  shows "sid \<noteq> FPA_INVALID_SWITCH_ID \<Longrightarrow> ops_fpa_tap_if_create E sid port name (Some mac) ds os = Inl Self_Deadlock"
    and "sid \<noteq> FPA_INVALID_SWITCH_ID \<Longrightarrow> 0 < fd \<Longrightarrow> ops_fpa_tap_if_delete E sid fd ds os = Inl Self_Deadlock"
  using assms by (simp_all add: ops_fpa_tap_if_create_def ops_fpa_tap_if_delete_def ops_fpa_dev_mutex_lock_def)

text \<open>A concrete operating system in which every call succeeds, and a concrete device.\<close>

definition sample_os :: "nat os_env" where
  "sample_os = \<lparr>os_system = \<lambda>cmd os. (0, os), os_open = \<lambda>os. (int os, os + 1),
     os_tunsetiff = \<lambda>fd name os. (Inr name, os), os_set_nonblocking = \<lambda>fd os. (0, os),
     os_close = \<lambda>fd os. os, os_pipe = \<lambda>os. ((int os, int os + 1), os + 2), os_pipe_room = \<lambda>p. True,
     os_ether_ntoa = \<lambda>mac. [], os_map_order = \<lambda>m. m\<rparr>"

definition sample_info :: tap_info where
  "sample_info = \<lparr>ti_switchId = 0, ti_fd_to_tap_if_map = [], ti_ctrl_fds = [(3, 4), (5, 6)], ti_pipes = [[], []]\<rparr>"

definition sample_sys :: "tap_info \<Rightarrow> tap_if_entry hmap \<Rightarrow> int set \<Rightarrow> tap_if_entry hmap \<Rightarrow> tap_sys" where
  "sample_sys info m fds am = \<lparr>ts_ds = \<lparr>ds_dev = Some \<lparr>dv_switchId = 0, dv_ref_cnt = 1, dv_tap_if_info = Some info, dv_ml = None\<rparr>,
     ds_mutex = False\<rparr>, ts_tap = \<lparr>tl_map = m, tl_read_fd_set = fds\<rparr>, ts_asic = am\<rparr>"


definition sample_entry :: "u32 \<Rightarrow> tap_if_entry" where
  "sample_entry k = \<lparr>te_name = ''1'', te_fd_or_portNum = k, te_mac = Eth 2 0 0 0 0 1\<rparr>"

lemma send_all_two: "send_all_from E cmd 0 2 info = send_all_from E cmd 0 (Suc (Suc 0)) info"
  by (simp only: numeral_2_eq_2)

lemma sample_create:
  fixes add i
  defines "add \<equiv> OPS_FPA_CMD_ADD_IF ''1'' 7 5 (Eth 2 0 0 0 0 1)"
    and "i \<equiv> sample_info\<lparr>ti_fd_to_tap_if_map := [(7, sample_entry 5)]\<rparr>"
  shows "tap_sys_step sample_os (sample_sys sample_info [] {3} []) (sample_sys (i\<lparr>ti_pipes := [[add], [add]]\<rparr>) [] {3} [])"
proof -
  let ?s = "sample_sys sample_info [] {3} []"
  let ?ds' = "ts_ds (sample_sys (i\<lparr>ti_pipes := [[add], [add]]\<rparr>) [] {3} [])"
  have c: "ops_fpa_tap_if_create sample_os 0 5 ''1'' (Some (Eth 2 0 0 0 0 1)) (ts_ds ?s) 7 = Inr (0, Some 7, ?ds', 8)"
    by (simp add: sample_os_def sample_sys_def sample_info_def sample_entry_def add_def i_def ops_fpa_tap_if_create_def
        ops_fpa_dev_mutex_lock_def ops_fpa_dev_mutex_unlock_def get_tap_info_by_switch_id_def ops_fpa_dev_by_id_def
        ops_fpa_tun_alloc_def ops_fpa_net_if_setup_def ops_fpa_system_def WIFEXITED_def WEXITSTATUS_def Let_def
        send_all_two send_ctrl_cmd_def put_tap_info_def hmap_insert_def)
  have "tap_sys_step sample_os ?s (?s\<lparr>ts_ds := ?ds'\<rparr>)"
    by (rule create [OF _ _ c, of sample_info])
      (simp_all add: sample_os_def sample_sys_def sample_info_def main_info_def pipes_room_def fd_open_def)
  then show ?thesis by (simp add: sample_sys_def)
qed

lemma sample_sys_reach:
  "tap_sys_reach sample_os (sample_sys (sample_info\<lparr>ti_fd_to_tap_if_map := [(7, sample_entry 5)]\<rparr>)
     [(7, sample_entry 5)] {3, 7} [(5, sample_entry 7)])"
proof -
  let ?add = "OPS_FPA_CMD_ADD_IF ''1'' 7 5 (Eth 2 0 0 0 0 1)"
  let ?i = "sample_info\<lparr>ti_fd_to_tap_if_map := [(7, sample_entry 5)]\<rparr>"
  have r0: "tap_sys_reach sample_os (sample_sys sample_info [] {3} [])"
    by (rule init) (auto simp: tap_sys_init_def sample_sys_def sample_info_def main_info_def)
  have "tap_sys_step sample_os (sample_sys sample_info [] {3} [])
      (sample_sys (?i\<lparr>ti_pipes := [[?add], [?add]]\<rparr>) [] {3} [])"
    by (rule sample_create)
  from step [OF r0 this] have r1: "tap_sys_reach sample_os (sample_sys (?i\<lparr>ti_pipes := [[?add], [?add]]\<rparr>) [] {3} [])" .
  have "tap_sys_step sample_os (sample_sys (?i\<lparr>ti_pipes := [[?add], [?add]]\<rparr>) [] {3} [])
      (sample_sys (?i\<lparr>ti_pipes := [[], [?add]]\<rparr>) [(7, sample_entry 5)] {3, 7} [])"
    using tap_read [of "sample_sys (?i\<lparr>ti_pipes := [[?add], [?add]]\<rparr>) [] {3} []" "?i\<lparr>ti_pipes := [[?add], [?add]]\<rparr>"
        ?add "[]" "[?add]" sample_os]
    by (simp add: sample_sys_def sample_entry_def main_info_def tap_ctrl_cmd_def put_tap_info_def hmap_insert_def insert_commute)
  from step [OF r1 this] have r2: "tap_sys_reach sample_os
      (sample_sys (?i\<lparr>ti_pipes := [[], [?add]]\<rparr>) [(7, sample_entry 5)] {3, 7} [])" .
  have "tap_sys_step sample_os (sample_sys (?i\<lparr>ti_pipes := [[], [?add]]\<rparr>) [(7, sample_entry 5)] {3, 7} [])
      (sample_sys ?i [(7, sample_entry 5)] {3, 7} [(5, sample_entry 7)])"
    using asic_read [of "sample_sys (?i\<lparr>ti_pipes := [[], [?add]]\<rparr>) [(7, sample_entry 5)] {3, 7} []"
        "?i\<lparr>ti_pipes := [[], [?add]]\<rparr>" "[]" ?add "[]" sample_os]
    by (simp add: sample_sys_def sample_info_def sample_entry_def main_info_def asic_ctrl_cmd_def put_tap_info_def hmap_insert_def)
  from step [OF r2 this] show ?thesis .
qed

text \<open>(C10) The listeners follow the main thread. In every state that creations, deletions and reading of
  commands lead to, in any interleaving, reading the commands that are still in the pipes ends without
  leaving the loop and without a crash, and afterwards the TAP listener has exactly the main thread's
  interfaces and selects exactly on their descriptors and its control pipe, and the ASIC listener has
  the same interfaces under their port numbers.\<close>

theorem tap_listeners_follow:
  assumes "tap_sys_reach E s" and "visits_all (os_map_order E)"
  shows "\<exists>info t. main_info (ts_ds s) = Some info
    \<and> tap_read_cmds E (ti_pipes info ! OPS_FPA_THREAD_TAP) (ts_tap s) = Inr (False, t, [])
    \<and> tl_map t = ti_fd_to_tap_if_map info
    \<and> tl_read_fd_set t = insert (fst (ti_ctrl_fds info ! OPS_FPA_THREAD_TAP))
        ((\<lambda>n. uint (fst n)) ` set (ti_fd_to_tap_if_map info))
    \<and> asic_read_cmds E (ti_pipes info ! OPS_FPA_THREAD_ASIC) (ts_asic s) =
        (False, map by_port (ti_fd_to_tap_if_map info), [])"
  using tap_inv_reach [OF assms] unfolding tap_inv_def listeners_follow_def by blast

theorem tap_listeners_follow_witness:
  "asic_read_cmds sample_os [] [(5, sample_entry 7)] = (False, map by_port [(7, sample_entry 5)], [])"
proof -
  have "visits_all (os_map_order sample_os)" by (simp add: sample_os_def)
  from tap_listeners_follow [OF sample_sys_reach this] show ?thesis
    by (simp add: sample_sys_def main_info_def sample_info_def)
qed

text \<open>(C15) The tag state that is looked up for a frame agrees with the VLAN state of the port: a port is
  found to pop the tag of a VLAN, or to keep it, exactly when the VLAN map of the port has the egress
  VIDX of the VLAN with that flag.\<close>

theorem eg_tag_state_vmap:
  assumes "fpa_lib_ok lib" and "l2_id_laws lib" and "vlan_wf lib hw sid pid"
    and "pid \<noteq> 0" and "pid \<le> 0xFFFF" and "vid < 4096"
  shows "get_port_eg_tag_state lib sid pid vid hw = Inr t \<longleftrightarrow>
    OPS_FPA_VIDX_EGRESS (ucast vid) t \<in> port_vmap lib hw sid pid"
  by (rule eg_tag_state_iff [OF assms])

text \<open>VLAN 10 on port 5 with the tag popped.\<close>

lemma sample_access_port:
  obtains hw where "vlan_wf (sim_lib {} False) hw 0 5" and "OPS_FPA_VIDX_EGRESS 10 True \<in> port_vmap (sim_lib {} False) hw 0 5"
proof -
  let ?l = "sim_lib {} False" and ?x = "OPS_FPA_VIDX_EGRESS 10 True"
  have "ops_fpa_vlan_add ?l 0 5 ?x sim_empty = (0, snd (ops_fpa_vlan_add ?l 0 5 ?x sim_empty))"
    by (simp add: ops_fpa_vlan_add_def ops_fpa_route_add_l2_group_def sim_defs sim_empty_def l2_ident_def)
  from vlan_add_effect [OF sim_lib_ok sim_l2_id_laws sim_empty_wf _ _ _ _ this, of 5] vidx_range(2) [of 10 True]
  show thesis using that by (auto simp: sim_empty_vmap)
qed

theorem eg_tag_state_vmap_witness:
  "\<exists>hw. get_port_eg_tag_state (sim_lib {} False) 0 5 10 hw = Inr True"
proof -
  obtain hw where "vlan_wf (sim_lib {} False) hw 0 5" "OPS_FPA_VIDX_EGRESS 10 True \<in> port_vmap (sim_lib {} False) hw 0 5"
    by (rule sample_access_port)
  then show ?thesis
    using eg_tag_state_vmap [OF sim_lib_ok sim_l2_id_laws, of "{}" False hw 0 5 10 True] by auto
qed


text \<open>(C13) A frame goes to the kernel and back. Let the listeners have read all commands, and let a port
  with an interface carry a normal VLAN without tags on the wire. An untagged frame that the switch
  delivers from that port is written to the interface with the tag of its VLAN, and when the kernel
  sends that frame out of the interface it leaves through the same port, byte for byte as it came
  in.\<close>

theorem frame_roundtrip:
  assumes "tap_sys_reach E s" and "visits_all (os_map_order E)" and "main_info (ts_ds s) = Some info"
    and "ti_pipes info = [[], []]" and "n \<in> set (ti_fd_to_tap_if_map info)"
    and "fpa_lib_ok lib" and "l2_id_laws lib" and "vlan_wf lib hw sid (port_of n)" and "port_of n \<noteq> 0"
    and "port_of n \<le> 0xFFFF" and "vid < 4096" and "OPS_FPA_VIDX_EGRESS (ucast vid) True \<in> port_vmap lib hw sid (port_of n)"
    and "\<not> ops_fpa_vlan_internal internal (ucast vid)" and "get_be16 12 f \<noteq> ETHERTYPE_VLAN"
    and "14 \<le> length f" and "FPA_PKT_SAFEGUARD + length f + DOT1Q_LEN \<le> FPA_HAL_MAX_MTU_CNS"
    and "length pbuf = FPA_HAL_MAX_MTU_CNS" and "length pbuf' = FPA_HAL_MAX_MTU_CNS"
  shows "\<exists>buf buf' sz. asic_handle_frame E internal (ts_asic s) FPA_OK f (port_of n) vid pbuf =
        (buf, Some (fst n, FPA_PKT_SAFEGUARD - DOT1Q_LEN, sz))
    \<and> unat sz = length f + DOT1Q_LEN
    \<and> buf_get (FPA_PKT_SAFEGUARD - DOT1Q_LEN) (unat sz) buf = tag_frame vid f
    \<and> tap_handle_frame lib E sid False hw (tl_map (ts_tap s)) (uint (fst n)) (Inr (tag_frame vid f)) pbuf' =
        Inr (buf', Some (port_of n, FPA_PKT_SAFEGUARD + DOT1Q_LEN, of_nat (length f)))
    \<and> buf_get (FPA_PKT_SAFEGUARD + DOT1Q_LEN) (length f) buf' = f"
proof -
  note look = quiet_lookup [OF assms(1-5)]
  have "get_port_eg_tag_state lib sid (port_of n) vid hw = Inr True"
    using eg_tag_state_iff [OF assms(6-11)] assms(12) by blast
  then obtain buf' where b': "tap_handle_frame lib E sid False hw (tl_map (ts_tap s)) (uint (fst n)) (Inr (tag_frame vid f)) pbuf' =
        Inr (buf', Some (port_of n, 36, of_nat (length f)))" "buf_get 36 (length f) buf' = f"
    using tap_frame_untagged [of E "tl_map (ts_tap s)" "uint (fst n)" "fst n" "snd n" lib sid vid hw f pbuf'] look(1) assms(15-18)
    by (auto simp: port_of_def)
  obtain buf where b: "asic_handle_frame E internal (ts_asic s) FPA_OK f (port_of n) vid pbuf = (buf, Some (fst n, 28, of_nat (length f) + 4))"
      "buf_get 28 (length f + 4) buf = tag_frame vid f"
    using asic_frame_tagged [of E "ts_asic s" "port_of n" "port_of n" "(snd n)\<lparr>te_fd_or_portNum := fst n\<rparr>" internal vid f pbuf]
      look(2) assms(13-17) by (auto simp: by_port_def port_of_def)
  have "unat (of_nat (length f + 4) :: u32) = length f + 4"
    using assms(16) by (simp add: unsigned_of_nat take_bit_nat_eq_self_iff del: of_nat_add)
  then show ?thesis using b b' by simp
qed

theorem frame_roundtrip_witness:
  "\<exists>hw buf buf'. asic_handle_frame sample_os (\<lambda>i. False) [(5, sample_entry 7)] FPA_OK (replicate 60 1) 5 10 (replicate 10240 0) =
        (buf, Some (7, 28, 64))
    \<and> tap_handle_frame (sim_lib {} False) sample_os 0 False hw [(7, sample_entry 5)] 7 (Inr (tag_frame 10 (replicate 60 1)))
        (replicate 10240 0) = Inr (buf', Some (5, 36, 60))
    \<and> buf_get 36 60 buf' = replicate 60 1"
proof -
  obtain hw where hw: "vlan_wf (sim_lib {} False) hw 0 5" "OPS_FPA_VIDX_EGRESS 10 True \<in> port_vmap (sim_lib {} False) hw 0 5"
    by (rule sample_access_port)
  let ?i = "sample_info\<lparr>ti_fd_to_tap_if_map := [(7, sample_entry 5)]\<rparr>"
  let ?s = "sample_sys ?i [(7, sample_entry 5)] {3, 7} [(5, sample_entry 7)]"
  let ?f = "replicate 60 (1 :: u8)" and ?b = "replicate 10240 (0 :: u8)"
  have s: "main_info (ts_ds ?s) = Some ?i" "ti_pipes ?i = [[], []]" "(7, sample_entry 5) \<in> set (ti_fd_to_tap_if_map ?i)"
      "visits_all (os_map_order sample_os)" "port_of (7, sample_entry 5) = 5"
    by (simp_all add: sample_sys_def main_info_def sample_info_def sample_os_def port_of_def sample_entry_def)
  have ty: "get_be16 12 ?f \<noteq> ETHERTYPE_VLAN" by (simp add: get_be16_def)
  have "\<exists>buf buf' sz. asic_handle_frame sample_os (\<lambda>i. False) (ts_asic ?s) FPA_OK ?f 5 10 ?b = (buf, Some (7, 32 - 4, sz))
      \<and> unat sz = length ?f + 4 \<and> buf_get (32 - 4) (unat sz) buf = tag_frame 10 ?f
      \<and> tap_handle_frame (sim_lib {} False) sample_os 0 False hw (tl_map (ts_tap ?s)) (uint (7 :: u32)) (Inr (tag_frame 10 ?f)) ?b =
        Inr (buf', Some (5, 32 + 4, of_nat (length ?f))) \<and> buf_get (32 + 4) (length ?f) buf' = ?f"
    using frame_roundtrip [OF sample_sys_reach s(4,1,2,3) sim_lib_ok sim_l2_id_laws, unfolded s(5), of _ _ hw 0 10 "\<lambda>i. False" ?f ?b ?b]
      hw ty by (simp add: ops_fpa_vlan_internal_def)
  then obtain buf buf' sz where r: "asic_handle_frame sample_os (\<lambda>i. False) [(5, sample_entry 7)] FPA_OK ?f 5 10 ?b = (buf, Some (7, 28, sz))"
      "unat sz = 64" "tap_handle_frame (sim_lib {} False) sample_os 0 False hw [(7, sample_entry 5)] 7 (Inr (tag_frame 10 ?f)) ?b =
        Inr (buf', Some (5, 36, 60))" "buf_get 36 60 buf' = ?f"
    by (auto simp: sample_sys_def)
  have "sz = 64" using r(2) by (simp add: word_unat_eq_iff)
  with r show ?thesis by blast
qed



end
