(* ===== verification/Fpa_Dev.thy ===== *)
theory Fpa_Dev
  imports Fpa_TapThreads
begin

text \<open>
  \<open>src/ops-fpa-dev.c\<close>: the device, in which the TAP interfaces and MAC learning hang. Opening and closing
  it are modelled with the counting of references; the commands that print flow tables are in \<open>Fpa_Show\<close>.
\<close>

section \<open>The device\<close>

text \<open>
  \<open>ops_fpa_dev_init\<close>. The device exists in one instance that is counted. A device whose MAC learning
  cannot be created stays in place. The parameters are those of \<open>ops_fpa_mac_learning_create\<close>.
\<close>

definition ops_fpa_dev_init ::
  "'os os_env \<Rightarrow> ml_params \<Rightarrow> (u32 \<Rightarrow> u32 \<Rightarrow> fpa_status) \<Rightarrow> (u32 \<Rightarrow> fpa_status) \<Rightarrow> bool
    \<Rightarrow> u32 \<Rightarrow> dev_state \<Rightarrow> 'os \<Rightarrow> crash + int \<times> dev_state \<times> 'os" where
  "ops_fpa_dev_init E P aging_set learning_set plugin switchId ds os =
     (case ops_fpa_dev_mutex_lock ds of Inl c \<Rightarrow> Inl c
      | Inr ds \<Rightarrow>
        case ds_dev ds of
          Some dev \<Rightarrow>
            Inr (0, ops_fpa_dev_mutex_unlock (ds\<lparr>ds_dev := Some (dev\<lparr>dv_ref_cnt := dv_ref_cnt dev + 1\<rparr>)\<rparr>), os)
        | None \<Rightarrow>
            let dev = \<lparr>dv_switchId = switchId, dv_ref_cnt = 1, dv_tap_if_info = None, dv_ml = None\<rparr> in
            case ops_fpa_tap_init E switchId (ds\<lparr>ds_dev := Some dev\<rparr>) os of Inl c \<Rightarrow> Inl c
            | Inr (info, os) \<Rightarrow>
              let dev = dev\<lparr>dv_tap_if_info := info\<rparr> in
              case ops_fpa_mac_learning_create P aging_set learning_set plugin (Some switchId) of Inl c \<Rightarrow> Inl c
              | Inr (err, ml) \<Rightarrow>
                  if err \<noteq> 0 then Inr (EAGAIN, ops_fpa_dev_mutex_unlock (ds\<lparr>ds_dev := Some dev\<rparr>), os)
                  else Inr (0, ops_fpa_dev_mutex_unlock (ds\<lparr>ds_dev := Some (dev\<lparr>dv_ml := ml\<rparr>)\<rparr>), os))"

text \<open>
  \<open>ops_fpa_dev_deinit\<close>. Dropping the last reference releases MAC learning and the TAP interfaces while the
  mutex is held; \<open>None\<close> is a call that does not return.
\<close>

definition ops_fpa_dev_deinit ::
  "'os os_env \<Rightarrow> u32 \<Rightarrow> dev_state \<Rightarrow> 'os \<Rightarrow> (crash + dev_state \<times> 'os) option" where
  "ops_fpa_dev_deinit E switchId ds os =
     (case ops_fpa_dev_mutex_lock ds of Inl c \<Rightarrow> Some (Inl c)
      | Inr ds \<Rightarrow>
        case ops_fpa_dev_by_id (ds_dev ds) switchId of Inl c \<Rightarrow> Some (Inl c)
        | Inr fdev \<Rightarrow>
          let fdev = fdev\<lparr>dv_ref_cnt := dv_ref_cnt fdev - 1\<rparr>;
              ds = ds\<lparr>ds_dev := Some fdev\<rparr> in
          if dv_ref_cnt fdev \<noteq> 0 then Some (Inr (ops_fpa_dev_mutex_unlock ds, os)) else
          case ops_fpa_mac_learning_unref (dv_ml fdev) of None \<Rightarrow> None
          | Some ml \<Rightarrow>
            case ops_fpa_tap_deinit E switchId (ds\<lparr>ds_dev := Some (fdev\<lparr>dv_ml := ml\<rparr>)\<rparr>) os of None \<Rightarrow> None
            | Some (Inl c) \<Rightarrow> Some (Inl c)
            | Some (Inr (ds, os)) \<Rightarrow> Some (Inr (ops_fpa_dev_mutex_unlock (ds\<lparr>ds_dev := None\<rparr>), os)))"


lemmas dev_init_defs = ops_fpa_dev_init_def ops_fpa_dev_mutex_lock_def ops_fpa_dev_mutex_unlock_def ops_fpa_tap_init_def
  get_tap_info_by_switch_id_def ops_fpa_dev_by_id_def ops_fpa_mac_learning_create_def Let_def

lemma dev_init_again:
  assumes "ds_dev ds = Some d" and "\<not> ds_mutex ds"
  shows "ops_fpa_dev_init E P a l pl sid ds os = Inr (0, ds\<lparr>ds_dev := Some (d\<lparr>dv_ref_cnt := dv_ref_cnt d + 1\<rparr>)\<rparr>, os)"
  using assms by (simp add: ops_fpa_dev_init_def ops_fpa_dev_mutex_lock_def ops_fpa_dev_mutex_unlock_def)

lemma dev_deinit_shared:
  assumes "ds_dev ds = Some d" and "\<not> ds_mutex ds" and "dv_ref_cnt d \<noteq> 1"
  shows "ops_fpa_dev_deinit E (dv_switchId d) ds os = Some (Inr (ds\<lparr>ds_dev := Some (d\<lparr>dv_ref_cnt := dv_ref_cnt d - 1\<rparr>)\<rparr>, os))"
  using assms
  by (simp add: ops_fpa_dev_deinit_def ops_fpa_dev_mutex_lock_def ops_fpa_dev_mutex_unlock_def ops_fpa_dev_by_id_def)

lemma tap_delete_all_held:
  assumes "ds_mutex ds" and "sid \<noteq> FPA_INVALID_SWITCH_ID" and "es \<noteq> []"
  shows "\<exists>c. tap_delete_all E sid es ds os = Inl c"
proof -
  obtain e es' where "es = e # es'" using assms(3) by (cases es) auto
  then show ?thesis
    using assms(1,2) by (simp add: ops_fpa_tap_if_delete_def ops_fpa_dev_mutex_lock_def)
qed

text \<open>What the last reference does: it never gives the device back.\<close>

lemma dev_deinit_last:
  assumes "ds_dev ds = Some d" and "\<not> ds_mutex ds" and "dv_ref_cnt d = 1"
  shows "dv_ml d = Some ml \<Longrightarrow> ml_ref_cnt ml = 1 \<Longrightarrow> ops_fpa_dev_deinit E (dv_switchId d) ds os = None"
    and "dv_ml d = None \<Longrightarrow> dv_tap_if_info d = Some info \<Longrightarrow> ti_fd_to_tap_if_map info \<noteq> [] \<Longrightarrow>
      dv_switchId d \<noteq> FPA_INVALID_SWITCH_ID \<Longrightarrow> visits_all (os_map_order E) \<Longrightarrow>
      \<exists>c. ops_fpa_dev_deinit E (dv_switchId d) ds os = Some (Inl c)"
proof -
  show "dv_ml d = Some ml \<Longrightarrow> ml_ref_cnt ml = 1 \<Longrightarrow> ops_fpa_dev_deinit E (dv_switchId d) ds os = None"
    using assms
    by (simp add: ops_fpa_dev_deinit_def ops_fpa_dev_mutex_lock_def ops_fpa_dev_by_id_def ops_fpa_mac_learning_unref_def)
  assume a: "dv_ml d = None" "dv_tap_if_info d = Some info" "ti_fd_to_tap_if_map info \<noteq> []"
      "dv_switchId d \<noteq> FPA_INVALID_SWITCH_ID" "visits_all (os_map_order E)"
  have "os_map_order E (ti_fd_to_tap_if_map info) \<noteq> []" using a(3) visits_all_length [OF a(5), of "ti_fd_to_tap_if_map info"] by auto
  then obtain c where "tap_delete_all E (dv_switchId d) (os_map_order E (ti_fd_to_tap_if_map info))
      (ds\<lparr>ds_mutex := True, ds_dev := Some (d\<lparr>dv_ref_cnt := 0, dv_ml := None\<rparr>)\<rparr>) os = Inl c"
    using tap_delete_all_held [of "ds\<lparr>ds_mutex := True, ds_dev := Some (d\<lparr>dv_ref_cnt := 0, dv_ml := None\<rparr>)\<rparr>"
        "dv_switchId d" "os_map_order E (ti_fd_to_tap_if_map info)" E os] a(4) by auto
  then show "\<exists>c. ops_fpa_dev_deinit E (dv_switchId d) ds os = Some (Inl c)"
    using assms a
    by (simp add: ops_fpa_dev_deinit_def ops_fpa_dev_mutex_lock_def ops_fpa_dev_by_id_def ops_fpa_mac_learning_unref_def
        ops_fpa_tap_deinit_def get_tap_info_by_switch_id_def)
qed


section \<open>Properties\<close>

text \<open>The life of the device. Opening it on a working switch succeeds; opening and closing an open
  device changes nothing; but closing the last reference never returns, because the event thread of MAC
  learning that it waits for never ends.\<close>

lemma dev_lifecycle:
  assumes "ds_dev ds = None" and "\<not> ds_mutex ds" and "sid \<noteq> FPA_INVALID_SWITCH_ID"
    and "\<forall>t. aging_set sid t = FPA_OK" and "learning_set sid = FPA_OK"
    and "tap_init_pipes E OPS_FPA_THREAD_CNT [] os = (Some fds, os1)"
  shows "\<exists>ds1. ops_fpa_dev_init E P aging_set learning_set plugin sid ds os = Inr (0, ds1, os1)
    \<and> \<not> ds_mutex ds1
    \<and> (\<forall>os. \<exists>ds2. ops_fpa_dev_init E P aging_set learning_set plugin sid ds1 os = Inr (0, ds2, os)
         \<and> ops_fpa_dev_deinit E sid ds2 os = Some (Inr (ds1, os)))
    \<and> ops_fpa_dev_deinit E sid ds1 os1 = None"
proof -
  have ds: "ds = \<lparr>ds_dev = None, ds_mutex = False\<rparr>" using assms(1,2) by (cases ds) simp
  obtain d ml where i: "ops_fpa_dev_init E P aging_set learning_set plugin sid ds os = Inr (0, \<lparr>ds_dev = Some d, ds_mutex = False\<rparr>, os1)"
    and d: "dv_switchId d = sid" "dv_ref_cnt d = 1" "dv_ml d = Some ml" "ml_ref_cnt ml = 1"
    using assms(3-) unfolding ds by (simp add: dev_init_defs)
  let ?ds1 = "\<lparr>ds_dev = Some d, ds_mutex = False\<rparr>" and ?d2 = "d\<lparr>dv_ref_cnt := dv_ref_cnt d + 1\<rparr>"
  have "ops_fpa_dev_deinit E sid (?ds1\<lparr>ds_dev := Some ?d2\<rparr>) os = Some (Inr (?ds1, os))" for os
    using dev_deinit_shared [of "?ds1\<lparr>ds_dev := Some ?d2\<rparr>" ?d2 E os] d by simp
  moreover have "ops_fpa_dev_deinit E sid ?ds1 os1 = None"
    using dev_deinit_last(1) [of ?ds1 d ml E os1] d by simp
  ultimately show ?thesis
    using i dev_init_again [of ?ds1 d E P aging_set learning_set plugin sid] by fastforce
qed

text \<open>A device without MAC learning passes for a good one: when the aging time cannot be set, opening the
  device fails, but opening it again succeeds without another attempt.\<close>

lemma dev_retry_without_ml:
  assumes "ds_dev ds = None" and "\<not> ds_mutex ds" and "sid \<noteq> FPA_INVALID_SWITCH_ID"
    and "\<forall>t. aging_set sid t \<noteq> FPA_OK"
  shows "\<exists>ds1 os1 d. ops_fpa_dev_init E P aging_set learning_set plugin sid ds os = Inr (EAGAIN, ds1, os1)
    \<and> ops_fpa_dev_init E P aging_set learning_set plugin sid ds1 os1 = Inr (0, ds1\<lparr>ds_dev := Some d\<rparr>, os1)
    \<and> dv_ml d = None \<and> dv_ref_cnt d = 2"
proof -
  have ds: "ds = \<lparr>ds_dev = None, ds_mutex = False\<rparr>" using assms(1,2) by (cases ds) simp
  obtain d os1 where i: "ops_fpa_dev_init E P aging_set learning_set plugin sid ds os = Inr (EAGAIN, \<lparr>ds_dev = Some d, ds_mutex = False\<rparr>, os1)"
    and d: "dv_ref_cnt d = 1" "dv_ml d = None"
    using assms(3-) unfolding ds by (cases "tap_init_pipes E OPS_FPA_THREAD_CNT [] os") (simp add: dev_init_defs)
  let ?ds1 = "\<lparr>ds_dev = Some d, ds_mutex = False\<rparr>"
  show ?thesis
    using i d dev_init_again [of ?ds1 d E P aging_set learning_set plugin sid os1]
    by (intro exI [of _ ?ds1] exI [of _ os1] exI [of _ "d\<lparr>dv_ref_cnt := dv_ref_cnt d + 1\<rparr>"]) simp
qed

end
