(* ===== verification/Fpa_Netdev.thy ===== *)
theory Fpa_Netdev
  imports Fpa_Dev
begin

text \<open>
  \<open>src/ops-fpa-netdev.c\<close>: the network devices of Open vSwitch, one for every port of the switch, and those
  without a port. A device with a port has a TAP interface. The calls of the FPA library for ports, the
  constants of the headers and the functions of Open vSwitch are a parameter \<open>K\<close>.
\<close>

section \<open>Constants and the port interface\<close>

text \<open>
  The feature bits of the FPA library and of Open vSwitch, by name; their values are constants of headers
  outside the repository.
\<close>

datatype fpa_feat =
    FPA_10MB_HD | FPA_10MB_FD | FPA_100MB_HD | FPA_100MB_FD | FPA_1GB_HD | FPA_1GB_FD | FPA_2_5GB_FD
  | FPA_10GB_FD | FPA_20GB_FD | FPA_40GB_FD | FPA_100GB_FD | FPA_1TB_FD | FPA_OTHER | FPA_COPPER | FPA_FIBER
  | FPA_AUTONEG | FPA_PAUSE | FPA_PAUSE_ASYM

datatype netdev_feat =
    NETDEV_F_10MB_HD | NETDEV_F_10MB_FD | NETDEV_F_100MB_HD | NETDEV_F_100MB_FD | NETDEV_F_1GB_HD
  | NETDEV_F_1GB_FD | NETDEV_F_10GB_FD | NETDEV_F_40GB_FD | NETDEV_F_100GB_FD | NETDEV_F_1TB_FD | NETDEV_F_OTHER
  | NETDEV_F_COPPER | NETDEV_F_FIBER | NETDEV_F_AUTONEG | NETDEV_F_PAUSE | NETDEV_F_PAUSE_ASYM

record port_props =
  pp_flags :: u32
  pp_config :: u32
  pp_featuresBmp :: u32
  pp_advertBmp :: u32
  pp_supportedBmp :: u32
  pp_peerBmp :: u32

record port_counters =
  rxPackets :: u64
  txPackets :: u64
  rxBytes :: u64
  txBytes :: u64
  rxDropped :: u64
  txDropped :: u64
  rxErrors :: u64
  txErrors :: u64
  rxFrameErr :: u64
  rxOverErr :: u64
  rxCrcErr :: u64
  collisions :: u64

text \<open>
  The port calls of the FPA library, on a state \<open>'hw\<close> of the switch, and the constants and functions of
  Open vSwitch, OpenSwitch and the C library that the code uses. \<open>fpaLibPortPropertiesGet\<close> is given the
  structure the caller passes and returns it filled in.
\<close>

type_synonym smap = "string \<rightharpoonup> string"

record 'hw port_env =
  fpaLibPortPropertiesGet :: "u32 \<Rightarrow> u32 \<Rightarrow> port_props \<Rightarrow> 'hw \<Rightarrow> fpa_status \<times> port_props"
  fpaLibPortPropertiesSet :: "u32 \<Rightarrow> u32 \<Rightarrow> port_props \<Rightarrow> 'hw \<Rightarrow> fpa_status \<times> 'hw"
  fpaLibPortStatisticsGet :: "u32 \<Rightarrow> u32 \<Rightarrow> 'hw \<Rightarrow> fpa_status \<times> port_counters"
  FPA_PORT_FEAT :: "fpa_feat \<Rightarrow> u32"
  NETDEV_F :: "netdev_feat \<Rightarrow> u32"
  CONFIG_FLAG :: u32
  FEATURES_FLAG :: u32
  ADVERTISED_FLAG :: u32
  SUPPORTED_FLAG :: u32
  PEER_FLAG :: u32
  FPA_PORT_CONFIG_DOWN :: u32
  NETDEV_UP :: u32
  MAP_SWITCH_UNIT :: string
  MAP_SWITCH_INTF_ID :: string
  MAP_MAC_ADDR :: string
  MAP_BRIDGE :: string
  DFLT_MAP_BRIDGE :: bool
  MAP_ENABLE :: string
  MAP_DUPLEX :: string
  MAP_DUPLEX_FULL :: string
  MAP_SPEEDS :: string
  MAP_AUTONEG :: string
  MAP_AUTONEG_ON :: string
  MAP_PAUSE :: string
  MAP_PAUSE_RX :: string
  MAP_PAUSE_TX :: string
  MAP_PAUSE_RXTX :: string
  smap_get_bool :: "smap \<Rightarrow> string \<Rightarrow> bool \<Rightarrow> bool"
  str_to_mac :: "string \<Rightarrow> eth_addr option"
  ether_aton :: "string \<Rightarrow> eth_addr option"

definition STR_EQ :: "string option \<Rightarrow> string option \<Rightarrow> bool" where
  "STR_EQ s1 s2 \<longleftrightarrow> s1 \<noteq> None \<and> s2 \<noteq> None \<and> s1 = s2"

abbreviation (input) FPA_INVALID_INTF_ID :: int where "FPA_INVALID_INTF_ID \<equiv> 0xFFFF"

definition wrap_fpaLibPortPropertiesSet :: "'hw port_env \<Rightarrow> u32 \<Rightarrow> u32 \<Rightarrow> port_props \<Rightarrow> 'hw \<Rightarrow> fpa_status \<times> 'hw" where
  "wrap_fpaLibPortPropertiesSet K switchId portNum props hw = fpaLibPortPropertiesSet K switchId portNum props hw"

section \<open>Network devices\<close>

text \<open>
  \<open>nd_type\<close> and \<open>nd_name\<close> are the class type and the name in the base structure; \<open>nd_change_seq\<close> counts the
  calls of \<open>netdev_change_seq_changed\<close>. The mutex of a device is taken and released inside each call.
\<close>

record fpa_netdev =
  nd_type :: string
  nd_name :: string
  nd_sid :: int
  nd_pid :: int
  nd_mac :: eth_addr
  nd_inited :: bool
  nd_link_status :: bool
  nd_link_resets :: int
  nd_tap_fd :: int
  nd_flags :: u32
  nd_change_seq :: nat

text \<open>\<open>p\<close> is what \<open>fpaLibPortPropertiesGet\<close> returned for the device in this round.\<close>

definition netdev_run1 :: "'hw port_env \<Rightarrow> fpa_status \<times> port_props \<Rightarrow> fpa_netdev \<Rightarrow> fpa_netdev" where
  "netdev_run1 K p dev =
     (let (err, props) = p in
      if err \<noteq> FPA_OK then dev else
      let link_status = (pp_config props AND FPA_PORT_CONFIG_DOWN K = 0) in
      if link_status \<noteq> nd_link_status dev
      then dev\<lparr>nd_link_status := link_status,
               nd_link_resets := (if link_status then nd_link_resets dev + 1 else nd_link_resets dev),
               nd_change_seq := nd_change_seq dev + 1\<rparr>
      else dev)"

definition zero_props :: "u32 \<Rightarrow> port_props" where
  "zero_props flags = \<lparr>pp_flags = flags, pp_config = 0, pp_featuresBmp = 0, pp_advertBmp = 0, pp_supportedBmp = 0,
     pp_peerBmp = 0\<rparr>"

definition ops_fpa_netdev_run :: "'hw port_env \<Rightarrow> 'hw \<Rightarrow> fpa_netdev list \<Rightarrow> fpa_netdev list" where
  "ops_fpa_netdev_run K hw devices =
     map (\<lambda>dev. netdev_run1 K (fpaLibPortPropertiesGet K (word_of_int (nd_sid dev)) (word_of_int (nd_pid dev))
       (zero_props (CONFIG_FLAG K)) hw) dev) devices"

text \<open>The structure is zeroed by \<open>ops_fpa_netdev_alloc\<close>; \<open>next_n\<close> is the static counter.\<close>

definition ops_fpa_netdev_alloc :: "string \<Rightarrow> string \<Rightarrow> fpa_netdev" where
  "ops_fpa_netdev_alloc type name =
     \<lparr>nd_type = type, nd_name = name, nd_sid = 0, nd_pid = 0, nd_mac = Eth 0 0 0 0 0 0, nd_inited = False,
      nd_link_status = False, nd_link_resets = 0, nd_tap_fd = 0, nd_flags = 0, nd_change_seq = 0\<rparr>"

definition netdev_mac :: "u32 \<Rightarrow> eth_addr" where
  "netdev_mac n = Eth 0xAA 0x55 (ucast (drop_bit 24 n)) (ucast (drop_bit 16 n)) (ucast (drop_bit 8 n)) (ucast n)"

definition ops_fpa_netdev_construct :: "fpa_netdev \<Rightarrow> u32 \<Rightarrow> fpa_netdev \<times> u32" where
  "ops_fpa_netdev_construct dev next_n =
     (dev\<lparr>nd_sid := 0xFFFF, nd_pid := FPA_INVALID_INTF_ID, nd_mac := netdev_mac next_n, nd_inited := False,
          nd_link_status := False, nd_link_resets := 0, nd_flags := 0, nd_tap_fd := 0\<rparr>, next_n + 1)"

definition ops_fpa_netdev_destruct ::
  "'os os_env \<Rightarrow> fpa_netdev \<Rightarrow> dev_state \<Rightarrow> 'os \<Rightarrow> crash + dev_state \<times> 'os" where
  "ops_fpa_netdev_destruct E dev ds os =
     (case (if nd_tap_fd dev \<noteq> 0
            then map_sum id snd (ops_fpa_tap_if_delete E (word_of_int (nd_sid dev)) (nd_tap_fd dev) ds os)
            else Inr (ds, os)) of Inl c \<Rightarrow> Inl c
      | Inr (ds, os) \<Rightarrow>
          if STR_EQ (Some (nd_name dev)) (Some ''bridge_normal'')
          then Inr (ds, snd (ops_fpa_bridge_delete E ''bridge_normal'' os))
          else Inr (ds, os))"

text \<open>
  The device, the result code and the state. Without a MAC address in the arguments, \<open>ether_aton\<close> is given
  a null pointer. A device of a class other than \<open>system\<close> is marked initialised all the same.
\<close>

definition ops_fpa_netdev_set_hw_intf_info ::
  "'hw port_env \<Rightarrow> 'os os_env \<Rightarrow> fpa_netdev \<Rightarrow> smap \<Rightarrow> dev_state \<Rightarrow> 'os \<Rightarrow> crash + int \<times> fpa_netdev \<times> dev_state \<times> 'os" where
  "ops_fpa_netdev_set_hw_intf_info K E dev args ds os =
     (if nd_inited dev then Inr (0, dev, ds, os) else
      if \<not> STR_EQ (Some (nd_type dev)) (Some ''system'') then Inr (0, dev\<lparr>nd_inited := True\<rparr>, ds, os) else
      case ops_fpa_str2int (args (MAP_SWITCH_UNIT K)) of None \<Rightarrow> Inr (EINVAL, dev, ds, os)
      | Some sid \<Rightarrow>
        let dev = dev\<lparr>nd_sid := sid\<rparr> in
        if sid = 0xFFFF then Inl Assert_Failed else
        case ops_fpa_str2int (args (MAP_SWITCH_INTF_ID K)) of None \<Rightarrow> Inr (EINVAL, dev, ds, os)
        | Some pid \<Rightarrow>
          let dev = dev\<lparr>nd_pid := pid\<rparr> in
          if pid = FPA_INVALID_INTF_ID then Inl Assert_Failed else
          case args (MAP_MAC_ADDR K) of None \<Rightarrow> Inl Null_Deref
          | Some mac \<Rightarrow>
            case str_to_mac K mac of None \<Rightarrow> Inr (EINVAL, dev, ds, os)
            | Some ea \<Rightarrow>
              let dev = dev\<lparr>nd_mac := ea\<rparr> in
              case ops_fpa_tap_if_create E (word_of_int sid) (word_of_int pid) (nd_name dev) (ether_aton K mac) ds os of
                Inl c \<Rightarrow> Inl c
              | Inr (ret, tap_fd, ds, os) \<Rightarrow>
                  let dev = (case tap_fd of None \<Rightarrow> dev | Some fd \<Rightarrow> dev\<lparr>nd_tap_fd := fd\<rparr>)
                  in if ret \<noteq> 0 then Inr (EINVAL, dev, ds, os)
                     else Inr (0, dev\<lparr>nd_inited := True\<rparr>, ds, os))"

section \<open>Port configuration\<close>

definition get_interface_speed_features :: "'hw port_env \<Rightarrow> smap \<Rightarrow> u32" where
  "get_interface_speed_features K args =
     (let duplex = STR_EQ (args (MAP_DUPLEX K)) (Some (MAP_DUPLEX_FULL K));
          speed = (case ops_fpa_str2int (args (MAP_SPEEDS K)) of None \<Rightarrow> 1000 | Some s \<Rightarrow> s) in
      FPA_PORT_FEAT K
        (if speed = 10 then (if duplex then FPA_10MB_FD else FPA_10MB_HD)
         else if speed = 100 then (if duplex then FPA_100MB_FD else FPA_100MB_HD)
         else if speed = 1000 then (if duplex then FPA_1GB_FD else FPA_1GB_HD)
         else if speed = 2500 then FPA_2_5GB_FD
         else if speed = 10000 then FPA_10GB_FD
         else if speed = 20000 then FPA_20GB_FD
         else if speed = 40000 then FPA_40GB_FD
         else if speed = 100000 then FPA_100GB_FD
         else if speed = 1000000 then FPA_1TB_FD
         else (if duplex then FPA_1GB_FD else FPA_1GB_HD)))"

definition get_interface_autoneg_features :: "'hw port_env \<Rightarrow> smap \<Rightarrow> u32" where
  "get_interface_autoneg_features K args =
     (if STR_EQ (args (MAP_AUTONEG K)) (Some (MAP_AUTONEG_ON K)) then FPA_PORT_FEAT K FPA_AUTONEG else 0)"

definition get_interface_pause_features :: "'hw port_env \<Rightarrow> smap \<Rightarrow> u32" where
  "get_interface_pause_features K args =
     (let pause = args (MAP_PAUSE K) in
      if STR_EQ pause (Some (MAP_PAUSE_RX K)) then FPA_PORT_FEAT K FPA_PAUSE
      else if STR_EQ pause (Some (MAP_PAUSE_TX K)) then FPA_PORT_FEAT K FPA_PAUSE_ASYM
      else if STR_EQ pause (Some (MAP_PAUSE_RXTX K)) then FPA_PORT_FEAT K FPA_PAUSE OR FPA_PORT_FEAT K FPA_PAUSE_ASYM
      else 0)"

text \<open>\<open>stack\<close> is what the uninitialised structure on the stack holds.\<close>

definition enable_props :: "'hw port_env \<Rightarrow> smap \<Rightarrow> port_props \<Rightarrow> port_props" where
  "enable_props K args props =
     (let features = (get_interface_speed_features K args OR get_interface_autoneg_features K args
            OR get_interface_pause_features K args) AND pp_supportedBmp props
      in props\<lparr>pp_flags := (if features \<noteq> 0 then CONFIG_FLAG K OR FEATURES_FLAG K else CONFIG_FLAG K),
           pp_config := 0, pp_featuresBmp := features\<rparr>)"

definition ops_fpa_netdev_set_hw_intf_config ::
  "'hw port_env \<Rightarrow> port_props \<Rightarrow> fpa_netdev \<Rightarrow> smap \<Rightarrow> 'hw \<Rightarrow> int \<times> fpa_netdev \<times> 'hw" where
  "ops_fpa_netdev_set_hw_intf_config K stack dev args hw =
     (if \<not> nd_inited dev then (EPERM, dev, hw) else
      let enable = smap_get_bool K args (MAP_ENABLE K) False;
          (err, props) = fpaLibPortPropertiesGet K (word_of_int (nd_sid dev)) (word_of_int (nd_pid dev))
             (stack\<lparr>pp_flags := SUPPORTED_FLAG K\<rparr>) hw in
      if err \<noteq> FPA_OK then (EINVAL, dev, hw) else
      let (props, dev) =
            (if enable then (enable_props K args props, dev\<lparr>nd_flags := NETDEV_UP K\<rparr>)
             else (props\<lparr>pp_flags := CONFIG_FLAG K, pp_config := FPA_PORT_CONFIG_DOWN K\<rparr>, dev\<lparr>nd_flags := 0\<rparr>));
          (err, hw) = wrap_fpaLibPortPropertiesSet K (word_of_int (nd_sid dev)) (word_of_int (nd_pid dev)) props hw in
      if err \<noteq> FPA_OK then (EINVAL, dev, hw)
      else (0, dev\<lparr>nd_change_seq := nd_change_seq dev + 1\<rparr>, hw))"

definition ops_fpa_netdev_set_etheraddr :: "fpa_netdev \<Rightarrow> eth_addr \<Rightarrow> int \<times> fpa_netdev" where
  "ops_fpa_netdev_set_etheraddr dev mac =
     (0, if eth_bytes (nd_mac dev) \<noteq> eth_bytes mac
         then dev\<lparr>nd_mac := mac, nd_change_seq := nd_change_seq dev + 1\<rparr> else dev)"

definition ops_fpa_netdev_get_etheraddr :: "fpa_netdev \<Rightarrow> int \<times> eth_addr" where
  "ops_fpa_netdev_get_etheraddr dev = (0, nd_mac dev)"

definition ops_fpa_netdev_get_ifindex :: "fpa_netdev \<Rightarrow> int" where
  "ops_fpa_netdev_get_ifindex dev = nd_pid dev"

definition ops_fpa_netdev_get_carrier :: "fpa_netdev \<Rightarrow> int \<times> bool" where
  "ops_fpa_netdev_get_carrier dev = (0, nd_link_status dev)"

definition ops_fpa_netdev_get_carrier_resets :: "fpa_netdev \<Rightarrow> int" where
  "ops_fpa_netdev_get_carrier_resets dev = nd_link_resets dev"

text \<open>The counters that are copied; all others of \<open>struct netdev_stats\<close> are set to all ones.\<close>

definition ops_fpa_netdev_get_stats :: "'hw port_env \<Rightarrow> fpa_netdev \<Rightarrow> 'hw \<Rightarrow> int \<times> port_counters option" where
  "ops_fpa_netdev_get_stats K dev hw =
     (if STR_EQ (Some (nd_type dev)) (Some ''internal'')
      then (0, Some \<lparr>rxPackets = - 1, txPackets = - 1, rxBytes = - 1, txBytes = - 1, rxDropped = - 1, txDropped = - 1,
              rxErrors = - 1, txErrors = - 1, rxFrameErr = - 1, rxOverErr = - 1, rxCrcErr = - 1, collisions = - 1\<rparr>)
      else let (err, counters) = fpaLibPortStatisticsGet K (word_of_int (nd_sid dev)) (word_of_int (nd_pid dev)) hw
           in if err \<noteq> FPA_OK then (EINVAL, None) else (0, Some counters))"

section \<open>Features\<close>

text \<open>The two functions test the same eighteen pairs of bits in the same order.\<close>

definition feature_pairs :: "(fpa_feat \<times> netdev_feat) list" where
  "feature_pairs =
     [(FPA_10MB_HD, NETDEV_F_10MB_HD), (FPA_10MB_FD, NETDEV_F_10MB_FD), (FPA_100MB_HD, NETDEV_F_100MB_HD),
      (FPA_100MB_FD, NETDEV_F_100MB_FD), (FPA_1GB_HD, NETDEV_F_1GB_HD), (FPA_1GB_FD, NETDEV_F_1GB_FD),
      (FPA_2_5GB_FD, NETDEV_F_OTHER), (FPA_10GB_FD, NETDEV_F_10GB_FD), (FPA_20GB_FD, NETDEV_F_OTHER),
      (FPA_40GB_FD, NETDEV_F_40GB_FD), (FPA_100GB_FD, NETDEV_F_100GB_FD), (FPA_1TB_FD, NETDEV_F_1TB_FD),
      (FPA_OTHER, NETDEV_F_OTHER), (FPA_COPPER, NETDEV_F_COPPER), (FPA_FIBER, NETDEV_F_FIBER),
      (FPA_AUTONEG, NETDEV_F_AUTONEG), (FPA_PAUSE, NETDEV_F_PAUSE), (FPA_PAUSE_ASYM, NETDEV_F_PAUSE_ASYM)]"

definition fpa_to_netdev_features :: "'hw port_env \<Rightarrow> u32 \<Rightarrow> u32" where
  "fpa_to_netdev_features K f =
     foldl (\<lambda>n (a, b). if f AND FPA_PORT_FEAT K a \<noteq> 0 then n OR NETDEV_F K b else n) 0 feature_pairs"

definition netdev_to_fpa_features :: "'hw port_env \<Rightarrow> u32 \<Rightarrow> u32" where
  "netdev_to_fpa_features K n =
     foldl (\<lambda>f (a, b). if n AND NETDEV_F K b \<noteq> 0 then f OR FPA_PORT_FEAT K a else f) 0 feature_pairs"

text \<open>The current, advertised, supported and peer features.\<close>

definition ops_fpa_netdev_get_features ::
  "'hw port_env \<Rightarrow> port_props \<Rightarrow> fpa_netdev \<Rightarrow> 'hw \<Rightarrow> int \<times> (u32 \<times> u32 \<times> u32 \<times> u32) option" where
  "ops_fpa_netdev_get_features K stack dev hw =
     (let (err, props) = fpaLibPortPropertiesGet K (word_of_int (nd_sid dev)) (word_of_int (nd_pid dev)) stack hw in
      if err \<noteq> FPA_OK then (EINVAL, None)
      else (0, Some
        (if pp_flags props AND FEATURES_FLAG K \<noteq> 0 then fpa_to_netdev_features K (pp_featuresBmp props) else 0,
         if pp_flags props AND ADVERTISED_FLAG K \<noteq> 0 then fpa_to_netdev_features K (pp_advertBmp props) else 0,
         if pp_flags props AND SUPPORTED_FLAG K \<noteq> 0 then fpa_to_netdev_features K (pp_supportedBmp props) else 0,
         if pp_flags props AND PEER_FLAG K \<noteq> 0 then fpa_to_netdev_features K (pp_peerBmp props) else 0)))"

definition ops_fpa_netdev_set_advertisements :: "'hw port_env \<Rightarrow> fpa_netdev \<Rightarrow> u32 \<Rightarrow> 'hw \<Rightarrow> int \<times> 'hw" where
  "ops_fpa_netdev_set_advertisements K dev advertise hw =
     (let props = (zero_props (ADVERTISED_FLAG K))\<lparr>pp_advertBmp := netdev_to_fpa_features K advertise\<rparr>;
          (err, hw) = wrap_fpaLibPortPropertiesSet K (word_of_int (nd_sid dev)) (word_of_int (nd_pid dev)) props hw
      in if err \<noteq> FPA_OK then (EINVAL, hw) else (0, hw))"

text \<open>The result code, the old flags where they are stored, and the switch.\<close>

definition ops_fpa_netdev_update_flags ::
  "'hw port_env \<Rightarrow> fpa_netdev \<Rightarrow> u32 \<Rightarrow> u32 \<Rightarrow> 'hw \<Rightarrow> int \<times> u32 option \<times> 'hw" where
  "ops_fpa_netdev_update_flags K dev off on hw =
     (if nd_sid dev = 0xFFFF then (EOPNOTSUPP, None, hw) else
      let (err, props) = fpaLibPortPropertiesGet K (word_of_int (nd_sid dev)) (word_of_int (nd_pid dev))
            (zero_props (CONFIG_FLAG K)) hw in
      if err \<noteq> FPA_OK then (EINVAL, None, hw) else
      let old_flags = (if pp_config props AND FPA_PORT_CONFIG_DOWN K \<noteq> 0 then 0 else NETDEV_UP K) in
      if (on OR off) AND NETDEV_UP K = 0 then (0, Some old_flags, hw) else
      let props = (if on AND NETDEV_UP K \<noteq> 0 then props\<lparr>pp_config := pp_config props AND NOT (FPA_PORT_CONFIG_DOWN K)\<rparr>
                   else if off AND NETDEV_UP K \<noteq> 0 then props\<lparr>pp_config := pp_config props OR FPA_PORT_CONFIG_DOWN K\<rparr>
                   else props);
          (err, hw) = wrap_fpaLibPortPropertiesSet K (word_of_int (nd_sid dev)) (word_of_int (nd_pid dev)) props hw
      in if err \<noteq> FPA_OK then (EINVAL, Some old_flags, hw) else (0, Some old_flags, hw))"

section \<open>Internal devices\<close>

definition internal_netdev_set_hw_intf_info ::
  "'hw port_env \<Rightarrow> 'os os_env \<Rightarrow> fpa_netdev \<Rightarrow> smap \<Rightarrow> 'os \<Rightarrow> int \<times> fpa_netdev \<times> 'os" where
  "internal_netdev_set_hw_intf_info K E dev args os =
     (if nd_inited dev then (0, dev, os) else
      if smap_get_bool K args (MAP_BRIDGE K) (DFLT_MAP_BRIDGE K) then
        (let (ret, os) = ops_fpa_bridge_create E (nd_name dev) (nd_mac dev) os
         in if ret \<noteq> 0 then (EINVAL, dev, os) else (0, dev\<lparr>nd_inited := True\<rparr>, os))
      else (0, dev\<lparr>nd_inited := True\<rparr>, os))"

definition internal_netdev_set_hw_intf_config :: "'hw port_env \<Rightarrow> fpa_netdev \<Rightarrow> smap \<Rightarrow> int \<times> fpa_netdev" where
  "internal_netdev_set_hw_intf_config K dev args =
     (if \<not> nd_inited dev then (EPERM, dev) else
      (0, dev\<lparr>nd_flags := (if smap_get_bool K args (MAP_ENABLE K) False then NETDEV_UP K else 0),
              nd_change_seq := nd_change_seq dev + 1\<rparr>))"

definition internal_netdev_update_flags :: "fpa_netdev \<Rightarrow> u32 \<Rightarrow> u32 \<Rightarrow> int \<times> u32" where
  "internal_netdev_update_flags dev off on = (0, nd_flags dev)"

section \<open>Bits\<close>

text \<open>Constants that are different single bits, given by their positions.\<close>

definition bit_constants :: "('a \<Rightarrow> u32) \<Rightarrow> ('a \<Rightarrow> nat) \<Rightarrow> bool" where
  "bit_constants c pos \<longleftrightarrow> inj pos \<and> (\<forall>a. pos a < 32 \<and> c a = push_bit (pos a) 1)"

lemma bit_constants_test: "bit_constants c pos \<Longrightarrow> f AND c a \<noteq> 0 \<longleftrightarrow> bit f (pos a)"
proof -
  assume c: "bit_constants c pos"
  then have "bit (f AND c a) k \<longleftrightarrow> bit f (pos a) \<and> k = pos a" for k
    by (auto simp: bit_constants_def bit_simps)
  then show ?thesis by (metis bit_0_eq bit_eqI bot_apply bot_bool_def)
qed

lemma bit_constants_bit: "bit_constants c pos \<Longrightarrow> bit (c a) k \<longleftrightarrow> k = pos a"
  by (auto simp: bit_constants_def bit_simps)

lemma bit_foldl_or:
  "bit (foldl (\<lambda>n (a, b). if P a b then n OR g a b else n) (n0 :: u32) xs) k \<longleftrightarrow>
     bit n0 k \<or> (\<exists>(a, b) \<in> set xs. P a b \<and> bit (g a b) k)"
  by (induction xs arbitrary: n0) (auto simp: bit_or_iff split: if_splits)

lemma bit_netdev_to_fpa:
  assumes "bit_constants (FPA_PORT_FEAT K) p" and "bit_constants (NETDEV_F K) q"
  shows "bit (netdev_to_fpa_features K n) (p a) \<longleftrightarrow> (\<exists>b. (a, b) \<in> set feature_pairs \<and> bit n (q b))"
proof -
  have "p x = p y \<longleftrightarrow> x = y" for x y using assms(1) by (simp add: bit_constants_def inj_eq)
  then show ?thesis
    unfolding netdev_to_fpa_features_def bit_foldl_or
    by (auto simp: bit_constants_test [OF assms(2)] bit_constants_bit [OF assms(1)])
qed

lemma bit_fpa_to_netdev:
  assumes "bit_constants (FPA_PORT_FEAT K) p" and "bit_constants (NETDEV_F K) q"
  shows "bit (fpa_to_netdev_features K f) k \<longleftrightarrow> (\<exists>a b. (a, b) \<in> set feature_pairs \<and> bit f (p a) \<and> k = q b)"
  unfolding fpa_to_netdev_features_def bit_foldl_or
  by (auto simp: bit_constants_test [OF assms(1)] bit_constants_bit [OF assms(2)])

lemma feature_pairs_fun: "(a, b) \<in> set feature_pairs \<Longrightarrow> (a, c) \<in> set feature_pairs \<Longrightarrow> b = c"
  by (auto simp: feature_pairs_def)

lemma feature_pairs_onto: "\<exists>a. (a, b) \<in> set feature_pairs"
  by (cases b) (auto simp: feature_pairs_def)

lemma features_there_and_back:
  assumes bits: "bit_constants (FPA_PORT_FEAT K) p" "bit_constants (NETDEV_F K) q"
    and n: "\<forall>k. bit n k \<longrightarrow> k \<in> range q"
  shows "fpa_to_netdev_features K (netdev_to_fpa_features K n) = n"
proof (rule bit_word_eqI)
  fix k
  have "bit (fpa_to_netdev_features K (netdev_to_fpa_features K n)) k \<longleftrightarrow>
      (\<exists>a b. (a, b) \<in> set feature_pairs \<and> bit n (q b) \<and> k = q b)"
    unfolding bit_fpa_to_netdev [OF bits] bit_netdev_to_fpa [OF bits] using feature_pairs_fun by blast
  also have "\<dots> \<longleftrightarrow> bit n k" using feature_pairs_onto n by blast
  finally show "bit (fpa_to_netdev_features K (netdev_to_fpa_features K n)) k \<longleftrightarrow> bit n k" .
qed

section \<open>Addresses, links and flags\<close>

lemma netdev_mac_inj: "inj netdev_mac"
proof (rule injI)
  fix m n assume eq: "netdev_mac m = netdev_mac n"
  show "m = n"
  proof (rule bit_word_eqI)
    fix k assume "k < LENGTH(32)"
    then have k: "k < 8 \<or> 8 \<le> k \<and> k < 16 \<or> 16 \<le> k \<and> k < 24 \<or> 24 \<le> k \<and> k < 32" by auto
    have b: "bit m (j + i) = bit n (j + i)" if "(ucast (drop_bit j m) :: u8) = ucast (drop_bit j n)" and "i < 8" for i j
      using arg_cong [OF that(1), of "\<lambda>w. bit w i"] that(2) by (simp add: bit_simps)
    have e: "(ucast (drop_bit 24 m) :: u8) = ucast (drop_bit 24 n)" "(ucast (drop_bit 16 m) :: u8) = ucast (drop_bit 16 n)"
        "(ucast (drop_bit 8 m) :: u8) = ucast (drop_bit 8 n)" "(ucast (drop_bit 0 m) :: u8) = ucast (drop_bit 0 n)"
      using eq by (simp_all add: netdev_mac_def)
    from b [OF e(4), of k] b [OF e(3), of "k - 8"] b [OF e(2), of "k - 16"] b [OF e(1), of "k - 24"] k
    show "bit m k = bit n k" by auto
  qed
qed

text \<open>How often a link that was first seen as \<open>s\<close> comes up, and changes, in a series of observations.\<close>

primrec rising :: "bool \<Rightarrow> bool list \<Rightarrow> nat" where
  "rising s [] = 0"
| "rising s (x # xs) = (if x \<and> \<not> s then 1 else 0) + rising x xs"

primrec changes :: "bool \<Rightarrow> bool list \<Rightarrow> nat" where
  "changes s [] = 0"
| "changes s (x # xs) = (if x \<noteq> s then 1 else 0) + changes x xs"

definition observed :: "'hw port_env \<Rightarrow> (fpa_status \<times> port_props) list \<Rightarrow> bool list" where
  "observed K ps = map (\<lambda>(err, props). pp_config props AND FPA_PORT_CONFIG_DOWN K = 0) (filter (\<lambda>p. fst p = FPA_OK) ps)"

lemma run_counts:
  "nd_link_resets (foldl (\<lambda>d p. netdev_run1 K p d) dev ps) = nd_link_resets dev + int (rising (nd_link_status dev) (observed K ps))"
  "nd_change_seq (foldl (\<lambda>d p. netdev_run1 K p d) dev ps) = nd_change_seq dev + changes (nd_link_status dev) (observed K ps)"
  "nd_link_status (foldl (\<lambda>d p. netdev_run1 K p d) dev ps) = last (nd_link_status dev # observed K ps)"
  by (induction ps arbitrary: dev) (auto simp: netdev_run1_def observed_def Let_def split: prod.splits)

section \<open>Devices and their interfaces\<close>

lemma send_all_iff:
  assumes "length (ti_pipes info) = 2"
  shows "(\<exists>info'. send_all_from E cmd 0 OPS_FPA_THREAD_CNT info = Inr info') \<longleftrightarrow>
    0 \<le> snd (ti_ctrl_fds info ! 0) \<and> 0 \<le> snd (ti_ctrl_fds info ! 1)"
  unfolding send_all_two by (auto simp: send_ctrl_cmd_def)

lemma tap_create_ctrl_fds:
  assumes "ops_fpa_tap_if_create E sid port name mac ds os = Inr (0, Some fd, ds', os')"
    and "main_info ds = Some info" and "length (ti_pipes info) = 2"
  shows "0 \<le> snd (ti_ctrl_fds info ! 0) \<and> 0 \<le> snd (ti_ctrl_fds info ! 1)"
    and "sid \<noteq> FPA_INVALID_SWITCH_ID" and "\<not> ds_mutex ds'" and "\<exists>d. ds_dev ds' = Some d \<and> dv_switchId d = sid"
proof -
  have sa: "0 \<le> snd (ti_ctrl_fds info ! 0) \<and> 0 \<le> snd (ti_ctrl_fds info ! 1)"
    if "send_all_from E cmd 0 OPS_FPA_THREAD_CNT (info\<lparr>ti_fd_to_tap_if_map := x\<rparr>) = Inr y" for cmd x y
    using send_all_iff [of "info\<lparr>ti_fd_to_tap_if_map := x\<rparr>" E cmd] assms(3) that by simp
  show "0 \<le> snd (ti_ctrl_fds info ! 0) \<and> 0 \<le> snd (ti_ctrl_fds info ! 1)"
    using assms(1) unfolding ops_fpa_tap_if_create_def Let_def
    by (auto split: if_splits option.splits sum.splits prod.splits dest!: mutex_lock_Inr get_tap_info_main sa
        simp: assms(2))
  show "sid \<noteq> FPA_INVALID_SWITCH_ID" using assms(1) by (auto simp: ops_fpa_tap_if_create_def)
  show "\<not> ds_mutex ds'" using tap_if_create_mutex [OF assms(1)] by simp
  show "\<exists>d. ds_dev ds' = Some d \<and> dv_switchId d = sid"
    using assms(1) unfolding ops_fpa_tap_if_create_def Let_def
    by (auto split: if_splits option.splits sum.splits prod.splits
        simp: ops_fpa_dev_mutex_lock_def ops_fpa_dev_mutex_unlock_def put_tap_info_def get_tap_info_by_switch_id_def
          ops_fpa_dev_by_id_def)
qed

lemma tap_delete_succeeds:
  assumes "sid \<noteq> FPA_INVALID_SWITCH_ID" and "0 < fd" and "\<not> ds_mutex ds" and "ds_dev ds = Some d" and "dv_switchId d = sid"
    and "dv_tap_if_info d = Some info" and "get_if_entry E (ti_fd_to_tap_if_map info) fd = Some n"
    and "send_all_from E (OPS_FPA_CMD_DEL_IF fd (port_of n)) 0 OPS_FPA_THREAD_CNT info = Inr info'"
  shows "\<exists>ds' os'. ops_fpa_tap_if_delete E sid fd ds os = Inr (0, ds', os')"
  using assms by (auto simp: ops_fpa_tap_if_delete_def ops_fpa_dev_mutex_lock_def get_tap_info_by_switch_id_def
      ops_fpa_dev_by_id_def port_of_def split: prod.splits)

lemma tap_create_delete:
  assumes c: "ops_fpa_tap_if_create E sid port name mac ds os = Inr (0, Some fd, ds', os')"
    and i: "main_info ds = Some info" and two: "length (ti_pipes info) = 2" and room: "\<forall>p. os_pipe_room E p"
    and ord: "visits_all (os_map_order E)" and fresh: "word_of_int fd \<notin> fst ` set (ti_fd_to_tap_if_map info)"
  obtains ds'' os'' info'' where "0 < fd" and "ops_fpa_tap_if_delete E sid fd ds' os2 = Inr (0, ds'', os'')"
    and "main_info ds'' = Some info''" and "ti_fd_to_tap_if_map info'' = ti_fd_to_tap_if_map info" and "\<not> ds_mutex ds''"
proof -
  have room': "pipes_room E x" for x using room by (simp add: pipes_room_def)
  obtain nm m where fd: "0 < fd" and i': "main_info ds' = Some (info\<lparr>ti_fd_to_tap_if_map :=
        hmap_insert (ti_fd_to_tap_if_map info) (word_of_int fd) \<lparr>te_name = nm, te_fd_or_portNum = port, te_mac = m\<rparr>,
      ti_pipes := map (\<lambda>p. p @ [OPS_FPA_CMD_ADD_IF nm fd port m]) (ti_pipes info)\<rparr>)" (is "_ = Some ?i")
    using tap_if_create_success [OF c i room' two] .
  let ?n = "(word_of_int fd :: u32, \<lparr>te_name = nm, te_fd_or_portNum = port, te_mac = m\<rparr>)"
  have g: "get_if_entry E (ti_fd_to_tap_if_map ?i) fd = Some ?n"
  proof -
    have "get_if_entry E (hmap_insert (ti_fd_to_tap_if_map info) (fst ?n) (snd ?n)) fd \<noteq> None"
      using hmap_search_hash_None [OF ord, of "word_of_int fd" "\<lambda>_. True" "hmap_insert (ti_fd_to_tap_if_map info) (fst ?n) (snd ?n)"]
      by (auto simp: get_if_entry_def hmap_simps)
    then obtain k where k: "get_if_entry E (hmap_insert (ti_fd_to_tap_if_map info) (fst ?n) (snd ?n)) fd = Some k" by blast
    from get_if_entryD [OF ord k] fresh have "k = ?n" by (force simp: hmap_simps)
    with k show ?thesis by simp
  qed
  note ct = tap_create_ctrl_fds [OF c i two]
  have two': "length (ti_pipes ?i) = 2" using two by simp
  obtain info' where s: "send_all_from E (OPS_FPA_CMD_DEL_IF fd (port_of ?n)) 0 OPS_FPA_THREAD_CNT ?i = Inr info'"
    using send_all_iff [OF two', of E "OPS_FPA_CMD_DEL_IF fd (port_of ?n)"] ct(1) by auto
  obtain d where d: "ds_dev ds' = Some d" "dv_switchId d = sid" using ct(4) by blast
  have "dv_tap_if_info d = Some ?i" using i' d by (simp add: main_info_def)
  then obtain ds'' os'' where del: "ops_fpa_tap_if_delete E sid fd ds' os2 = Inr (0, ds'', os'')"
    using tap_delete_succeeds [OF ct(2) fd ct(3) d _ g s] by blast
  obtain n where n: "get_if_entry E (ti_fd_to_tap_if_map ?i) fd = Some n"
    and m: "main_info ds'' = Some (?i\<lparr>ti_fd_to_tap_if_map := hmap_remove (ti_fd_to_tap_if_map ?i) n,
       ti_pipes := map (\<lambda>p. p @ [OPS_FPA_CMD_DEL_IF fd (port_of n)]) (ti_pipes ?i)\<rparr>)"
    using tap_if_delete_success [OF del i' room' two'] by blast
  show thesis
    by (rule that [OF fd del m]) (use n g tap_if_delete_mutex [OF del] in \<open>auto\<close>)
qed

lemma set_info_success:
  assumes "ops_fpa_netdev_set_hw_intf_info K E dev args ds os = Inr (0, dev', ds', os')"
    and "\<not> nd_inited dev" and "nd_type dev = ''system''"
  obtains sid pid mac fd where
    "ops_fpa_tap_if_create E (word_of_int sid) (word_of_int pid) (nd_name dev) (ether_aton K mac) ds os = Inr (0, Some fd, ds', os')"
    and "dev' = dev\<lparr>nd_sid := sid, nd_pid := pid, nd_mac := the (str_to_mac K mac), nd_tap_fd := fd, nd_inited := True\<rparr>"
    and "ops_fpa_str2int (args (MAP_SWITCH_UNIT K)) = Some sid" and "ops_fpa_str2int (args (MAP_SWITCH_INTF_ID K)) = Some pid"
    and "args (MAP_MAC_ADDR K) = Some mac"
proof -
  have fd: "\<exists>fd. t = Some fd" if "ops_fpa_tap_if_create E s p nm m ds os = Inr (0, t, ds', os')" for s p nm m t
    using that unfolding ops_fpa_tap_if_create_def Let_def
    by (auto split: if_splits option.splits sum.splits prod.splits)
  from assms obtain sid pid mac t where
    "ops_fpa_tap_if_create E (word_of_int sid) (word_of_int pid) (nd_name dev) (ether_aton K mac) ds os = Inr (0, t, ds', os')"
    and "dev' = (case t of None \<Rightarrow> dev\<lparr>nd_sid := sid, nd_pid := pid, nd_mac := the (str_to_mac K mac)\<rparr>
        | Some fd \<Rightarrow> dev\<lparr>nd_sid := sid, nd_pid := pid, nd_mac := the (str_to_mac K mac), nd_tap_fd := fd\<rparr>)\<lparr>nd_inited := True\<rparr>"
    and "ops_fpa_str2int (args (MAP_SWITCH_UNIT K)) = Some sid" and "ops_fpa_str2int (args (MAP_SWITCH_INTF_ID K)) = Some pid"
    and "args (MAP_MAC_ADDR K) = Some mac"
    unfolding ops_fpa_netdev_set_hw_intf_info_def Let_def STR_EQ_def
    by (auto split: option.splits sum.splits prod.splits if_splits)
  with fd that show thesis by fastforce
qed

text \<open>Features that the switch does not support are never requested, and the features are only set when
  there are some.\<close>

lemma enable_props_supported:
  "pp_featuresBmp (enable_props K args props) AND NOT (pp_supportedBmp props) = 0"
  "pp_flags (enable_props K args props) = CONFIG_FLAG K \<or>
     pp_flags (enable_props K args props) = CONFIG_FLAG K OR FEATURES_FLAG K \<and> pp_featuresBmp (enable_props K args props) \<noteq> 0"
  by (auto simp: enable_props_def Let_def and.assoc)

text \<open>A concrete port interface with one port, whose state is its properties.\<close>

primrec fpa_pos :: "fpa_feat \<Rightarrow> nat" where
  "fpa_pos FPA_10MB_HD = 0" | "fpa_pos FPA_10MB_FD = 1" | "fpa_pos FPA_100MB_HD = 2" | "fpa_pos FPA_100MB_FD = 3"
| "fpa_pos FPA_1GB_HD = 4" | "fpa_pos FPA_1GB_FD = 5" | "fpa_pos FPA_2_5GB_FD = 16" | "fpa_pos FPA_10GB_FD = 6"
| "fpa_pos FPA_20GB_FD = 17" | "fpa_pos FPA_40GB_FD = 7" | "fpa_pos FPA_100GB_FD = 8" | "fpa_pos FPA_1TB_FD = 9"
| "fpa_pos FPA_OTHER = 10" | "fpa_pos FPA_COPPER = 11" | "fpa_pos FPA_FIBER = 12" | "fpa_pos FPA_AUTONEG = 13"
| "fpa_pos FPA_PAUSE = 14" | "fpa_pos FPA_PAUSE_ASYM = 15"

primrec netdev_pos :: "netdev_feat \<Rightarrow> nat" where
  "netdev_pos NETDEV_F_10MB_HD = 0" | "netdev_pos NETDEV_F_10MB_FD = 1" | "netdev_pos NETDEV_F_100MB_HD = 2"
| "netdev_pos NETDEV_F_100MB_FD = 3" | "netdev_pos NETDEV_F_1GB_HD = 4" | "netdev_pos NETDEV_F_1GB_FD = 5"
| "netdev_pos NETDEV_F_10GB_FD = 6" | "netdev_pos NETDEV_F_40GB_FD = 7" | "netdev_pos NETDEV_F_100GB_FD = 8"
| "netdev_pos NETDEV_F_1TB_FD = 9" | "netdev_pos NETDEV_F_OTHER = 10" | "netdev_pos NETDEV_F_COPPER = 11"
| "netdev_pos NETDEV_F_FIBER = 12" | "netdev_pos NETDEV_F_AUTONEG = 13" | "netdev_pos NETDEV_F_PAUSE = 14"
| "netdev_pos NETDEV_F_PAUSE_ASYM = 15"

definition sample_ports :: "port_props port_env" where
  "sample_ports = \<lparr>fpaLibPortPropertiesGet = \<lambda>sid pid p hw. (FPA_OK, hw),
     fpaLibPortPropertiesSet = \<lambda>sid pid p hw. (FPA_OK, p),
     fpaLibPortStatisticsGet = \<lambda>sid pid hw. (FPA_OK, \<lparr>rxPackets = 0, txPackets = 0, rxBytes = 0, txBytes = 0, rxDropped = 0,
       txDropped = 0, rxErrors = 0, txErrors = 0, rxFrameErr = 0, rxOverErr = 0, rxCrcErr = 0, collisions = 0\<rparr>),
     FPA_PORT_FEAT = \<lambda>a. push_bit (fpa_pos a) 1, NETDEV_F = \<lambda>b. push_bit (netdev_pos b) 1,
     CONFIG_FLAG = 1, FEATURES_FLAG = 2, ADVERTISED_FLAG = 4, SUPPORTED_FLAG = 8, PEER_FLAG = 16,
     FPA_PORT_CONFIG_DOWN = 1, NETDEV_UP = 1, MAP_SWITCH_UNIT = ''unit'', MAP_SWITCH_INTF_ID = ''port'', MAP_MAC_ADDR = ''mac'',
     MAP_BRIDGE = ''bridge'', DFLT_MAP_BRIDGE = False, MAP_ENABLE = ''enable'', MAP_DUPLEX = ''duplex'', MAP_DUPLEX_FULL = ''full'',
     MAP_SPEEDS = ''speeds'', MAP_AUTONEG = ''autoneg'', MAP_AUTONEG_ON = ''on'', MAP_PAUSE = ''pause'', MAP_PAUSE_RX = ''rx'',
     MAP_PAUSE_TX = ''tx'', MAP_PAUSE_RXTX = ''rxtx'', smap_get_bool = \<lambda>m k d. (case m k of None \<Rightarrow> d | Some v \<Rightarrow> v = ''true''),
     str_to_mac = \<lambda>s. Some (Eth 2 0 0 0 0 1), ether_aton = \<lambda>s. Some (Eth 2 0 0 0 0 1)\<rparr>"

section \<open>Properties\<close>

text \<open>(C14) The life of a port's device. When the device is given its switch unit, port and address
  successfully, it has an interface of its own and giving it the information again changes nothing.
  When it is destroyed, the interface is deleted again: the main thread has exactly the interfaces it
  had before, and the device mutex is free.\<close>

theorem netdev_lifecycle:
  assumes "ops_fpa_netdev_set_hw_intf_info K E dev args ds os = Inr (0, dev', ds', os')"
    and "\<not> nd_inited dev" and "nd_type dev = ''system''" and "main_info ds = Some info" and "length (ti_pipes info) = 2"
    and "\<forall>p. os_pipe_room E p" and "visits_all (os_map_order E)"
    and "word_of_int (nd_tap_fd dev') \<notin> fst ` set (ti_fd_to_tap_if_map info)"
  shows "nd_inited dev' \<and> 0 < nd_tap_fd dev'
    \<and> ops_fpa_netdev_set_hw_intf_info K E dev' args2 ds' os2 = Inr (0, dev', ds', os2)
    \<and> (\<exists>ds'' os'' info''. ops_fpa_netdev_destruct E dev' ds' os2 = Inr (ds'', os'') \<and> main_info ds'' = Some info''
         \<and> ti_fd_to_tap_if_map info'' = ti_fd_to_tap_if_map info \<and> \<not> ds_mutex ds'')"
proof -
  obtain sid pid mac fd where
    c: "ops_fpa_tap_if_create E (word_of_int sid) (word_of_int pid) (nd_name dev) (ether_aton K mac) ds os = Inr (0, Some fd, ds', os')"
    and d: "dev' = dev\<lparr>nd_sid := sid, nd_pid := pid, nd_mac := the (str_to_mac K mac), nd_tap_fd := fd, nd_inited := True\<rparr>"
    using set_info_success [OF assms(1-3)] .
  obtain ds'' os'' info'' where del: "0 < fd" "ops_fpa_tap_if_delete E (word_of_int sid) fd ds' os2 = Inr (0, ds'', os'')"
    "main_info ds'' = Some info''" "ti_fd_to_tap_if_map info'' = ti_fd_to_tap_if_map info" "\<not> ds_mutex ds''"
    using tap_create_delete [OF c assms(4-7), of os2] assms(8) d by auto
  then have "\<exists>os3. ops_fpa_netdev_destruct E dev' ds' os2 = Inr (ds'', os3)"
    using d by (simp add: ops_fpa_netdev_destruct_def)
  then show ?thesis using del d by (auto simp: ops_fpa_netdev_set_hw_intf_info_def)
qed

theorem netdev_lifecycle_witness:
  "\<exists>dev ds os ds' os'. nd_tap_fd dev = 7 \<and> ops_fpa_netdev_destruct sample_os dev ds os = Inr (ds', os') \<and> \<not> ds_mutex ds'"
proof -
  let ?dev = "fst (ops_fpa_netdev_construct (ops_fpa_netdev_alloc ''system'' ''1'') 0xAA550000)"
  let ?args = "[''unit'' \<mapsto> ''0'', ''port'' \<mapsto> ''5'', ''mac'' \<mapsto> ''02:00:00:00:00:01'']"
  let ?ds = "ts_ds (sample_sys sample_info [] {3} [])"
  have n: "ops_fpa_str2int (Some ''0'') = Some 0" "ops_fpa_str2int (Some ''5'') = Some 5" by code_simp+
  have "\<exists>ds'. ops_fpa_tap_if_create sample_os 0 5 ''1'' (Some (Eth 2 0 0 0 0 1)) ?ds 7 = Inr (0, Some 7, ds', 8)"
    by (simp add: sample_os_def sample_sys_def sample_info_def ops_fpa_tap_if_create_def
        ops_fpa_dev_mutex_lock_def ops_fpa_dev_mutex_unlock_def get_tap_info_by_switch_id_def ops_fpa_dev_by_id_def
        ops_fpa_tun_alloc_def ops_fpa_net_if_setup_def ops_fpa_system_def WIFEXITED_def WEXITSTATUS_def Let_def
        send_all_two send_ctrl_cmd_def put_tap_info_def hmap_insert_def)
  then obtain ds' where c: "ops_fpa_tap_if_create sample_os 0 5 ''1'' (Some (Eth 2 0 0 0 0 1)) ?ds 7 = Inr (0, Some 7, ds', 8)" ..
  then obtain dev' where i: "ops_fpa_netdev_set_hw_intf_info sample_ports sample_os ?dev ?args ?ds 7 = Inr (0, dev', ds', 8)"
    and fd: "nd_tap_fd dev' = 7"
    by (simp add: ops_fpa_netdev_set_hw_intf_info_def ops_fpa_netdev_construct_def ops_fpa_netdev_alloc_def STR_EQ_def
        sample_ports_def n)
  have "visits_all (os_map_order sample_os)" "\<forall>p. os_pipe_room sample_os p" "main_info ?ds = Some sample_info"
    "length (ti_pipes sample_info) = 2" "\<not> nd_inited ?dev" "nd_type ?dev = ''system''" "ti_fd_to_tap_if_map sample_info = []"
    by (simp_all add: sample_os_def sample_sys_def sample_info_def main_info_def ops_fpa_netdev_construct_def
        ops_fpa_netdev_alloc_def)
  with netdev_lifecycle [OF i, of sample_info Map.empty 8] fd
  have "\<exists>ds'' os''. ops_fpa_netdev_destruct sample_os dev' ds' 8 = Inr (ds'', os'') \<and> \<not> ds_mutex ds''" by auto
  with fd show ?thesis by blast
qed

text \<open>The carrier state of a port. After any series of polls of a fresh device, some of which may fail,
  the reported carrier is that of the last successful poll, the number of carrier resets is the number
  of times the link came up, and the change sequence number moved once for every change.\<close>

lemma carrier_follows_polls:
  "(let dev = fst (ops_fpa_netdev_construct (ops_fpa_netdev_alloc type name) next_n);
        dev' = foldl (\<lambda>d p. netdev_run1 K p d) dev ps
    in ops_fpa_netdev_get_carrier dev' = (0, last (False # observed K ps))
     \<and> ops_fpa_netdev_get_carrier_resets dev' = int (rising False (observed K ps))
     \<and> nd_change_seq dev' = changes False (observed K ps))"
  by (simp add: Let_def run_counts ops_fpa_netdev_get_carrier_def ops_fpa_netdev_get_carrier_resets_def
      ops_fpa_netdev_construct_def ops_fpa_netdev_alloc_def del: last.simps)

text \<open>Advertised features survive the translation to the switch and back: the features of Open vSwitch
  that are set on a port are read back unchanged, for all combinations, although three features of the
  switch share one of Open vSwitch.\<close>

lemma features_roundtrip:
  assumes "bit_constants (FPA_PORT_FEAT K) p" and "bit_constants (NETDEV_F K) q" and "\<forall>k. bit n k \<longrightarrow> k \<in> range q"
  shows "fpa_to_netdev_features K (netdev_to_fpa_features K n) = n"
  by (rule features_there_and_back [OF assms])

end
