(* ===== verification/Fpa_Bridge.thy ===== *)
theory Fpa_Bridge
  imports Fpa_Plugin Fpa_Netdev
begin

text \<open>
  The bridges of \<open>src/ops-fpa-ofproto.c\<close> as objects: constructing and destroying them, which opens and
  closes the device, running them, finding them by name, and the commands that flush the FDB and read
  and set its aging time.
\<close>

section \<open>Bridges\<close>

text \<open>
  The global map of bridges beside the device. Every bridge points to the one device, so what a bridge
  reads through its pointer is the device of the state.
\<close>

record 'os bridge_env =
  be_os :: "'os os_env"
  be_ml :: ml_params
  be_hash_string :: "string \<Rightarrow> u32"
  be_proto_order :: "fpa_ofproto hmap_order"
  be_aging_set :: "u32 \<Rightarrow> u32 \<Rightarrow> fpa_status"
  be_aging_get :: "u32 \<Rightarrow> fpa_status \<times> u32"
  be_learning_set :: "u32 \<Rightarrow> fpa_status"
  be_ml_plugin :: bool
  be_port_name :: "u32 \<Rightarrow> string option"
  be_scan_u32 :: "string \<Rightarrow> u32 option"
  be_DEFAULT_VRID :: nat
  be_DEFAULT_BRIDGE_NAME :: string

record 'os bridge_state =
  bs_protos :: "fpa_ofproto hmap"
  bs_dev :: dev_state
  bs_os :: 'os

text \<open>
  \<open>ops_fpa_ofproto_construct\<close>. The bridge is put into the map first and stays there when opening the
  device fails; its last two fields are then not initialised.
\<close>

definition ops_fpa_ofproto_construct ::
  "'os bridge_env \<Rightarrow> fpa_ofproto \<Rightarrow> 'os bridge_state \<Rightarrow> crash + int \<times> fpa_ofproto \<times> 'os bridge_state" where
  "ops_fpa_ofproto_construct B this s =
     (let this = this\<lparr>pr_port_names := {}, pr_bundles := [], pr_vlans := bitmap_zero,
                      pr_switch_id := FPA_DEV_SWITCH_ID_DEFAULT\<rparr>;
          h = be_hash_string B (pr_name this) in
      case ops_fpa_dev_init (be_os B) (be_ml B) (be_aging_set B) (be_learning_set B) (be_ml_plugin B)
             (pr_switch_id this) (bs_dev s) (bs_os s) of
        Inl c \<Rightarrow> Inl c
      | Inr (err, ds, os) \<Rightarrow>
          let this = (if err \<noteq> 0 then this else this\<lparr>pr_vrf_id := be_DEFAULT_VRID B, pr_change_seq := 0\<rparr>)
          in Inr (err, this, \<lparr>bs_protos = hmap_insert (bs_protos s) h this, bs_dev = ds, bs_os = os\<rparr>))"

definition ops_fpa_ofproto_destruct ::
  "'os bridge_env \<Rightarrow> u32 \<times> fpa_ofproto \<Rightarrow> 'os bridge_state \<Rightarrow> (crash + 'os bridge_state) option" where
  "ops_fpa_ofproto_destruct B n s =
     map_option (map_sum id (\<lambda>(ds, os). \<lparr>bs_protos = hmap_remove (bs_protos s) n, bs_dev = ds, bs_os = os\<rparr>))
       (ops_fpa_dev_deinit (be_os B) FPA_DEV_SWITCH_ID_DEFAULT (bs_dev s) (bs_os s))"

text \<open>\<open>new_seq\<close> is the connectivity sequence number, \<open>expired\<close> whether the timer of MAC learning is over.\<close>

definition dev_ml_put :: "fpa_mac_learning \<Rightarrow> dev_state \<Rightarrow> dev_state" where
  "dev_ml_put ml ds = ds\<lparr>ds_dev := map_option (\<lambda>d. d\<lparr>dv_ml := Some ml\<rparr>) (ds_dev ds)\<rparr>"

definition dev_ml :: "dev_state \<Rightarrow> crash + fpa_mac_learning" where
  "dev_ml ds = (case Option.bind (ds_dev ds) dv_ml of None \<Rightarrow> Inl Null_Deref | Some ml \<Rightarrow> Inr ml)"

definition ops_fpa_ofproto_run ::
  "'os bridge_env \<Rightarrow> fpa_ofproto \<Rightarrow> u64 \<Rightarrow> bool \<Rightarrow> dev_state \<Rightarrow> crash + int \<times> fpa_ofproto \<times> dev_state" where
  "ops_fpa_ofproto_run B this new_seq expired ds =
     (let this = (if pr_change_seq this \<noteq> new_seq then this\<lparr>pr_change_seq := new_seq\<rparr> else this) in
      if STR_EQ (Some (pr_type this)) (Some ''system'') \<and> STR_EQ (Some (pr_name this)) (Some (be_DEFAULT_BRIDGE_NAME B)) then
        (case dev_ml ds of Inl c \<Rightarrow> Inl c
         | Inr ml \<Rightarrow>
             if expired
             then Inr (0, this, case ops_fpa_mac_learning_on_mlearn_timer_expired (be_ml B) (Some ml) of
                                  None \<Rightarrow> ds | Some ml \<Rightarrow> dev_ml_put ml ds)
             else Inr (0, this, ds))
      else Inr (0, this, ds))"

definition ops_fpa_ofproto_lookup :: "'os bridge_env \<Rightarrow> fpa_ofproto hmap \<Rightarrow> string \<Rightarrow> (u32 \<times> fpa_ofproto) option" where
  "ops_fpa_ofproto_lookup B protos name =
     hmap_search_hash (be_proto_order B) (be_hash_string B name) (\<lambda>p. STR_EQ (Some (pr_name p)) (Some name)) protos"

section \<open>Commands\<close>

text \<open>The reply of a command is an error text or a text; a wrong call crashes.\<close>

type_synonym reply = "string + string"

definition flush_dev :: "'os bridge_env \<Rightarrow> dev_state \<Rightarrow> crash + dev_state" where
  "flush_dev B ds =
     (case dev_ml ds of Inl c \<Rightarrow> Inl c
      | Inr ml \<Rightarrow> map_sum id (\<lambda>ml. dev_ml_put ml ds) (ops_fpa_mac_learning_flush (be_ml B) (be_port_name B) ml))"

primrec flush_all :: "'os bridge_env \<Rightarrow> fpa_ofproto hmap \<Rightarrow> dev_state \<Rightarrow> crash + dev_state" where
  "flush_all B [] ds = Inr ds"
| "flush_all B (p # ps) ds = (case flush_dev B ds of Inl c \<Rightarrow> Inl c | Inr ds \<Rightarrow> flush_all B ps ds)"

definition fpa_unixctl_fdb_flush ::
  "'os bridge_env \<Rightarrow> string option \<Rightarrow> fpa_ofproto hmap \<Rightarrow> dev_state \<Rightarrow> crash + reply \<times> dev_state" where
  "fpa_unixctl_fdb_flush B arg protos ds =
     (case arg of
        Some name \<Rightarrow>
          (case ops_fpa_ofproto_lookup B protos name of None \<Rightarrow> Inr (Inl ''no such bridge'', ds)
           | Some p \<Rightarrow> map_sum id (\<lambda>ds. (Inr ''table successfully flushed'', ds)) (flush_dev B ds))
      | None \<Rightarrow> map_sum id (\<lambda>ds. (Inr ''table successfully flushed'', ds)) (flush_all B (be_proto_order B protos) ds))"

text \<open>\<open>show_d\<close> is the \<open>%d\<close> conversion of an unsigned number.\<close>

definition fpa_unixctl_fdb_get_aging ::
  "'os bridge_env \<Rightarrow> (u32 \<Rightarrow> string) \<Rightarrow> string \<Rightarrow> fpa_ofproto hmap \<Rightarrow> dev_state \<Rightarrow> crash + reply" where
  "fpa_unixctl_fdb_get_aging B show_d name protos ds =
     (case ops_fpa_ofproto_lookup B protos name of None \<Rightarrow> Inr (Inl ''no such bridge'')
      | Some p \<Rightarrow>
        case dev_ml ds of Inl c \<Rightarrow> Inl c
        | Inr ml \<Rightarrow>
            let (err, idle_time) = ops_fpa_mac_learning_get_idle_time (be_aging_get B) ml in
            if err \<noteq> 0 then Inr (Inl ''failed to get aging time'')
            else Inr (Inr (''FDB aging time is '' @ show_d idle_time)))"

definition fpa_unixctl_fdb_configure_aging ::
  "'os bridge_env \<Rightarrow> string \<Rightarrow> string \<Rightarrow> fpa_ofproto hmap \<Rightarrow> dev_state \<Rightarrow> crash + reply \<times> dev_state" where
  "fpa_unixctl_fdb_configure_aging B name age protos ds =
     (case ops_fpa_ofproto_lookup B protos name of None \<Rightarrow> Inr (Inl ''no such bridge'', ds)
      | Some p \<Rightarrow>
        case be_scan_u32 B age of None \<Rightarrow> Inr (Inl ''invalid aging time'', ds)
        | Some idle_time \<Rightarrow>
          case dev_ml ds of Inl c \<Rightarrow> Inl c
          | Inr ml \<Rightarrow>
            let (err, ml) = ops_fpa_mac_learning_set_idle_time (be_aging_set B) ml idle_time in
            if err \<noteq> 0 then Inr (Inl ''failed to set aging time'', ds)
            else Inr (Inr ''FDB aging time been update successfully'', dev_ml_put ml ds))"

section \<open>Bridges by name\<close>

definition bridge_ok :: "'os bridge_env \<Rightarrow> bool" where
  "bridge_ok B \<longleftrightarrow> visits_all (be_proto_order B)"

definition bridge_wf :: "'os bridge_env \<Rightarrow> fpa_ofproto hmap \<Rightarrow> bool" where
  "bridge_wf B = hashed_by (\<lambda>p. be_hash_string B (pr_name p))"

definition bridge_add :: "'os bridge_env \<Rightarrow> fpa_ofproto \<Rightarrow> fpa_ofproto hmap \<Rightarrow> fpa_ofproto hmap" where
  "bridge_add B p m = hmap_insert m (be_hash_string B (pr_name p)) p"

interpretation bridges: keyed_table pr_name bridge_ok bridge_wf "\<lambda>B k m. ops_fpa_ofproto_lookup B m k" bridge_add
proof unfold_locales
  fix B :: "'os bridge_env" and m k n
  assume B: "bridge_ok B" and wf: "bridge_wf B m"
  have ord: "visits_all (be_proto_order B)" using B by (simp add: bridge_ok_def)
  show "ops_fpa_ofproto_lookup B m k = None \<longleftrightarrow> (\<forall>n \<in> set m. pr_name (snd n) \<noteq> k)"
    using hmap_search_hash_None [OF ord] wf
    by (force simp: ops_fpa_ofproto_lookup_def bridge_wf_def hashed_by_def STR_EQ_def)
  show "ops_fpa_ofproto_lookup B m k = Some n \<Longrightarrow> n \<in> set m \<and> pr_name (snd n) = k"
    by (cases n) (auto simp: ops_fpa_ofproto_lookup_def STR_EQ_def dest: hmap_search_hash_SomeD [OF ord])
qed (use set_hmap_remove_subset in \<open>fastforce simp: bridge_add_def bridge_wf_def hashed_by_def hmap_simps\<close>)+

lemma construct_registers:
  assumes "ops_fpa_ofproto_construct B this s = Inr (err, this', s')"
  shows "bs_protos s' = bridge_add B this' (bs_protos s)" and "pr_name this' = pr_name this" and "pr_type this' = pr_type this"
  using assms by (auto simp: ops_fpa_ofproto_construct_def bridge_add_def Let_def split: sum.splits prod.splits)

lemma dev_ml_put [simp]: "dev_ml ds = Inr ml \<Longrightarrow> dev_ml (dev_ml_put ml' ds) = Inr ml'"
  by (auto simp: dev_ml_def dev_ml_put_def bind_eq_Some_conv split: option.splits)

lemma flush_dev_empty:
  assumes "ml_params_ok (be_ml B)" and "dev_ml ds = Inr ml" and "ml_table ml = []"
  shows "flush_dev B ds = Inr (dev_ml_put ml ds)"
proof -
  have "fdb_order (be_ml B) [] = []"
    using assms(1) visits_all_length [of "fdb_order (be_ml B)" "[]"] by (auto simp: ml_params_ok_def)
  then show ?thesis using assms by (simp add: flush_dev_def ops_fpa_mac_learning_flush_def)
qed

lemma flush_all_empty:
  assumes "ml_params_ok (be_ml B)" and "dev_ml ds = Inr ml" and "ml_table ml = []"
  shows "\<exists>ds'. flush_all B ps ds = Inr ds' \<and> dev_ml ds' = Inr ml"
  using assms(2) by (induction ps arbitrary: ds) (auto simp: flush_dev_empty [OF assms(1) _ assms(3)])

text \<open>A concrete environment in which setting the aging time has the given status, and concrete bridges.\<close>

definition sample_bridges :: "fpa_status \<Rightarrow> nat bridge_env" where
  "sample_bridges status = \<lparr>be_os = sample_os, be_ml = sample_params, be_hash_string = \<lambda>s. 0, be_proto_order = \<lambda>m. m,
     be_aging_set = \<lambda>sid t. status, be_aging_get = \<lambda>sid. (FPA_OK, 300), be_learning_set = \<lambda>sid. FPA_OK, be_ml_plugin = False,
     be_port_name = \<lambda>p. Some ''1'', be_scan_u32 = \<lambda>s. Some 5, be_DEFAULT_VRID = 0, be_DEFAULT_BRIDGE_NAME = ''bridge_normal''\<rparr>"

definition sample_bridge :: "string \<Rightarrow> fpa_ofproto" where
  "sample_bridge name = \<lparr>pr_type = ''system'', pr_name = name, pr_port_names = {}, pr_ports = \<lambda>p. None, pr_bundles = [],
     pr_vlans = bitmap_zero, pr_switch_id = 0, pr_vrf_id = 0, pr_change_seq = 0\<rparr>"

definition sample_bridge_state :: "nat bridge_state" where
  "sample_bridge_state = \<lparr>bs_protos = [], bs_dev = \<lparr>ds_dev = None, ds_mutex = False\<rparr>, bs_os = 0\<rparr>"

section \<open>Properties\<close>

text \<open>Bridges are found by their names. Constructing a bridge makes it the answer for its name and
  changes no other answer, whether or not the construction succeeds; destroying it, when that returns,
  makes its name unknown again and changes no other answer.\<close>

lemma bridge_construct_destruct:
  assumes "bridge_ok B" and "bridge_wf B (bs_protos s)" and "unique_keys pr_name (bs_protos s)"
    and "ops_fpa_ofproto_lookup B (bs_protos s) (pr_name this) = None"
    and "ops_fpa_ofproto_construct B this s = Inr (err, this', s')"
  shows "map_option snd (ops_fpa_ofproto_lookup B (bs_protos s') name) =
      (if name = pr_name this then Some this' else map_option snd (ops_fpa_ofproto_lookup B (bs_protos s) name))
    \<and> (ops_fpa_ofproto_lookup B (bs_protos s') (pr_name this) = Some n \<and> ops_fpa_ofproto_destruct B n s' = Some (Inr s'') \<longrightarrow>
        ops_fpa_ofproto_lookup B (bs_protos s'') name =
          (if name = pr_name this then None else ops_fpa_ofproto_lookup B (bs_protos s') name))"
proof -
  note c = construct_registers [OF assms(5)]
  have none: "ops_fpa_ofproto_lookup B (bs_protos s) (pr_name this') = None" using assms(4) c(2) by simp
  note add = bridges.search_add [OF assms(1-3) none]
  have wf: "bridge_wf B (bs_protos s')" using bridges.wf_add [OF assms(1,2)] c(1) by simp
  have rm: "bs_protos s'' = hmap_remove (bs_protos s') n" if "ops_fpa_ofproto_destruct B n s' = Some (Inr s'')"
  proof -
    from that obtain z where "map_sum id (\<lambda>(ds, os). \<lparr>bs_protos = hmap_remove (bs_protos s') n, bs_dev = ds, bs_os = os\<rparr>) z = (Inr s'' :: crash + _)"
      by (auto simp: ops_fpa_ofproto_destruct_def)
    then show ?thesis by (cases z) auto
  qed
  show ?thesis
    using add(2) [of name] bridges.search_remove(2) [OF assms(1) wf, of "pr_name this" n name] add(1) c rm by auto
qed

text \<open>(C33) The flush command empties the FDB. For the name of a bridge, and without a name when there is a
  bridge, the command reports success and the FDB, which all bridges share, is empty. The ports of the
  entries have to exist.\<close>

theorem fdb_flush_empties:
  assumes "ml_params_ok (be_ml B)" and "bridge_ok B" and "dev_ml ds = Inr ml" and "ml_inv (be_ml B) ml"
    and "\<forall>e \<in> set (ml_table ml). be_port_name B (fm_portNum (snd e)) \<noteq> None"
    and "case arg of None \<Rightarrow> protos \<noteq> [] | Some name \<Rightarrow> ops_fpa_ofproto_lookup B protos name \<noteq> None"
  shows "\<exists>ds' ml'. fpa_unixctl_fdb_flush B arg protos ds = Inr (Inr ''table successfully flushed'', ds')
    \<and> dev_ml ds' = Inr ml' \<and> ml_table ml' = []"
proof -
  obtain ml' where f: "ops_fpa_mac_learning_flush (be_ml B) (be_port_name B) ml = Inr ml'" "ml_table ml' = []"
    using flush_total [OF assms(1,4,5)] by blast
  then have fd: "flush_dev B ds = Inr (dev_ml_put ml' ds)" using assms(3) by (simp add: flush_dev_def)
  show ?thesis
  proof (cases arg)
    case None
    then have "be_proto_order B protos \<noteq> []"
      using assms(2,6) visits_all_length [of "be_proto_order B" protos] by (auto simp: bridge_ok_def)
    then obtain p ps where p: "be_proto_order B protos = p # ps" by (cases "be_proto_order B protos") auto
    obtain ds' where "flush_all B ps (dev_ml_put ml' ds) = Inr ds'" "dev_ml ds' = Inr ml'"
      using flush_all_empty [OF assms(1), of "dev_ml_put ml' ds" ml' ps] assms(3) f(2) by auto
    then show ?thesis using None p fd f(2) by (simp add: fpa_unixctl_fdb_flush_def)
  next
    case (Some name)
    then show ?thesis using assms(3,6) fd f(2) by (auto simp: fpa_unixctl_fdb_flush_def)
  qed
qed

theorem fdb_flush_empties_witness:
  "\<exists>ml ds'. ops_fpa_mac_learning_learn sample_params (\<lambda>_. Some ''1'') sample_ml (sample_msg 7 10 5) = Inr (0, ml)
    \<and> fpa_unixctl_fdb_flush (sample_bridges FPA_OK) None [(0, sample_bridge ''br'')]
        \<lparr>ds_dev = Some (dev_with ml), ds_mutex = False\<rparr> = Inr (Inr ''table successfully flushed'', ds')"
proof -
  have i0: "ml_inv sample_params sample_ml" using ml_reach_ml_inv [OF sample_params_ok sample_ml_reach] .
  obtain ml where l: "ops_fpa_mac_learning_learn sample_params (\<lambda>_. Some ''1'') sample_ml (sample_msg 7 10 5) = Inr (0, ml)"
    using learn_total [of sample_ml "\<lambda>_. Some ''1''" "sample_msg 7 10 5" sample_params] by (auto simp: sample_ml_def)
  have B: "be_ml (sample_bridges FPA_OK) = sample_params" "bridge_ok (sample_bridges FPA_OK)"
    "be_port_name (sample_bridges FPA_OK) = (\<lambda>p. Some ''1'')" by (simp_all add: sample_bridges_def bridge_ok_def)
  have "dev_ml \<lparr>ds_dev = Some (dev_with ml), ds_mutex = False\<rparr> = Inr ml" by (simp add: dev_ml_def dev_with_def)
  from fdb_flush_empties [OF _ B(2) this, of "[(0, sample_bridge ''br'')]" None] learn_inv [OF sample_params_ok i0 l] l
  show ?thesis by (auto simp: B(1,3) sample_params_ok)
qed

text \<open>(C36) The aging time that the command sets is within its bounds: when the command reports success, the
  FDB has the given time, raised to 10 or lowered to 3600 seconds if necessary, and the switch accepted
  exactly that time.\<close>

theorem set_age_bounds:
  assumes "fpa_unixctl_fdb_configure_aging B name age protos ds = Inr (Inr msg, ds')"
  shows "\<exists>ml t. dev_ml ds' = Inr ml \<and> be_scan_u32 B age = Some t \<and> 10 \<le> ml_idle_time ml \<and> ml_idle_time ml \<le> 3600
    \<and> ml_idle_time ml = max 10 (min t 3600) \<and> be_aging_set B (ml_switchId ml) (ml_idle_time ml) = FPA_OK"
proof -
  have n: "normalize_idle_time t = max 10 (min t 3600)" for t
    by (auto simp: normalize_idle_time_def max_def min_def word_less_nat_alt word_le_nat_alt)
  obtain ml t where m: "dev_ml ds = Inr ml" "be_scan_u32 B age = Some t" "ds' = dev_ml_put (ml\<lparr>ml_idle_time := normalize_idle_time t\<rparr>) ds"
    "be_aging_set B (ml_switchId ml) (normalize_idle_time t) = FPA_OK"
    using assms
    by (auto simp: fpa_unixctl_fdb_configure_aging_def ops_fpa_mac_learning_set_idle_time_def Let_def
        split: option.splits sum.splits if_splits)
  then show ?thesis using normalize_range [of t] n [of t] by simp
qed

theorem set_age_bounds_witness:
  "\<exists>ds' ml. fpa_unixctl_fdb_configure_aging (sample_bridges FPA_OK) ''br'' ''5'' [(0, sample_bridge ''br'')]
      \<lparr>ds_dev = Some (dev_with sample_ml), ds_mutex = False\<rparr> = Inr (Inr ''FDB aging time been update successfully'', ds')
    \<and> dev_ml ds' = Inr ml \<and> ml_idle_time ml = 10"
proof -
  have "\<exists>ds'. fpa_unixctl_fdb_configure_aging (sample_bridges FPA_OK) ''br'' ''5'' [(0, sample_bridge ''br'')]
      \<lparr>ds_dev = Some (dev_with sample_ml), ds_mutex = False\<rparr> = Inr (Inr ''FDB aging time been update successfully'', ds')"
    by (simp add: fpa_unixctl_fdb_configure_aging_def ops_fpa_ofproto_lookup_def hmap_search_hash_def sample_bridges_def
        sample_bridge_def STR_EQ_def dev_ml_def dev_with_def ops_fpa_mac_learning_set_idle_time_def)
  then obtain ds' where c: "fpa_unixctl_fdb_configure_aging (sample_bridges FPA_OK) ''br'' ''5'' [(0, sample_bridge ''br'')]
      \<lparr>ds_dev = Some (dev_with sample_ml), ds_mutex = False\<rparr> = Inr (Inr ''FDB aging time been update successfully'', ds')" ..
  from set_age_bounds [OF c] c show ?thesis by (auto simp: sample_bridges_def)
qed

text \<open>A bridge can be in use without MAC learning, and then running it crashes. When the aging time
  cannot be set, constructing the first bridge fails; constructing the default bridge afterwards
  succeeds, because the half-open device is still there; and the first run of the default bridge
  dereferences a null pointer.\<close>

lemma bridge_without_ml_crashes:
  assumes "ds_dev (bs_dev s) = None" and "\<not> ds_mutex (bs_dev s)" and "\<forall>t. be_aging_set B 0 t \<noteq> FPA_OK"
    and "pr_type this2 = ''system''" and "pr_name this2 = be_DEFAULT_BRIDGE_NAME B"
  shows "\<exists>p1 s1 p2 s2. ops_fpa_ofproto_construct B this1 s = Inr (EAGAIN, p1, s1)
    \<and> ops_fpa_ofproto_construct B this2 s1 = Inr (0, p2, s2)
    \<and> ops_fpa_ofproto_run B p2 new_seq expired (bs_dev s2) = Inl Null_Deref"
proof -
  obtain ds1 os1 d where i: "ops_fpa_dev_init (be_os B) (be_ml B) (be_aging_set B) (be_learning_set B) (be_ml_plugin B)
        0 (bs_dev s) (bs_os s) = Inr (EAGAIN, ds1, os1)"
      "ops_fpa_dev_init (be_os B) (be_ml B) (be_aging_set B) (be_learning_set B) (be_ml_plugin B)
        0 ds1 os1 = Inr (0, ds1\<lparr>ds_dev := Some d\<rparr>, os1)" "dv_ml d = None"
    using dev_retry_without_ml [of "bs_dev s" 0 "be_aging_set B"] assms(1-3) by fastforce
  obtain p1 s1 where c1: "ops_fpa_ofproto_construct B this1 s = Inr (EAGAIN, p1, s1)" "bs_dev s1 = ds1" "bs_os s1 = os1"
    using i(1) by (simp add: ops_fpa_ofproto_construct_def Let_def)
  obtain p2 s2 where c2: "ops_fpa_ofproto_construct B this2 s1 = Inr (0, p2, s2)" "bs_dev s2 = ds1\<lparr>ds_dev := Some d\<rparr>"
    using i(2) c1 by (simp add: ops_fpa_ofproto_construct_def Let_def)
  have "ops_fpa_ofproto_run B p2 new_seq expired (bs_dev s2) = Inl Null_Deref"
    using construct_registers [OF c2(1)] c2(2) i(3) assms(4,5)
    by (simp add: ops_fpa_ofproto_run_def STR_EQ_def dev_ml_def)
  with c1(1) c2(1) show ?thesis by blast
qed

end
