(* ===== verification/Fpa_Show.thy ===== *)
theory Fpa_Show
  imports Fpa_Bridge
begin

text \<open>
  What the plugin lists: the commands of \<open>src/ops-fpa-dev.c\<close> that print the flow tables, the command of
  \<open>src/ops-fpa-ofproto.c\<close> that prints the FDB with \<open>ops_fpa_mac_learning_dump_table\<close>, and the dump of the ports of a bridge. The
  replies are built character by character, with the conversions of \<open>printf\<close> that the formats use.
\<close>

section \<open>Conversions of \<open>printf\<close>\<close>

text \<open>
  Padding to a width on the left and on the right, \<open>%x\<close>, and the conversions that the commands use: \<open>%<n>d\<close> reads the
  bits of its argument as a signed number whatever its type is.
\<close>

definition pad_left :: "char \<Rightarrow> nat \<Rightarrow> string \<Rightarrow> string" where
  "pad_left c n s = replicate (n - length s) c @ s"

definition pad_right :: "nat \<Rightarrow> string \<Rightarrow> string" where
  "pad_right n s = s @ replicate (n - length s) CHR '' ''"

definition hex_digit :: "nat \<Rightarrow> char" where
  "hex_digit d = (if d < 10 then char_of (48 + d) else char_of (87 + d))"

fun hex_str :: "nat \<Rightarrow> string" where
  "hex_str n = (if n < 16 then [hex_digit n] else hex_str (n div 16) @ [hex_digit (n mod 16)])"

declare hex_str.simps [simp del]

definition fmt_d :: "nat \<Rightarrow> 'a::len word \<Rightarrow> string" where
  "fmt_d n w = pad_left CHR '' '' n (int_str (sint w))"

definition fmt_x :: "nat \<Rightarrow> 'a::len word \<Rightarrow> string" where
  "fmt_x n w = pad_left CHR '' '' n (hex_str (unat w))"

definition fmt_0x :: "nat \<Rightarrow> 'a::len word \<Rightarrow> string" where
  "fmt_0x n w = pad_left CHR ''0'' n (hex_str (unat w))"

text \<open>\<open>ETH_ADDR_FMT\<close>: six bytes in two digits, with colons.\<close>

primrec fmt_eth :: "eth_addr \<Rightarrow> string" where
  "fmt_eth (Eth a b c d e f) =
     fmt_0x 2 a @ '':'' @ fmt_0x 2 b @ '':'' @ fmt_0x 2 c @ '':'' @ fmt_0x 2 d @ '':'' @ fmt_0x 2 e @ '':'' @ fmt_0x 2 f"

abbreviation (input) newline :: string where "newline \<equiv> [CHR 0x0A]"

text \<open>A flag of a mask, and the mark of an entry that goes to the controller.\<close>

definition fmt_flag :: "bool \<Rightarrow> string" where
  "fmt_flag b = (if b then ''1'' else ''0'')"

definition fmt_ctrl :: "bool \<Rightarrow> string" where
  "fmt_ctrl b = (if b then ''+'' else '' '')"

primrec addr0 :: "eth_addr \<Rightarrow> u8" where
  "addr0 (Eth a b c d e f) = a"

section \<open>The flow tables\<close>

text \<open>
  The numbers of the tables and their count are constants of the FPA headers. The names are an array with as
  many elements as there are tables, of which the first nine are given; the others are null, which \<open>%s\<close> prints as \<open>(null)\<close>.
\<close>

record table_numbers =
  table_no :: "fpa_table \<Rightarrow> u32"
  FPA_FLOW_TABLE_MAX :: nat

definition opsFpaFlowTablesName :: "string list" where
  "opsFpaFlowTablesName = [''CONTROL_PKT'', ''VLAN'', ''TERMINATION'', ''PCL0'', ''PCL1'', ''PCL2'', ''L2_BRIDGING'', ''L3_UNICAST'', ''EPCL'']"

definition table_name :: "table_numbers \<Rightarrow> u32 \<Rightarrow> crash + string" where
  "table_name N no =
     (if FPA_FLOW_TABLE_MAX N \<le> unat no then Inl Buffer_Overflow
      else if unat no < length opsFpaFlowTablesName then Inr (opsFpaFlowTablesName ! unat no) else Inr ''(null)'')"

definition rule_line :: "nat \<Rightarrow> string" where
  "rule_line n = replicate n CHR ''-'' @ newline"

text \<open>\<open>ops_fpa_dev_unixctl_print_table_title\<close>: the name, and for the tables that it knows the head of the columns.\<close>

definition ops_fpa_dev_unixctl_print_table_title :: "table_numbers \<Rightarrow> string \<Rightarrow> u32 \<Rightarrow> crash + string" where
  "ops_fpa_dev_unixctl_print_table_title N d_str flowTableNo =
     map_sum id (\<lambda>name. d_str @ ''Flow table: '' @ name @ newline @
       (if flowTableNo = table_no N FPA_FLOW_TABLE_TYPE_CONTROL_PKT_E then
          rule_line 153 @ ''|      cookie     |   prio  |    time    | hard |   flags    |type| port/m | vlan/m|     destMac/m       | ethT/m |ipPrt/m |icmp/m|L4Prt/m|ctrl|clr|goto|'' @ newline @ rule_line 153
        else if flowTableNo = table_no N FPA_FLOW_TABLE_TYPE_VLAN_E then
          rule_line 105 @ ''|     cookie      | prio |    time    | hard |   flags    | port | vlan |  mask  | pvid  |  pcp  | goto |'' @ newline @ rule_line 105
        else if flowTableNo = table_no N FPA_FLOW_TABLE_TYPE_TERMINATION_E then
          rule_line 145 @ ''|      cookie     | prio |    time    | hard |   flags    | port/m | vlan/m |   eth/m  |   mac address    |    mac mask      | metadat/m | goto |'' @ newline @ rule_line 145
        else if flowTableNo = table_no N FPA_FLOW_TABLE_TYPE_L2_BRIDGING_E then
          rule_line 119 @ ''|      cookie     | prio |    time    | hard |   flags    | vlan/m | mac address / mask  | cntrl| grp(HEX) |clr| goto |'' @ newline @ rule_line 119
        else if flowTableNo \<in> {table_no N FPA_FLOW_TABLE_TYPE_PCL0_E, table_no N FPA_FLOW_TABLE_TYPE_PCL1_E, table_no N FPA_FLOW_TABLE_TYPE_PCL2_E} then
          rule_line 213 @ ''|     cookie      |prio |  time   |hard|  flags    |port/m|  eth/m |vlan/m |src mac addr /mask  |dst mac addr /mask  |up/m|    src ip /m    |    dst ip /m    ||actn|ctrl| grp(HEX) |metr|qu|up|dscp|clr|hwIdx |goto|'' @ newline @ rule_line 213
        else if flowTableNo = table_no N FPA_FLOW_TABLE_TYPE_EPCL_E then
          rule_line 196 @ ''|     cookie      |prio |  time   |hard|  flags    |port/m|  eth/m |vlan/m |src mac addr /mask  |dst mac addr /mask  |up/m|    src ip /m    |    dst ip /m    ||actn|metr| vlan |up|dscp|clr|hwIdx |'' @ newline @ rule_line 196
        else if flowTableNo = table_no N FPA_FLOW_TABLE_TYPE_L3_UNICAST_E then
          rule_line 115 @ ''|     cookie      | prio |    time    | hard |   flags    | vrId |      ipAddr/m     | cntrl| grp(HEX) |clr| goto |'' @ newline @ rule_line 115
        else ''table type '' @ fmt_d 0 flowTableNo @ '': to output information not implemented yet'' @ newline))
       (table_name N flowTableNo)"

text \<open>The columns that four of the tables begin with, and the cells of a value with the flag of its mask.\<close>

definition entry_head :: "fpa_flow \<Rightarrow> string" where
  "entry_head e = ''|'' @ fmt_x 16 (fl_cookie e) @ '' | '' @ fmt_d 4 (fl_priority e) @ '' | '' @ fmt_d 10 (fl_timeoutIdleTime e) @ '' | ''
     @ fmt_d 4 (fl_timeoutHardTime e) @ '' | 0x'' @ fmt_0x 8 (fl_flowModFlags e) @ '' |''"

definition cell_d :: "u32 \<Rightarrow> u32 \<Rightarrow> string" where
  "cell_d v m = fmt_d 4 v @ ''/'' @ fmt_flag (m \<noteq> 0)"

definition cell_x :: "u32 \<Rightarrow> u32 \<Rightarrow> string" where
  "cell_x v m = fmt_x 4 v @ ''/'' @ fmt_flag (m \<noteq> 0)"

definition print_control_pkt :: "'hw fpa_lib \<Rightarrow> table_numbers \<Rightarrow> fpa_flow \<Rightarrow> string" where
  "print_control_pkt lib N e =
     (let c = fl_control_pkt e in
      ''|'' @ fmt_x 16 (fl_cookie e) @ '' |'' @ fmt_x 8 (fl_priority e) @ '' | '' @ fmt_d 10 (fl_timeoutIdleTime e) @ '' | ''
        @ fmt_d 4 (fl_timeoutHardTime e) @ '' | 0x'' @ fmt_0x 8 (fl_flowModFlags e) @ '' | '' @ fmt_d 2 (table_no N (fl_entryType e))
        @ '' | '' @ cell_d (cp_inPort c) (cp_inPortMask c) @ '' | '' @ cell_d (cp_vlanId c) (cp_vlanIdMask c) @ '' |''
        @ fmt_eth (cp_dstMac c) @ ''/'' @ fmt_flag (addr0 (cp_dstMacMask c) \<noteq> 0) @ '' | ''
        @ cell_x (cp_etherType c) (cp_etherTypeMask c) @ '' |'' @ cell_x (cp_ipProtocol c) (cp_ipProtocolMask c) @ '' |''
        @ cell_x (cp_icmpV6Type c) (cp_icmpV6TypeMask c) @ '' |'' @ cell_x (cp_dstL4Port c) (cp_dstL4PortMask c) @ '' |  ''
        @ fmt_ctrl (cp_outputPort c = FPA_OUTPUT_CONTROLLER lib) @ '' |'' @ fmt_d 2 (cp_clearActions c) @ '' |''
        @ fmt_d 2 (cp_gotoTableNo c) @ '' |'')"

definition print_vlan :: "fpa_flow \<Rightarrow> string" where
  "print_vlan e =
     (let v = fl_vlan e in
      entry_head e @ '' '' @ fmt_d 4 (vl_inPort v) @ '' | '' @ fmt_d 4 (vl_vlanId v) @ '' | 0x'' @ fmt_0x 4 (vl_vlanIdMask v) @ '' | ''
        @ fmt_d 5 (vl_newTagVid v) @ '' | '' @ fmt_d 5 (vl_newTagPcp v) @ '' | '' @ fmt_d 4 (vl_gotoTableNo v) @ '' |'')"

definition print_termination :: "fpa_flow \<Rightarrow> string" where
  "print_termination e =
     (let t = fl_termination e in
      entry_head e @ '' '' @ cell_d (tm_inPort t) (tm_inPortMask t) @ '' | '' @ cell_d (tm_vlanId t) (tm_vlanIdMask t) @ '' | 0x''
        @ fmt_0x 4 (tm_etherType t) @ ''/'' @ fmt_flag (tm_etherTypeMask t \<noteq> 0) @ '' |'' @ fmt_eth (tm_destMac t) @ '' |''
        @ fmt_eth (tm_destMacMask t) @ '' | '' @ fmt_d 4 (tm_metadataValue t) @ ''/'' @ fmt_d 4 (tm_metadataMask t) @ '' | ''
        @ fmt_d 4 (tm_gotoTableNo t) @ '' |'')"

definition print_l2_bridging :: "'hw fpa_lib \<Rightarrow> fpa_flow \<Rightarrow> string" where
  "print_l2_bridging lib e =
     (let b = fl_l2_bridging e in
      entry_head e @ '' '' @ cell_d (br_vlanId b) (br_vlanIdMask b) @ '' | '' @ fmt_eth (br_destMac b) @ ''/''
        @ fmt_flag (addr0 (br_destMacMask b) \<noteq> 0) @ '' |   '' @ fmt_ctrl (br_outputPort b = FPA_OUTPUT_CONTROLLER lib) @ ''  | ''
        @ fmt_x 8 (br_groupId b) @ '' | '' @ fmt_d 0 (br_clearActions b) @ '' | '' @ fmt_d 4 (br_gotoTableNo b) @ '' |'')"

definition print_l3_unicast :: "'hw fpa_lib \<Rightarrow> fpa_flow \<Rightarrow> string" where
  "print_l3_unicast lib e =
     (let u = fl_l3_unicast e in
      entry_head e @ '' '' @ fmt_d 4 (l3_vrfId u) @ '' |'' @ pad_left CHR '' '' 15 (ops_fpa_ip2str (l3_dstIp4 u)) @ ''/''
        @ pad_left CHR '' '' 2 (nat_str (ops_fpa_ip4mask_to_prefix_len (l3_dstIp4Mask u))) @ '' |  ''
        @ fmt_ctrl (l3_outputPort u = FPA_OUTPUT_CONTROLLER lib) @ ''   | '' @ fmt_x 8 (l3_groupId u) @ '' | ''
        @ fmt_d 0 (l3_clearActions u) @ '' | '' @ fmt_d 4 (l3_gotoTableNo u) @ '' |'')"

definition ops_fpa_dev_unixctl_print_table_entry :: "'hw fpa_lib \<Rightarrow> table_numbers \<Rightarrow> fpa_flow \<Rightarrow> string" where
  "ops_fpa_dev_unixctl_print_table_entry lib N flowEntry =
     (case fl_entryType flowEntry of
        FPA_FLOW_TABLE_TYPE_CONTROL_PKT_E \<Rightarrow> print_control_pkt lib N flowEntry
      | FPA_FLOW_TABLE_TYPE_VLAN_E \<Rightarrow> print_vlan flowEntry
      | FPA_FLOW_TABLE_TYPE_TERMINATION_E \<Rightarrow> print_termination flowEntry
      | FPA_FLOW_TABLE_TYPE_L2_BRIDGING_E \<Rightarrow> print_l2_bridging lib flowEntry
      | FPA_FLOW_TABLE_TYPE_L3_UNICAST_E \<Rightarrow> print_l3_unicast lib flowEntry
      | _ \<Rightarrow> ''entry type '' @ fmt_d 0 (table_no N (fl_entryType flowEntry)) @ '': to output information not implemented yet'')
     @ newline"

text \<open>The list of the tables, over the whole array.\<close>

definition ops_fpa_dev_unixctl_flow_table_list :: "table_numbers \<Rightarrow> crash + reply" where
  "ops_fpa_dev_unixctl_flow_table_list N =
     fold (\<lambda>table d. case d of Inl c \<Rightarrow> Inl c
             | Inr d \<Rightarrow> map_sum id (\<lambda>name. map_sum id (\<lambda>d. d @ ''  flowTableNo: '' @ fmt_d 0 table @ ''; name: '' @ name @ newline) d)
                          (table_name N table))
       (map of_nat [0..<FPA_FLOW_TABLE_MAX N]) (Inr (Inr (''Flow table list:'' @ newline)))"

text \<open>
  The command that shows a table. \<open>fpaLibFlowTableGetNext\<close> is a parameter with a state of its own, its cursor; the
  loop asks for the first entry with 1 and for each further one with 0. A table number may be negative: only its upper
  bound is checked. \<open>None\<close> is a command that never returns.
\<close>

type_synonym 'c get_next = "u32 \<Rightarrow> u32 \<Rightarrow> u32 \<Rightarrow> 'c \<Rightarrow> fpa_status \<times> fpa_flow \<times> 'c"

partial_function (option) flow_table_show_loop ::
  "('c \<Rightarrow> fpa_status \<times> fpa_flow \<times> 'c) \<Rightarrow> (fpa_flow \<Rightarrow> string) \<Rightarrow> fpa_status \<times> fpa_flow \<times> 'c \<Rightarrow> string \<Rightarrow> string option" where
  "flow_table_show_loop next print r d_str =
     (if fst r \<noteq> FPA_OK then Some d_str
      else flow_table_show_loop next print (next (snd (snd r))) (d_str @ print (fst (snd r))))"

definition ops_fpa_dev_unixctl_flow_table_show ::
  "'hw fpa_lib \<Rightarrow> table_numbers \<Rightarrow> 'c get_next \<Rightarrow> string \<Rightarrow> string \<Rightarrow> 'c \<Rightarrow> (crash + reply) option" where
  "ops_fpa_dev_unixctl_flow_table_show lib N getNext argv1 argv2 c =
     (case (ops_fpa_str2int (Some argv1), ops_fpa_str2int (Some argv2)) of
        (Some sid, Some tid) \<Rightarrow>
          if int (FPA_FLOW_TABLE_MAX N) \<le> tid then Some (Inr (Inl ''invalid args''))
          else
            (case ops_fpa_dev_unixctl_print_table_title N [] (word_of_int tid) of Inl cr \<Rightarrow> Some (Inl cr)
             | Inr d_str \<Rightarrow>
                 map_option (\<lambda>d_str. Inr (Inr d_str))
                   (flow_table_show_loop (getNext (word_of_int sid) (word_of_int tid) 0)
                      (ops_fpa_dev_unixctl_print_table_entry lib N)
                      (getNext (word_of_int sid) (word_of_int tid) 1 c) d_str))
      | _ \<Rightarrow> Some (Inr (Inl ''invalid args'')))"

definition ops_fpa_dev_unixctl_group_table_show :: reply where
  "ops_fpa_dev_unixctl_group_table_show = Inr (''See group tables in switchd log file'' @ newline)"

section \<open>The FDB\<close>

text \<open>
  One line of the table, \<open>eth_fmt\<close> being the conversion \<open>FPA_ETH_ADDR_FMT\<close> of an address. The port goes through a buffer
  of \<open>PORT_NAME_SIZE\<close> bytes, its last one for the end of the string.
\<close>

definition fdb_line :: "ml_params \<Rightarrow> (eth_addr \<Rightarrow> string) \<Rightarrow> u32 \<times> fdb_msg \<Rightarrow> string" where
  "fdb_line P eth_fmt e =
     pad_right 8 (take (PORT_NAME_SIZE P - 1) (nat_str (unat (fm_portNum (snd e))))) @ '' ''
       @ pad_left CHR '' '' 4 (nat_str (unat (fm_vid (snd e)))) @ ''  '' @ eth_fmt (fm_address (snd e)) @ ''  0x'' @ hex_str (unat (fst e))"

definition ops_fpa_mac_learning_dump_table :: "ml_params \<Rightarrow> (eth_addr \<Rightarrow> string) \<Rightarrow> fpa_mac_learning \<Rightarrow> string \<Rightarrow> string" where
  "ops_fpa_mac_learning_dump_table P eth_fmt ml d_str =
     d_str @ '' port    VLAN  MAC                index'' @ newline
       @ concat (map (\<lambda>e. fdb_line P eth_fmt e @ newline) (fdb_order P (ml_table ml)))"

definition fpa_unixctl_fdb_show ::
  "'os bridge_env \<Rightarrow> (eth_addr \<Rightarrow> string) \<Rightarrow> string \<Rightarrow> fpa_ofproto hmap \<Rightarrow> dev_state \<Rightarrow> crash + reply" where
  "fpa_unixctl_fdb_show B eth_fmt name protos ds =
     (case ops_fpa_ofproto_lookup B protos name of None \<Rightarrow> Inr (Inl ''no such bridge'')
      | Some p \<Rightarrow>
        case Option.bind (ds_dev ds) dv_ml of None \<Rightarrow> Inl Assert_Failed
        | Some ml \<Rightarrow> Inr (Inr (ops_fpa_mac_learning_dump_table (be_ml B) eth_fmt ml [])))"

section \<open>The ports of a bridge\<close>

text \<open>
  Deleting a port changes nothing. The names of the ports are a set of Open vSwitch that is walked by position:
  \<open>at_pos\<close> gives the name at or after a position and the position behind it.
\<close>

record port_iter =
  bucket :: u32
  offset :: u32

definition ops_fpa_ofproto_port_del :: "fpa_ofproto \<Rightarrow> u32 \<Rightarrow> int \<times> fpa_ofproto" where
  "ops_fpa_ofproto_port_del this ofp_port = (0, this)"

definition ops_fpa_ofproto_port_dump_start :: "int \<times> port_iter" where
  "ops_fpa_ofproto_port_dump_start = (0, \<lparr>bucket = 0, offset = 0\<rparr>)"

definition ops_fpa_ofproto_port_dump_next ::
  "(string set \<Rightarrow> port_iter \<Rightarrow> (string \<times> port_iter) option) \<Rightarrow> (string \<Rightarrow> iface_type option) \<Rightarrow> (string \<Rightarrow> u32 option)
    \<Rightarrow> fpa_ofproto \<Rightarrow> port_iter \<Rightarrow> (int + string \<times> iface_type \<times> u32 option) \<times> port_iter" where
  "ops_fpa_ofproto_port_dump_next at_pos typ_of port_by_name this iter =
     (case at_pos (pr_port_names this) iter of
        Some (name, iter) \<Rightarrow> (ops_fpa_ofproto_port_query_by_name typ_of port_by_name this name, iter)
      | None \<Rightarrow> (Inl (- 1), iter))"

text \<open>How Open vSwitch uses the three functions: it asks for the next port until it gets an error, \<open>EOF\<close> or another.\<close>

partial_function (option) port_dump ::
  "('i \<Rightarrow> (int + 'p) \<times> 'i) \<Rightarrow> 'i \<Rightarrow> 'p list \<Rightarrow> ('p list \<times> int) option" where
  "port_dump next iter acc =
     (case next iter of (Inl err, iter) \<Rightarrow> Some (acc, err) | (Inr p, iter) \<Rightarrow> port_dump next iter (acc @ [p]))"

section \<open>Lines\<close>

definition one_line :: "string \<Rightarrow> bool" where
  "one_line s \<longleftrightarrow> CHR 0x0A \<notin> set s"

lemma one_line_append [simp]: "one_line (s @ t) \<longleftrightarrow> one_line s \<and> one_line t" "one_line []"
  "one_line (c # s) \<longleftrightarrow> c \<noteq> CHR 0x0A \<and> one_line s"
  by (auto simp: one_line_def)

definition plain_char :: "char \<Rightarrow> bool" where
  "plain_char c \<longleftrightarrow> 32 < (of_char c :: nat)"

lemma plain_char_of [simp]: "32 < n \<Longrightarrow> n < 256 \<Longrightarrow> plain_char (char_of (n :: nat))"
  by (simp add: plain_char_def)

lemma plain_char_neq: "plain_char c \<Longrightarrow> c \<noteq> CHR 0x0A \<and> c \<noteq> CHR '' ''"
  by (auto simp: plain_char_def)

lemma nat_str_plain [simp]: "\<forall>c \<in> set (nat_str n). plain_char c" "nat_str n \<noteq> []"
  by (induction n rule: nat_str.induct) (subst nat_str.simps; simp)+

lemma hex_str_plain [simp]: "\<forall>c \<in> set (hex_str n). plain_char c" "hex_str n \<noteq> []"
  by (induction n rule: hex_str.induct) (subst hex_str.simps; simp add: hex_digit_def)+

lemma plain_one_line: "\<forall>c \<in> set s. plain_char c \<Longrightarrow> one_line s"
  using plain_char_neq unfolding one_line_def by blast

lemma one_line_num [simp]: "one_line (nat_str n)" "one_line (int_str i)" "one_line (hex_str n)"
  by (auto simp: int_str_def intro: plain_one_line)

lemma one_line_fmt [simp]:
  "one_line (pad_left c n s) \<longleftrightarrow> one_line s" if "c \<noteq> CHR 0x0A"
  using that by (auto simp: pad_left_def one_line_def)

lemma one_line_conversions [simp]:
  "one_line (fmt_d n w)" "one_line (fmt_x n w)" "one_line (fmt_0x n w)" "one_line (fmt_eth mac)" "one_line (fmt_flag b)"
  "one_line (fmt_ctrl b)"
  by (simp_all add: fmt_d_def fmt_x_def fmt_0x_def fmt_flag_def fmt_ctrl_def) (cases mac, simp add: fmt_0x_def)

lemma one_line_cells [simp]: "one_line (cell_d v m)" "one_line (cell_x v m)" "one_line (entry_head e)" "one_line (ops_fpa_ip2str ip)"
  by (simp_all add: cell_d_def cell_x_def entry_head_def ops_fpa_ip2str_def)

lemma print_table_entry_line:
  "\<exists>l. ops_fpa_dev_unixctl_print_table_entry lib N e = l @ newline \<and> one_line l"
  unfolding ops_fpa_dev_unixctl_print_table_entry_def
  by (intro exI conjI, rule refl)
    (simp add: print_control_pkt_def print_vlan_def print_termination_def print_l2_bridging_def print_l3_unicast_def Let_def split: fpa_table.split)


section \<open>What the flow table command shows\<close>

text \<open>A cursor that gives the entries \<open>fs\<close>, one at each call, and then an error.\<close>

primrec yields :: "('c \<Rightarrow> fpa_status \<times> fpa_flow \<times> 'c) \<Rightarrow> fpa_flow list \<Rightarrow> fpa_status \<times> fpa_flow \<times> 'c \<Rightarrow> bool" where
  "yields next [] r \<longleftrightarrow> fst r \<noteq> FPA_OK"
| "yields next (f # fs) r \<longleftrightarrow> fst r = FPA_OK \<and> fst (snd r) = f \<and> yields next fs (next (snd (snd r)))"

lemma show_loop_yields:
  "yields next fs r \<Longrightarrow> flow_table_show_loop next print r d = Some (d @ concat (map print fs))"
  by (induction fs arbitrary: r d) (subst flow_table_show_loop.simps; simp)+

lemma show_loop_stuck:
  assumes "next c = (FPA_OK, e, c)"
  shows "flow_table_show_loop next print (FPA_OK, e', c) d = None"
proof (rule ccontr)
  assume "flow_table_show_loop next print (FPA_OK, e', c) d \<noteq> None"
  then obtain y where "flow_table_show_loop next print (FPA_OK, e', c) d = Some y" by blast
  from flow_table_show_loop.raw_induct [OF _ this, where P = "\<lambda>nx p r d y. nx = next \<and> fst r = FPA_OK \<longrightarrow> snd (snd r) \<noteq> c"]
  show False using assms by (fastforce split: if_splits)
qed

lemma table_title:
  assumes "unat no < FPA_FLOW_TABLE_MAX N"
  shows "\<exists>title. ops_fpa_dev_unixctl_print_table_title N [] no = Inr title"
  using assms by (simp add: ops_fpa_dev_unixctl_print_table_title_def table_name_def)

lemma str2int_range: "ops_fpa_str2int (Some s) = Some i \<Longrightarrow> INT_MIN \<le> i \<and> i \<le> INT_MAX"
  by (auto simp: ops_fpa_str2int_def split: option.splits prod.splits if_splits)

section \<open>Words of a line\<close>

function line_words :: "string \<Rightarrow> string list" where
  "line_words s = (let t = dropWhile ((=) CHR '' '') s in
     if t = [] then [] else takeWhile ((\<noteq>) CHR '' '') t # line_words (dropWhile ((\<noteq>) CHR '' '') t))"
  by pat_completeness auto
termination
proof (relation "measure length")
  fix s :: string and t
  assume t: "t = dropWhile ((=) CHR '' '') s" "t \<noteq> []"
  then have "hd t \<noteq> CHR '' ''" using hd_dropWhile [of "(=) CHR '' ''" s] by auto
  then have "length (dropWhile ((\<noteq>) CHR '' '') t) < length t"
    using t(2) by (cases t) (auto simp: le_imp_less_Suc length_dropWhile_le)
  also have "\<dots> \<le> length s" using t(1) by (simp add: length_dropWhile_le)
  finally show "(dropWhile ((\<noteq>) CHR '' '') t, s) \<in> measure length" by simp
qed simp

declare line_words.simps [simp del]

definition plain :: "string \<Rightarrow> bool" where
  "plain w \<longleftrightarrow> w \<noteq> [] \<and> (\<forall>c \<in> set w. plain_char c)"

lemma line_words_space [simp]: "line_words (CHR '' '' # s) = line_words s" "line_words (replicate n CHR '' '' @ s) = line_words s" "line_words [] = []"
  by (simp_all add: line_words.simps [of "CHR '' '' # s"] line_words.simps [of s] line_words.simps [of "replicate n CHR '' '' @ s"]
      line_words.simps [of "[]"] dropWhile_append)

lemma line_words_word:
  assumes "plain w"
  shows "line_words (w @ CHR '' '' # s) = w # line_words s" and "line_words w = [w]"
proof -
  have sp: "\<forall>c \<in> set w. CHR '' '' \<noteq> c" using assms plain_char_neq by (auto simp: plain_def)
  obtain a v where w: "w = a # v" using assms by (cases w) (auto simp: plain_def)
  have d: "dropWhile ((=) CHR '' '') (w @ u) = w @ u" for u using sp w by simp
  have 1: "takeWhile ((\<noteq>) CHR '' '') (w @ CHR '' '' # s) = w" "dropWhile ((\<noteq>) CHR '' '') (w @ CHR '' '' # s) = CHR '' '' # s"
    using sp by (simp_all add: takeWhile_append2 dropWhile_append2)
  have 2: "takeWhile ((\<noteq>) CHR '' '') w = w" "dropWhile ((\<noteq>) CHR '' '') w = []" using sp by simp_all
  show "line_words (w @ CHR '' '' # s) = w # line_words s"
    by (subst line_words.simps) (simp add: Let_def d 1)
  show "line_words w = [w]"
    by (subst line_words.simps) (use assms in \<open>simp add: Let_def d [of "[]", simplified] 2 plain_def del: dropWhile_eq_Nil_conv\<close>)
qed

lemma nat_str_length: "n < 10 ^ k \<Longrightarrow> 0 < k \<Longrightarrow> length (nat_str n) \<le> k"
proof (induction k arbitrary: n)
  case (Suc k)
  show ?case
  proof (cases "n < 10")
    case True
    then show ?thesis by (subst nat_str.simps) simp
  next
    case False
    then have "0 < k" using Suc.prems(1) by (cases k) auto
    moreover have "n div 10 < 10 ^ k" using Suc.prems(1) by (simp add: div_less_iff_less_mult mult.commute)
    ultimately show ?thesis using False Suc.IH [of "n div 10"] by (subst nat_str.simps) simp
  qed
qed simp

text \<open>The four words of a line of the FDB.\<close>

lemma fdb_line_words:
  assumes "10 < PORT_NAME_SIZE P" and "plain (eth_fmt (fm_address (snd e)))"
  shows "line_words (fdb_line P eth_fmt e) =
      [nat_str (unat (fm_portNum (snd e))), nat_str (unat (fm_vid (snd e))), eth_fmt (fm_address (snd e)), ''0x'' @ hex_str (unat (fst e))]"
    and "one_line (fdb_line P eth_fmt e)"
proof -
  define p where "p = nat_str (unat (fm_portNum (snd e)))"
  have "unat (fm_portNum (snd e)) < 10 ^ 10" using unsigned_less [of "fm_portNum (snd e)", where 'a = nat] by simp
  then have "length p \<le> 10" using nat_str_length [of _ 10] by (simp add: p_def)
  then have t: "take (PORT_NAME_SIZE P - 1) p = p" using assms(1) by simp
  have pl: "plain (nat_str n)" "plain (''0x'' @ hex_str m)" for n m by (simp_all add: plain_def) (simp add: plain_char_def)
  have e: "fdb_line P eth_fmt e = p @ replicate (8 - length p) CHR '' '' @ CHR '' '' # replicate (4 - length (nat_str (unat (fm_vid (snd e))))) CHR '' ''
      @ nat_str (unat (fm_vid (snd e))) @ CHR '' '' # CHR '' '' # eth_fmt (fm_address (snd e)) @ CHR '' '' # CHR '' '' # ''0x'' @ hex_str (unat (fst e))"
    using t by (simp add: fdb_line_def pad_right_def pad_left_def p_def)
  have c: "replicate k CHR '' '' @ CHR '' '' # s = CHR '' '' # replicate k CHR '' '' @ s" for k s
    by (induction k) simp_all
  show "line_words (fdb_line P eth_fmt e) =
      [nat_str (unat (fm_portNum (snd e))), nat_str (unat (fm_vid (snd e))), eth_fmt (fm_address (snd e)), ''0x'' @ hex_str (unat (fst e))]"
    unfolding e c p_def [symmetric] using pl assms(2) by (simp add: line_words_word p_def del: append.simps)
  show "one_line (fdb_line P eth_fmt e)"
    unfolding e p_def using plain_one_line assms(2) by (auto simp: plain_def) (auto simp: one_line_def)
qed

section \<open>Ports\<close>

text \<open>A walk that gives the names \<open>xs\<close> in turn.\<close>

primrec walks :: "('s \<Rightarrow> 'i \<Rightarrow> ('x \<times> 'i) option) \<Rightarrow> 's \<Rightarrow> 'x list \<Rightarrow> 'i \<Rightarrow> bool" where
  "walks at_pos S [] i \<longleftrightarrow> at_pos S i = None"
| "walks at_pos S (x # xs) i \<longleftrightarrow> (\<exists>i'. at_pos S i = Some (x, i') \<and> walks at_pos S xs i')"

text \<open>The ports whose device has a type, up to the first name whose device has none.\<close>

definition known :: "(string \<Rightarrow> iface_type option) \<Rightarrow> string \<Rightarrow> bool" where
  "known typ_of name \<longleftrightarrow> typ_of name \<noteq> None"

lemma port_dump_walks:
  assumes "walks at_pos (pr_port_names this) xs i" and "set xs \<subseteq> pr_port_names this"
  shows "port_dump (ops_fpa_ofproto_port_dump_next at_pos typ_of port_by_name this) i acc =
    Some (acc @ map (\<lambda>x. (x, the (typ_of x), port_by_name x)) (takeWhile (known typ_of) xs),
      if \<forall>x \<in> set xs. known typ_of x then - 1 else ENODEV)"
  using assms
proof (induction xs arbitrary: i acc)
  case Nil
  then show ?case by (subst port_dump.simps) (simp add: ops_fpa_ofproto_port_dump_next_def)
next
  case (Cons x xs)
  then obtain i' where i: "at_pos (pr_port_names this) i = Some (x, i')" "walks at_pos (pr_port_names this) xs i'" by auto
  have n: "ops_fpa_ofproto_port_dump_next at_pos typ_of port_by_name this i =
      (case typ_of x of None \<Rightarrow> Inl ENODEV | Some t \<Rightarrow> Inr (x, t, port_by_name x), i')"
    using i(1) Cons.prems(2) by (simp add: ops_fpa_ofproto_port_dump_next_def ops_fpa_ofproto_port_query_by_name_def split: option.splits)
  show ?case using Cons.IH [OF i(2)] Cons.prems(2)
    by (subst port_dump.simps) (cases "typ_of x"; simp add: n known_def [of typ_of x])
qed

section \<open>Properties\<close>


text \<open>A library with one VLAN entry, whose cursor is whether it has been given.\<close>

definition sample_numbers :: table_numbers where
  "sample_numbers = \<lparr>table_no = \<lambda>t. case t of FPA_FLOW_TABLE_TYPE_VLAN_E \<Rightarrow> 1 | _ \<Rightarrow> 0, FPA_FLOW_TABLE_MAX = 9\<rparr>"

definition sample_next :: "bool get_next" where
  "sample_next sid t first given = (if first = 1 then (FPA_OK, zero_flow FPA_FLOW_TABLE_TYPE_VLAN_E, True)
     else (FPA_NO_MORE, zero_flow FPA_FLOW_TABLE_TYPE_VLAN_E, given))"


lemma negative_table:
  assumes "ops_fpa_str2int (Some s) = Some tid" and "n \<le> 2 ^ 31"
  shows "n \<le> unat (word_of_int tid :: u32) \<longleftrightarrow> tid < 0 \<or> int n \<le> tid"
proof (cases "tid < 0")
  case True
  have "(tid + 2 ^ 32) mod 2 ^ 32 = tid + 2 ^ 32"
    by (rule mod_pos_pos_trivial) (use True str2int_range [OF assms(1)] in auto)
  then have "take_bit 32 tid = tid + 2 ^ 32" by (simp add: take_bit_eq_mod)
  then show ?thesis using str2int_range [OF assms(1)] True assms(2) by (simp add: unsigned_of_int)
next
  case False
  then have "unat (word_of_int tid :: u32) = nat tid"
    using str2int_range [OF assms(1)] by (simp add: unsigned_of_int take_bit_int_eq_self)
  then show ?thesis using False by auto
qed

text \<open>A negative table number, which nothing refuses, makes the command read outside the array of the names.\<close>

lemma flow_table_show_negative:
  assumes "FPA_FLOW_TABLE_MAX N \<le> 2 ^ 31" and "ops_fpa_str2int (Some argv1) = Some sid" and "ops_fpa_str2int (Some argv2) = Some tid"
    and "tid < 0"
  shows "ops_fpa_dev_unixctl_flow_table_show lib N getNext argv1 argv2 c = Some (Inl Buffer_Overflow)"
  using negative_table [OF assms(3,1)] assms(2-4)
  by (simp add: ops_fpa_dev_unixctl_flow_table_show_def ops_fpa_dev_unixctl_print_table_title_def table_name_def)

text \<open>The two loops over a flow table do not agree on the argument of the library that selects the entry: the VLAN map is read
  with 1, 2, 3 and so on, this command uses 1 and then 0. With the library that \<open>ops_fpa_vlan_fetch\<close> needs, in which the
  answer depends on that argument and on the table alone, the command shows no more than the first entry or does not return.\<close>

lemma flow_table_show_positions:
  assumes "\<forall>s t i. getNext s t i c = (fst (g s t i), snd (g s t i), c)"
    and "ops_fpa_dev_unixctl_flow_table_show lib N getNext argv1 argv2 c = Some (Inr (Inr d))"
  shows "\<exists>title tid f. ops_fpa_dev_unixctl_print_table_title N [] tid = Inr title
    \<and> (d = title \<or> d = title @ ops_fpa_dev_unixctl_print_table_entry lib N f)"
proof -
  have loop: "flow_table_show_loop (getNext s t 0) pr (getNext s t 1 c) title = Some d \<Longrightarrow> d = title \<or> (\<exists>f. d = title @ pr f)"
    for s t title and pr :: "fpa_flow \<Rightarrow> string"
  proof (cases "fst (g s t 1) = FPA_OK \<and> fst (g s t 0) = FPA_OK")
    case True
    then have "flow_table_show_loop (getNext s t 0) pr (getNext s t 1 c) title = None"
      using show_loop_stuck [of "getNext s t 0" c "snd (g s t 0)"] assms(1) by simp
    then show "flow_table_show_loop (getNext s t 0) pr (getNext s t 1 c) title = Some d \<Longrightarrow> d = title \<or> (\<exists>f. d = title @ pr f)"
      by simp
  next
    case False
    then show "flow_table_show_loop (getNext s t 0) pr (getNext s t 1 c) title = Some d \<Longrightarrow> d = title \<or> (\<exists>f. d = title @ pr f)"
      using assms(1) by (subst (asm) flow_table_show_loop.simps, subst (asm) flow_table_show_loop.simps) (auto split: if_splits)
  qed
  show ?thesis using assms(2)
    by (auto simp: ops_fpa_dev_unixctl_flow_table_show_def split: option.splits if_splits sum.splits dest!: loop)
qed

text \<open>(C35) The FDB is shown as it is. For a bridge that exists, the reply has the head and one line for every address of the table
  and no other; the words of a line are the port, the VLAN, the address and the hash of its entry.\<close>

theorem fdb_show_complete:
  assumes "ops_fpa_ofproto_lookup B protos name = Some p" and "dev_ml ds = Inr ml" and "ml_params_ok (be_ml B)"
    and "10 < PORT_NAME_SIZE (be_ml B)" and "\<forall>mac. plain (eth_fmt mac)"
  shows "\<exists>lines. fpa_unixctl_fdb_show B eth_fmt name protos ds =
        Inr (Inr ('' port    VLAN  MAC                index'' @ newline @ concat (map (\<lambda>l. l @ newline) lines)))
    \<and> (\<forall>l \<in> set lines. CHR 0x0A \<notin> set l)
    \<and> mset (map line_words lines) = image_mset (\<lambda>(h, e). [nat_str (unat (fm_portNum e)), nat_str (unat (fm_vid e)),
        eth_fmt (fm_address e), ''0x'' @ hex_str (unat h)]) (mset (ml_table ml))"
proof -
  let ?P = "be_ml B" and ?es = "fdb_order (be_ml B) (ml_table ml)"
  have o: "mset ?es = mset (ml_table ml)" using assms(3) by (simp add: ml_params_ok_def visits_all_def)
  have m: "Option.bind (ds_dev ds) dv_ml = Some ml" using assms(2) by (simp add: dev_ml_def split: option.splits)
  have w: "map line_words (map (fdb_line ?P eth_fmt) ?es) = map (\<lambda>(h, e). [nat_str (unat (fm_portNum e)), nat_str (unat (fm_vid e)),
        eth_fmt (fm_address e), ''0x'' @ hex_str (unat h)]) ?es"
    using fdb_line_words(1) [OF assms(4)] assms(5) by (auto simp: split_beta)
  show ?thesis
  proof (intro exI conjI)
    show "fpa_unixctl_fdb_show B eth_fmt name protos ds = Inr (Inr ('' port    VLAN  MAC                index'' @ newline
        @ concat (map (\<lambda>l. l @ newline) (map (fdb_line ?P eth_fmt) ?es))))"
      using assms(1) m by (simp add: fpa_unixctl_fdb_show_def ops_fpa_mac_learning_dump_table_def comp_def)
    show "\<forall>l \<in> set (map (fdb_line ?P eth_fmt) ?es). CHR 0x0A \<notin> set l"
      using fdb_line_words(2) [OF assms(4)] assms(5) by (auto simp: one_line_def)
    show "mset (map line_words (map (fdb_line ?P eth_fmt) ?es)) = image_mset (\<lambda>(h, e). [nat_str (unat (fm_portNum e)),
        nat_str (unat (fm_vid e)), eth_fmt (fm_address e), ''0x'' @ hex_str (unat h)]) (mset (ml_table ml))"
      unfolding w o [symmetric] by (simp only: mset_map)
  qed
qed

theorem fdb_show_complete_witness:
  "\<exists>l. fpa_unixctl_fdb_show (sample_bridges FPA_OK) (\<lambda>mac. ''m'') ''br''
      [(0, sample_bridge ''br'')] \<lparr>ds_dev = Some (dev_with (sample_ml\<lparr>ml_table := [(7, sample_msg 5 10 1)]\<rparr>)), ds_mutex = False\<rparr> =
    Inr (Inr ('' port    VLAN  MAC                index'' @ newline @ l @ newline)) \<and> line_words l ! 2 = ''m''"
proof -
  let ?B = "sample_bridges FPA_OK"
  let ?ml = "sample_ml\<lparr>ml_table := [(7, sample_msg 5 10 1)]\<rparr>"
  have "ops_fpa_ofproto_lookup ?B [(0, sample_bridge ''br'')] ''br'' = Some (0, sample_bridge ''br'')"
      "dev_ml \<lparr>ds_dev = Some (dev_with ?ml), ds_mutex = False\<rparr> = Inr ?ml" "ml_params_ok (be_ml ?B)" "10 < PORT_NAME_SIZE (be_ml ?B)"
      "\<forall>mac :: eth_addr. plain ''m''"
    by (simp_all add: ops_fpa_ofproto_lookup_def hmap_search_hash_def sample_bridges_def sample_bridge_def STR_EQ_def dev_ml_def dev_with_def
        ml_params_ok_def sample_params_def plain_def plain_char_def)
  from fdb_show_complete [OF this] obtain lines where l:
      "fpa_unixctl_fdb_show ?B (\<lambda>mac. ''m'') ''br'' [(0, sample_bridge ''br'')] \<lparr>ds_dev = Some (dev_with ?ml), ds_mutex = False\<rparr> =
        Inr (Inr ('' port    VLAN  MAC                index'' @ newline @ concat (map (\<lambda>l. l @ newline) lines)))"
      "mset (map line_words lines) = {#[nat_str 5, nat_str 10, ''m'', ''0x'' @ hex_str 7]#}"
    by (auto simp: sample_msg_def)
  from l(2) obtain x where "lines = [x]" "line_words x = [nat_str 5, nat_str 10, ''m'', ''0x'' @ hex_str 7]"
    by (cases lines) (auto simp: single_is_union add_mset_eq_single)
  then show ?thesis using l(1) by auto
qed

text \<open>Dumping the ports of a bridge. The dump ends, and it gives the ports in the order of the walk over their names, each
  once, with its type and its number, up to the first name whose device is gone; only when there is none are all ports given
  and is the end of the dump the regular one.\<close>

lemma port_dump_ports:
  assumes "walks at_pos (pr_port_names this) xs (snd ops_fpa_ofproto_port_dump_start)" and "set xs = pr_port_names this"
  shows "port_dump (ops_fpa_ofproto_port_dump_next at_pos typ_of port_by_name this) (snd ops_fpa_ofproto_port_dump_start) [] =
      Some (map (\<lambda>x. (x, the (typ_of x), port_by_name x)) (takeWhile (\<lambda>x. typ_of x \<noteq> None) xs),
        if \<forall>x \<in> pr_port_names this. typ_of x \<noteq> None then - 1 else ENODEV)"
proof -
  have "known typ_of = (\<lambda>x. typ_of x \<noteq> None)" by (simp add: known_def fun_eq_iff)
  then show ?thesis using port_dump_walks [OF assms(1), of typ_of port_by_name "[]"] assms(2) by simp
qed

text \<open>A port that was deleted after its device was gone ends the dump in front of the ports behind it.\<close>

lemma deleted_port_ends_dump:
  assumes "this = snd (ops_fpa_ofproto_port_del (snd (ops_fpa_ofproto_port_add this0 dev)) ofp_port)" and "typ_of (netdev.nd_name dev) = None"
    and "walks at_pos (pr_port_names this) (netdev.nd_name dev # xs) (snd ops_fpa_ofproto_port_dump_start)"
    and "set (netdev.nd_name dev # xs) = pr_port_names this"
  shows "port_dump (ops_fpa_ofproto_port_dump_next at_pos typ_of port_by_name this) (snd ops_fpa_ofproto_port_dump_start) [] =
    Some ([], ENODEV)"
  using port_dump_walks [OF assms(3), of typ_of port_by_name "[]"] assms(2,4) by (auto simp: known_def)

end
