(* ===== verification/Fpa_Commands.thy ===== *)
theory Fpa_Commands
  imports Fpa_Show
begin

text \<open>
  The commands for \<open>ovs-appctl\<close> that the plugin registers (\<open>src/ops-fpa-dev.c\<close>, \<open>src/ops-fpa-ofproto.c\<close>): the calls of
  \<open>unixctl_command_register\<close> with the numbers of arguments that they allow, and the callbacks on the vector of arguments
  that Open vSwitch passes to them.
\<close>

section \<open>Callbacks\<close>

text \<open>
  The first element of the vector is the name of the command. Reading behind its end is an error, whatever is there. Every
  callback gets the state of the plugin; \<open>None\<close> is one that never returns.
\<close>

definition argv_at :: "string list \<Rightarrow> nat \<Rightarrow> crash + string" where
  "argv_at argv i = (if i < length argv then Inr (argv ! i) else Inl Buffer_Overflow)"

record ('hw, 'os, 'c) command_env =
  ce_bridge :: "'os bridge_env"
  ce_lib :: "'hw fpa_lib"
  ce_tables :: table_numbers
  ce_get_next :: "'c get_next"
  ce_eth_fmt :: "eth_addr \<Rightarrow> string"

datatype unixctl_cb = CB_fdb_flush | CB_fdb_show | CB_fdb_get_aging | CB_fdb_configure_aging
  | CB_flow_table_list | CB_flow_table_show | CB_group_table_show

fun unixctl_call ::
  "('hw, 'os, 'c) command_env \<Rightarrow> unixctl_cb \<Rightarrow> string list \<Rightarrow> fpa_ofproto hmap \<Rightarrow> 'c \<Rightarrow> dev_state
    \<Rightarrow> (crash + reply \<times> dev_state) option" where
  "unixctl_call C CB_fdb_flush argv protos c ds =
     Some (if 1 < length argv
           then (case argv_at argv 1 of Inl cr \<Rightarrow> Inl cr | Inr name \<Rightarrow> fpa_unixctl_fdb_flush (ce_bridge C) (Some name) protos ds)
           else fpa_unixctl_fdb_flush (ce_bridge C) None protos ds)"
| "unixctl_call C CB_fdb_show argv protos c ds =
     Some (case argv_at argv 1 of Inl cr \<Rightarrow> Inl cr
           | Inr name \<Rightarrow> map_sum id (\<lambda>r. (r, ds)) (fpa_unixctl_fdb_show (ce_bridge C) (ce_eth_fmt C) name protos ds))"
| "unixctl_call C CB_fdb_get_aging argv protos c ds =
     Some (case argv_at argv 1 of Inl cr \<Rightarrow> Inl cr
           | Inr name \<Rightarrow> map_sum id (\<lambda>r. (r, ds)) (fpa_unixctl_fdb_get_aging (ce_bridge C) (fmt_d 0) name protos ds))"
| "unixctl_call C CB_fdb_configure_aging argv protos c ds =
     Some (case argv_at argv 1 of Inl cr \<Rightarrow> Inl cr
           | Inr name \<Rightarrow>
             case ops_fpa_ofproto_lookup (ce_bridge C) protos name of None \<Rightarrow> Inr (Inl ''no such bridge'', ds)
             | Some p \<Rightarrow>
               case argv_at argv 2 of Inl cr \<Rightarrow> Inl cr
               | Inr age \<Rightarrow> fpa_unixctl_fdb_configure_aging (ce_bridge C) name age protos ds)"
| "unixctl_call C CB_flow_table_list argv protos c ds =
     Some (map_sum id (\<lambda>r. (r, ds)) (ops_fpa_dev_unixctl_flow_table_list (ce_tables C)))"
| "unixctl_call C CB_flow_table_show argv protos c ds =
     (case argv_at argv 1 of Inl cr \<Rightarrow> Some (Inl cr)
      | Inr sid \<Rightarrow>
        if ops_fpa_str2int (Some sid) = None then Some (Inr (Inl ''invalid args'', ds)) else
        case argv_at argv 2 of Inl cr \<Rightarrow> Some (Inl cr)
        | Inr tid \<Rightarrow>
            map_option (map_sum id (\<lambda>r. (r, ds)))
              (ops_fpa_dev_unixctl_flow_table_show (ce_lib C) (ce_tables C) (ce_get_next C) sid tid c))"
| "unixctl_call C CB_group_table_show argv protos c ds = Some (Inr (ops_fpa_dev_unixctl_group_table_show, ds))"

section \<open>Registration\<close>

text \<open>The calls of \<open>unixctl_command_register\<close>, in their order, and the static flag of the bridge commands.\<close>

record unixctl_command =
  uc_name :: string
  uc_usage :: string
  uc_min_args :: nat
  uc_max_args :: nat
  uc_cb :: unixctl_cb

record command_state =
  cs_commands :: "unixctl_command list"
  cs_registered :: bool

definition unixctl_command_register :: "string \<Rightarrow> string \<Rightarrow> nat \<Rightarrow> nat \<Rightarrow> unixctl_cb \<Rightarrow> command_state \<Rightarrow> command_state" where
  "unixctl_command_register name usage min_args max_args cb s =
     s\<lparr>cs_commands := cs_commands s @ [\<lparr>uc_name = name, uc_usage = usage, uc_min_args = min_args, uc_max_args = max_args, uc_cb = cb\<rparr>]\<rparr>"

definition ops_fpa_dev_unixctl_init :: "command_state \<Rightarrow> command_state" where
  "ops_fpa_dev_unixctl_init s =
     (let s = unixctl_command_register ''fpa/dev/ft-list'' '''' 0 0 CB_flow_table_list s;
          s = unixctl_command_register ''fpa/dev/ft-show'' ''switchId flowTableNo'' 2 2 CB_flow_table_show s
      in unixctl_command_register ''fpa/dev/gt-show'' '''' 0 0 CB_group_table_show s)"

definition ops_fpa_ofproto_unixctl_init :: "command_state \<Rightarrow> command_state" where
  "ops_fpa_ofproto_unixctl_init s =
     (if cs_registered s then s else
      let s = s\<lparr>cs_registered := True\<rparr>;
          s = unixctl_command_register ''fpa/fdb/flush'' ''[bridge]'' 0 1 CB_fdb_flush s;
          s = unixctl_command_register ''fpa/fdb/show'' ''bridge'' 1 1 CB_fdb_show s;
          s = unixctl_command_register ''fpa/fdb/get-age'' ''bridge'' 1 1 CB_fdb_get_aging s
      in unixctl_command_register ''fpa/fdb/set-age'' ''bridge aging_time'' 2 2 CB_fdb_configure_aging s)"

text \<open>
  The calls of the two functions in \<open>ops_fpa_dev_init\<close> and in \<open>ops_fpa_ofproto_construct\<close>: for a device that is created
  completely, and for a bridge that is constructed.
\<close>

definition construct_commands :: "dev_state \<Rightarrow> int \<Rightarrow> command_state \<Rightarrow> command_state" where
  "construct_commands ds err s =
     (if err \<noteq> 0 then s
      else ops_fpa_ofproto_unixctl_init (if ds_dev ds = None then ops_fpa_dev_unixctl_init s else s))"

text \<open>Open vSwitch calls the callback of a command with as many arguments as it was registered for.\<close>

definition accepts :: "unixctl_command \<Rightarrow> string list \<Rightarrow> bool" where
  "accepts cmd argv \<longleftrightarrow> argv \<noteq> [] \<and> hd argv = uc_name cmd \<and> uc_min_args cmd \<le> length argv - 1 \<and> length argv - 1 \<le> uc_max_args cmd"

definition dev_commands :: "unixctl_command list" where
  "dev_commands = cs_commands (ops_fpa_dev_unixctl_init \<lparr>cs_commands = [], cs_registered = False\<rparr>)"

definition bridge_commands :: "unixctl_command list" where
  "bridge_commands = cs_commands (ops_fpa_ofproto_unixctl_init \<lparr>cs_commands = [], cs_registered = False\<rparr>)"

lemmas command_defs = dev_commands_def bridge_commands_def ops_fpa_dev_unixctl_init_def ops_fpa_ofproto_unixctl_init_def
  unixctl_command_register_def Let_def

lemma construct_commands_cases:
  "construct_commands ds err s =
     (if err \<noteq> 0 then s
      else s\<lparr>cs_registered := True,
        cs_commands := cs_commands s @ (if ds_dev ds = None then dev_commands else []) @ (if cs_registered s then [] else bridge_commands)\<rparr>)"
  by (simp add: construct_commands_def command_defs)

text \<open>Every command has a name of its own, and a callback for which its numbers of arguments are right.\<close>

lemma command_names: "distinct (map uc_name (dev_commands @ bridge_commands))"
  by (simp add: command_defs)

section \<open>Crashes of the callbacks\<close>

text \<open>What a callback can crash on when it has its arguments.\<close>

definition command_crash :: "('hw, 'os, 'c) command_env \<Rightarrow> unixctl_cb \<Rightarrow> string list \<Rightarrow> dev_state \<Rightarrow> bool" where
  "command_crash C cb argv ds \<longleftrightarrow>
     (case cb of
        CB_fdb_flush \<Rightarrow>
          (case dev_ml ds of Inl c \<Rightarrow> True
           | Inr ml \<Rightarrow> \<exists>e \<in> set (ml_table ml). be_port_name (ce_bridge C) (fm_portNum (snd e)) = None)
      | CB_flow_table_show \<Rightarrow> (\<exists>tid. ops_fpa_str2int (Some (argv ! 2)) = Some tid \<and> tid < 0)
      | CB_flow_table_list \<Rightarrow> False
      | CB_group_table_show \<Rightarrow> False
      | _ \<Rightarrow> \<not> (\<exists>ml. dev_ml ds = Inr ml))"

lemma flow_table_list_total:
  assumes "FPA_FLOW_TABLE_MAX N \<le> 2 ^ 31"
  shows "\<exists>r. ops_fpa_dev_unixctl_flow_table_list N = Inr r"
proof -
  have "\<forall>t \<in> set ts. unat t < FPA_FLOW_TABLE_MAX N \<Longrightarrow>
      \<exists>r. fold (\<lambda>table d. case d of Inl c \<Rightarrow> Inl c
             | Inr d \<Rightarrow> map_sum id (\<lambda>name. map_sum id (\<lambda>d. d @ ''  flowTableNo: '' @ fmt_d 0 table @ ''; name: '' @ name @ newline) d)
                          (table_name N table)) ts (Inr d) = Inr r" for ts and d :: reply
    by (induction ts arbitrary: d) (auto simp: table_name_def)
  moreover have "\<forall>t \<in> set (map of_nat [0..<FPA_FLOW_TABLE_MAX N] :: u32 list). unat t < FPA_FLOW_TABLE_MAX N"
    using assms by (auto simp: unat_of_nat)
  ultimately show ?thesis unfolding ops_fpa_dev_unixctl_flow_table_list_def by blast
qed

lemma flush_dev_crash:
  assumes "ml_params_ok (be_ml B)" and "\<And>ml. dev_ml ds = Inr ml \<Longrightarrow> ml_inv (be_ml B) ml" and "flush_dev B ds = Inl c"
  shows "case dev_ml ds of Inl c \<Rightarrow> True | Inr ml \<Rightarrow> \<exists>e \<in> set (ml_table ml). be_port_name B (fm_portNum (snd e)) = None"
proof (cases "dev_ml ds")
  case (Inr ml)
  show ?thesis
  proof (rule ccontr)
    assume "\<not> ?thesis"
    then obtain ml' where "ops_fpa_mac_learning_flush (be_ml B) (be_port_name B) ml = Inr ml'"
      using flush_total [OF assms(1) assms(2) [OF Inr], of "be_port_name B"] Inr by auto
    then show False using assms(3) Inr by (simp add: flush_dev_def)
  qed
qed simp

lemma flush_all_crash:
  assumes P: "ml_params_ok (be_ml B)" and inv: "\<And>ml. dev_ml ds = Inr ml \<Longrightarrow> ml_inv (be_ml B) ml" and "flush_all B ps ds = Inl c"
  shows "case dev_ml ds of Inl c \<Rightarrow> True | Inr ml \<Rightarrow> \<exists>e \<in> set (ml_table ml). be_port_name B (fm_portNum (snd e)) = None"
proof (rule ccontr)
  assume n: "\<not> ?thesis"
  then obtain ml where ml: "dev_ml ds = Inr ml" "\<forall>e \<in> set (ml_table ml). be_port_name B (fm_portNum (snd e)) \<noteq> None"
    by (auto split: sum.splits)
  obtain ml' where f: "ops_fpa_mac_learning_flush (be_ml B) (be_port_name B) ml = Inr ml'" "ml_table ml' = []"
    using flush_total [OF P inv [OF ml(1)] ml(2)] by blast
  then have "flush_dev B ds = Inr (dev_ml_put ml' ds)" using ml(1) by (simp add: flush_dev_def)
  then show False
    using assms(3) flush_all_empty [OF P dev_ml_put [OF ml(1)] f(2)] by (cases ps) (auto, metis Inl_Inr_False)
qed

lemma registered_call_crash:
  assumes P: "ml_params_ok (be_ml (ce_bridge C))" and inv: "\<And>ml. dev_ml ds = Inr ml \<Longrightarrow> ml_inv (be_ml (ce_bridge C)) ml"
    and N: "FPA_FLOW_TABLE_MAX (ce_tables C) \<le> 2 ^ 31"
    and cmd: "cmd \<in> set (dev_commands @ bridge_commands)" and argv: "accepts cmd argv"
    and crash: "unixctl_call C (uc_cb cmd) argv protos c ds = Some (Inl cr)"
  shows "command_crash C (uc_cb cmd) argv ds"
proof -
  have args: "uc_cb cmd = CB_fdb_show \<Longrightarrow> length argv = 2" "uc_cb cmd = CB_fdb_get_aging \<Longrightarrow> length argv = 2"
    "uc_cb cmd = CB_fdb_configure_aging \<Longrightarrow> length argv = 3" "uc_cb cmd = CB_flow_table_show \<Longrightarrow> length argv = 3"
    using cmd argv by (auto simp: command_defs accepts_def)
  show ?thesis
  proof (cases "uc_cb cmd")
    case CB_fdb_flush
    then show ?thesis
      using crash flush_dev_crash [OF P inv] flush_all_crash [OF P inv]
      by (auto simp: command_crash_def fpa_unixctl_fdb_flush_def argv_at_def split: if_splits option.splits elim!: map_sum_eq_InlE)
  next
    case CB_fdb_show
    then show ?thesis using crash args(1)
      by (auto simp: command_crash_def fpa_unixctl_fdb_show_def argv_at_def dev_ml_def elim!: map_sum_eq_InlE split: option.splits)
  next
    case CB_fdb_get_aging
    then show ?thesis using crash args(2)
      by (auto simp: command_crash_def fpa_unixctl_fdb_get_aging_def argv_at_def Let_def elim!: map_sum_eq_InlE
          split: option.splits sum.splits prod.splits if_splits)
  next
    case CB_fdb_configure_aging
    then show ?thesis using crash args(3)
      by (auto simp: command_crash_def fpa_unixctl_fdb_configure_aging_def argv_at_def Let_def
          split: option.splits sum.splits prod.splits if_splits)
  next
    case CB_flow_table_list
    then show ?thesis using crash flow_table_list_total [OF N] by (auto elim!: map_sum_eq_InlE)
  next
    case CB_flow_table_show
    have "\<exists>tid. ops_fpa_str2int (Some (argv ! 2)) = Some tid \<and> tid < 0"
      using crash args(4) CB_flow_table_show negative_table [OF _ N]
      by (auto simp: ops_fpa_dev_unixctl_flow_table_show_def ops_fpa_dev_unixctl_print_table_title_def table_name_def argv_at_def
          elim!: map_sum_eq_InlE split: option.splits if_splits sum.splits)
    then show ?thesis using CB_flow_table_show by (simp add: command_crash_def)
  next
    case CB_group_table_show
    then show ?thesis using crash by simp
  qed
qed

end
