(* ===== verification/Fpa_Life.thy ===== *)
theory Fpa_Life
  imports Fpa_Commands
begin

text \<open>
  The life of bridges and of the device that they share, as a transition system over the operations of \<open>src/ops-fpa-ofproto.c\<close>,
  \<open>src/ops-fpa-dev.c\<close>, \<open>src/ops-fpa-tap.c\<close> and \<open>src/ops-fpa-mac-learning.c\<close>. The reference count of the device is the number of bridges that
  count on it, which decides when destroying a bridge returns, when running one crashes and what the commands do.
\<close>

section \<open>The transition system\<close>

text \<open>
  Beside the state of the plugin: the bridges that Open vSwitch has constructed and not destructed, the nodes of bridges
  whose construction failed, which Open vSwitch frees without destructing them, and the registered commands.
\<close>

record 'os life_state =
  lf_sys :: "'os bridge_state"
  lf_open :: "fpa_ofproto hmap"
  lf_freed :: "fpa_ofproto hmap"
  lf_cmds :: command_state

text \<open>A change of an open bridge in place; the position of a node in a hash map carries no meaning.\<close>

definition bridge_put :: "u32 \<times> fpa_ofproto \<Rightarrow> fpa_ofproto \<Rightarrow> fpa_ofproto hmap \<Rightarrow> fpa_ofproto hmap" where
  "bridge_put n this m = hmap_insert (hmap_remove m n) (fst n) this"

definition update_bridge :: "u32 \<times> fpa_ofproto \<Rightarrow> fpa_ofproto \<Rightarrow> 'os life_state \<Rightarrow> 'os life_state" where
  "update_bridge n this l =
     l\<lparr>lf_sys := (lf_sys l)\<lparr>bs_protos := bridge_put n this (bs_protos (lf_sys l))\<rparr>, lf_open := bridge_put n this (lf_open l)\<rparr>"

definition put_dev :: "dev_state \<Rightarrow> 'os \<Rightarrow> 'os life_state \<Rightarrow> 'os life_state" where
  "put_dev ds os l = l\<lparr>lf_sys := (lf_sys l)\<lparr>bs_dev := ds, bs_os := os\<rparr>\<rparr>"

abbreviation life_dev :: "'os life_state \<Rightarrow> dev_state" where
  "life_dev l \<equiv> bs_dev (lf_sys l)"

text \<open>
  The steps: bridges are constructed, with success or not, changed by their operations, run and destructed; network devices create and delete
  TAP interfaces; the switch reports MAC events; commands are called. An operation that crashes or does not return is no
  step. There are fewer bridges than the reference counter can count.
\<close>

inductive life_step :: "('hw, 'os, 'c) command_env \<Rightarrow> 'os life_state \<Rightarrow> 'os life_state \<Rightarrow> bool" for C where
  construct: "ops_fpa_ofproto_construct (ce_bridge C) this (lf_sys l) = Inr (0, this', s') \<Longrightarrow>
    length (lf_open l) < 2 ^ 32 - 2 \<Longrightarrow>
    life_step C l (l\<lparr>lf_sys := s', lf_open := hmap_insert (lf_open l) (be_hash_string (ce_bridge C) (pr_name this)) this',
      lf_cmds := construct_commands (life_dev l) 0 (lf_cmds l)\<rparr>)"
| construct_fails: "ops_fpa_ofproto_construct (ce_bridge C) this (lf_sys l) = Inr (err, this', s') \<Longrightarrow> err \<noteq> 0 \<Longrightarrow>
    life_step C l (l\<lparr>lf_sys := s', lf_freed := hmap_insert (lf_freed l) (be_hash_string (ce_bridge C) (pr_name this)) this',
      lf_cmds := construct_commands (life_dev l) err (lf_cmds l)\<rparr>)"
| destruct: "n \<in> set (lf_open l) \<Longrightarrow> ops_fpa_ofproto_destruct (ce_bridge C) n (lf_sys l) = Some (Inr s') \<Longrightarrow>
    life_step C l (l\<lparr>lf_sys := s', lf_open := hmap_remove (lf_open l) n\<rparr>)"
| change: "n \<in> set (lf_open l) \<Longrightarrow> pr_name this = pr_name (snd n) \<Longrightarrow> pr_type this = pr_type (snd n) \<Longrightarrow>
    life_step C l (update_bridge n this l)"
| run: "n \<in> set (lf_open l) \<Longrightarrow>
    ops_fpa_ofproto_run (ce_bridge C) (snd n) new_seq expired (life_dev l) = Inr (ret, this, ds) \<Longrightarrow>
    life_step C l (put_dev ds (bs_os (lf_sys l)) (update_bridge n this l))"
| tap_create: "ops_fpa_tap_if_create (be_os (ce_bridge C)) sid port name mac (life_dev l) (bs_os (lf_sys l)) = Inr (rc, fd, ds, os) \<Longrightarrow>
    life_step C l (put_dev ds os l)"
| tap_delete: "ops_fpa_tap_if_delete (be_os (ce_bridge C)) sid fd (life_dev l) (bs_os (lf_sys l)) = Inr (rc, ds, os) \<Longrightarrow>
    life_step C l (put_dev ds os l)"
| events: "dev_ml (life_dev l) = Inr ml \<Longrightarrow> mac_learning_asic_events_handler (be_ml (ce_bridge C)) msgs ml = Inr ml' \<Longrightarrow>
    life_step C l (put_dev (dev_ml_put ml' (life_dev l)) (bs_os (lf_sys l)) l)"
| command: "cmd \<in> set (cs_commands (lf_cmds l)) \<Longrightarrow> accepts cmd argv \<Longrightarrow>
    unixctl_call C (uc_cb cmd) argv (bs_protos (lf_sys l)) c (life_dev l) = Some (Inr (reply, ds)) \<Longrightarrow>
    life_step C l (put_dev ds (bs_os (lf_sys l)) l)"

definition life_init :: "'os \<Rightarrow> 'os life_state" where
  "life_init os = \<lparr>lf_sys = \<lparr>bs_protos = [], bs_dev = \<lparr>ds_dev = None, ds_mutex = False\<rparr>, bs_os = os\<rparr>,
     lf_open = [], lf_freed = [], lf_cmds = \<lparr>cs_commands = [], cs_registered = False\<rparr>\<rparr>"

inductive life_reach :: "('hw, 'os, 'c) command_env \<Rightarrow> 'os life_state \<Rightarrow> bool" for C where
  init: "life_reach C (life_init os)"
| step: "life_reach C l \<Longrightarrow> life_step C l l' \<Longrightarrow> life_reach C l'"

section \<open>What the operations keep of the device\<close>

text \<open>MAC learning is created with one reference and gets no other.\<close>

lemma action_add_ref: "ops_fpa_mac_learning_mlearn_action_add P port_name ml msg h ev = Inr ml' \<Longrightarrow> ml_ref_cnt ml' = ml_ref_cnt ml"
  by (auto simp: ops_fpa_mac_learning_mlearn_action_add_def ops_fpa_mac_learning_process_mlearn_def Let_def
      split: sum.splits option.splits if_splits)

lemma expire_ref: "ops_fpa_mac_learning_expire P port_name ml e = Inr (ret, ml') \<Longrightarrow> ml_ref_cnt ml' = ml_ref_cnt ml"
  by (auto simp: ops_fpa_mac_learning_expire_def Let_def split: sum.splits dest: action_add_ref)

lemma learn_ref: "ops_fpa_mac_learning_learn P port_name ml msg = Inr (ret, ml') \<Longrightarrow> ml_ref_cnt ml' = ml_ref_cnt ml"
  by (auto simp: ops_fpa_mac_learning_learn_def ops_fpa_mac_learning_insert_def Let_def split: sum.splits if_splits
      dest: action_add_ref)

lemma age_ref: "ops_fpa_mac_learning_age_by_entry P port_name ml msg = Inr (ret, ml') \<Longrightarrow> ml_ref_cnt ml' = ml_ref_cnt ml"
  by (auto simp: ops_fpa_mac_learning_age_by_entry_def split: option.splits dest: expire_ref)

lemma expire_all_ref: "expire_all P port_name es ml = Inr ml' \<Longrightarrow> ml_ref_cnt ml' = ml_ref_cnt ml"
  by (induction es arbitrary: ml) (auto split: sum.splits prod.splits dest: expire_ref)

lemma handler_ref: "mac_learning_asic_events_handler P msgs ml = Inr ml' \<Longrightarrow> ml_ref_cnt ml' = ml_ref_cnt ml"
proof (induction msgs arbitrary: ml)
  case (Cons x xs)
  obtain port_name ret msg ml1 where h: "handle_au_msg P port_name ret msg ml = Inr ml1"
    and r: "mac_learning_asic_events_handler P xs ml1 = Inr ml'"
    using Cons.prems by (auto split: sum.splits prod.splits)
  have "ml_ref_cnt ml1 = ml_ref_cnt ml"
    using h by (auto simp: handle_au_msg_def split: if_splits fdb_event.splits sum.splits prod.splits dest: learn_ref age_ref)
  with Cons.IH [OF r] show ?case by simp
qed simp

lemma ml_reach_ref: "ml_reach P ml \<Longrightarrow> ml_ref_cnt ml = 1"
proof (induction rule: ml_reach.induct)
  case (age_vlan ml port_name vlan mac ret ml')
  then show ?case
    by (auto simp: ops_fpa_mac_learning_age_by_vlan_and_mac_def split: option.splits dest: expire_ref)
qed (auto simp: ops_fpa_mac_learning_create_def ops_fpa_mac_learning_set_idle_time_def ops_fpa_mac_learning_set_max_entries_def
    ops_fpa_mac_learning_flush_def ops_fpa_mac_learning_on_mlearn_timer_expired_def ops_fpa_mac_learning_process_mlearn_def
    Let_def split: option.splits if_splits dest: learn_ref age_ref handler_ref expire_all_ref)

text \<open>
  The operations other than opening and closing keep what the life of the device depends on: whether it exists, its
  identity and its count, and whether it has MAC learning, which they lead from one reachable state to another.
\<close>

definition ml_good :: "ml_params \<Rightarrow> fpa_mac_learning option \<Rightarrow> bool" where
  "ml_good P m \<longleftrightarrow> (\<forall>ml. m = Some ml \<longrightarrow> ml_reach P ml)"

definition dev_kept :: "ml_params \<Rightarrow> dev_state \<Rightarrow> dev_state \<Rightarrow> bool" where
  "dev_kept P ds ds' \<longleftrightarrow>
     (case (ds_dev ds, ds_dev ds') of
        (None, None) \<Rightarrow> True
      | (Some d, Some d') \<Rightarrow> dv_switchId d' = dv_switchId d \<and> dv_ref_cnt d' = dv_ref_cnt d \<and> (dv_ml d' = None \<longleftrightarrow> dv_ml d = None)
          \<and> (ml_good P (dv_ml d) \<longrightarrow> ml_good P (dv_ml d'))
      | _ \<Rightarrow> False)"

lemma dev_kept_refl [simp]: "dev_kept P ds ds"
  by (simp add: dev_kept_def split: option.split)

lemma dev_kept_trans: "dev_kept P a b \<Longrightarrow> dev_kept P b c \<Longrightarrow> dev_kept P a c"
  by (auto simp: dev_kept_def split: option.splits)

lemma dev_kept_mutex [simp]:
  "dev_kept P ds (ds'\<lparr>ds_mutex := b\<rparr>) = dev_kept P ds ds'" "dev_kept P (ds\<lparr>ds_mutex := b\<rparr>) ds' = dev_kept P ds ds'"
  by (simp_all add: dev_kept_def)

lemma dev_kept_put_tap [simp]: "dev_kept P ds (put_tap_info info ds')" if "dev_kept P ds ds'"
  using that by (simp add: dev_kept_def put_tap_info_def split: option.splits)

lemma dev_kept_put_ml:
  assumes "dev_ml ds = Inr ml" and "ml_reach P ml \<Longrightarrow> ml_reach P ml'"
  shows "dev_kept P ds (dev_ml_put ml' ds)"
  using assms by (auto simp: dev_kept_def dev_ml_put_def dev_ml_def ml_good_def bind_eq_Some_conv split: option.splits)

lemma tap_create_kept:
  "ops_fpa_tap_if_create E sid port name mac ds os = Inr (rc, fd, ds', os') \<Longrightarrow> dev_kept P ds ds'"
  unfolding ops_fpa_tap_if_create_def
  by (auto simp: ops_fpa_dev_mutex_lock_def ops_fpa_dev_mutex_unlock_def Let_def
      split: if_splits option.splits sum.splits prod.splits)

lemma tap_delete_kept:
  "ops_fpa_tap_if_delete E sid fd ds os = Inr (rc, ds', os') \<Longrightarrow> dev_kept P ds ds'"
  unfolding ops_fpa_tap_if_delete_def
  by (auto simp: ops_fpa_dev_mutex_lock_def ops_fpa_dev_mutex_unlock_def Let_def
      split: if_splits option.splits sum.splits prod.splits)

lemma run_kept:
  assumes "ops_fpa_ofproto_run B this new_seq expired ds = Inr (ret, this', ds')"
  shows "dev_kept (be_ml B) ds ds'" and "pr_name this' = pr_name this" and "pr_type this' = pr_type this"
  using assms
  by (auto simp: ops_fpa_ofproto_run_def Let_def split: if_splits sum.splits option.splits
      intro!: dev_kept_put_ml intro: ml_reach.timer)

lemma flush_dev_kept: "flush_dev B ds = Inr ds' \<Longrightarrow> dev_kept (be_ml B) ds ds'"
  by (auto simp: flush_dev_def split: sum.splits elim!: map_sum_eq_InrE intro!: dev_kept_put_ml intro: ml_reach.flush)

lemma flush_all_kept: "flush_all B ps ds = Inr ds' \<Longrightarrow> dev_kept (be_ml B) ds ds'"
  by (induction ps arbitrary: ds) (auto split: sum.splits intro: dev_kept_trans [OF flush_dev_kept])

lemma configure_aging_kept:
  "fpa_unixctl_fdb_configure_aging B name age protos ds = Inr (reply, ds') \<Longrightarrow> dev_kept (be_ml B) ds ds'"
  unfolding fpa_unixctl_fdb_configure_aging_def Let_def
  by (auto split: option.splits sum.splits prod.splits if_splits intro!: dev_kept_put_ml intro: ml_reach.set_idle)

lemma call_kept:
  assumes "unixctl_call C cb argv protos c ds = Some (Inr (reply, ds'))"
  shows "dev_kept (be_ml (ce_bridge C)) ds ds'"
proof (cases cb)
  case CB_fdb_flush
  then show ?thesis using assms
    by (auto simp: fpa_unixctl_fdb_flush_def split: if_splits sum.splits option.splits elim!: map_sum_eq_InrE
        intro: flush_dev_kept flush_all_kept)
next
  case CB_fdb_configure_aging
  then show ?thesis using assms by (auto split: sum.splits option.splits intro: configure_aging_kept)
qed (use assms in \<open>auto split: sum.splits option.splits if_splits elim!: map_sum_eq_InrE\<close>)

section \<open>The invariant\<close>

text \<open>
  The map of bridges holds the open ones and those whose construction failed. Without a device there are none; otherwise
  every one of them has a reference. A failed construction is the first one, and MAC learning is then missing for good.
\<close>

definition life_inv :: "('hw, 'os, 'c) command_env \<Rightarrow> 'os life_state \<Rightarrow> bool" where
  "life_inv C l \<longleftrightarrow> mset (bs_protos (lf_sys l)) = mset (lf_open l) + mset (lf_freed l)
     \<and> length (lf_open l) < 2 ^ 32 - 1
     \<and> (case ds_dev (life_dev l) of
          None \<Rightarrow> lf_open l = [] \<and> lf_freed l = [] \<and> cs_commands (lf_cmds l) = [] \<and> \<not> cs_registered (lf_cmds l)
        | Some d \<Rightarrow> dv_switchId d = FPA_DEV_SWITCH_ID_DEFAULT
            \<and> dv_ref_cnt d = of_nat (length (lf_open l) + length (lf_freed l)) \<and> lf_open l @ lf_freed l \<noteq> []
            \<and> length (lf_freed l) = (if dv_ml d = None then 1 else 0) \<and> ml_good (be_ml (ce_bridge C)) (dv_ml d)
            \<and> cs_commands (lf_cmds l) = (if dv_ml d = None then [] else dev_commands)
                @ (if cs_registered (lf_cmds l) then bridge_commands else [])
            \<and> (lf_open l \<noteq> [] \<longrightarrow> cs_registered (lf_cmds l)))"

lemma life_inv_kept:
  assumes "life_inv C l" and "dev_kept (be_ml (ce_bridge C)) (life_dev l) ds"
  shows "life_inv C (put_dev ds os l)"
  using assms by (auto simp: life_inv_def put_dev_def dev_kept_def split: option.splits)

lemma mset_bridge_put: "n \<in># mset m \<Longrightarrow> mset (bridge_put n this m) = mset m - {#n#} + {#(fst n, this)#}"
  by (simp add: bridge_put_def hmap_insert_def hmap_remove_def)

lemma length_bridge_put: "n \<in> set m \<Longrightarrow> length (bridge_put n this m) = length m"
  using length_pos_if_in_set [of n m] by (simp add: bridge_put_def hmap_insert_def hmap_remove_def length_remove1)

lemma life_inv_update:
  assumes "life_inv C l" and n: "n \<in> set (lf_open l)"
  shows "life_inv C (update_bridge n this l)"
proof -
  have m: "mset (bs_protos (lf_sys l)) = mset (lf_open l) + mset (lf_freed l)" using assms(1) by (simp add: life_inv_def)
  have "mset (bridge_put n this (bs_protos (lf_sys l))) = mset (bridge_put n this (lf_open l)) + mset (lf_freed l)"
    using n by (simp add: mset_bridge_put m)
  moreover have "bridge_put n this (lf_open l) \<noteq> []" by (simp add: bridge_put_def hmap_insert_def)
  moreover have "lf_open l \<noteq> []" using n by auto
  ultimately show ?thesis
    using assms by (auto simp: life_inv_def update_bridge_def length_bridge_put split: option.splits)
qed

text \<open>Constructing a bridge opens the device, with or without MAC learning, or takes one more reference.\<close>

lemma construct_device_cases:
  assumes "ops_fpa_ofproto_construct B this s = Inr (err, this', s')"
  obtains d ml where "ds_dev (bs_dev s) = None" and "err = 0" and "ds_dev (bs_dev s') = Some d" and "dv_switchId d = FPA_DEV_SWITCH_ID_DEFAULT"
      and "dv_ref_cnt d = 1" and "dv_ml d = Some ml" and "ml_reach (be_ml B) ml"
  | d where "ds_dev (bs_dev s) = None" and "err \<noteq> 0" and "ds_dev (bs_dev s') = Some d" and "dv_switchId d = FPA_DEV_SWITCH_ID_DEFAULT"
      and "dv_ref_cnt d = 1" and "dv_ml d = None"
  | d where "ds_dev (bs_dev s) = Some d" and "err = 0" and "ds_dev (bs_dev s') = Some (d\<lparr>dv_ref_cnt := dv_ref_cnt d + 1\<rparr>)"
proof -
  obtain ds os where i: "ops_fpa_dev_init (be_os B) (be_ml B) (be_aging_set B) (be_learning_set B) (be_ml_plugin B)
      FPA_DEV_SWITCH_ID_DEFAULT (bs_dev s) (bs_os s) = Inr (err, ds, os)" and ds: "bs_dev s' = ds"
    using assms by (auto simp: ops_fpa_ofproto_construct_def Let_def split: sum.splits prod.splits)
  have nm: "\<not> ds_mutex (bs_dev s)" using i by (auto simp: ops_fpa_dev_init_def ops_fpa_dev_mutex_lock_def)
  show ?thesis
  proof (cases "ds_dev (bs_dev s)")
    case (Some d)
    then have "err = 0" "bs_dev s' = (bs_dev s)\<lparr>ds_dev := Some (d\<lparr>dv_ref_cnt := dv_ref_cnt d + 1\<rparr>)\<rparr>"
      using i [unfolded dev_init_again [OF Some nm]] ds by simp_all
    then show ?thesis by (intro that(3) [OF Some]) simp_all
  next
    case None
    obtain info e m where m: "ops_fpa_mac_learning_create (be_ml B) (be_aging_set B) (be_learning_set B) (be_ml_plugin B)
          (Some FPA_DEV_SWITCH_ID_DEFAULT) = Inr (e, m)"
      and d: "ds_dev ds = Some \<lparr>dv_switchId = FPA_DEV_SWITCH_ID_DEFAULT, dv_ref_cnt = 1, dv_tap_if_info = info,
          dv_ml = (if e = 0 then m else None)\<rparr>" and err: "err = (if e = 0 then 0 else EAGAIN)"
      using i None nm
      by (auto simp: ops_fpa_dev_init_def ops_fpa_dev_mutex_lock_def ops_fpa_dev_mutex_unlock_def Let_def
          split: if_splits sum.splits prod.splits)
    show ?thesis
    proof (cases "e = 0")
      case True
      then obtain ml where "m = Some ml" using m by (auto simp: ops_fpa_mac_learning_create_def Let_def split: if_splits)
      moreover from this have "ml_reach (be_ml B) ml" using ml_reach.create m True by blast
      ultimately show ?thesis using that(1) [OF None] True d err ds by auto
    next
      case False
      then show ?thesis using that(2) [OF None] d err ds by auto
    qed
  qed
qed

lemma life_inv_construct:
  assumes inv: "life_inv C l" and c: "ops_fpa_ofproto_construct (ce_bridge C) this (lf_sys l) = Inr (err, this', s')"
    and len: "err = 0 \<Longrightarrow> length (lf_open l) < 2 ^ 32 - 2"
  shows "err = 0 \<Longrightarrow> life_inv C (l\<lparr>lf_sys := s', lf_open := hmap_insert (lf_open l) (be_hash_string (ce_bridge C) (pr_name this)) this',
      lf_cmds := construct_commands (life_dev l) 0 (lf_cmds l)\<rparr>)"
    and "err \<noteq> 0 \<Longrightarrow> life_inv C (l\<lparr>lf_sys := s', lf_freed := hmap_insert (lf_freed l) (be_hash_string (ce_bridge C) (pr_name this)) this',
      lf_cmds := construct_commands (life_dev l) err (lf_cmds l)\<rparr>)"
proof -
  have p: "bs_protos s' = hmap_insert (bs_protos (lf_sys l)) (be_hash_string (ce_bridge C) (pr_name this)) this'"
    using construct_registers [OF c] by (simp add: bridge_add_def)
  show "life_inv C (l\<lparr>lf_sys := s', lf_open := hmap_insert (lf_open l) (be_hash_string (ce_bridge C) (pr_name this)) this',
      lf_cmds := construct_commands (life_dev l) 0 (lf_cmds l)\<rparr>)" if "err = 0"
    using c
  proof (cases rule: construct_device_cases)
    case (1 d ml)
    then show ?thesis using inv p by (simp add: life_inv_def construct_commands_cases hmap_insert_def ml_good_def)
  next
    case (3 d)
    then show ?thesis using inv p len by (auto simp: life_inv_def construct_commands_cases hmap_insert_def ml_good_def)
  qed (use that in simp)
  show "life_inv C (l\<lparr>lf_sys := s', lf_freed := hmap_insert (lf_freed l) (be_hash_string (ce_bridge C) (pr_name this)) this',
      lf_cmds := construct_commands (life_dev l) err (lf_cmds l)\<rparr>)" if "err \<noteq> 0"
    using c
  proof (cases rule: construct_device_cases)
    case (2 d)
    then show ?thesis using inv p by (simp add: life_inv_def construct_commands_cases hmap_insert_def ml_good_def)
  qed (use that in simp_all)
qed

text \<open>Destructing a bridge drops its reference, unless the mutex is held or it is the last one.\<close>

lemma destruct_eq:
  assumes inv: "life_inv C l" and n: "n \<in> set (lf_open l)"
  shows "\<exists>d. ds_dev (life_dev l) = Some d \<and> ops_fpa_ofproto_destruct (ce_bridge C) n (lf_sys l) =
    (if ds_mutex (life_dev l) then Some (Inl Self_Deadlock)
     else if lf_open l = [n] \<and> lf_freed l = [] then None
     else Some (Inr ((lf_sys l)\<lparr>bs_protos := hmap_remove (bs_protos (lf_sys l)) n,
       bs_dev := (life_dev l)\<lparr>ds_dev := Some (d\<lparr>dv_ref_cnt := dv_ref_cnt d - 1\<rparr>)\<rparr>\<rparr>)))"
proof -
  let ?k = "length (lf_open l) + length (lf_freed l)"
  obtain d where d: "ds_dev (life_dev l) = Some d" using inv n by (auto simp: life_inv_def split: option.splits)
  then have i: "dv_switchId d = FPA_DEV_SWITCH_ID_DEFAULT" "dv_ref_cnt d = of_nat ?k"
      "length (lf_freed l) = (if dv_ml d = None then 1 else 0)" "length (lf_open l) < 2 ^ 32 - 1" "ml_good (be_ml (ce_bridge C)) (dv_ml d)"
    using inv by (simp_all add: life_inv_def)
  have k: "?k < 2 ^ 32" "0 < length (lf_open l)" using i(3,4) n by (auto split: if_splits)
  have "unat (of_nat ?k :: u32) = ?k" using k(1) by (subst unat_of_nat) simp
  then have last: "dv_ref_cnt d = 1 \<longleftrightarrow> ?k = 1" unfolding i(2) by (metis of_nat_1 unsigned_1)
  have one: "?k = 1 \<longleftrightarrow> lf_open l = [n] \<and> lf_freed l = []"
  proof
    assume "?k = 1"
    then have "length (lf_open l) = 1 \<and> length (lf_freed l) = 0" using k(2) by linarith
    then show "lf_open l = [n] \<and> lf_freed l = []" using n by (auto simp: length_Suc_conv)
  qed simp
  show ?thesis
  proof (cases "ds_mutex (life_dev l)")
    case True
    then show ?thesis by (simp add: ops_fpa_ofproto_destruct_def ops_fpa_dev_deinit_def ops_fpa_dev_mutex_lock_def d)
  next
    case m: False
    show ?thesis
    proof (cases "?k = 1")
      case True
      then obtain ml where ml: "dv_ml d = Some ml" "ml_ref_cnt ml = 1"
        using one i(3,5) ml_reach_ref by (fastforce simp: ml_good_def split: if_splits)
      have "ops_fpa_dev_deinit (be_os (ce_bridge C)) (dv_switchId d) (life_dev l) (bs_os (lf_sys l)) = None"
        by (rule dev_deinit_last(1) [OF d m _ ml]) (use last True in simp)
      then show ?thesis using True one m d i(1) by (simp add: ops_fpa_ofproto_destruct_def)
    next
      case False
      have "ops_fpa_dev_deinit (be_os (ce_bridge C)) (dv_switchId d) (life_dev l) (bs_os (lf_sys l)) =
          Some (Inr ((life_dev l)\<lparr>ds_dev := Some (d\<lparr>dv_ref_cnt := dv_ref_cnt d - 1\<rparr>)\<rparr>, bs_os (lf_sys l)))"
        by (rule dev_deinit_shared [OF d m]) (use last False in simp)
      then show ?thesis using False one m d i(1) by (auto simp: ops_fpa_ofproto_destruct_def)
    qed
  qed
qed

lemma life_inv_destruct:
  assumes inv: "life_inv C l" and n: "n \<in> set (lf_open l)"
    and c: "ops_fpa_ofproto_destruct (ce_bridge C) n (lf_sys l) = Some (Inr s')"
  shows "life_inv C (l\<lparr>lf_sys := s', lf_open := hmap_remove (lf_open l) n\<rparr>)"
proof -
  define open_rest where "open_rest = remove1 n (lf_open l)"
  obtain d where d: "ds_dev (life_dev l) = Some d" and more: "\<not> (lf_open l = [n] \<and> lf_freed l = [])"
    and s': "s' = (lf_sys l)\<lparr>bs_protos := hmap_remove (bs_protos (lf_sys l)) n,
       bs_dev := (life_dev l)\<lparr>ds_dev := Some (d\<lparr>dv_ref_cnt := dv_ref_cnt d - 1\<rparr>)\<rparr>\<rparr>"
    using destruct_eq [OF inv n] c by (auto split: if_splits)
  have len: "length (lf_open l) = Suc (length open_rest)" using length_pos_if_in_set [OF n] n by (simp add: open_rest_def length_remove1)
  have ne: "lf_open l \<noteq> []" using n by auto
  have m: "mset (lf_open l) = add_mset n (mset open_rest)" using n by (simp add: open_rest_def)
  have "open_rest @ lf_freed l \<noteq> []"
  proof
    assume "open_rest @ lf_freed l = []"
    then have "length (lf_open l) = 1" "lf_freed l = []" using len by simp_all
    then show False using more n by (auto simp: length_Suc_conv)
  qed
  then show ?thesis
    using inv d s' unfolding life_inv_def hmap_remove_def open_rest_def [symmetric] by (simp add: len m ne)
qed

lemma life_reach_life_inv:
  assumes "life_reach C l"
  shows "life_inv C l"
  using assms
proof induction
  case (init os)
  show ?case by (simp add: life_inv_def life_init_def)
next
  case (step l l')
  from step(2) step.IH show ?case
  proof cases
    case (construct this this' s')
    then show ?thesis using life_inv_construct(1) [OF step.IH construct(2)] by simp
  next
    case (construct_fails this err this' s')
    then show ?thesis using life_inv_construct(2) [OF step.IH construct_fails(2)] by simp
  next
    case (destruct n s')
    then show ?thesis using life_inv_destruct [OF step.IH] by simp
  next
    case (change n this)
    then show ?thesis using life_inv_update [OF step.IH] by simp
  next
    case (run n new_seq expired ret this ds)
    have "dev_kept (be_ml (ce_bridge C)) (life_dev (update_bridge n this l)) ds"
      using run_kept(1) [OF run(3)] by (simp add: update_bridge_def)
    then show ?thesis using life_inv_kept [OF life_inv_update [OF step.IH run(2)]] run(1) by simp
  next
    case (events ml msgs ml')
    then show ?thesis
      using life_inv_kept [OF step.IH dev_kept_put_ml [OF events(2)]] by (auto intro: ml_reach.events)
  next
    case (tap_create sid port name mac rc fd ds os)
    then show ?thesis using life_inv_kept [OF step.IH tap_create_kept] by simp
  next
    case (tap_delete sid fd rc ds os)
    then show ?thesis using life_inv_kept [OF step.IH tap_delete_kept] by simp
  next
    case (command cmd argv c reply ds)
    then show ?thesis using life_inv_kept [OF step.IH call_kept] by simp
  qed
qed

lemma life_reach_ml:
  assumes "ml_params_ok (be_ml (ce_bridge C))" and "life_reach C l" and "dev_ml (life_dev l) = Inr ml"
  shows "ml_inv (be_ml (ce_bridge C)) ml"
  using life_reach_life_inv [OF assms(2)] assms(3) ml_reach_ml_inv [OF assms(1)]
  by (auto simp: life_inv_def dev_ml_def ml_good_def bind_eq_Some_conv split: option.splits)

lemma life_dev_ml:
  assumes "life_reach C l"
  shows "(\<exists>ml. dev_ml (life_dev l) = Inr ml) \<longleftrightarrow> lf_open l \<noteq> [] \<and> lf_freed l = []"
  using life_reach_life_inv [OF assms] by (auto simp: life_inv_def dev_ml_def bind_eq_Some_conv split: option.splits if_splits)

section \<open>Properties\<close>

lemma life_reach_refcount:
  assumes "life_reach C l"
  shows "mset (bs_protos (lf_sys l)) = mset (lf_open l) + mset (lf_freed l) \<and> length (lf_freed l) \<le> 1
    \<and> (case ds_dev (life_dev l) of
         None \<Rightarrow> lf_open l = [] \<and> lf_freed l = []
       | Some d \<Rightarrow> lf_open l @ lf_freed l \<noteq> [] \<and> unat (dv_ref_cnt d) = length (lf_open l) + length (lf_freed l)
           \<and> (dv_ml d = None \<longleftrightarrow> lf_freed l \<noteq> []))"
proof -
  have i: "life_inv C l" by (rule life_reach_life_inv [OF assms])
  show ?thesis
  proof (cases "ds_dev (life_dev l)")
    case (Some d)
    let ?k = "length (lf_open l) + length (lf_freed l)"
    have "?k < 2 ^ 32" using i Some by (auto simp: life_inv_def split: if_splits)
    then have "unat (of_nat ?k :: u32) = ?k" by (subst unat_of_nat) simp
    then show ?thesis using i Some by (auto simp: life_inv_def split: if_splits)
  qed (use i in \<open>auto simp: life_inv_def\<close>)
qed

text \<open>(C6) The device lives as long as the bridges that count on it. In every reachable state, whatever was constructed,
  changed, run and destructed and whatever interfaces, events and commands there were in between: the map of bridges holds exactly the open
  bridges and those whose construction failed; the device exists exactly when there is one of either kind, and counts
  them; at most one construction has failed, and exactly then the device has no MAC learning.\<close>

theorem device_refcount:
  assumes "life_reach C l"
  shows "mset (bs_protos (lf_sys l)) = mset (lf_open l) + mset (lf_freed l) \<and> length (lf_freed l) \<le> 1
    \<and> (case ds_dev (life_dev l) of
         None \<Rightarrow> lf_open l = [] \<and> lf_freed l = []
       | Some d \<Rightarrow> lf_open l @ lf_freed l \<noteq> [] \<and> unat (dv_ref_cnt d) = length (lf_open l) + length (lf_freed l)
           \<and> (dv_ml d = None \<longleftrightarrow> lf_freed l \<noteq> []))"
  by (rule life_reach_refcount [OF assms])

text \<open>(C27) Destructing a bridge returns unless it is the last. In every reachable state in which no error has left the device
  mutex locked, destructing an open bridge takes it out of the map and drops one reference, if another bridge is open or the
  first construction had failed; otherwise it never returns.\<close>

theorem bridge_destruct_returns:
  assumes "life_reach C l" and "n \<in> set (lf_open l)" and "\<not> ds_mutex (life_dev l)"
  shows "if lf_open l = [n] \<and> lf_freed l = [] then ops_fpa_ofproto_destruct (ce_bridge C) n (lf_sys l) = None
    else \<exists>d s'. ds_dev (life_dev l) = Some d \<and> ops_fpa_ofproto_destruct (ce_bridge C) n (lf_sys l) = Some (Inr s')
      \<and> bs_protos s' = hmap_remove (bs_protos (lf_sys l)) n \<and> bs_os s' = bs_os (lf_sys l)
      \<and> bs_dev s' = (life_dev l)\<lparr>ds_dev := Some (d\<lparr>dv_ref_cnt := dv_ref_cnt d - 1\<rparr>)\<rparr>"
  using destruct_eq [OF life_reach_life_inv [OF assms(1)] assms(2)] assms(3) by auto

text \<open>(C28) Running a bridge crashes in one case only. In every reachable state, running an open bridge dereferences a null
  pointer if it is the default bridge and the first construction of a bridge had failed; in all other cases it returns 0.\<close>

theorem bridge_run_crashes:
  assumes "life_reach C l" and "n \<in> set (lf_open l)"
  shows "if lf_freed l \<noteq> [] \<and> pr_type (snd n) = ''system'' \<and> pr_name (snd n) = be_DEFAULT_BRIDGE_NAME (ce_bridge C)
    then ops_fpa_ofproto_run (ce_bridge C) (snd n) new_seq expired (life_dev l) = Inl Null_Deref
    else \<exists>this ds. ops_fpa_ofproto_run (ce_bridge C) (snd n) new_seq expired (life_dev l) = Inr (0, this, ds)"
proof -
  have n: "lf_open l \<noteq> []" using assms(2) by auto
  have "dev_ml (life_dev l) = Inl Null_Deref \<longleftrightarrow> lf_freed l \<noteq> []"
    using life_dev_ml [OF assms(1)] n by (cases "dev_ml (life_dev l)") (auto simp: dev_ml_def split: option.splits)
  then show ?thesis
    by (cases "dev_ml (life_dev l)") (auto simp: ops_fpa_ofproto_run_def STR_EQ_def Let_def dev_ml_def split: option.splits)
qed

text \<open>(C29) The commands and the life of the bridges. In every reachable state the FDB commands are registered if a bridge is
  open, and the commands on flow tables are registered once a bridge was constructed without an earlier failure. A registered command that is called with
  an allowed number of arguments crashes in three cases only: an FDB command after the first construction had failed, the flush of an FDB
  with an entry of a port that does not exist, and a negative number of a flow table.\<close>

theorem command_crashes:
  assumes "life_reach C l" and "ml_params_ok (be_ml (ce_bridge C))" and "FPA_FLOW_TABLE_MAX (ce_tables C) \<le> 2 ^ 31"
  shows "(lf_open l \<noteq> [] \<longrightarrow> set bridge_commands \<subseteq> set (cs_commands (lf_cmds l))
        \<and> (set dev_commands \<subseteq> set (cs_commands (lf_cmds l)) \<longleftrightarrow> lf_freed l = []))
    \<and> (cmd \<in> set (cs_commands (lf_cmds l)) \<and> accepts cmd argv
        \<and> unixctl_call C (uc_cb cmd) argv (bs_protos (lf_sys l)) c (life_dev l) = Some (Inl cr) \<longrightarrow>
       (case uc_cb cmd of
          CB_flow_table_list \<Rightarrow> False
        | CB_group_table_show \<Rightarrow> False
        | CB_flow_table_show \<Rightarrow> (\<exists>tid. ops_fpa_str2int (Some (argv ! 2)) = Some tid \<and> tid < 0)
        | CB_fdb_flush \<Rightarrow> lf_freed l \<noteq> []
            \<or> (\<exists>ml. dev_ml (life_dev l) = Inr ml \<and> (\<exists>e \<in> set (ml_table ml). be_port_name (ce_bridge C) (fm_portNum (snd e)) = None))
        | _ \<Rightarrow> lf_freed l \<noteq> []))"
proof -
  have inv: "life_inv C l" by (rule life_reach_life_inv [OF assms(1)])
  have d: "\<not> set dev_commands \<subseteq> set bridge_commands" by (simp add: command_defs)
  have sub: "set (cs_commands (lf_cmds l)) \<subseteq> set (dev_commands @ bridge_commands)"
    using inv by (auto simp: life_inv_def split: option.splits if_splits)
  have open_or: "lf_freed l \<noteq> [] \<or> (\<exists>ml. dev_ml (life_dev l) = Inr ml)" if "cs_commands (lf_cmds l) \<noteq> []"
    using inv that by (auto simp: life_inv_def dev_ml_def bind_eq_Some_conv split: option.splits if_splits)
  have reg: "lf_open l \<noteq> [] \<longrightarrow> set bridge_commands \<subseteq> set (cs_commands (lf_cmds l))
        \<and> (set dev_commands \<subseteq> set (cs_commands (lf_cmds l)) \<longleftrightarrow> lf_freed l = [])"
    using inv d by (auto simp: life_inv_def split: option.splits if_splits)
  have "command_crash C (uc_cb cmd) argv (life_dev l)"
    if "cmd \<in> set (cs_commands (lf_cmds l))" "accepts cmd argv"
      "unixctl_call C (uc_cb cmd) argv (bs_protos (lf_sys l)) c (life_dev l) = Some (Inl cr)"
    using registered_call_crash [OF assms(2) life_reach_ml [OF assms(2,1)] assms(3) _ that(2,3)] that(1) sub by blast
  note crash = this
  show ?thesis
  proof (rule conjI [OF reg], rule impI, elim conjE)
    assume a: "cmd \<in> set (cs_commands (lf_cmds l))" "accepts cmd argv"
      "unixctl_call C (uc_cb cmd) argv (bs_protos (lf_sys l)) c (life_dev l) = Some (Inl cr)"
    have "cs_commands (lf_cmds l) \<noteq> []" using a(1) by auto
    with crash [OF a] open_or show "case uc_cb cmd of
          CB_flow_table_list \<Rightarrow> False
        | CB_group_table_show \<Rightarrow> False
        | CB_flow_table_show \<Rightarrow> (\<exists>tid. ops_fpa_str2int (Some (argv ! 2)) = Some tid \<and> tid < 0)
        | CB_fdb_flush \<Rightarrow> lf_freed l \<noteq> []
            \<or> (\<exists>ml. dev_ml (life_dev l) = Inr ml \<and> (\<exists>e \<in> set (ml_table ml). be_port_name (ce_bridge C) (fm_portNum (snd e)) = None))
        | _ \<Rightarrow> lf_freed l \<noteq> []"
      unfolding command_crash_def by (cases "uc_cb cmd"; cases "dev_ml (life_dev l)"; simp)
  qed
qed

section \<open>A run\<close>

definition sample_commands :: "fpa_status \<Rightarrow> (sim, nat, bool) command_env" where
  "sample_commands status = \<lparr>ce_bridge = sample_bridges status, ce_lib = sim_lib {} False, ce_tables = sample_numbers,
     ce_get_next = sample_next, ce_eth_fmt = fmt_eth\<rparr>"

lemma sample_commands_simps [simp]: "ce_bridge (sample_commands status) = sample_bridges status" "ce_tables (sample_commands status) = sample_numbers"
  by (simp_all add: sample_commands_def)

lemma life_reach_construct:
  assumes "life_reach C l" and "ops_fpa_ofproto_construct (ce_bridge C) this (lf_sys l) = Inr (err, this', s')" and "length (lf_open l) < 2 ^ 32 - 2"
  shows "\<exists>l'. life_reach C l' \<and> lf_sys l' = s' \<and> lf_cmds l' = construct_commands (life_dev l) err (lf_cmds l)
    \<and> lf_open l' = (if err = 0 then hmap_insert (lf_open l) (be_hash_string (ce_bridge C) (pr_name this)) this' else lf_open l)
    \<and> lf_freed l' = (if err = 0 then lf_freed l else hmap_insert (lf_freed l) (be_hash_string (ce_bridge C) (pr_name this)) this')"
proof (cases "err = 0")
  case True
  then show ?thesis
    using life_reach.step [OF assms(1) life_step.construct [OF _ assms(3)]] assms(2) by fastforce
next
  case False
  then show ?thesis
    using life_reach.step [OF assms(1) life_step.construct_fails [OF assms(2)]] by fastforce
qed

text \<open>One bridge is open; and the default bridge is open after the first construction of a bridge had failed.\<close>

lemma sample_life_one:
  "\<exists>l n. life_reach (sample_commands FPA_OK) l \<and> lf_open l = [n] \<and> lf_freed l = [] \<and> \<not> ds_mutex (life_dev l)"
proof -
  let ?C = "sample_commands FPA_OK" and ?l = "life_init (0 :: nat)"
  have p: "tap_init_pipes sample_os 2 [] 0 = (Some [(0, 1), (2, 3)], 4)" by (simp add: numeral_2_eq_2 sample_os_def)
  obtain this' s' where c: "ops_fpa_ofproto_construct (ce_bridge ?C) (sample_bridge ''br'') (lf_sys ?l) = Inr (0, this', s')"
      "\<not> ds_mutex (bs_dev s')"
    by (simp add: ops_fpa_ofproto_construct_def sample_bridges_def sample_bridge_def life_init_def dev_init_defs p)
  have o: "lf_open ?l = []" "lf_freed ?l = []" by (simp_all add: life_init_def)
  from life_reach_construct [OF life_reach.init c(1)] c(2) show ?thesis by (auto simp: o hmap_insert_def)
qed

lemma sample_life_failed:
  "\<exists>l n m. life_reach (sample_commands FPA_FAIL) l \<and> lf_open l = [n] \<and> lf_freed l = [m] \<and> set (bs_protos (lf_sys l)) = {n, m}
    \<and> fst n = 0 \<and> pr_name (snd n) = ''bridge_normal'' \<and> pr_type (snd n) = ''system'' \<and> cs_commands (lf_cmds l) = bridge_commands"
proof -
  let ?C = "sample_commands FPA_FAIL" and ?p = "sample_bridge ''br''" and ?q = "sample_bridge ''bridge_normal''" and ?l = "life_init (0 :: nat)"
  have o: "lf_open ?l = []" "lf_freed ?l = []" "lf_cmds ?l = \<lparr>cs_commands = [], cs_registered = False\<rparr>" "bs_protos (lf_sys ?l) = []"
    and h: "be_hash_string (sample_bridges st) x = 0" for st x
    by (simp_all add: life_init_def sample_bridges_def)
  obtain p1 s1 p2 s2 where c1: "ops_fpa_ofproto_construct (ce_bridge ?C) ?p (lf_sys ?l) = Inr (EAGAIN, p1, s1)"
      and c2: "ops_fpa_ofproto_construct (ce_bridge ?C) ?q s1 = Inr (0, p2, s2)"
  proof -
    have "\<exists>p1 s1 p2 s2. ops_fpa_ofproto_construct (ce_bridge ?C) ?p (lf_sys ?l) = Inr (EAGAIN, p1, s1)
        \<and> ops_fpa_ofproto_construct (ce_bridge ?C) ?q s1 = Inr (0, p2, s2)
        \<and> ops_fpa_ofproto_run (ce_bridge ?C) p2 1 False (bs_dev s2) = Inl Null_Deref"
      by (rule bridge_without_ml_crashes) (simp_all add: sample_bridges_def life_init_def sample_bridge_def)
    with that show thesis by blast
  qed
  from life_reach_construct [OF life_reach.init c1] o obtain l1 where
    l1: "life_reach ?C l1" "lf_sys l1 = s1" "lf_open l1 = []" "lf_freed l1 = [(0, p1)]" "lf_cmds l1 = \<lparr>cs_commands = [], cs_registered = False\<rparr>"
    by (auto simp: hmap_insert_def construct_commands_def h)
  have c2': "ops_fpa_ofproto_construct (ce_bridge ?C) ?q (lf_sys l1) = Inr (0, p2, s2)" using c2 l1(2) by simp
  have "ds_dev (bs_dev s1) \<noteq> None" using c1 by (cases rule: construct_device_cases) auto
  then obtain l2 where l2: "life_reach ?C l2" "lf_sys l2 = s2" "lf_open l2 = [(0, p2)]" "lf_freed l2 = [(0, p1)]"
      "cs_commands (lf_cmds l2) = bridge_commands"
    using life_reach_construct [OF l1(1) c2'] l1(2-) by (auto simp: hmap_insert_def construct_commands_cases h)
  moreover have "set (bs_protos s2) = {(0, p2), (0, p1)}"
    using construct_registers [OF c2] construct_registers [OF c1] o(4) by (simp add: bridge_add_def hmap_simps h)
  ultimately show ?thesis
    using construct_registers [OF c2] by (intro exI [of _ l2] exI [of _ "(0, p2)"] exI [of _ "(0, p1)"]) (simp add: sample_bridge_def)
qed

theorem device_refcount_witness:
  "\<exists>l d. life_reach (sample_commands FPA_OK) l \<and> length (lf_open l) = 1 \<and> ds_dev (life_dev l) = Some d \<and> unat (dv_ref_cnt d) = 1"
proof -
  obtain l n where l: "life_reach (sample_commands FPA_OK) l" "lf_open l = [n]" "lf_freed l = []" using sample_life_one by blast
  with device_refcount [OF l(1)] show ?thesis by (auto split: option.splits)
qed

theorem bridge_destruct_returns_witness:
  "\<exists>l n. life_reach (sample_commands FPA_OK) l \<and> ops_fpa_ofproto_destruct (sample_bridges FPA_OK) n (lf_sys l) = None"
proof -
  obtain l n where l: "life_reach (sample_commands FPA_OK) l" "lf_open l = [n]" "lf_freed l = []" "\<not> ds_mutex (life_dev l)"
    using sample_life_one by blast
  with bridge_destruct_returns [OF l(1) _ l(4), of n] show ?thesis by (intro exI [of _ l] exI [of _ n]) simp
qed

theorem bridge_run_crashes_witness:
  "\<exists>l n. life_reach (sample_commands FPA_FAIL) l \<and> n \<in> set (lf_open l)
    \<and> ops_fpa_ofproto_run (sample_bridges FPA_FAIL) (snd n) 1 False (life_dev l) = Inl Null_Deref"
proof -
  obtain l n m where l: "life_reach (sample_commands FPA_FAIL) l" "lf_open l = [n]" "lf_freed l = [m]"
      "pr_name (snd n) = ''bridge_normal''" "pr_type (snd n) = ''system''" using sample_life_failed by blast
  have "be_DEFAULT_BRIDGE_NAME (sample_bridges FPA_FAIL) = ''bridge_normal''" by (simp add: sample_bridges_def)
  with bridge_run_crashes [OF l(1), of n 1 False] l show ?thesis by (intro exI [of _ l] exI [of _ n]) simp
qed

theorem command_crashes_witness:
  "\<exists>l cmd. life_reach (sample_commands FPA_FAIL) l \<and> cmd \<in> set (cs_commands (lf_cmds l)) \<and> uc_cb cmd = CB_fdb_get_aging
    \<and> unixctl_call (sample_commands FPA_FAIL) CB_fdb_get_aging [''fpa/fdb/get-age'', ''bridge_normal''] (bs_protos (lf_sys l)) False (life_dev l)
        = Some (Inl Null_Deref)
    \<and> lf_freed l \<noteq> []"
proof -
  let ?C = "sample_commands FPA_FAIL" and ?argv = "[''fpa/fdb/get-age'', ''bridge_normal'']"
  obtain l n m where l: "life_reach ?C l" "lf_open l = [n]" "lf_freed l = [m]" "set (bs_protos (lf_sys l)) = {n, m}"
      "fst n = 0" "pr_name (snd n) = ''bridge_normal''" "cs_commands (lf_cmds l) = bridge_commands" using sample_life_failed by blast
  define cmd where "cmd = \<lparr>uc_name = ''fpa/fdb/get-age'', uc_usage = ''bridge'', uc_min_args = 1, uc_max_args = 1, uc_cb = CB_fdb_get_aging\<rparr>"
  have cmd: "cmd \<in> set bridge_commands" "uc_cb cmd = CB_fdb_get_aging" "accepts cmd ?argv"
    by (simp_all add: cmd_def command_defs accepts_def)
  have "dev_ml (life_dev l) = Inl Null_Deref"
    using life_dev_ml [OF l(1)] l(3) by (auto simp: dev_ml_def split: option.splits)
  moreover have "ops_fpa_ofproto_lookup (ce_bridge ?C) (bs_protos (lf_sys l)) ''bridge_normal'' \<noteq> None"
    using l(4-6) by (cases n) (auto simp: ops_fpa_ofproto_lookup_def hmap_search_hash_def sample_bridges_def STR_EQ_def find_None_iff)
  ultimately have c: "unixctl_call ?C (uc_cb cmd) ?argv (bs_protos (lf_sys l)) False (life_dev l) = Some (Inl Null_Deref)"
    by (auto simp: cmd(2) argv_at_def fpa_unixctl_fdb_get_aging_def)
  have "ml_params_ok (be_ml (ce_bridge ?C))" "FPA_FLOW_TABLE_MAX (ce_tables ?C) \<le> 2 ^ 31"
    by (simp_all add: sample_bridges_def sample_params_ok sample_numbers_def)
  from command_crashes [OF l(1) this, of cmd ?argv False Null_Deref] c cmd l(7) have "lf_freed l \<noteq> []" by simp
  with c cmd(1,2) l(1,7) show ?thesis by (intro exI [of _ l] exI [of _ cmd]) simp
qed

end
