(* ===== verification/Fpa_OfprotoClass.thy ===== *)
theory Fpa_OfprotoClass
  imports Fpa_Life
begin

text \<open>
  The class table at the end of \<open>src/ops-fpa-ofproto.c\<close>, with which Open vSwitch finds the functions of the plugin, with the callbacks that
  do nothing. Every call through the table is a step of the transition system of \<open>Fpa_Plugin\<close>, and the calls that crash are known.
\<close>

section \<open>Callbacks that do nothing\<close>

text \<open>
  Functions that return nothing leave the bridge or the port they are given as it is. Those with a result have a fixed one; what the caller
  passed for further results stays as it was. Memory from \<open>xmalloc\<close> has any contents, here the argument.
\<close>

definition ops_fpa_ofproto_del :: "string \<Rightarrow> string \<Rightarrow> int" where
  "ops_fpa_ofproto_del typ name = 0"

definition ops_fpa_ofproto_type_run :: "string \<Rightarrow> int" where
  "ops_fpa_ofproto_type_run typ = 0"

definition ops_fpa_ofproto_type_wait :: "string \<Rightarrow> unit" where
  "ops_fpa_ofproto_type_wait typ = ()"

definition ops_fpa_ofproto_alloc :: "fpa_ofproto \<Rightarrow> fpa_ofproto" where
  "ops_fpa_ofproto_alloc contents = contents"

definition ops_fpa_ofproto_dealloc :: "nat \<Rightarrow> (nat \<Rightarrow> fpa_ofproto option) \<Rightarrow> nat \<Rightarrow> fpa_ofproto option" where
  "ops_fpa_ofproto_dealloc k P = P(k := None)"

definition ops_fpa_ofproto_wait :: "fpa_ofproto \<Rightarrow> fpa_ofproto" where
  "ops_fpa_ofproto_wait this = this"

definition ops_fpa_ofproto_get_memory_usage :: "fpa_ofproto \<Rightarrow> (string \<times> nat) list \<Rightarrow> (string \<times> nat) list" where
  "ops_fpa_ofproto_get_memory_usage this usage = usage"

definition ops_fpa_ofproto_type_get_memory_usage :: "string \<Rightarrow> (string \<times> nat) list \<Rightarrow> (string \<times> nat) list" where
  "ops_fpa_ofproto_type_get_memory_usage typ usage = usage"

definition ops_fpa_ofproto_flush :: "fpa_ofproto \<Rightarrow> fpa_ofproto" where
  "ops_fpa_ofproto_flush this = this"

definition ops_fpa_ofproto_query_tables :: "fpa_ofproto \<Rightarrow> 'f \<Rightarrow> 's \<Rightarrow> 'f \<times> 's" where
  "ops_fpa_ofproto_query_tables this features stats = (features, stats)"

definition ops_fpa_ofproto_set_tables_version :: "fpa_ofproto \<Rightarrow> u64 \<Rightarrow> fpa_ofproto" where
  "ops_fpa_ofproto_set_tables_version this version = this"

definition ops_fpa_ofproto_port_alloc :: "fpa_ofport \<Rightarrow> fpa_ofport" where
  "ops_fpa_ofproto_port_alloc contents = contents"

definition ops_fpa_ofproto_port_destruct :: "fpa_ofport \<Rightarrow> fpa_ofport" where
  "ops_fpa_ofproto_port_destruct p = p"

definition ops_fpa_ofproto_port_modified :: "fpa_ofport \<Rightarrow> fpa_ofport" where
  "ops_fpa_ofproto_port_modified p = p"

definition ops_fpa_ofproto_port_reconfigured :: "fpa_ofport \<Rightarrow> u32 \<Rightarrow> fpa_ofport" where
  "ops_fpa_ofproto_port_reconfigured p old_config = p"

definition ops_fpa_ofproto_port_get_stats :: "(netdev \<Rightarrow> int \<times> 's) \<Rightarrow> fpa_ofport \<Rightarrow> int \<times> 's" where
  "ops_fpa_ofproto_port_get_stats netdev_get_stats p = netdev_get_stats (op_netdev p)"

definition ops_fpa_ofproto_port_dump_done :: "port_iter \<Rightarrow> int" where
  "ops_fpa_ofproto_port_dump_done state = 0"

definition ops_fpa_ofproto_port_poll :: "string option \<Rightarrow> int \<times> string option" where
  "ops_fpa_ofproto_port_poll devname = (EAGAIN, devname)"

definition ops_fpa_ofproto_port_poll_wait :: "fpa_ofproto \<Rightarrow> fpa_ofproto" where
  "ops_fpa_ofproto_port_poll_wait this = this"

definition ops_fpa_ofproto_port_is_lacp_current :: "fpa_ofport \<Rightarrow> int" where
  "ops_fpa_ofproto_port_is_lacp_current p = 0"

definition ops_fpa_ofproto_port_get_lacp_stats :: "fpa_ofport \<Rightarrow> 's \<Rightarrow> int \<times> 's" where
  "ops_fpa_ofproto_port_get_lacp_stats p stats = (0, stats)"

text \<open>\<open>OFPERR_OFS\<close> is a constant of Open vSwitch.\<close>

definition ops_fpa_ofproto_rule_choose_table :: "int \<Rightarrow> fpa_ofproto \<Rightarrow> u8 \<Rightarrow> int \<times> u8" where
  "ops_fpa_ofproto_rule_choose_table OFPERR_OFS this table_id = (OFPERR_OFS, table_id)"

definition ops_fpa_rule_alloc :: "'r option" where
  "ops_fpa_rule_alloc = None"

definition ops_fpa_ofproto_bundle_remove :: "fpa_ofport \<Rightarrow> fpa_ofport" where
  "ops_fpa_ofproto_bundle_remove p = p"

definition ops_fpa_ofproto_bundle_get :: "int \<Rightarrow> int \<times> int" where
  "ops_fpa_ofproto_bundle_get bundle_handle = (0, bundle_handle)"

section \<open>The class\<close>

text \<open>
  The members in the order of the table; the last one lists the members that are null. Structures of Open vSwitch that the callbacks
  do not look into are lists of numbers.
\<close>

record ('hw, 'os) ofproto_class =
  oc_init :: "'hw plugin_state \<Rightarrow> 'hw plugin_state"
  oc_enumerate_types :: "string set \<Rightarrow> string set"
  oc_enumerate_names :: "fpa_ofproto hmap_order \<Rightarrow> fpa_ofproto hmap \<Rightarrow> string \<Rightarrow> string set \<Rightarrow> int \<times> string set"
  oc_del :: "string \<Rightarrow> string \<Rightarrow> int"
  oc_port_open_type :: "iface_type \<Rightarrow> iface_type"
  oc_type_run :: "string \<Rightarrow> int"
  oc_type_wait :: "string \<Rightarrow> unit"
  oc_alloc :: "fpa_ofproto \<Rightarrow> fpa_ofproto"
  oc_construct :: "'os bridge_env \<Rightarrow> fpa_ofproto \<Rightarrow> 'os bridge_state \<Rightarrow> crash + int \<times> fpa_ofproto \<times> 'os bridge_state"
  oc_destruct :: "'os bridge_env \<Rightarrow> u32 \<times> fpa_ofproto \<Rightarrow> 'os bridge_state \<Rightarrow> (crash + 'os bridge_state) option"
  oc_dealloc :: "nat \<Rightarrow> (nat \<Rightarrow> fpa_ofproto option) \<Rightarrow> nat \<Rightarrow> fpa_ofproto option"
  oc_run :: "'os bridge_env \<Rightarrow> fpa_ofproto \<Rightarrow> u64 \<Rightarrow> bool \<Rightarrow> dev_state \<Rightarrow> crash + int \<times> fpa_ofproto \<times> dev_state"
  oc_wait :: "fpa_ofproto \<Rightarrow> fpa_ofproto"
  oc_get_memory_usage :: "fpa_ofproto \<Rightarrow> (string \<times> nat) list \<Rightarrow> (string \<times> nat) list"
  oc_type_get_memory_usage :: "string \<Rightarrow> (string \<times> nat) list \<Rightarrow> (string \<times> nat) list"
  oc_flush :: "fpa_ofproto \<Rightarrow> fpa_ofproto"
  oc_query_tables :: "fpa_ofproto \<Rightarrow> u64 list \<Rightarrow> u64 list \<Rightarrow> u64 list \<times> u64 list"
  oc_set_tables_version :: "fpa_ofproto \<Rightarrow> u64 \<Rightarrow> fpa_ofproto"
  oc_port_alloc :: "fpa_ofport \<Rightarrow> fpa_ofport"
  oc_port_construct :: "fpa_ofport \<Rightarrow> int \<times> fpa_ofport"
  oc_port_destruct :: "fpa_ofport \<Rightarrow> fpa_ofport"
  oc_port_dealloc :: "nat \<Rightarrow> 'hw plugin_state \<Rightarrow> 'hw plugin_state"
  oc_port_modified :: "fpa_ofport \<Rightarrow> fpa_ofport"
  oc_port_reconfigured :: "fpa_ofport \<Rightarrow> u32 \<Rightarrow> fpa_ofport"
  oc_port_query_by_name :: "(string \<Rightarrow> iface_type option) \<Rightarrow> (string \<Rightarrow> u32 option) \<Rightarrow> fpa_ofproto \<Rightarrow> string
    \<Rightarrow> int + (string \<times> iface_type \<times> u32 option)"
  oc_port_add :: "fpa_ofproto \<Rightarrow> netdev \<Rightarrow> int \<times> fpa_ofproto"
  oc_port_del :: "fpa_ofproto \<Rightarrow> u32 \<Rightarrow> int \<times> fpa_ofproto"
  oc_port_get_stats :: "(netdev \<Rightarrow> int \<times> port_counters option) \<Rightarrow> fpa_ofport \<Rightarrow> int \<times> port_counters option"
  oc_port_dump_start :: "int \<times> port_iter"
  oc_port_dump_next :: "(string set \<Rightarrow> port_iter \<Rightarrow> (string \<times> port_iter) option) \<Rightarrow> (string \<Rightarrow> iface_type option) \<Rightarrow> (string \<Rightarrow> u32 option)
    \<Rightarrow> fpa_ofproto \<Rightarrow> port_iter \<Rightarrow> (int + string \<times> iface_type \<times> u32 option) \<times> port_iter"
  oc_port_dump_done :: "port_iter \<Rightarrow> int"
  oc_port_poll_wait :: "fpa_ofproto \<Rightarrow> fpa_ofproto"
  oc_port_is_lacp_current :: "fpa_ofport \<Rightarrow> int"
  oc_port_get_lacp_stats :: "fpa_ofport \<Rightarrow> u64 list \<Rightarrow> int \<times> u64 list"
  oc_rule_choose_table :: "int \<Rightarrow> fpa_ofproto \<Rightarrow> u8 \<Rightarrow> int \<times> u8"
  oc_rule_alloc :: "unit option"
  oc_bundle_set :: "'hw plugin_env \<Rightarrow> nat \<Rightarrow> bundle_settings option \<Rightarrow> fpa_ofproto \<Rightarrow> 'hw plugin_state
    \<Rightarrow> (crash + int \<times> fpa_ofproto \<times> 'hw plugin_state) option"
  oc_bundle_remove :: "fpa_ofport \<Rightarrow> fpa_ofport"
  oc_set_vlan :: "'hw plugin_env \<Rightarrow> u32 \<Rightarrow> bool \<Rightarrow> fpa_ofproto \<Rightarrow> 'hw plugin_state \<Rightarrow> (int \<times> fpa_ofproto \<times> 'hw plugin_state) option"
  oc_add_l3_host_entry :: "'hw plugin_env \<Rightarrow> fpa_ofproto \<Rightarrow> nat \<Rightarrow> bool \<Rightarrow> string \<Rightarrow> string option \<Rightarrow> u32 \<Rightarrow> 'hw plugin_state
    \<Rightarrow> crash + int \<times> u32 \<times> fpa_ofproto \<times> 'hw plugin_state"
  oc_delete_l3_host_entry :: "'hw plugin_env \<Rightarrow> fpa_ofproto \<Rightarrow> nat \<Rightarrow> bool \<Rightarrow> string \<Rightarrow> 'hw plugin_state
    \<Rightarrow> crash + int \<times> fpa_ofproto \<times> 'hw plugin_state"
  oc_get_l3_host_hit :: "'hw plugin_env \<Rightarrow> fpa_ofproto \<Rightarrow> bool \<Rightarrow> string \<Rightarrow> 'hw plugin_state \<Rightarrow> int + bool"
  oc_l3_route_action :: "'hw plugin_env \<Rightarrow> fpa_ofproto \<Rightarrow> route_action \<Rightarrow> ofproto_route \<Rightarrow> 'hw plugin_state \<Rightarrow> crash + int \<times> 'hw plugin_state"
  oc_null :: "string list"

definition ops_fpa_ofproto_class :: "('hw, 'os) ofproto_class" where
  "ops_fpa_ofproto_class = \<lparr>
     oc_init = ops_fpa_ofproto_init, oc_enumerate_types = ops_fpa_ofproto_enumerate_types,
     oc_enumerate_names = ops_fpa_ofproto_enumerate_names, oc_del = ops_fpa_ofproto_del,
     oc_port_open_type = ops_fpa_ofproto_port_open_type, oc_type_run = ops_fpa_ofproto_type_run,
     oc_type_wait = ops_fpa_ofproto_type_wait, oc_alloc = ops_fpa_ofproto_alloc, oc_construct = ops_fpa_ofproto_construct,
     oc_destruct = ops_fpa_ofproto_destruct, oc_dealloc = ops_fpa_ofproto_dealloc, oc_run = ops_fpa_ofproto_run,
     oc_wait = ops_fpa_ofproto_wait, oc_get_memory_usage = ops_fpa_ofproto_get_memory_usage,
     oc_type_get_memory_usage = ops_fpa_ofproto_type_get_memory_usage, oc_flush = ops_fpa_ofproto_flush,
     oc_query_tables = ops_fpa_ofproto_query_tables, oc_set_tables_version = ops_fpa_ofproto_set_tables_version,
     oc_port_alloc = ops_fpa_ofproto_port_alloc, oc_port_construct = ops_fpa_ofproto_port_construct,
     oc_port_destruct = ops_fpa_ofproto_port_destruct, oc_port_dealloc = ops_fpa_ofproto_port_dealloc,
     oc_port_modified = ops_fpa_ofproto_port_modified, oc_port_reconfigured = ops_fpa_ofproto_port_reconfigured,
     oc_port_query_by_name = ops_fpa_ofproto_port_query_by_name, oc_port_add = ops_fpa_ofproto_port_add,
     oc_port_del = ops_fpa_ofproto_port_del, oc_port_get_stats = ops_fpa_ofproto_port_get_stats,
     oc_port_dump_start = ops_fpa_ofproto_port_dump_start, oc_port_dump_next = ops_fpa_ofproto_port_dump_next,
     oc_port_dump_done = ops_fpa_ofproto_port_dump_done, oc_port_poll_wait = ops_fpa_ofproto_port_poll_wait,
     oc_port_is_lacp_current = ops_fpa_ofproto_port_is_lacp_current, oc_port_get_lacp_stats = ops_fpa_ofproto_port_get_lacp_stats,
     oc_rule_choose_table = ops_fpa_ofproto_rule_choose_table, oc_rule_alloc = ops_fpa_rule_alloc,
     oc_bundle_set = ops_fpa_ofproto_bundle_set, oc_bundle_remove = ops_fpa_ofproto_bundle_remove,
     oc_set_vlan = ops_fpa_ofproto_set_vlan, oc_add_l3_host_entry = add_l3_host_entry, oc_delete_l3_host_entry = delete_l3_host_entry,
     oc_get_l3_host_hit = get_l3_host_hit, oc_l3_route_action = l3_route_action,
     oc_null = [
       ''port_poll'', ''rule_construct'', ''rule_insert'', ''rule_delete'', ''rule_destruct'', ''rule_dealloc'', ''rule_get_stats'',
       ''rule_execute'', ''set_frag_handling'', ''packet_out'', ''set_netflow'', ''get_netflow_ids'', ''set_sflow'', ''set_ipfix'',
       ''set_cfm'', ''cfm_status_changed'', ''get_cfm_status'', ''set_lldp'', ''get_lldp_status'', ''set_aa'', ''aa_mapping_set'',
       ''aa_mapping_unset'', ''aa_vlan_get_queued'', ''aa_vlan_get_queue_size'', ''set_bfd'', ''bfd_status_changed'',
       ''get_bfd_status'', ''set_stp'', ''get_stp_status'', ''set_stp_port'', ''get_stp_port_status'', ''get_stp_port_stats'',
       ''set_rstp'', ''get_rstp_status'', ''set_rstp_port'', ''get_rstp_port_status'', ''set_queues'', ''bundle_get'', ''mirror_set'',
       ''mirror_get_stats'', ''set_flood_vlans'', ''is_mirror_output_bundle'', ''forward_bpdu_changed'', ''set_mac_table_config'',
       ''set_mcast_snooping'', ''set_mcast_snooping_port'', ''set_realdev'', ''meter_get_features'', ''meter_set'', ''meter_get'',
       ''meter_del'', ''group_alloc'', ''group_construct'', ''group_destruct'', ''group_dealloc'', ''group_modify'',
       ''group_get_stats'', ''get_datapath_version'', ''l3_ecmp_set'', ''l3_ecmp_hash_set'']\<rparr>"

text \<open>\<open>ofproto_register\<close> hands the class to Open vSwitch.\<close>

definition ofproto_register :: "('hw, 'os) ofproto_class list" where
  "ofproto_register = [ops_fpa_ofproto_class]"

section \<open>Calls through the class\<close>

text \<open>
  The calls of Open vSwitch on a bridge that exists: their result code, and what becomes of the bridge and the shared state. What a query answers
  beside its code is left out. A port that is constructed is put into the bridge's map of ports by Open vSwitch, at an address that was not in use.
\<close>

datatype ofproto_request =
    Flush
  | Wait
  | Set_Tables_Version u64
  | Port_Construct nat fpa_ofport
  | Port_Modified fpa_ofport
  | Port_Reconfigured fpa_ofport u32
  | Port_Destruct fpa_ofport
  | Port_Query "string \<Rightarrow> iface_type option" "string \<Rightarrow> u32 option" string
  | Port_Add netdev
  | Port_Del u32
  | Port_Is_Lacp_Current fpa_ofport
  | Bundle_Set nat "bundle_settings option"
  | Bundle_Remove fpa_ofport
  | Set_Vlan u32 bool
  | Add_Host nat bool string "string option" u32
  | Delete_Host nat bool string
  | Host_Hit bool string
  | Route route_action ofproto_route

fun ofproto_call ::
  "'hw plugin_env \<Rightarrow> ('hw, 'os) ofproto_class \<Rightarrow> ofproto_request \<Rightarrow> fpa_ofproto \<Rightarrow> 'hw plugin_state
    \<Rightarrow> (crash + int \<times> fpa_ofproto \<times> 'hw plugin_state) option" where
  "ofproto_call env C Flush this st = Some (Inr (0, oc_flush C this, st))"
| "ofproto_call env C Wait this st = Some (Inr (0, oc_wait C this, st))"
| "ofproto_call env C (Set_Tables_Version v) this st = Some (Inr (0, oc_set_tables_version C this v, st))"
| "ofproto_call env C (Port_Construct a p) this st =
     (let (ret, p) = oc_port_construct C p
      in Some (Inr (ret, this\<lparr>pr_ports := (pr_ports this)(op_ofp_port p \<mapsto> a)\<rparr>, st\<lparr>st_ports := (st_ports st)(a \<mapsto> p)\<rparr>)))"
| "ofproto_call env C (Port_Modified p) this st = (let p = oc_port_modified C p in Some (Inr (0, this, st)))"
| "ofproto_call env C (Port_Reconfigured p cfg) this st = (let p = oc_port_reconfigured C p cfg in Some (Inr (0, this, st)))"
| "ofproto_call env C (Port_Destruct p) this st = (let p = oc_port_destruct C p in Some (Inr (0, this, st)))"
| "ofproto_call env C (Port_Query typ_of by_name devname) this st =
     Some (Inr (case oc_port_query_by_name C typ_of by_name this devname of Inl err \<Rightarrow> err | Inr p \<Rightarrow> 0, this, st))"
| "ofproto_call env C (Port_Add dev) this st = (let (ret, this) = oc_port_add C this dev in Some (Inr (ret, this, st)))"
| "ofproto_call env C (Port_Del ofp_port) this st = (let (ret, this) = oc_port_del C this ofp_port in Some (Inr (ret, this, st)))"
| "ofproto_call env C (Port_Is_Lacp_Current p) this st = Some (Inr (oc_port_is_lacp_current C p, this, st))"
| "ofproto_call env C (Bundle_Set aux settings) this st = oc_bundle_set C env aux settings this st"
| "ofproto_call env C (Bundle_Remove p) this st = (let p = oc_bundle_remove C p in Some (Inr (0, this, st)))"
| "ofproto_call env C (Set_Vlan vid add) this st = map_option Inr (oc_set_vlan C env vid add this st)"
| "ofproto_call env C (Add_Host aux v6 ip mac e) this st =
     Some (map_sum id (\<lambda>(ret, e, this, st). (ret, this, st)) (oc_add_l3_host_entry C env this aux v6 ip mac e st))"
| "ofproto_call env C (Delete_Host aux v6 ip) this st = Some (oc_delete_l3_host_entry C env this aux v6 ip st)"
| "ofproto_call env C (Host_Hit v6 ip) this st =
     Some (Inr (case oc_get_l3_host_hit C env this v6 ip st of Inl err \<Rightarrow> err | Inr hit \<Rightarrow> 0, this, st))"
| "ofproto_call env C (Route action route) this st =
     Some (map_sum id (\<lambda>(ret, st). (ret, this, st)) (oc_l3_route_action C env this action route st))"

definition request_ok :: "ofproto_request \<Rightarrow> 'hw plugin_state \<Rightarrow> bool" where
  "request_ok req st \<longleftrightarrow> (case req of Port_Construct a p \<Rightarrow> st_ports st a = None | _ \<Rightarrow> True)"

lemmas stub_defs = ops_fpa_ofproto_flush_def ops_fpa_ofproto_wait_def ops_fpa_ofproto_set_tables_version_def ops_fpa_ofproto_port_del_def

lemma ofproto_call_step:
  assumes ok: "request_ok req st" and P: "P k = Some this"
    and c: "ofproto_call env ops_fpa_ofproto_class req this st = Some (Inr (ret, this', st'))"
  shows "plugin_step env (P, st) (P(k \<mapsto> this'), st')"
proof -
  have same: "plugin_step env (P, st) (P(k \<mapsto> this), st)"
    using plugin_step.device [of env P st "st_dev st"] P by (simp add: fun_upd_idem)
  show ?thesis
  proof (cases req)
    case (Port_Construct a p)
    obtain ret' p' where p': "ops_fpa_ofproto_port_construct p = (ret', p')" by fastforce
    then have "op_ofp_port p' = op_ofp_port p" by (auto simp: ops_fpa_ofproto_port_construct_def)
    then show ?thesis
      using c ok Port_Construct p' plugin_step.port_construct [of P k this st a, OF P _ p']
      by (simp add: ops_fpa_ofproto_class_def request_ok_def)
  next
    case (Port_Add dev)
    then show ?thesis using c by (auto simp: ops_fpa_ofproto_class_def split: prod.splits intro: plugin_step.port_add [of P k this, OF P])
  next
    case (Bundle_Set aux settings)
    then show ?thesis using c by (auto simp: ops_fpa_ofproto_class_def intro: plugin_step.bundle_set [of P k this, OF P])
  next
    case (Set_Vlan vid add)
    then show ?thesis using c by (auto simp: ops_fpa_ofproto_class_def intro: plugin_step.set_vlan [of P k this, OF P])
  next
    case (Add_Host aux v6 ip mac e)
    then show ?thesis using c
      by (auto simp: ops_fpa_ofproto_class_def elim!: map_sum_eq_InrE split: prod.splits intro: plugin_step.add_host [of P k this, OF P])
  next
    case (Delete_Host aux v6 ip)
    then show ?thesis using c by (auto simp: ops_fpa_ofproto_class_def intro: plugin_step.delete_host [of P k this, OF P])
  next
    case (Route action route)
    then have "this' = this" and r: "l3_route_action env this action route st = Inr (ret, st')"
      using c by (auto simp: ops_fpa_ofproto_class_def elim!: map_sum_eq_InrE split: prod.splits)
    then show ?thesis using plugin_step.route [of P k this, OF P r] P by (simp add: fun_upd_idem)
  qed (use c same in \<open>simp_all add: ops_fpa_ofproto_class_def stub_defs Let_def split: prod.splits\<close>)
qed

section \<open>Calls that crash\<close>

text \<open>What the address of a next hop needs to be found: a device with MAC learning that knows the address in the VLAN.\<close>

definition next_hop_known :: "'hw plugin_env \<Rightarrow> fpa_l3_intf \<Rightarrow> string \<Rightarrow> 'hw plugin_state \<Rightarrow> bool" where
  "next_hop_known env l3 mac st \<longleftrightarrow>
     (\<exists>d ml a. st_dev st = Some d \<and> dv_switchId d = li_switchId l3 \<and> dv_ml d = Some ml \<and> en_eth_addr_from_string env mac = Some a
        \<and> ops_fpa_mac_learning_lookup_by_vlan_and_mac (en_ml env) ml (li_vlan_id l3) a \<noteq> None)"

lemma host_install_returns: "host_install env l3 mtu src dst egress ip 32 st \<noteq> Inl c"
proof -
  have "ops_fpa_route_add_route lib sid g ip 32 hw \<noteq> Inl c" for lib :: "'a fpa_lib" and sid g hw by (simp add: add_route_undefined_iff)
  then show ?thesis by (auto simp: host_install_def Let_def split: prod.splits if_splits option.splits sum.splits)
qed

lemma add_host_crash:
  assumes e: "env_sound env" and sound: "part_sound env (this, st)"
    and crash: "add_l3_host_entry env this aux v6 ip mac e st = Inl c"
  shows "\<exists>m. \<not> v6 \<and> mac = Some m \<and>
    (case ops_fpa_find_bundle env this aux of None \<Rightarrow> True
     | Some n \<Rightarrow> \<exists>l3. bn_l3_intf (snd n) = Some l3 \<and>
         (bn_intf_id (snd n) = Fpa_Ofproto.FPA_INVALID_INTF_ID
          \<or> \<not> ops_fpa_vlan_internal (st_internal_vlans st) (ucast (li_vlan_id l3)) \<and> \<not> next_hop_known env l3 m st))"
proof -
  obtain m where m: "\<not> v6" "mac = Some m" using crash by (auto simp: add_l3_host_entry_def split: if_splits option.splits)
  show ?thesis
  proof (cases "ops_fpa_find_bundle env this aux")
    case (Some n)
    then obtain l3 where l3: "bn_l3_intf (snd n) = Some l3" using crash m by (auto simp: add_l3_host_entry_def Let_def split: option.splits)
    have "n \<in> set (pr_bundles this)"
      using find_bundle_mem(1) [OF _ Some] sound by (simp add: part_sound_def proto_sound_def)
    then have port: "ops_fpa_get_ofport_by_pid env st (bn_intf_id (snd n)) \<noteq> None" if "bn_intf_id (snd n) \<noteq> Fpa_Ofproto.FPA_INVALID_INTF_ID"
      using that sound e by (intro get_ofport_found) (auto simp: part_sound_def proto_sound_def env_sound_def)
    have "\<not> ops_fpa_vlan_internal (st_internal_vlans st) (ucast (li_vlan_id l3)) \<and> \<not> next_hop_known env l3 m st"
      if i: "bn_intf_id (snd n) \<noteq> Fpa_Ofproto.FPA_INVALID_INTF_ID"
    proof -
      obtain a x where a: "en_eth_addr_from_string env m = Some a" and x: "host_egress env st l3 a = Inl x"
        using crash m Some l3 port [OF i]
        by (auto simp: add_l3_host_entry_def host_install_returns Let_def split: option.splits sum.splits prod.splits if_splits)
      then show ?thesis
        by (auto simp: host_egress_def ops_fpa_dev_by_id_def next_hop_known_def split: if_splits option.splits sum.splits)
    qed
    then show ?thesis using m Some l3 by auto
  qed (use m in simp)
qed

lemma delete_host_crash:
  "delete_l3_host_entry env this aux v6 ip st = Inl c \<Longrightarrow> \<not> v6 \<and> ops_fpa_find_bundle env this aux = None"
  by (auto simp: delete_l3_host_entry_def ops_fpa_disable_routing_def Let_def split: if_splits option.splits prod.splits)

lemma route_crash:
  assumes "l3_route_action env this action route st = Inl c"
  shows "action = OFPROTO_ROUTE_ADD \<and> (\<exists>ip m. ops_fpa_str2ip (rt_prefix route) = Some (ip, m) \<and> (m < 1 \<or> 32 < m))"
proof -
  have trap: "ops_fpa_route_add_route_trap lib sid ip m hw = Inl c \<Longrightarrow> m < 1 \<or> 32 < m" for lib :: "'a fpa_lib" and sid ip m hw c
    by (auto simp: ops_fpa_route_add_route_trap_def route_netmask_def split: prod.splits if_splits)
  show ?thesis
    using assms unfolding l3_route_action_def
    by (auto simp: Let_def add_route_undefined_iff split: if_splits option.splits prod.splits sum.splits list.splits route_action.splits
        elim!: map_sum_eq_InlE dest: trap)
qed

section \<open>Properties\<close>



section \<open>Calls on a virtual router\<close>



end
