(* ===== verification/Fpa_System.thy ===== *)
theory Fpa_System
  imports Fpa_OfprotoClass
begin

text \<open>
  The plugin as a whole: the bridges and virtual routers with the state they share (\<open>Fpa_Plugin\<close>), called through the class table
  (\<open>Fpa_OfprotoClass\<close>), together with the life of the bridges and of the device (\<open>Fpa_Life\<close>). The two views of a bridge, as the object that
  Open vSwitch calls and as the node of the plugin's map of bridges, stay the same, and so do the two views of the device.
\<close>

section \<open>The combined transition system\<close>

lemma ofproto_call_frame:
  assumes e: "env_sound env" and c: "ofproto_call env ops_fpa_ofproto_class req this st = Some (Inr (ret, this', st'))"
  shows "pr_name this' = pr_name this \<and> pr_type this' = pr_type this \<and> st_dev st' = st_dev st"
proof -
  have safe: "safe_step env (this, st) (this', st') \<Longrightarrow> ?thesis" by (simp add: safe_step_def proto_head_def)
  show ?thesis
  proof (cases req)
    case (Bundle_Set aux settings)
    then show ?thesis using c bundle_set_safe [OF e] safe by (auto simp: ops_fpa_ofproto_class_def)
  next
    case (Set_Vlan vid add)
    then show ?thesis using c safe by (auto simp: ops_fpa_ofproto_class_def dest: set_vlan_safe)
  next
    case (Add_Host aux v6 ip mac eg)
    then show ?thesis using c safe
      by (auto simp: ops_fpa_ofproto_class_def elim!: map_sum_eq_InrE split: prod.splits dest: add_l3_host_entry_safe)
  next
    case (Delete_Host aux v6 ip)
    then show ?thesis using c safe delete_l3_host_entry_safe [OF e] by (auto simp: ops_fpa_ofproto_class_def)
  next
    case (Route action route)
    then show ?thesis using c safe
      by (auto simp: ops_fpa_ofproto_class_def elim!: map_sum_eq_InrE split: prod.splits dest: route_action_safe)
  qed (use c in \<open>auto simp: ops_fpa_ofproto_class_def stub_defs ops_fpa_ofproto_port_add_def Let_def split: prod.splits\<close>)
qed

text \<open>
  Open vSwitch names its bridges differently, gives a new bridge no ports, and calls the functions of a bridge from its construction to its
  destruction. The remaining steps of \<open>life_step\<close>, which leave the bridges alone, are taken over with what they do to the device.
\<close>

abbreviation bridge_node :: "('hw, 'os, 'c) command_env \<Rightarrow> fpa_ofproto \<Rightarrow> u32 \<times> fpa_ofproto" where
  "bridge_node C this \<equiv> (be_hash_string (ce_bridge C) (pr_name this), this)"

inductive system_reach :: "'hw plugin_env \<Rightarrow> ('hw, 'os, 'c) command_env \<Rightarrow> 'hw plugin_sys \<Rightarrow> 'os life_state \<Rightarrow> bool" for env C where
  init: "st_ports st = Map.empty \<Longrightarrow> st_ports_by_pid st = [] \<Longrightarrow> st_dev st = None \<Longrightarrow>
    system_reach env C (Map.empty, ops_fpa_ofproto_init st) (life_init os)"
| construct: "system_reach env C (P, st) l \<Longrightarrow> P k = None \<Longrightarrow> pr_name this \<notin> pr_name ` ran P \<Longrightarrow> pr_ports this = Map.empty \<Longrightarrow>
    oc_construct (ops_fpa_ofproto_class :: ('hw, 'os) ofproto_class) (ce_bridge C) this (lf_sys l) = Inr (0, this', s') \<Longrightarrow> length (lf_open l) < 2 ^ 32 - 2 \<Longrightarrow>
    system_reach env C (P(k \<mapsto> this'), st\<lparr>st_dev := ds_dev (bs_dev s')\<rparr>)
      (l\<lparr>lf_sys := s', lf_open := hmap_insert (lf_open l) (be_hash_string (ce_bridge C) (pr_name this)) this',
        lf_cmds := construct_commands (life_dev l) 0 (lf_cmds l)\<rparr>)"
| construct_fails: "system_reach env C (P, st) l \<Longrightarrow>
    oc_construct (ops_fpa_ofproto_class :: ('hw, 'os) ofproto_class) (ce_bridge C) this (lf_sys l) = Inr (err, this', s') \<Longrightarrow> err \<noteq> 0 \<Longrightarrow>
    system_reach env C (P, st\<lparr>st_dev := ds_dev (bs_dev s')\<rparr>)
      (l\<lparr>lf_sys := s', lf_freed := hmap_insert (lf_freed l) (be_hash_string (ce_bridge C) (pr_name this)) this',
        lf_cmds := construct_commands (life_dev l) err (lf_cmds l)\<rparr>)"
| destruct: "system_reach env C (P, st) l \<Longrightarrow> P k = Some this \<Longrightarrow>
    oc_destruct (ops_fpa_ofproto_class :: ('hw, 'os) ofproto_class) (ce_bridge C) (bridge_node C this) (lf_sys l) = Some (Inr s') \<Longrightarrow>
    system_reach env C (oc_dealloc (ops_fpa_ofproto_class :: ('hw, 'os) ofproto_class) k P, st\<lparr>st_dev := ds_dev (bs_dev s')\<rparr>)
      (l\<lparr>lf_sys := s', lf_open := hmap_remove (lf_open l) (bridge_node C this)\<rparr>)"
| run: "system_reach env C (P, st) l \<Longrightarrow> P k = Some this \<Longrightarrow>
    oc_run (ops_fpa_ofproto_class :: ('hw, 'os) ofproto_class) (ce_bridge C) this new_seq expired (life_dev l) = Inr (ret, this', ds) \<Longrightarrow>
    system_reach env C (P(k \<mapsto> this'), st\<lparr>st_dev := ds_dev ds\<rparr>)
      (put_dev ds (bs_os (lf_sys l)) (update_bridge (bridge_node C this) this' l))"
| call: "system_reach env C (P, st) l \<Longrightarrow> P k = Some this \<Longrightarrow> request_ok req st \<Longrightarrow>
    ofproto_call env (ops_fpa_ofproto_class :: ('hw, 'os) ofproto_class) req this st = Some (Inr (ret, this', st')) \<Longrightarrow>
    system_reach env C (P(k \<mapsto> this'), st') (update_bridge (bridge_node C this) this' l)"
| other: "system_reach env C (P, st) l \<Longrightarrow> life_step C l l' \<Longrightarrow> lf_open l' = lf_open l \<Longrightarrow> lf_freed l' = lf_freed l \<Longrightarrow>
    system_reach env C (P, st\<lparr>st_dev := ds_dev (life_dev l')\<rparr>) l'"

section \<open>Bridges and nodes\<close>

text \<open>Every bridge is one node of the open bridges, under the hash of its name, and every node is a bridge; names are unique.\<close>

definition linked :: "('hw, 'os, 'c) command_env \<Rightarrow> (nat \<Rightarrow> fpa_ofproto option) \<Rightarrow> fpa_ofproto hmap \<Rightarrow> bool" where
  "linked C P m \<longleftrightarrow> set m = bridge_node C ` ran P \<and> distinct (map (\<lambda>n. pr_name (snd n)) m)
     \<and> (\<forall>k k' a b. P k = Some a \<longrightarrow> P k' = Some b \<longrightarrow> pr_name a = pr_name b \<longrightarrow> k = k')"

lemma linked_mem: "linked C P m \<Longrightarrow> P k = Some this \<Longrightarrow> bridge_node C this \<in> set m"
  by (auto simp: linked_def ran_def)

lemma linked_add:
  assumes "linked C P m" and "P k = None" and "pr_name this \<notin> pr_name ` ran P"
  shows "linked C (P(k \<mapsto> this)) (hmap_insert m (be_hash_string (ce_bridge C) (pr_name this)) this)"
proof -
  have "pr_name (snd n) \<in> pr_name ` ran P" if "n \<in> set m" for n using that assms(1) by (auto simp: linked_def)
  then have "distinct (map (\<lambda>n. pr_name (snd n)) (hmap_insert m (be_hash_string (ce_bridge C) (pr_name this)) this))"
    using assms(1,3) by (auto simp: linked_def hmap_insert_def)
  then show ?thesis using assms by (auto simp: linked_def hmap_simps ran_map_upd image_iff) (auto simp: ran_def)
qed

lemma linked_remove:
  assumes l: "linked C P m" and k: "P k = Some this"
  shows "linked C (P(k := None)) (hmap_remove m (bridge_node C this))"
proof -
  have d: "distinct m" using l by (auto simp: linked_def distinct_map)
  have "ran (P(k := None)) = ran P - {this}"
  proof -
    have "P j \<noteq> Some this" if "j \<noteq> k" for j using l k that unfolding linked_def by blast
    then show ?thesis using k by (auto simp: ran_def) (metis option.inject)
  qed
  moreover have "set (hmap_remove m (bridge_node C this)) = bridge_node C ` (ran P - {this})"
    using l d by (auto simp: linked_def hmap_remove_def)
  moreover have "distinct (map (\<lambda>n. pr_name (snd n)) (hmap_remove m (bridge_node C this)))"
    using l by (auto simp: linked_def hmap_remove_def distinct_map inj_on_def distinct_remove1 dest: in_set_remove1 [THEN iffD1] notin_set_remove1)
  ultimately show ?thesis using l by (auto simp: linked_def)
qed

lemma linked_put:
  assumes l: "linked C P m" and k: "P k = Some this" and n: "pr_name this' = pr_name this"
  shows "linked C (P(k \<mapsto> this')) (bridge_put (bridge_node C this) this' m)"
proof -
  have "pr_name this' \<notin> pr_name ` ran (P(k := None))"
    using l k n by (auto simp: linked_def ran_def split: if_splits)
  from linked_add [OF linked_remove [OF l k] _ this, of k] show ?thesis by (simp add: bridge_put_def n)
qed

section \<open>The invariant\<close>

definition system_inv :: "'hw plugin_env \<Rightarrow> ('hw, 'os, 'c) command_env \<Rightarrow> 'hw plugin_sys \<Rightarrow> 'os life_state \<Rightarrow> bool" where
  "system_inv env C s l \<longleftrightarrow> plugin_reach env s \<and> life_reach C l \<and> st_dev (snd s) = ds_dev (life_dev l) \<and> linked C (fst s) (lf_open l)"

lemma system_inv_dev: "plugin_reach env (P, st) \<Longrightarrow> plugin_reach env (P, st\<lparr>st_dev := d\<rparr>)"
  by (rule plugin_reach.step [OF _ plugin_step.device])

lemma life_dev_simps [simp]: "life_dev (put_dev ds os l) = ds" "lf_open (put_dev ds os l) = lf_open l"
  "life_dev (update_bridge n this l) = life_dev l" "lf_open (update_bridge n this l) = bridge_put n this (lf_open l)"
  by (simp_all add: put_dev_def update_bridge_def)

lemma plugin_reach_run:
  assumes "plugin_reach env (P, st)" and "P k = Some this" and "ops_fpa_ofproto_run B this new_seq expired ds = Inr (ret, this', ds')"
  shows "plugin_reach env (P(k \<mapsto> this'), st)"
proof -
  have "this' = this \<or> this' = this\<lparr>pr_change_seq := new_seq\<rparr>"
    using assms(3) by (auto simp: ops_fpa_ofproto_run_def Let_def split: if_splits sum.splits)
  then show ?thesis
  proof
    assume "this' = this"
    then show ?thesis using assms(1,2) by (simp add: fun_upd_idem)
  qed (use plugin_reach.step [OF assms(1) plugin_step.run [of P k this, OF assms(2)]] in simp)
qed

lemma system_reach_inv:
  assumes e: "env_sound env" and "system_reach env C s l"
  shows "system_inv env C s l"
  using assms(2)
proof induction
  case (init st os)
  have "plugin_reach env (Map.empty, ops_fpa_ofproto_init st)" by (rule plugin_reach.init [OF init(1,2)])
  then show ?case
    using init life_reach.init by (simp add: system_inv_def linked_def life_init_def ops_fpa_ofproto_init_def)
next
  case (construct P st l k this this' s')
  have c: "ops_fpa_ofproto_construct (ce_bridge C) this (lf_sys l) = Inr (0, this', s')"
    using construct(5) by (simp add: ops_fpa_ofproto_class_def)
  have n: "pr_name this' = pr_name this" by (rule construct_registers(2) [OF c])
  have b: "pr_ports this' = Map.empty" "pr_bundles this' = []"
    using c construct(4) by (auto simp: ops_fpa_ofproto_construct_def Let_def split: sum.splits prod.splits)
  have "plugin_reach env (P(k \<mapsto> this'), st)"
    using construct.IH plugin_step.construct [of P k this' env st, OF construct(2) b] plugin_reach.step by (auto simp: system_inv_def)
  then show ?case
    using construct.IH life_reach.step [OF _ life_step.construct [OF c construct(6)]]
      linked_add [of C P "lf_open l" k this'] construct(2,3) n system_inv_dev by (auto simp: system_inv_def)
next
  case (construct_fails P st l this err this' s')
  have c: "ops_fpa_ofproto_construct (ce_bridge C) this (lf_sys l) = Inr (err, this', s')"
    using construct_fails(2) by (simp add: ops_fpa_ofproto_class_def)
  show ?case
    using construct_fails.IH life_reach.step [OF _ life_step.construct_fails [OF c construct_fails(3)]] system_inv_dev
    by (auto simp: system_inv_def)
next
  case (destruct P st l k this s')
  have c: "ops_fpa_ofproto_destruct (ce_bridge C) (bridge_node C this) (lf_sys l) = Some (Inr s')"
    using destruct(3) by (simp add: ops_fpa_ofproto_class_def)
  have lk: "linked C P (lf_open l)" and lr: "life_reach C l" using destruct.IH by (simp_all add: system_inv_def)
  have "plugin_reach env (P(k := None), st)"
    using destruct.IH plugin_step.destruct plugin_reach.step by (fastforce simp: system_inv_def)
  then show ?case
    using life_reach.step [OF lr life_step.destruct [OF linked_mem [OF lk destruct(2)] c]] linked_remove [OF lk destruct(2)] system_inv_dev
    by (auto simp: system_inv_def ops_fpa_ofproto_class_def ops_fpa_ofproto_dealloc_def)
next
  case (run P st l k this new_seq expired ret this' ds)
  have c: "ops_fpa_ofproto_run (ce_bridge C) this new_seq expired (life_dev l) = Inr (ret, this', ds)"
    using run(3) by (simp add: ops_fpa_ofproto_class_def)
  have lk: "linked C P (lf_open l)" and lr: "life_reach C l" and pr: "plugin_reach env (P, st)" using run.IH by (simp_all add: system_inv_def)
  have "life_reach C (put_dev ds (bs_os (lf_sys l)) (update_bridge (bridge_node C this) this' l))"
    by (rule life_reach.step [OF lr life_step.run [OF linked_mem [OF lk run(2)]]]) (use c in simp)
  then show ?case
    using system_inv_dev [OF plugin_reach_run [OF pr run(2) c]] linked_put [OF lk run(2) run_kept(2) [OF c]] by (simp add: system_inv_def)
next
  case (call P st l k this req ret this' st')
  have lk: "linked C P (lf_open l)" and lr: "life_reach C l" and pr: "plugin_reach env (P, st)" using call.IH by (simp_all add: system_inv_def)
  note f = ofproto_call_frame [OF e call(4)]
  have "life_reach C (update_bridge (bridge_node C this) this' l)"
    by (rule life_reach.step [OF lr life_step.change [OF linked_mem [OF lk call(2)]]]) (use f in simp_all)
  moreover have "plugin_reach env (P(k \<mapsto> this'), st')"
    by (rule plugin_reach.step [OF pr ofproto_call_step [of req st P k this, OF call(3,2,4)]])
  ultimately show ?case
    using call.IH linked_put [OF lk call(2), of this'] f by (simp add: system_inv_def)
next
  case (other P st l l')
  then show ?case using life_reach.step [of C l l'] system_inv_dev by (auto simp: system_inv_def)
qed

lemma linked_length:
  assumes "linked C P m"
  shows "length m = card (dom P)"
proof -
  have "distinct m" using assms by (auto simp: linked_def distinct_map)
  then have "length m = card (bridge_node C ` ran P)" using assms by (simp add: linked_def flip: distinct_card)
  also have "\<dots> = card (ran P)" by (rule card_image) (simp add: inj_on_def)
  also have "ran P = (\<lambda>k. the (P k)) ` dom P" by (force simp: ran_def image_iff)
  also have "card \<dots> = card (dom P)"
  proof (rule card_image, rule inj_onI)
    fix k k' assume "k \<in> dom P" "k' \<in> dom P" "the (P k) = the (P k')"
    then show "k = k'" using assms unfolding linked_def by fastforce
  qed
  finally show ?thesis .
qed

section \<open>Properties\<close>


text \<open>(C30) A name finds its bridge, as it is now. In every reachable state without a failed construction, looking up a name in the map of
  bridges gives the bridge of that name in its present state, and nothing when there is none.\<close>

theorem bridge_lookup_current:
  assumes "env_sound env" and "system_reach env C (P, st) l" and "bridge_ok (ce_bridge C)" and "lf_freed l = []"
  shows "map_option snd (ops_fpa_ofproto_lookup (ce_bridge C) (bs_protos (lf_sys l)) name) = Some this
    \<longleftrightarrow> (\<exists>k. P k = Some this \<and> pr_name this = name)"
proof -
  have i: "life_reach C l" "linked C P (lf_open l)" using system_reach_inv [OF assms(1,2)] by (simp_all add: system_inv_def)
  have "mset (bs_protos (lf_sys l)) = mset (lf_open l)" using life_reach_life_inv [OF i(1)] assms(4) by (simp add: life_inv_def)
  from mset_eq_setD [OF this] have set: "set (bs_protos (lf_sys l)) = bridge_node C ` ran P" using i(2) by (simp add: linked_def)
  have wf: "bridge_wf (ce_bridge C) (bs_protos (lf_sys l))" using set by (auto simp: bridge_wf_def hashed_by_def)
  have inj: "P k = Some a \<Longrightarrow> P k' = Some b \<Longrightarrow> pr_name a = pr_name b \<Longrightarrow> a = b" for k k' a b
    using i(2) unfolding linked_def by (metis option.inject)
  note none = bridges.search_None [OF assms(3) wf, of name] and some = bridges.search_Some [OF assms(3) wf, of name]
  show ?thesis
  proof (cases "ops_fpa_ofproto_lookup (ce_bridge C) (bs_protos (lf_sys l)) name")
    case None
    then show ?thesis using none set by (auto simp: ran_def)
  next
    case (Some n)
    then obtain k where "P k = Some (snd n)" "pr_name (snd n) = name" using some [OF Some] set by (auto simp: ran_def)
    then show ?thesis using Some inj by auto
  qed
qed

section \<open>A run\<close>

lemma sample_system:
  "\<exists>this st l. system_reach (sample_env {} False) (sample_commands FPA_OK) ([7 \<mapsto> this], st) l \<and> pr_name this = ''br'' \<and> lf_freed l = []"
proof -
  let ?C = "sample_commands FPA_OK" and ?p = "sample_bridge ''br''" and ?l = "life_init (0 :: nat)"
    and ?st = "(sample_state sim_empty)\<lparr>st_ports := Map.empty, st_ports_by_pid := []\<rparr>"
  have p: "tap_init_pipes sample_os 2 [] 0 = (Some [(0, 1), (2, 3)], 4)" by (simp add: numeral_2_eq_2 sample_os_def)
  have "\<exists>this s. ops_fpa_ofproto_construct (ce_bridge ?C) ?p (lf_sys ?l) = Inr (0, this, s)"
    by (simp add: ops_fpa_ofproto_construct_def sample_bridges_def sample_bridge_def life_init_def dev_init_defs p)
  then obtain this s where c: "ops_fpa_ofproto_construct (ce_bridge ?C) ?p (lf_sys ?l) = Inr (0, this, s)" by blast
  have r: "system_reach (sample_env {} False) ?C (Map.empty, ops_fpa_ofproto_init ?st) ?l"
    by (rule system_reach.init) (simp_all add: sample_state_def)
  have "system_reach (sample_env {} False) ?C ([7 \<mapsto> this], (ops_fpa_ofproto_init ?st)\<lparr>st_dev := ds_dev (bs_dev s)\<rparr>)
      (?l\<lparr>lf_sys := s, lf_open := hmap_insert (lf_open ?l) (be_hash_string (ce_bridge ?C) (pr_name ?p)) this,
        lf_cmds := construct_commands (life_dev ?l) 0 (lf_cmds ?l)\<rparr>)"
    by (rule system_reach.construct [OF r]) (use c in \<open>simp_all add: ops_fpa_ofproto_class_def sample_bridge_def life_init_def\<close>)
  moreover have "pr_name this = ''br''" using construct_registers(2) [OF c] by (simp add: sample_bridge_def)
  ultimately show ?thesis by (fastforce simp: life_init_def)
qed


theorem bridge_lookup_current_witness:
  "\<exists>st l this. system_reach (sample_env {} False) (sample_commands FPA_OK) ([7 \<mapsto> this], st) l
    \<and> map_option snd (ops_fpa_ofproto_lookup (sample_bridges FPA_OK) (bs_protos (lf_sys l)) ''br'') = Some this"
proof -
  obtain this st l where s: "system_reach (sample_env {} False) (sample_commands FPA_OK) ([7 \<mapsto> this], st) l" "lf_freed l = []"
      "pr_name this = ''br''" using sample_system by blast
  have "bridge_ok (ce_bridge (sample_commands FPA_OK))" by (simp add: bridge_ok_def sample_bridges_def)
  from bridge_lookup_current [OF sample_env_sound s(1) this s(2), of "''br''" this] s(1,3) show ?thesis by auto
qed

end
