(* ===== verification/Fpa_Start.thy ===== *)
theory Fpa_Start
  imports Fpa_System
begin

text \<open>
  The start of the plugin: the initialisation of the FPA library (\<open>src/ops-fpa-init.c\<close>) and of the bridge class, and the tables of functions that
  the plugin registers with other parts of the switch daemon (\<open>src/ops-fpa-plugins.c\<close>), with the functions for spanning tree groups, quality of
  service, control plane policing and buffer monitoring, which do nothing (\<open>src/ops-fpa-stg.c\<close>, \<open>src/ops-fpa-qos.c\<close>, \<open>src/ops-fpa-copp.c\<close>,
  \<open>src/ops-fpa-bufmon.c\<close>).
\<close>

section \<open>The FPA library\<close>

text \<open>The thread of the library: \<open>fpa_main\<close> with the arguments and the environment of a program. The thread returns a null pointer; the value here is the
  code that it logs before.\<close>

definition ops_fpa_main_start :: "(nat \<Rightarrow> string list \<Rightarrow> string list \<Rightarrow> int) \<Rightarrow> string list \<Rightarrow> int" where
  "ops_fpa_main_start fpa_main environ =
     (let argv = [''switchd'', ''-i'', ''/opt/fpa/wm/bobcat3_A0_pss_wm.ini''] in fpa_main (length argv) argv environ)"

text \<open>
  The loop that waits for the thread: \<open>fpa_init_done n\<close> is what the \<open>n\<close>-th look at the flag finds. \<open>None\<close> is a loop that never ends.
\<close>

partial_function (option) wait_init_done :: "(nat \<Rightarrow> bool) \<Rightarrow> nat \<Rightarrow> nat option" where
  "wait_init_done fpa_init_done n = (if fpa_init_done n then Some n else wait_init_done fpa_init_done (Suc n))"

text \<open>
  \<open>ops_fpa_init\<close>: the status with which the daemon is aborted, or the shell commands that were executed. \<open>wrap_initialize\<close> is the result of
  \<open>fpaWrapInitialize\<close>.
\<close>

definition ops_fpa_init :: "(nat \<Rightarrow> bool) \<Rightarrow> fpa_status \<Rightarrow> (fpa_status + string list) option" where
  "ops_fpa_init fpa_init_done wrap_initialize =
     (case wait_init_done fpa_init_done 0 of None \<Rightarrow> None
      | Some n \<Rightarrow>
          if wrap_initialize \<noteq> FPA_OK then Some (Inl wrap_initialize)
          else Some (Inr [''touch /var/run/fpa-sim-init.done'']))"

text \<open>The member \<open>init\<close> of the bridge class, with the start of the library in front of the tables.\<close>

definition ofproto_init ::
  "(nat \<Rightarrow> bool) \<Rightarrow> fpa_status \<Rightarrow> 'hw plugin_state \<Rightarrow> (fpa_status + string list \<times> 'hw plugin_state) option" where
  "ofproto_init fpa_init_done wrap_initialize st =
     map_option (map_sum id (\<lambda>cmds. (cmds, ops_fpa_ofproto_init st))) (ops_fpa_init fpa_init_done wrap_initialize)"

section \<open>Spanning tree groups\<close>

text \<open>A pointer to a result is the value behind it, before and after the call.\<close>

definition ops_fpa_stg_create :: "int \<Rightarrow> int \<times> int" where
  "ops_fpa_stg_create p_stg = (0, p_stg)"

definition ops_fpa_stg_delete :: "int \<Rightarrow> int" where
  "ops_fpa_stg_delete stg = 0"

definition ops_fpa_stg_add_vlan :: "int \<Rightarrow> int \<Rightarrow> int" where
  "ops_fpa_stg_add_vlan stg vid = 0"

definition ops_fpa_stg_remove_vlan :: "int \<Rightarrow> int \<Rightarrow> int" where
  "ops_fpa_stg_remove_vlan stg vid = 0"

definition ops_fpa_stg_set_port_state :: "string \<Rightarrow> int \<Rightarrow> int \<Rightarrow> bool \<Rightarrow> int" where
  "ops_fpa_stg_set_port_state port_name stg stp_state port_stp_set = 0"

definition ops_fpa_stg_get_port_state :: "string \<Rightarrow> int \<Rightarrow> int \<Rightarrow> int \<times> int" where
  "ops_fpa_stg_get_port_state port_name stg p_stp_state = (0, p_stp_state)"

definition ops_fpa_stg_get_default :: "int \<Rightarrow> int \<times> int" where
  "ops_fpa_stg_get_default p_stg = (0, p_stg)"

section \<open>Quality of service, control plane policing and buffer monitoring\<close>

text \<open>The settings that these functions do not look into are of any type.\<close>

definition ops_fpa_qos_set_port_qos_cfg :: "'proto \<Rightarrow> nat \<Rightarrow> 'settings \<Rightarrow> int" where
  "ops_fpa_qos_set_port_qos_cfg proto aux settings = 0"

definition ops_fpa_qos_set_cos_map :: "'proto \<Rightarrow> nat \<Rightarrow> 'settings \<Rightarrow> int" where
  "ops_fpa_qos_set_cos_map proto aux settings = 0"

definition ops_fpa_qos_set_dscp_map :: "'proto \<Rightarrow> nat \<Rightarrow> 'settings \<Rightarrow> int" where
  "ops_fpa_qos_set_dscp_map proto aux settings = 0"

definition ops_fpa_qos_apply_qos_profile :: "'proto \<Rightarrow> nat \<Rightarrow> 'settings \<Rightarrow> 'settings \<Rightarrow> int" where
  "ops_fpa_qos_apply_qos_profile proto aux s_settings q_settings = 0"

record ('proto, 'settings) qos_asic_plugin_interface =
  qi_set_port_qos_cfg :: "'proto \<Rightarrow> nat \<Rightarrow> 'settings \<Rightarrow> int"
  qi_set_cos_map :: "'proto \<Rightarrow> nat \<Rightarrow> 'settings \<Rightarrow> int"
  qi_set_dscp_map :: "'proto \<Rightarrow> nat \<Rightarrow> 'settings \<Rightarrow> int"
  qi_apply_qos_profile :: "'proto \<Rightarrow> nat \<Rightarrow> 'settings \<Rightarrow> 'settings \<Rightarrow> int"

definition ops_fpa_qos_interface :: "('proto, 'settings) qos_asic_plugin_interface" where
  "ops_fpa_qos_interface = \<lparr>qi_set_port_qos_cfg = ops_fpa_qos_set_port_qos_cfg, qi_set_cos_map = ops_fpa_qos_set_cos_map,
     qi_set_dscp_map = ops_fpa_qos_set_dscp_map, qi_apply_qos_profile = ops_fpa_qos_apply_qos_profile\<rparr>"

definition ops_fpa_copp_stats_get :: "u32 \<Rightarrow> 'class \<Rightarrow> 'stats \<Rightarrow> int \<times> 'stats" where
  "ops_fpa_copp_stats_get hw_asic_id cls stats = (0, stats)"

definition ops_fpa_copp_hw_status_get :: "u32 \<Rightarrow> 'class \<Rightarrow> 'stats \<Rightarrow> int \<times> 'stats" where
  "ops_fpa_copp_hw_status_get hw_asic_id cls hw_status = (0, hw_status)"

record ('class, 'stats) copp_asic_plugin_interface =
  ci_copp_stats_get :: "u32 \<Rightarrow> 'class \<Rightarrow> 'stats \<Rightarrow> int \<times> 'stats"
  ci_copp_hw_status_get :: "u32 \<Rightarrow> 'class \<Rightarrow> 'stats \<Rightarrow> int \<times> 'stats"

definition ops_fpa_copp_interface :: "('class, 'stats) copp_asic_plugin_interface" where
  "ops_fpa_copp_interface = \<lparr>ci_copp_stats_get = ops_fpa_copp_stats_get, ci_copp_hw_status_get = ops_fpa_copp_hw_status_get\<rparr>"

definition ops_fpa_bufmon_init :: int where
  "ops_fpa_bufmon_init = 0"

definition ops_fpa_bufmon_system_config :: "'config \<Rightarrow> unit" where
  "ops_fpa_bufmon_system_config cfg = ()"

definition ops_fpa_bufmon_counter_config :: "'counter \<Rightarrow> 'counter" where
  "ops_fpa_bufmon_counter_config counter = counter"

definition ops_fpa_bufmon_counter_stats_get :: "'counter list \<Rightarrow> 'counter list" where
  "ops_fpa_bufmon_counter_stats_get counter_list = counter_list"

definition ops_fpa_bufmon_trigger_register :: "bool \<Rightarrow> unit" where
  "ops_fpa_bufmon_trigger_register enable = ()"

record ('config, 'counter) bufmon_class =
  bc_init :: int
  bc_system_config :: "'config \<Rightarrow> unit"
  bc_counter_config :: "'counter \<Rightarrow> 'counter"
  bc_counter_stats_get :: "'counter list \<Rightarrow> 'counter list"
  bc_trigger_register :: "bool \<Rightarrow> unit"

definition ops_fpa_bufmon_class :: "('config, 'counter) bufmon_class" where
  "ops_fpa_bufmon_class = \<lparr>bc_init = ops_fpa_bufmon_init, bc_system_config = ops_fpa_bufmon_system_config,
     bc_counter_config = ops_fpa_bufmon_counter_config, bc_counter_stats_get = ops_fpa_bufmon_counter_stats_get,
     bc_trigger_register = ops_fpa_bufmon_trigger_register\<rparr>"

definition bufmon_register :: "('config, 'counter) bufmon_class list" where
  "bufmon_register = [ops_fpa_bufmon_class]"

section \<open>Extensions\<close>

text \<open>
  The functions for other plugins. The name and the version of an interface are constants of the headers of the switch daemon. The extensions
  for quality of service and for policing exist but are not registered.
\<close>

record asic_plugin_interface =
  ap_create_stg :: "int \<Rightarrow> int \<times> int"
  ap_delete_stg :: "int \<Rightarrow> int"
  ap_add_stg_vlan :: "int \<Rightarrow> int \<Rightarrow> int"
  ap_remove_stg_vlan :: "int \<Rightarrow> int \<Rightarrow> int"
  ap_set_stg_port_state :: "string \<Rightarrow> int \<Rightarrow> int \<Rightarrow> bool \<Rightarrow> int"
  ap_get_stg_port_state :: "string \<Rightarrow> int \<Rightarrow> int \<Rightarrow> int \<times> int"
  ap_get_stg_default :: "int \<Rightarrow> int \<times> int"
  ap_get_mac_learning_hmap :: "fpa_dev option \<Rightarrow> bool \<Rightarrow> crash + int \<times> mlearn_hmap option"
  ap_l2_addr_flush :: "unit option"

definition ops_fpa_asic :: asic_plugin_interface where
  "ops_fpa_asic = \<lparr>ap_create_stg = ops_fpa_stg_create, ap_delete_stg = ops_fpa_stg_delete, ap_add_stg_vlan = ops_fpa_stg_add_vlan,
     ap_remove_stg_vlan = ops_fpa_stg_remove_vlan, ap_set_stg_port_state = ops_fpa_stg_set_port_state,
     ap_get_stg_port_state = ops_fpa_stg_get_port_state, ap_get_stg_default = ops_fpa_stg_get_default,
     ap_get_mac_learning_hmap = ops_fpa_ml_hmap_get, ap_l2_addr_flush = None\<rparr>"

record 'i plugin_extension_interface =
  pe_plugin_name :: string
  pe_major :: int
  pe_minor :: int
  pe_plugin_interface :: 'i

definition ops_fpa_extension :: "string \<Rightarrow> int \<Rightarrow> int \<Rightarrow> asic_plugin_interface plugin_extension_interface" where
  "ops_fpa_extension ASIC_PLUGIN_INTERFACE_NAME ASIC_PLUGIN_INTERFACE_MAJOR ASIC_PLUGIN_INTERFACE_MINOR =
     \<lparr>pe_plugin_name = ASIC_PLUGIN_INTERFACE_NAME, pe_major = ASIC_PLUGIN_INTERFACE_MAJOR, pe_minor = ASIC_PLUGIN_INTERFACE_MINOR,
      pe_plugin_interface = ops_fpa_asic\<rparr>"

definition ops_fpa_qos_extension ::
  "string \<Rightarrow> int \<Rightarrow> int \<Rightarrow> ('proto, 'settings) qos_asic_plugin_interface plugin_extension_interface" where
  "ops_fpa_qos_extension name major minor =
     \<lparr>pe_plugin_name = name, pe_major = major, pe_minor = minor, pe_plugin_interface = ops_fpa_qos_interface\<rparr>"

definition ops_fpa_copp_extension ::
  "string \<Rightarrow> int \<Rightarrow> int \<Rightarrow> ('class, 'stats) copp_asic_plugin_interface plugin_extension_interface" where
  "ops_fpa_copp_extension name major minor =
     \<lparr>pe_plugin_name = name, pe_major = major, pe_minor = minor, pe_plugin_interface = ops_fpa_copp_interface\<rparr>"

text \<open>\<open>init\<close>, with the list of extensions that \<open>register_plugin_extension\<close> was called for.\<close>

definition plugin_init :: "string \<Rightarrow> int \<Rightarrow> int \<Rightarrow> asic_plugin_interface plugin_extension_interface list" where
  "plugin_init name major minor = [ops_fpa_extension name major minor]"

section \<open>What other plugins get\<close>

text \<open>Creating a spanning tree group and asking for the default one succeed and leave the number of the group as it was.\<close>

lemma stg_without_number:
  "ap_create_stg (pe_plugin_interface (ops_fpa_extension name major minor)) p = (0, p)"
  "ap_get_stg_default (pe_plugin_interface (ops_fpa_extension name major minor)) p = (0, p)"
  by (simp_all add: ops_fpa_extension_def ops_fpa_asic_def ops_fpa_stg_create_def ops_fpa_stg_get_default_def)

section \<open>The end of the start\<close>

lemma wait_init_done_Some:
  assumes "fpa_init_done (n + k)"
  shows "\<exists>m. wait_init_done fpa_init_done n = Some m"
  using assms
proof (induction k arbitrary: n)
  case 0
  then show ?case by (subst wait_init_done.simps) simp
next
  case (Suc k)
  then show ?case by (subst wait_init_done.simps) simp
qed

lemma wait_init_done_SomeD:
  assumes "wait_init_done fpa_init_done n = Some m"
  shows "fpa_init_done m"
  by (rule wait_init_done.raw_induct [OF _ assms, where P = "\<lambda>d n m. d m"]) (auto split: if_splits)

lemma wait_init_done_iff: "(\<exists>m. wait_init_done fpa_init_done 0 = Some m) \<longleftrightarrow> (\<exists>n. fpa_init_done n)"
  using wait_init_done_Some [of fpa_init_done 0] wait_init_done_SomeD by fastforce



end
