(* ===== verification/Fpa_NetdevClass.thy ===== *)
theory Fpa_NetdevClass
  imports Fpa_Bridge
begin

text \<open>
  The class tables at the end of \<open>src/ops-fpa-netdev.c\<close>, with which Open vSwitch finds the functions for a device, and what
  a device of each class can become: which classes serve the ports of the bridges, and what the devices without a port of the switch can and
  cannot do.
\<close>

section \<open>Classes\<close>

text \<open>
  A class is the table of the functions that Open vSwitch calls for the devices of a type; \<open>None\<close> is a null pointer, for which
  Open vSwitch answers \<open>EOPNOTSUPP\<close>. The members that are null in all four classes of the file are left out.
\<close>

record ('hw, 'os) netdev_class =
  nc_type :: string
  nc_run :: "('hw port_env \<Rightarrow> 'hw \<Rightarrow> fpa_netdev list \<Rightarrow> fpa_netdev list) option"
  nc_alloc :: "string \<Rightarrow> string \<Rightarrow> fpa_netdev"
  nc_construct :: "fpa_netdev \<Rightarrow> u32 \<Rightarrow> fpa_netdev \<times> u32"
  nc_destruct :: "'os os_env \<Rightarrow> fpa_netdev \<Rightarrow> dev_state \<Rightarrow> 'os \<Rightarrow> crash + dev_state \<times> 'os"
  nc_set_hw_intf_info :: "('hw port_env \<Rightarrow> 'os os_env \<Rightarrow> fpa_netdev \<Rightarrow> smap \<Rightarrow> dev_state \<Rightarrow> 'os
    \<Rightarrow> crash + int \<times> fpa_netdev \<times> dev_state \<times> 'os) option"
  nc_set_hw_intf_config :: "('hw port_env \<Rightarrow> port_props \<Rightarrow> fpa_netdev \<Rightarrow> smap \<Rightarrow> 'hw \<Rightarrow> int \<times> fpa_netdev \<times> 'hw) option"
  nc_set_etheraddr :: "fpa_netdev \<Rightarrow> eth_addr \<Rightarrow> int \<times> fpa_netdev"
  nc_get_etheraddr :: "fpa_netdev \<Rightarrow> int \<times> eth_addr"
  nc_get_ifindex :: "(fpa_netdev \<Rightarrow> int) option"
  nc_get_carrier :: "(fpa_netdev \<Rightarrow> int \<times> bool) option"
  nc_get_carrier_resets :: "(fpa_netdev \<Rightarrow> int) option"
  nc_get_stats :: "('hw port_env \<Rightarrow> fpa_netdev \<Rightarrow> 'hw \<Rightarrow> int \<times> port_counters option) option"
  nc_get_features :: "('hw port_env \<Rightarrow> port_props \<Rightarrow> fpa_netdev \<Rightarrow> 'hw \<Rightarrow> int \<times> (u32 \<times> u32 \<times> u32 \<times> u32) option) option"
  nc_set_advertisements :: "('hw port_env \<Rightarrow> fpa_netdev \<Rightarrow> u32 \<Rightarrow> 'hw \<Rightarrow> int \<times> 'hw) option"
  nc_update_flags :: "'hw port_env \<Rightarrow> fpa_netdev \<Rightarrow> u32 \<Rightarrow> u32 \<Rightarrow> 'hw \<Rightarrow> int \<times> u32 option \<times> 'hw"

definition fpa_netdev_system :: "('hw, 'os) netdev_class" where
  "fpa_netdev_system = \<lparr>nc_type = ''system'', nc_run = Some ops_fpa_netdev_run,
     nc_alloc = ops_fpa_netdev_alloc, nc_construct = ops_fpa_netdev_construct, nc_destruct = ops_fpa_netdev_destruct,
     nc_set_hw_intf_info = Some ops_fpa_netdev_set_hw_intf_info, nc_set_hw_intf_config = Some ops_fpa_netdev_set_hw_intf_config,
     nc_set_etheraddr = ops_fpa_netdev_set_etheraddr, nc_get_etheraddr = ops_fpa_netdev_get_etheraddr,
     nc_get_ifindex = Some ops_fpa_netdev_get_ifindex, nc_get_carrier = Some ops_fpa_netdev_get_carrier,
     nc_get_carrier_resets = Some ops_fpa_netdev_get_carrier_resets, nc_get_stats = Some ops_fpa_netdev_get_stats,
     nc_get_features = Some ops_fpa_netdev_get_features, nc_set_advertisements = Some ops_fpa_netdev_set_advertisements,
     nc_update_flags = ops_fpa_netdev_update_flags\<rparr>"

text \<open>The functions of internal devices do not touch the switch.\<close>

definition fpa_netdev_internal :: "('hw, 'os) netdev_class" where
  "fpa_netdev_internal = \<lparr>nc_type = ''internal'', nc_run = None,
     nc_alloc = ops_fpa_netdev_alloc, nc_construct = ops_fpa_netdev_construct, nc_destruct = ops_fpa_netdev_destruct,
     nc_set_hw_intf_info = Some (\<lambda>K E dev args ds os.
       let (rc, dev, os) = internal_netdev_set_hw_intf_info K E dev args os in Inr (rc, dev, ds, os)),
     nc_set_hw_intf_config = Some (\<lambda>K stack dev args hw.
       let (rc, dev) = internal_netdev_set_hw_intf_config K dev args in (rc, dev, hw)),
     nc_set_etheraddr = ops_fpa_netdev_set_etheraddr, nc_get_etheraddr = ops_fpa_netdev_get_etheraddr,
     nc_get_ifindex = Some ops_fpa_netdev_get_ifindex, nc_get_carrier = None,
     nc_get_carrier_resets = None, nc_get_stats = None,
     nc_get_features = None, nc_set_advertisements = None,
     nc_update_flags = (\<lambda>K dev off on hw. let (rc, old) = internal_netdev_update_flags dev off on in (rc, Some old, hw))\<rparr>"

definition fpa_netdev_vlansubint :: "('hw, 'os) netdev_class" where
  "fpa_netdev_vlansubint = \<lparr>nc_type = ''vlansubint'', nc_run = None,
     nc_alloc = ops_fpa_netdev_alloc, nc_construct = ops_fpa_netdev_construct, nc_destruct = ops_fpa_netdev_destruct,
     nc_set_hw_intf_info = Some ops_fpa_netdev_set_hw_intf_info, nc_set_hw_intf_config = Some ops_fpa_netdev_set_hw_intf_config,
     nc_set_etheraddr = ops_fpa_netdev_set_etheraddr, nc_get_etheraddr = ops_fpa_netdev_get_etheraddr,
     nc_get_ifindex = None, nc_get_carrier = Some ops_fpa_netdev_get_carrier,
     nc_get_carrier_resets = None, nc_get_stats = None,
     nc_get_features = None, nc_set_advertisements = None,
     nc_update_flags = ops_fpa_netdev_update_flags\<rparr>"

definition fpa_netdev_l3_loopback :: "('hw, 'os) netdev_class" where
  "fpa_netdev_l3_loopback = \<lparr>nc_type = ''loopback'', nc_run = None,
     nc_alloc = ops_fpa_netdev_alloc, nc_construct = ops_fpa_netdev_construct, nc_destruct = ops_fpa_netdev_destruct,
     nc_set_hw_intf_info = None, nc_set_hw_intf_config = None,
     nc_set_etheraddr = ops_fpa_netdev_set_etheraddr, nc_get_etheraddr = ops_fpa_netdev_get_etheraddr,
     nc_get_ifindex = None, nc_get_carrier = None,
     nc_get_carrier_resets = None, nc_get_stats = None,
     nc_get_features = None, nc_set_advertisements = None,
     nc_update_flags = (\<lambda>K dev off on hw. let (rc, old) = internal_netdev_update_flags dev off on in (rc, Some old, hw))\<rparr>"

text \<open>\<open>netdev_register\<close>: the classes in the order of their registration.\<close>

definition netdev_register :: "('hw, 'os) netdev_class list" where
  "netdev_register = [fpa_netdev_system, fpa_netdev_internal, fpa_netdev_vlansubint, fpa_netdev_l3_loopback]"

lemmas class_defs = fpa_netdev_system_def fpa_netdev_internal_def fpa_netdev_vlansubint_def fpa_netdev_l3_loopback_def

lemma class_types [simp]:
  "nc_type fpa_netdev_system = ''system''" "nc_type fpa_netdev_internal = ''internal''"
  "nc_type fpa_netdev_vlansubint = ''vlansubint''" "nc_type fpa_netdev_l3_loopback = ''loopback''"
  by (simp_all add: class_defs)

section \<open>A device in its class\<close>

text \<open>
  The calls of Open vSwitch that change a device, and what the device and the result code are afterwards. Between the calls
  the switch, the device structure and the operating system may be in any state.
\<close>

datatype 'hw netdev_request =
    Set_Info smap dev_state
  | Set_Config port_props smap 'hw
  | Set_Etheraddr eth_addr
  | Set_Advertisements u32 'hw
  | Update_Flags u32 u32 'hw
  | Run 'hw

fun class_call ::
  "'hw port_env \<Rightarrow> 'os os_env \<Rightarrow> 'os \<Rightarrow> ('hw, 'os) netdev_class \<Rightarrow> 'hw netdev_request \<Rightarrow> fpa_netdev \<Rightarrow> crash + int \<times> fpa_netdev" where
  "class_call K E os C (Set_Info args ds) dev =
     (case nc_set_hw_intf_info C of None \<Rightarrow> Inr (EOPNOTSUPP, dev)
      | Some f \<Rightarrow> map_sum id (\<lambda>(rc, dev, ds, os). (rc, dev)) (f K E dev args ds os))"
| "class_call K E os C (Set_Config stack args hw) dev =
     (case nc_set_hw_intf_config C of None \<Rightarrow> Inr (EOPNOTSUPP, dev)
      | Some f \<Rightarrow> (case f K stack dev args hw of (rc, dev, hw) \<Rightarrow> Inr (rc, dev)))"
| "class_call K E os C (Set_Etheraddr mac) dev = Inr (nc_set_etheraddr C dev mac)"
| "class_call K E os C (Set_Advertisements adv hw) dev =
     (case nc_set_advertisements C of None \<Rightarrow> Inr (EOPNOTSUPP, dev) | Some f \<Rightarrow> Inr (fst (f K dev adv hw), dev))"
| "class_call K E os C (Update_Flags off on hw) dev = Inr (fst (nc_update_flags C K dev off on hw), dev)"
| "class_call K E os C (Run hw) dev =
     (case nc_run C of None \<Rightarrow> Inr (0, dev) | Some f \<Rightarrow> Inr (0, hd (f K hw [dev])))"

inductive netdev_reach :: "'hw port_env \<Rightarrow> 'os os_env \<Rightarrow> ('hw, 'os) netdev_class \<Rightarrow> fpa_netdev \<Rightarrow> bool" for K E C where
  construct: "netdev_reach K E C (fst (nc_construct C (nc_alloc C (nc_type C) name) n))"
| call: "netdev_reach K E C dev \<Longrightarrow> class_call K E os C c dev = Inr (rc, dev') \<Longrightarrow> netdev_reach K E C dev'"

text \<open>What a device that is not a port of the switch looks like, for ever.\<close>

definition portless :: "fpa_netdev \<Rightarrow> bool" where
  "portless dev \<longleftrightarrow> nd_sid dev = 0xFFFF \<and> nd_pid dev = FPA_INVALID_INTF_ID \<and> nd_tap_fd dev = 0 \<and> \<not> nd_link_status dev \<and> nd_link_resets dev = 0"

lemma portless_call:
  assumes "C \<in> {fpa_netdev_internal, fpa_netdev_vlansubint, fpa_netdev_l3_loopback}" and "fpa_netdev.nd_type dev = nc_type C" and "portless dev"
    and "class_call K E os C c dev = Inr (rc, dev')"
  shows "portless dev' \<and> fpa_netdev.nd_type dev' = nc_type C"
  using assms(1) assms(2-)
  by (elim insertE emptyE; hypsubst; cases c)
    (auto simp: class_defs portless_def STR_EQ_def ops_fpa_netdev_set_hw_intf_info_def ops_fpa_netdev_set_hw_intf_config_def
      ops_fpa_netdev_set_etheraddr_def internal_netdev_set_hw_intf_info_def internal_netdev_set_hw_intf_config_def Let_def
      split: prod.splits if_splits sum.splits)

lemma portless_reach:
  assumes "netdev_reach K E C dev" and "C \<in> {fpa_netdev_internal, fpa_netdev_vlansubint, fpa_netdev_l3_loopback}"
  shows "portless dev \<and> fpa_netdev.nd_type dev = nc_type C"
  using assms(1)
proof induction
  case (construct name n)
  show ?case using assms(2)
    by (auto simp: class_defs ops_fpa_netdev_construct_def ops_fpa_netdev_alloc_def portless_def)
next
  case (call dev os c rc dev')
  then show ?case using portless_call [OF assms(2)] by blast
qed

section \<open>Properties\<close>

primrec type_name :: "iface_type \<Rightarrow> string" where
  "type_name TYPE_SYSTEM = ''system''"
| "type_name TYPE_INTERNAL = ''internal''"
| "type_name TYPE_LOOPBACK = ''loopback''"
| "type_name TYPE_VLANSUBINT = ''vlansubint''"
| "type_name (TYPE_OTHER t) = t"

lemma type_call:
  assumes "C \<in> set netdev_register" and "class_call K E os C c dev = Inr (rc, dev')"
  shows "fpa_netdev.nd_type dev' = fpa_netdev.nd_type dev"
  using assms(1) assms(2) unfolding netdev_register_def list.set
  by (elim insertE emptyE; hypsubst; cases c)
    (auto simp: class_defs ops_fpa_netdev_set_hw_intf_info_def ops_fpa_netdev_set_hw_intf_config_def
      ops_fpa_netdev_set_etheraddr_def internal_netdev_set_hw_intf_info_def internal_netdev_set_hw_intf_config_def Let_def
      ops_fpa_netdev_run_def netdev_run1_def split: prod.splits if_splits sum.splits option.splits)

lemma type_reach:
  assumes "netdev_reach K E C dev" and "C \<in> set netdev_register"
  shows "fpa_netdev.nd_type dev = nc_type C"
  using assms(1)
proof induction
  case (construct name n)
  show ?case using assms(2)
    by (auto simp: netdev_register_def class_defs ops_fpa_netdev_construct_def ops_fpa_netdev_alloc_def)
qed (use type_call [OF assms(2)] in auto)

text \<open>(C22) The types of ports and the classes of devices fit. For every type of an interface, exactly one registered
  class has the type with which a bridge opens a port of that interface; every device of that class, whatever calls it was
  given, still has that type; and a device of any class but \<open>system\<close> belongs to no port of the switch, has no
  TAP interface and never reports a carrier.\<close>

theorem port_type_has_class:
  shows "\<exists>C. filter (\<lambda>C. nc_type C = type_name (ops_fpa_ofproto_port_open_type t)) netdev_register = [C]
    \<and> (\<forall>dev. netdev_reach K E C dev \<longrightarrow> fpa_netdev.nd_type dev = type_name (ops_fpa_ofproto_port_open_type t)
        \<and> (ops_fpa_ofproto_port_open_type t \<noteq> TYPE_SYSTEM \<longrightarrow>
             nd_sid dev = 0xFFFF \<and> nd_pid dev = FPA_INVALID_INTF_ID \<and> nd_tap_fd dev = 0
             \<and> (\<forall>f. nc_get_carrier C = Some f \<longrightarrow> f dev = (0, False))))"
proof -
  define u where "u = ops_fpa_ofproto_port_open_type t"
  define C :: "('a, 'b) netdev_class" where "C = (case u of TYPE_INTERNAL \<Rightarrow> fpa_netdev_internal | TYPE_LOOPBACK \<Rightarrow> fpa_netdev_l3_loopback
    | TYPE_VLANSUBINT \<Rightarrow> fpa_netdev_vlansubint | _ \<Rightarrow> fpa_netdev_system)"
  have u: "u \<in> {TYPE_SYSTEM, TYPE_INTERNAL, TYPE_LOOPBACK, TYPE_VLANSUBINT}"
    by (auto simp: u_def ops_fpa_ofproto_port_open_type_def)
  have reg: "filter (\<lambda>C. nc_type C = type_name u) netdev_register = [C]"
    unfolding C_def netdev_register_def using u by (elim insertE emptyE; simp)
  have "C \<in> set (filter (\<lambda>C. nc_type C = type_name u) netdev_register)" unfolding reg by simp
  then have C: "C \<in> set netdev_register" "nc_type C = type_name u" by (simp_all only: set_filter mem_Collect_eq)
  have "nd_sid dev = 0xFFFF \<and> nd_pid dev = FPA_INVALID_INTF_ID \<and> nd_tap_fd dev = 0
      \<and> (\<forall>f. nc_get_carrier C = Some f \<longrightarrow> f dev = (0, False))" if "netdev_reach K E C dev" "u \<noteq> TYPE_SYSTEM" for dev
  proof -
    have "C \<in> {fpa_netdev_internal, fpa_netdev_vlansubint, fpa_netdev_l3_loopback}"
      unfolding C_def using u that(2) by (elim insertE emptyE; simp)
    with portless_reach [OF that(1) this] show ?thesis
      by (auto simp: portless_def class_defs ops_fpa_netdev_get_carrier_def)
  qed
  then show ?thesis using reg C(2) type_reach [OF _ C(1)] unfolding u_def [symmetric] by (intro exI [of _ C]) simp
qed

theorem port_type_has_class_witness:
  "\<exists>C :: (port_props, nat) netdev_class. filter (\<lambda>C. nc_type C = ''vlansubint'') netdev_register = [C]
    \<and> nd_tap_fd (fst (nc_construct C (nc_alloc C (nc_type C) ''10'') 0)) = 0"
proof -
  obtain C :: "(port_props, nat) netdev_class" where C: "filter (\<lambda>C. nc_type C = ''vlansubint'') netdev_register = [C]"
      "\<forall>dev. netdev_reach sample_ports sample_os C dev \<longrightarrow> nd_tap_fd dev = 0"
    using port_type_has_class [of TYPE_VLANSUBINT sample_ports sample_os] by (auto simp: ops_fpa_ofproto_port_open_type_def)
  then show ?thesis using netdev_reach.construct [of sample_ports sample_os C] by blast
qed


text \<open>A library that knows switch 0 only.\<close>

definition one_switch :: "port_props port_env" where
  "one_switch = sample_ports\<lparr>fpaLibPortPropertiesGet := \<lambda>sid pid p hw. (if sid = 0 then FPA_OK else FPA_BAD_PARAM, hw)\<rparr>"


end
