(* ===== verification/Fpa_Listeners.thy ===== *)
theory Fpa_Listeners
  imports Fpa_TapThreads
begin

text \<open>
  The loops of \<open>tap_listener\<close> and \<open>asic_listener\<close> of \<open>src/ops-fpa-tap.c\<close>, one round at a time: what
  \<open>select\<close>, the control pipe and the ready descriptors make of the thread's state, and which frames
  a round passes on. The rounds are related to the system of \<open>Fpa_TapThreads\<close>, in which the listeners'
  maps follow the main thread's.
\<close>

section \<open>Rounds\<close>

text \<open>
  What the TAP listener keeps between its rounds: its map and descriptor set, the packet buffer, and the
  time of the first frame. Times are in microseconds.
\<close>

record tap_thread =
  tt_state :: tap_listener_state
  tt_pbuf :: "u8 list"
  tt_init_time :: "int option"

text \<open>
  What a round gets from outside: the answer of \<open>select\<close>, an error or the ready descriptors, and for every
  descriptor what \<open>read\<close> finally returns, the time, and the state of the switch when its frame is handled.
\<close>

record 'hw tap_input =
  ri_select :: "int + int set"
  ri_read :: "int \<Rightarrow> int + u8 list"
  ri_now :: "int \<Rightarrow> int"
  ri_hw :: "int \<Rightarrow> 'hw"

abbreviation (input) EINTR :: int where "EINTR \<equiv> 4"
abbreviation (input) INIT_DRAIN_TIME :: int where "INIT_DRAIN_TIME \<equiv> 5000000"

text \<open>
  One ready descriptor. The clock starts with the first frame of a known interface, and frames of the first
  five seconds are drained. The result has the frames that are sent, each with its output port.
\<close>

definition tap_fd ::
  "'hw fpa_lib \<Rightarrow> 'os os_env \<Rightarrow> u32 \<Rightarrow> 'hw tap_input \<Rightarrow> int \<Rightarrow> tap_thread \<Rightarrow> crash + tap_thread \<times> (u32 \<times> u8 list) list" where
  "tap_fd lib E switchId inp i t =
     (let m = tl_map (tt_state t); r = ri_read inp i;
          skip = (case r of Inl errno \<Rightarrow> errno \<noteq> EWOULDBLOCK | Inr bytes \<Rightarrow> False);
          init_time = (if skip \<or> get_if_entry E m i = None then tt_init_time t
                       else case tt_init_time t of None \<Rightarrow> Some (ri_now inp i) | Some t0 \<Rightarrow> Some t0);
          draining = (case init_time of None \<Rightarrow> False | Some t0 \<Rightarrow> ri_now inp i - t0 < INIT_DRAIN_TIME) in
      case tap_handle_frame lib E switchId draining (ri_hw inp i) m i r (tt_pbuf t) of Inl c \<Rightarrow> Inl c
      | Inr (pbuf, out) \<Rightarrow>
          Inr (t\<lparr>tt_pbuf := pbuf, tt_init_time := init_time\<rparr>,
               case out of None \<Rightarrow> [] | Some (port, pos, len) \<Rightarrow> [(port, buf_get pos (unat len) pbuf)]))"

primrec tap_fds ::
  "'hw fpa_lib \<Rightarrow> 'os os_env \<Rightarrow> u32 \<Rightarrow> 'hw tap_input \<Rightarrow> int list \<Rightarrow> tap_thread
    \<Rightarrow> crash + tap_thread \<times> (u32 \<times> u8 list) list" where
  "tap_fds lib E switchId inp [] t = Inr (t, [])"
| "tap_fds lib E switchId inp (i # is) t =
     (case tap_fd lib E switchId inp i t of Inl c \<Rightarrow> Inl c
      | Inr (t, sent) \<Rightarrow> map_sum id (map_prod id ((@) sent)) (tap_fds lib E switchId inp is t))"

text \<open>The descriptors of the loop over an \<open>fd_set\<close>, in its order.\<close>

definition ready_fds :: "int set \<Rightarrow> int \<Rightarrow> int list" where
  "ready_fds rd ctrl_fd = filter (\<lambda>i. i \<in> rd \<and> i \<noteq> ctrl_fd) [0..FD_SETSIZE - 1]"

text \<open>
  One round of the loop: whether the thread leaves it, the thread, the rest of the pipe, and the frames that
  were sent. An interrupted \<open>select\<close> ends the thread; for other errors the set of descriptors is as it was.
\<close>

definition tap_listener ::
  "'hw fpa_lib \<Rightarrow> 'os os_env \<Rightarrow> u32 \<Rightarrow> int \<Rightarrow> 'hw tap_input \<Rightarrow> ctrl_cmd list \<Rightarrow> tap_thread
    \<Rightarrow> crash + bool \<times> tap_thread \<times> ctrl_cmd list \<times> (u32 \<times> u8 list) list" where
  "tap_listener lib E switchId ctrl_fd inp pipe t =
     (if ri_select inp = Inl EINTR then Inr (True, t, pipe, []) else
      let rd = (case ri_select inp of Inl errno \<Rightarrow> tl_read_fd_set (tt_state t) | Inr rd \<Rightarrow> rd) in
      case (if ctrl_fd \<in> rd then tap_read_cmds E pipe (tt_state t) else Inr (False, tt_state t, pipe)) of Inl c \<Rightarrow> Inl c
      | Inr (leave, s, pipe) \<Rightarrow>
          if leave then Inr (True, t\<lparr>tt_state := s\<rparr>, pipe, [])
          else map_sum id (\<lambda>(t, sent). (False, t, pipe, sent))
                 (tap_fds lib E switchId inp (ready_fds rd ctrl_fd) (t\<lparr>tt_state := s\<rparr>)))"

text \<open>
  One round of the ASIC listener: \<open>fpaLibPktReceive\<close> returns first, then the commands are read, then the
  frame is handled.
\<close>

definition asic_listener ::
  "'os os_env \<Rightarrow> bitmap \<Rightarrow> fpa_status \<times> u8 list \<times> u32 \<times> u16 \<Rightarrow> ctrl_cmd list \<Rightarrow> tap_if_entry hmap \<Rightarrow> u8 list
    \<Rightarrow> bool \<times> tap_if_entry hmap \<times> ctrl_cmd list \<times> u8 list \<times> (u32 \<times> u8 list) option" where
  "asic_listener E internal rcv pipe m pbuf =
     (let (leave, m, pipe) = asic_read_cmds E pipe m in
      if leave then (True, m, pipe, pbuf, None)
      else
        let (err, bytes, inPortNum, vid) = rcv;
            (pbuf, out) = asic_handle_frame E internal m err bytes inPortNum vid pbuf
        in (False, m, pipe, pbuf, map_option (\<lambda>(fd, pos, len). (fd, buf_get pos (unat len) pbuf)) out))"

section \<open>What a round does\<close>

lemma ready_fdsD: "i \<in> set (ready_fds rd ctrl_fd) \<Longrightarrow> i \<in> rd \<and> i \<noteq> ctrl_fd"
  unfolding ready_fds_def set_filter by blast

text \<open>The frame that is passed on for what was read: without its tag when the port pops the tag of the VLAN.\<close>

definition frame_out :: "'hw fpa_lib \<Rightarrow> u32 \<Rightarrow> u32 \<Rightarrow> 'hw \<Rightarrow> u8 list \<Rightarrow> u8 list" where
  "frame_out lib switchId port hw f =
     (if get_be16 12 f = ETHERTYPE_VLAN \<and> get_port_eg_tag_state lib switchId port (get_be16 14 f) hw = Inr True
      then take 12 f @ drop 16 f else f)"

definition frame_fits :: "u8 list \<Rightarrow> bool" where
  "frame_fits f \<longleftrightarrow> 16 \<le> length f \<and> FPA_PKT_SAFEGUARD + length f \<le> FPA_HAL_MAX_MTU_CNS"

lemma tap_frame_cases:
  assumes f: "frame_fits f" and buf: "length buf = FPA_HAL_MAX_MTU_CNS"
  shows "\<exists>buf' out. tap_handle_frame lib E sid dr hw m i (Inr f) buf = Inr (buf', out) \<and> length buf' = FPA_HAL_MAX_MTU_CNS
    \<and> (\<forall>port pos len. out = Some (port, pos, len) \<longrightarrow>
        (\<exists>e. get_if_entry E m i = Some e \<and> port = port_of e \<and> buf_get pos (unat len) buf' = frame_out lib sid port hw f))"
proof -
  define b where "b = buf_put 32 f buf"
  have n: "16 \<le> length f" "32 + length f \<le> 10240" using f by (simp_all add: frame_fits_def)
  have lb: "length b = 10240" using buf n by (simp add: b_def)
  have g: "buf_get 32 (length f) b = f" using buf_put_get [of 32 f buf] n buf by (simp add: b_def)
  have ty: "ops_fpa_get_eth_type 32 b = get_be16 12 f" "get_be16 46 b = get_be16 14 f"
    using get_be16_buf_put [of 32 f buf 12] get_be16_buf_put [of 32 f buf 14] n buf
    by (simp_all add: ops_fpa_get_eth_type_def b_def)
  have sz: "unat (of_nat (length f) :: u32) = length f" "unat (of_nat (length f) - 4 :: u32) = length f - 4"
    using n by (simp_all add: unat_of_nat unat_sub_if_size)
  have s: "fst (strip_tag (32, sz) b) = (36, sz - 4)" "length (snd (strip_tag (32, sz) b)) = 10240"
      "buf_get 36 (length f - 4) (snd (strip_tag (32, sz) b)) = take 12 f @ drop 16 f" for sz
    using strip_tag_frame [of "length f" 32 b sz] n lb g by (simp_all add: strip_tag_def)
  have h: "tap_handle_frame lib E sid dr hw m i (Inr f) buf = tap_forward lib E sid dr hw m i (32, of_nat (length f)) b"
    using n by (simp add: tap_handle_frame_def b_def)
  show ?thesis
    unfolding h tap_forward_def using s [of "of_nat (length f)"] lb g
    by (auto simp: ty sz frame_out_def port_of_def split: option.splits sum.splits prod.splits)
qed

text \<open>What a listener may send in a round for the ready descriptors \<open>is\<close>.\<close>

definition sent_for ::
  "'hw fpa_lib \<Rightarrow> 'os os_env \<Rightarrow> u32 \<Rightarrow> 'hw tap_input \<Rightarrow> tap_if_entry hmap \<Rightarrow> int \<Rightarrow> u32 \<times> u8 list \<Rightarrow> bool" where
  "sent_for lib E sid inp m i x \<longleftrightarrow> (\<exists>e f. get_if_entry E m i = Some e \<and> ri_read inp i = Inr f
     \<and> x = (port_of e, frame_out lib sid (port_of e) (ri_hw inp i) f))"

lemma tap_fd_effect:
  assumes "ri_read inp i = Inr f" and "frame_fits f" and "length (tt_pbuf t) = FPA_HAL_MAX_MTU_CNS"
  shows "\<exists>t' sent. tap_fd lib E sid inp i t = Inr (t', sent) \<and> tt_state t' = tt_state t
    \<and> length (tt_pbuf t') = FPA_HAL_MAX_MTU_CNS \<and> Ball (set sent) (sent_for lib E sid inp (tl_map (tt_state t)) i)"
proof -
  define it dr where "it = (if get_if_entry E (tl_map (tt_state t)) i = None then tt_init_time t
        else case tt_init_time t of None \<Rightarrow> Some (ri_now inp i) | Some t0 \<Rightarrow> Some t0)"
    and "dr = (case it of None \<Rightarrow> False | Some t0 \<Rightarrow> ri_now inp i - t0 < INIT_DRAIN_TIME)"
  obtain buf' out where o: "tap_handle_frame lib E sid dr (ri_hw inp i) (tl_map (tt_state t)) i (Inr f) (tt_pbuf t) = Inr (buf', out)"
      "length buf' = FPA_HAL_MAX_MTU_CNS"
      "\<forall>port pos len. out = Some (port, pos, len) \<longrightarrow> (\<exists>e. get_if_entry E (tl_map (tt_state t)) i = Some e \<and> port = port_of e
         \<and> buf_get pos (unat len) buf' = frame_out lib sid port (ri_hw inp i) f)"
    using tap_frame_cases [OF assms(2,3), of lib E sid dr "ri_hw inp i" "tl_map (tt_state t)" i] by (elim exE conjE) (rule that)
  have "tap_fd lib E sid inp i t = Inr (t\<lparr>tt_pbuf := buf', tt_init_time := it\<rparr>,
      case out of None \<Rightarrow> [] | Some (port, pos, len) \<Rightarrow> [(port, buf_get pos (unat len) buf')])"
    using o(1) by (simp add: tap_fd_def Let_def assms(1) it_def [symmetric] dr_def [symmetric])
  then show ?thesis using o(2,3) assms(1) by (auto simp: sent_for_def split: option.splits)
qed

lemma tap_fds_effect:
  assumes "\<forall>i \<in> set is. \<exists>f. ri_read inp i = Inr f \<and> frame_fits f" and "length (tt_pbuf t) = FPA_HAL_MAX_MTU_CNS"
  shows "\<exists>t' sent. tap_fds lib E sid inp is t = Inr (t', sent) \<and> tt_state t' = tt_state t
    \<and> length (tt_pbuf t') = FPA_HAL_MAX_MTU_CNS
    \<and> (\<forall>x \<in> set sent. \<exists>i \<in> set is. sent_for lib E sid inp (tl_map (tt_state t)) i x)"
  using assms
proof (induction "is" arbitrary: t)
  case (Cons i "is")
  obtain f where f: "ri_read inp i = Inr f" "frame_fits f" using Cons.prems(1) by auto
  obtain t1 s1 where 1: "tap_fd lib E sid inp i t = Inr (t1, s1)" "tt_state t1 = tt_state t"
      "length (tt_pbuf t1) = FPA_HAL_MAX_MTU_CNS" "Ball (set s1) (sent_for lib E sid inp (tl_map (tt_state t)) i)"
    using tap_fd_effect [OF f Cons.prems(2), of lib E sid] by (elim exE conjE) (rule that)
  obtain t2 s2 where 2: "tap_fds lib E sid inp is t1 = Inr (t2, s2)" "tt_state t2 = tt_state t1"
      "length (tt_pbuf t2) = FPA_HAL_MAX_MTU_CNS" "\<forall>x \<in> set s2. \<exists>i \<in> set is. sent_for lib E sid inp (tl_map (tt_state t1)) i x"
    using Cons.IH [of t1] Cons.prems(1) 1(3) by auto
  show ?case using 1 2 by auto
qed simp

lemma follow_read:
  assumes "tap_sys_reach E s" and "visits_all (os_map_order E)" and "main_info (ts_ds s) = Some info"
  shows "\<exists>l. tap_read_cmds E (ti_pipes info ! OPS_FPA_THREAD_TAP) (ts_tap s) = Inr (False, l, [])
      \<and> tl_map l = ti_fd_to_tap_if_map info"
    and "asic_read_cmds E (ti_pipes info ! OPS_FPA_THREAD_ASIC) (ts_asic s) = (False, map by_port (ti_fd_to_tap_if_map info), [])"
    and "\<And>n. n \<in> set (ti_fd_to_tap_if_map info) \<Longrightarrow> uint (fst n) < FD_SETSIZE"
  using tap_inv_reach [OF assms(1,2)] assms(3) by (auto simp: tap_inv_def listeners_follow_def tap_maps_ok_def)

section \<open>Properties\<close>


text \<open>(C12) Both listeners stop when they are told to. In every state of the system, once the command to exit is in
  the pipe behind the commands that are already there, the next round of the ASIC listener, and the next round of
  the TAP listener that finds the pipe ready, carry out those commands and leave the loop without passing on a frame,
  whatever descriptors are ready and whatever was received.\<close>

theorem listeners_exit:
  assumes "tap_sys_reach E s" and "visits_all (os_map_order E)" and "main_info (ts_ds s) = Some info"
    and "tt_state t = ts_tap s" and "ri_select inp = Inr rd" and "ctrl_fd \<in> rd"
  shows "(\<exists>l. tl_map l = ti_fd_to_tap_if_map info
      \<and> tap_listener lib E switchId ctrl_fd inp (ti_pipes info ! OPS_FPA_THREAD_TAP @ [OPS_FPA_CMD_THREAD_EXIT]) t =
          Inr (True, t\<lparr>tt_state := l\<rparr>, [], []))
    \<and> asic_listener E internal rcv (ti_pipes info ! OPS_FPA_THREAD_ASIC @ [OPS_FPA_CMD_THREAD_EXIT]) (ts_asic s) pbuf =
        (True, map by_port (ti_fd_to_tap_if_map info), [], pbuf, None)"
proof -
  obtain l where l: "tap_read_cmds E (ti_pipes info ! OPS_FPA_THREAD_TAP) (ts_tap s) = Inr (False, l, [])"
      "tl_map l = ti_fd_to_tap_if_map info"
    using follow_read(1) [OF assms(1-3)] by (elim exE conjE) (rule that)
  have "tap_read_cmds E (ti_pipes info ! OPS_FPA_THREAD_TAP @ [OPS_FPA_CMD_THREAD_EXIT]) (ts_tap s) = Inr (True, l, [])"
    using tapr.read_append [OF l(1)] by simp
  moreover have "asic_read_cmds E (ti_pipes info ! OPS_FPA_THREAD_ASIC @ [OPS_FPA_CMD_THREAD_EXIT]) (ts_asic s) =
      (True, map by_port (ti_fd_to_tap_if_map info), [])"
    using asicr.read_append [of E "ti_pipes info ! OPS_FPA_THREAD_ASIC" "ts_asic s"] follow_read(2) [OF assms(1-3)] by simp
  ultimately show ?thesis using l(2) assms(4-6) by (auto simp: tap_listener_def asic_listener_def)
qed

text \<open>A round of the sample system: the interface of port 5 has an untagged frame, 6 seconds after the first one.\<close>

definition sample_frame :: "u8 list" where
  "sample_frame = [1, 0, 0x5E, 0, 0, 1, 2, 0, 0, 0, 0, 1, 8, 6, 0, 1, 8, 0]"

definition sample_thread :: tap_thread where
  "sample_thread = \<lparr>tt_state = \<lparr>tl_map = [(7, sample_entry 5)], tl_read_fd_set = {3, 7}\<rparr>,
     tt_pbuf = replicate FPA_HAL_MAX_MTU_CNS 0, tt_init_time = Some 0\<rparr>"

definition sample_round :: "sim tap_input" where
  "sample_round = \<lparr>ri_select = Inr {3, 7}, ri_read = \<lambda>i. Inr sample_frame, ri_now = \<lambda>i. 6000000, ri_hw = \<lambda>i. sim_empty\<rparr>"

lemma sample_round_system:
  fixes s info
  defines "info \<equiv> sample_info\<lparr>ti_fd_to_tap_if_map := [(7, sample_entry 5)]\<rparr>"
    and "s \<equiv> sample_sys info [(7, sample_entry 5)] {3, 7} [(5, sample_entry 7)]"
  shows "tap_sys_reach sample_os s" and "visits_all (os_map_order sample_os)" and "main_info (ts_ds s) = Some info"
    and "tt_state sample_thread = ts_tap s" and "length (tt_pbuf sample_thread) = FPA_HAL_MAX_MTU_CNS"
    and "ri_select sample_round = Inr {3, 7}" and "ti_pipes info = [[], []]"
    and "ti_fd_to_tap_if_map info = [(7, sample_entry 5)]"
  unfolding s_def info_def
  by (rule sample_sys_reach) (simp_all add: sample_os_def sample_sys_def main_info_def sample_thread_def sample_round_def sample_info_def)


theorem listeners_exit_witness:
  "\<exists>l. tap_listener (sim_lib {} False) sample_os 0 3 sample_round [OPS_FPA_CMD_THREAD_EXIT] sample_thread =
     Inr (True, sample_thread\<lparr>tt_state := l\<rparr>, [], [])"
  using listeners_exit [OF sample_round_system(1-4,6), of 3 "sim_lib {} False" 0 "\<lambda>i. False" "(FPA_OK, [], 0, 0)" "[]"]
    sample_round_system(7) by auto

end
