(* ===== verification/Spec2Isabelle.thy ===== *)
theory Spec2Isabelle
  imports Fpa_Start Fpa_NetdevClass Fpa_Listeners
begin

text \<open>
  A verification of the FPA plugin of OpenSwitch's switch daemon (\<open>switchd-fpa-plugin\<close>), which drives a
  Marvell switch through the FPA library.

  \<^bold>\<open>The program.\<close> Open vSwitch calls the plugin through two tables of functions, the bridge class of
  \<open>src/ops-fpa-ofproto.c\<close> and the network device classes of \<open>src/ops-fpa-netdev.c\<close>. A bridge or virtual
  router has ports and bundles. Configuring a bundle writes the VLAN membership of its port
  (\<open>ops-fpa-vlan.c\<close>), or turns routing on for it (\<open>ops-fpa-routing.c\<close>) and adds its hosts and routes
  (\<open>ops-fpa-route.c\<close>). All of these write flows and groups of the switch, through the wrappers of
  \<open>ops-fpa-wrap.c\<close>. The device (\<open>ops-fpa-dev.c\<close>) holds what exists once per switch: the MAC learning
  component (\<open>ops-fpa-mac-learning.c\<close>), which a thread feeds with address events, and the TAP interfaces
  (\<open>ops-fpa-tap.c\<close>), one per port, whose frames two threads carry between the kernel and the switch.

  \<^bold>\<open>Conventions.\<close> A function of the source is a definition of the same name; a piece of a long function that
  has its own definition is named after what it does. State is passed and returned. Pointers that may
  be null are options; failed assertions, null dereferences, undefined shifts, accesses past a buffer and
  a mutex locked twice by its only user are the values \<open>Inl\<close> of \<open>crash + 'a\<close>; a call that does not return
  is \<open>None\<close>. Machine integers have their widths. An Open vSwitch hash map is the list of its nodes, and
  everything that iterates takes the visiting order as an argument. Logging is left out. Locks that a
  function takes and releases on all paths are left out; the device mutex, which some paths do not
  release, is part of the state.

  \<^bold>\<open>Parameters.\<close> The FPA library is a record of functions over an abstract switch state (\<open>Fpa_Lib\<close>,
  predicate \<open>fpa_lib_ok\<close>; for ports \<open>port_env\<close> in \<open>Fpa_Netdev\<close>); the operating system is \<open>os_env\<close>
  in \<open>Fpa_Tap\<close>; hash functions, sizes and constants of Open vSwitch and OpenSwitch headers are in
  \<open>ml_params\<close>, \<open>host_params\<close>, \<open>plugin_env\<close> and \<open>bridge_env\<close>. \<open>Fpa_Sim\<close> is a concrete switch that
  satisfies \<open>fpa_lib_ok\<close>, with tables that can be made to reject entries; the witnesses run on it.

  \<^bold>\<open>Theories.\<close>
  \<^item> \<open>Fpa_Prelude\<close>: words, addresses, errors, crashes, hash maps, bitmaps and their lemmas.
  \<^item> \<open>Fpa_Core\<close> (\<open>ops-fpa.c\<close>): parsing and printing of integers and addresses, netmasks. \<open>ops_fpa_str2int\<close>
    accepts exactly the decimal literals of \<open>int\<close>; printing and parsing addresses agree but for the
    broadcast address; the two netmask conversions are inverse.
  \<^item> \<open>Fpa_Lib\<close> (\<open>ops-fpa-wrap.c\<close>): flows, groups, and the interfaces \<open>flow_tables\<close> and \<open>group_tables\<close> in
    which adding and deleting undo each other, interpreted for the direct calls and for the wrappers.
  \<^item> \<open>Fpa_Route\<close> (\<open>ops-fpa-route.c\<close>): groups are created completely or not at all, deleting a route undoes
    adding it, and the netmask of a route is right only for lengths that are multiples of eight.
  \<^item> \<open>Fpa_Vlan\<close> (\<open>ops-fpa-vlan.c\<close>): the VIDX codec is a bijection; \<open>port_vmap\<close> is the abstract VLAN state
    of a port; fetching terminates and returns it, adding and deleting change it by one table entry.
  \<^item> \<open>Fpa_Routing\<close> (\<open>ops-fpa-routing.c\<close>): turning routing on is all or nothing, turning it off undoes it.
  \<^item> \<open>Fpa_Keyed\<close>: the interface \<open>keyed_table\<close> of a hash map with keys, interpreted for the FDB (searched
    by hash and by scanning), the host table and the map of bridges.
  \<^item> \<open>Fpa_MacLearning\<close> (\<open>ops-fpa-mac-learning.c\<close>): \<open>ml_reach\<close> are the states that events, commands and
    the timer lead to; \<open>ml_inv\<close> holds in all of them (keys are unique, buffers are within their capacity
    and consistent). Learned addresses are found, aged ones are not, the two lookups agree, events are
    recorded and handed over complete.
  \<^item> \<open>Fpa_Hosts\<close>: the pool of ARP indices, an array with a chain of free indices, implements the
    interface \<open>index_pool\<close>, a stack of indices; the host table.
  \<^item> \<open>Fpa_Ofproto\<close>, \<open>Fpa_Bundles\<close>, \<open>Fpa_L3\<close> (\<open>ops-fpa-ofproto.c\<close>): the plugin's state and operations.
    Configuring a bridge port brings \<open>port_vmap\<close> to the desired set, provided that no two VIDX of the
    change share a table entry; two theorems show what happens when they do. Deleting a host undoes
    adding it; a failed addition changes nothing but may lose an ARP index; adding a route replaces
    the old one.
  \<^item> \<open>Fpa_SetVlan\<close>: the abstract VLAN state of a port, its active and its pending VIDX. Enabling and
    disabling a VLAN of a bridge implement \<open>toggle_vlan\<close>, which moves the VIDX of the VLAN between the two,
    on all ports of the bridge.
  \<^item> \<open>Fpa_VlanConfig\<close>: sequences of such calls. The VLAN state of a configured port is determined by its settings and
    by the VLANs that are enabled now, not by the order of the calls.
  \<^item> \<open>Fpa_Addresses\<close>: reconfiguring the addresses of a routed bundle.
  \<^item> \<open>Fpa_Plugin\<close>: all bridges and virtual routers with the state they share as one transition system
    (\<open>plugin_step\<close>). \<open>system_sound\<close> holds in all reachable states: hosts have ARP indices of their own that are not
    free, nodes of the map of ports are existing ports, bundles are unique and their ports can be found.
    From it follows when configuring a bundle crashes. The map of ports keeps the ports of removed bundles.
  \<^item> \<open>Fpa_TapState\<close>, \<open>Fpa_Tap\<close>, \<open>Fpa_TapThreads\<close> (\<open>ops-fpa-tap.c\<close>, \<open>ops-fpa-util.c\<close>): the main thread and the
    two listeners as a transition system. In every interleaving the listeners' maps, brought up to date
    with the commands in their pipes, are the main thread's (interface \<open>command_reader\<close>). A frame comes
    back from the kernel as it went there. The tag state of a frame is the egress VIDX of \<open>port_vmap\<close>.
    An error of the main thread leaves the device mutex locked.
  \<^item> \<open>Fpa_Listeners\<close> (\<open>ops-fpa-tap.c\<close>): one round of each listener's loop. In every state of the transition system a
    round sends only frames that it read, to the ports of the main thread's interfaces, and the command to exit
    ends both threads.
  \<^item> \<open>Fpa_Dev\<close> (\<open>ops-fpa-dev.c\<close>): counting of references; closing the last one never returns.
  \<^item> \<open>Fpa_Netdev\<close> (\<open>ops-fpa-netdev.c\<close>): destroying a device takes back its interface; carrier counters
    follow the polls; the translation of features loses nothing of Open vSwitch's.
  \<^item> \<open>Fpa_Bridge\<close> (\<open>ops-fpa-ofproto.c\<close>): bridges by name, the FDB commands, and how a failed construction
    leads to a crash of the default bridge.
  \<^item> \<open>Fpa_NetdevClass\<close> (\<open>ops-fpa-netdev.c\<close>): the class tables as records of functions and the states that the calls through
    a table lead to. Every type of port has its class; devices that are no ports of the switch stay so; VLAN
    subinterfaces cannot be enabled.
  \<^item> \<open>Fpa_Show\<close> (\<open>ops-fpa-dev.c\<close>, \<open>ops-fpa-ofproto.c\<close>, \<open>ops-fpa-mac-learning.c\<close>): the printed flow tables and FDB,
    character by character, and the dump of ports. Flow tables and the FDB are shown completely, one line for each
    entry; a dump ends at the first port whose device is gone.
  \<^item> \<open>Fpa_Commands\<close> (\<open>ops-fpa-dev.c\<close>, \<open>ops-fpa-ofproto.c\<close>): the registration of the commands and their calls with a vector of
    arguments; what a registered command can crash on.
  \<^item> \<open>Fpa_Life\<close>: the life of bridges and the device as a transition system (\<open>life_step\<close>), with failed constructions, network devices,
    MAC events and commands in between. The reference count is the number of bridges that count on the device. From it
    follows when destructing a bridge returns, when running one crashes, and which commands are registered and can crash.
  \<^item> \<open>Fpa_OfprotoClass\<close> (\<open>ops-fpa-ofproto.c\<close>): the class table as a record of functions, with the callbacks that do nothing. Every call
    through it is a step of \<open>plugin_step\<close>; the calls that crash are listed completely.
  \<^item> \<open>Fpa_System\<close>: both transition systems run together (\<open>system_reach\<close>), with one device and one state of every bridge. The whole
    plugin is consistent in every reachable state, and a name finds the bridge in its present state.
  \<^item> \<open>Fpa_Start\<close> (\<open>ops-fpa-init.c\<close>, \<open>ops-fpa-plugins.c\<close>, \<open>ops-fpa-stg.c\<close>, \<open>ops-fpa-qos.c\<close>, \<open>ops-fpa-copp.c\<close>, \<open>ops-fpa-bufmon.c\<close>): the start of the
    library, which ends exactly when the library comes up, in the initial state of \<open>system_reach\<close>; the tables for other
    plugins.

  \<^bold>\<open>Bounds and loops.\<close> The loops of \<open>ops_fpa_vlan_fetch\<close> are partial functions and are proved to return
  under \<open>iteration_laws\<close> (positions are counted without wrapping, groups are visited in the order of their
  numbers). The loops of the flow table command and of the dump of ports are partial functions too and are
  proved to return when the library gives finitely many entries and names. The loop that waits for the library is
  one more, and is proved to end exactly when the library sets its flag. All other loops are structural.
  There is no fuel. The endless loops of the three threads are not run; each of their rounds is a step. The VLAN bitmaps have no bound in
  the model; the theorems state where 14 bits are enough. The ARP pool has 1024 indices and packet buffers have 10240 bytes, as in the
  code. A step that constructs a bridge is taken only while fewer than \<open>2 ^ 32 - 2\<close> bridges are open, so the 32-bit reference count
  of the device does not wrap.

  \<^bold>\<open>Not modelled.\<close> The functions of \<open>ops-fpa-netdev.c\<close> that return a constant and are in no class table, and the empty functions of
  \<open>ops-fpa-plugins.c\<close>. Time, except for the first seconds of the TAP listener and as whether a timer is over. Memory
  management is not modelled except for bridges and their ports, so leaks are not visible. Locks that are released on all paths are left
  out, so the three threads interleave at whole operations. What the FPA library, the kernel and Open vSwitch do inside is a
  parameter.
\<close>

end
